(* ===== verification/Prelude.thy ===== *)
theory Prelude
  imports Main "HOL-Library.Word"
begin

text \<open>
  Shared vocabulary of the development: fixed-width integers, the models of the
  standard containers the sources use, and the interfaces (locales) under which
  the component proofs are carried out.

  \<^item> \<open>std::unordered_map\<close> is an association list with distinct keys; the order of the
    list stands for the unspecified iteration order of the hash table and no
    property depends on it.
  \<^item> \<open>std::unordered_multimap\<close> is a list of pairs, \<open>equal_range\<close> its sublist at a key.
  \<^item> \<open>std::array<T, N>\<close> is a list of fixed length.
  \<^item> Unsigned integers are words of their width. A signed 64-bit integer is an
    \<open>int\<close>; the casts between the two and the additions that may leave the range
    are written out.
\<close>

named_theorems umap_simps \<open>equations for the container operations\<close>

section \<open>Fixed-width integers\<close>

type_synonym u8 = "8 word"
type_synonym u16 = "16 word"
type_synonym u32 = "32 word"
type_synonym u64 = "64 word"
type_synonym i64 = int

definition i64_max :: i64 where
  "i64_max = 9223372036854775807"

definition i64_min :: i64 where
  "i64_min = - 9223372036854775808"

definition u64_of_i64 :: "i64 \<Rightarrow> u64" where
  "u64_of_i64 x = word_of_int x"

definition i64_of_u64 :: "u64 \<Rightarrow> i64" where
  "i64_of_u64 w = sint w"

definition i64_add :: "i64 \<Rightarrow> i64 \<Rightarrow> i64" where
  "i64_add a b = sint (word_of_int (a + b) :: u64)"

definition size_t :: "nat \<Rightarrow> u64" where
  "size_t n = of_nat n"

section \<open>Fallible computations\<close>

text \<open>Sequencing of computations that return early with an error on the left.\<close>

definition and_then :: "'e + 'a \<Rightarrow> ('a \<Rightarrow> 'e + 'b) \<Rightarrow> 'e + 'b" where
  "and_then m f = (case m of Inl e \<Rightarrow> Inl e | Inr x \<Rightarrow> f x)"

lemma and_then_simps [simp]: "and_then (Inl e) f = Inl e" "and_then (Inr x) f = f x"
  by (simp_all add: and_then_def)

lemma and_then_Inr_iff: "and_then m f = Inr y \<longleftrightarrow> (\<exists>x. m = Inr x \<and> f x = Inr y)"
  by (cases m) simp_all

lemma and_then_Inl_iff: "and_then m f = Inl e \<longleftrightarrow> m = Inl e \<or> (\<exists>x. m = Inr x \<and> f x = Inl e)"
  by (cases m) simp_all

lemma and_then_cong [fundef_cong]:
  "m = m' \<Longrightarrow> (\<And>x. m' = Inr x \<Longrightarrow> f x = f' x) \<Longrightarrow> and_then m f = and_then m' f'"
  by (cases m') simp_all

section \<open>Associative containers\<close>

type_synonym ('k, 'v) umap = "('k \<times> 'v) list"

fun um_put :: "'k \<Rightarrow> 'v \<Rightarrow> ('k, 'v) umap \<Rightarrow> ('k, 'v) umap" where
  "um_put k v [] = [(k, v)]"
| "um_put k v (p # m) = (if fst p = k then (k, v) # m else p # um_put k v m)"

definition um_erase :: "'k \<Rightarrow> ('k, 'v) umap \<Rightarrow> ('k, 'v) umap" where
  "um_erase k m = filter (\<lambda>p. fst p \<noteq> k) m"

definition um_emplace :: "'k \<Rightarrow> 'v \<Rightarrow> ('k, 'v) umap \<Rightarrow> ('k, 'v) umap" where
  "um_emplace k v m = (case map_of m k of None \<Rightarrow> um_put k v m | Some _ \<Rightarrow> m)"

definition um_wf :: "('k, 'v) umap \<Rightarrow> bool" where
  "um_wf m \<longleftrightarrow> distinct (map fst m)"

definition um_total :: "('v \<Rightarrow> nat) \<Rightarrow> ('k, 'v) umap \<Rightarrow> nat" where
  "um_total f m = sum_list (map (\<lambda>p. f (snd p)) m)"

definition mm_range :: "'k \<Rightarrow> ('k \<times> 'v) list \<Rightarrow> 'v list" where
  "mm_range k m = map snd (filter (\<lambda>p. fst p = k) m)"

definition mm_erase_key :: "'k \<Rightarrow> ('k \<times> 'v) list \<Rightarrow> ('k \<times> 'v) list" where
  "mm_erase_key k m = filter (\<lambda>p. fst p \<noteq> k) m"

section \<open>Lemmas on the containers\<close>

lemma um_find_put [simp]: "map_of (um_put k v m) = (map_of m)(k \<mapsto> v)"
  by (induction m) (auto simp: fun_eq_iff)

lemma um_find_erase [simp]: "map_of (um_erase k m) = (map_of m)(k := None)"
  by (induction m) (auto simp: um_erase_def fun_eq_iff)

lemma um_keys_put: "fst ` set (um_put k v m) = insert k (fst ` set m)"
  by (induction m) auto

lemma um_keys_put_list:
  "map fst (um_put k v m) = (if k \<in> fst ` set m then map fst m else map fst m @ [k])"
  by (induction m) auto

lemma um_wf_put [simp]: "um_wf m \<Longrightarrow> um_wf (um_put k v m)"
  by (auto simp: um_wf_def um_keys_put_list image_iff)

lemma um_wf_erase [simp]: "um_wf m \<Longrightarrow> um_wf (um_erase k m)"
  by (induction m) (auto simp: um_wf_def um_erase_def)

lemma um_wf_Nil [simp]: "um_wf []"
  by (simp add: um_wf_def)

lemma um_wf_emplace [simp]: "um_wf m \<Longrightarrow> um_wf (um_emplace k v m)"
  by (simp add: um_emplace_def split: option.split)

lemma um_find_emplace:
  "map_of (um_emplace k v m) = (case map_of m k of None \<Rightarrow> (map_of m)(k \<mapsto> v) | Some _ \<Rightarrow> map_of m)"
  by (simp add: um_emplace_def split: option.split)

lemma um_find_set: "um_wf m \<Longrightarrow> map_of m k = Some v \<longleftrightarrow> (k, v) \<in> set m"
  by (simp add: um_wf_def)

lemma um_total_Nil [simp]: "um_total f [] = 0"
  by (simp add: um_total_def)

lemma um_total_Cons [simp]: "um_total f (p # m) = f (snd p) + um_total f m"
  by (simp add: um_total_def)

lemma um_total_put_new: "map_of m k = None \<Longrightarrow> um_total f (um_put k v m) = um_total f m + f v"
  by (induction m) (auto split: if_splits)

lemma um_total_put_old:
  "map_of m k = Some w \<Longrightarrow> um_total f (um_put k v m) + f w = um_total f m + f v"
  by (induction m) (auto split: if_splits)

lemma um_erase_absent [simp]: "map_of m k = None \<Longrightarrow> um_erase k m = m"
  by (induction m) (auto simp: um_erase_def split: if_splits)

lemma um_total_erase:
  "um_wf m \<Longrightarrow> map_of m k = Some w \<Longrightarrow> um_total f (um_erase k m) + f w = um_total f m"
proof (induction m)
  case Nil
  then show ?case by simp
next
  case (Cons p m)
  show ?case
  proof (cases "fst p = k")
    case True
    with Cons.prems have "map_of m k = None"
      by (auto simp: um_wf_def map_of_eq_None_iff)
    then have "um_erase k (p # m) = m"
      using True um_erase_absent [of m k] by (simp add: um_erase_def)
    with True Cons.prems show ?thesis by simp
  next
    case False
    with Cons.prems have "um_total f (um_erase k m) + f w = um_total f m"
      by (intro Cons.IH) (auto simp: um_wf_def)
    with False show ?thesis by (simp add: um_erase_def)
  qed
qed

lemma um_total_const [simp]: "um_total (\<lambda>_. Suc 0) m = length m"
  by (induction m) auto

lemma um_total_mono: "(\<And>v. f v \<le> g v) \<Longrightarrow> um_total f m \<le> um_total g m"
  by (induction m) (auto intro: add_mono)

lemma um_total_eq_0: "um_total f m = 0 \<longleftrightarrow> (\<forall>p \<in> set m. f (snd p) = 0)"
  by (auto simp: um_total_def)

lemma um_total_cong: "(\<And>p. p \<in> set m \<Longrightarrow> f (snd p) = g (snd p)) \<Longrightarrow> um_total f m = um_total g m"
  by (induction m) auto

lemma um_total_ge: "um_wf m \<Longrightarrow> map_of m k = Some v \<Longrightarrow> f v \<le> um_total f m"
  using um_total_erase [of m k v f] by linarith

lemma um_length_erase:
  "um_wf m \<Longrightarrow> map_of m k = Some w \<Longrightarrow> Suc (length (um_erase k m)) = length m"
  using um_total_erase [of m k w "\<lambda>_. Suc 0"] by simp

lemma um_length_put:
  "length (um_put k v m) = (if map_of m k = None then Suc (length m) else length m)"
  by (induction m) auto

lemma um_set_put_iff:
  "um_wf m \<Longrightarrow> p \<in> set (um_put k v m) \<longleftrightarrow> p = (k, v) \<or> (p \<in> set m \<and> fst p \<noteq> k)"
  by (cases p) (auto simp flip: um_find_set)

lemma um_set_erase_iff: "p \<in> set (um_erase k m) \<longleftrightarrow> p \<in> set m \<and> fst p \<noteq> k"
  by (auto simp: um_erase_def)

lemma mm_range_iff [simp]: "v \<in> set (mm_range k m) \<longleftrightarrow> (k, v) \<in> set m"
  by (force simp: mm_range_def)

lemma mm_erase_key_iff [simp]: "p \<in> set (mm_erase_key k m) \<longleftrightarrow> p \<in> set m \<and> fst p \<noteq> k"
  by (auto simp: mm_erase_key_def)

lemma distinct_mm_erase_key [simp]: "distinct m \<Longrightarrow> distinct (mm_erase_key k m)"
  by (simp add: mm_erase_key_def)

lemma distinct_mm_range: "distinct m \<Longrightarrow> distinct (mm_range k m)"
  by (auto simp: mm_range_def distinct_map inj_on_def)

section \<open>Interfaces\<close>

text \<open>
  A counted store: what a client may rely on when it keeps a running counter beside a
  keyed container. \<open>total f\<close> sums \<open>f\<close> over the stored values.
\<close>

locale counted_store =
  fixes find :: "'m \<Rightarrow> 'k \<Rightarrow> 'v option"
    and put :: "'k \<Rightarrow> 'v \<Rightarrow> 'm \<Rightarrow> 'm"
    and erase :: "'k \<Rightarrow> 'm \<Rightarrow> 'm"
    and total :: "('v \<Rightarrow> nat) \<Rightarrow> 'm \<Rightarrow> nat"
    and invar :: "'m \<Rightarrow> bool"
  assumes find_put: "find (put k v m) k' = (if k' = k then Some v else find m k')"
    and find_erase: "find (erase k m) k' = (if k' = k then None else find m k')"
    and invar_put: "invar m \<Longrightarrow> invar (put k v m)"
    and invar_erase: "invar m \<Longrightarrow> invar (erase k m)"
    and total_insert: "find m k = None \<Longrightarrow> total f (put k v m) = total f m + f v"
    and total_erase: "invar m \<Longrightarrow> find m k = Some w \<Longrightarrow> total f (erase k m) + f w = total f m"
    and total_replace: "find m k = Some w \<Longrightarrow> total f (put k v m) + f w = total f m + f v"
begin

text \<open>Replacing a value by one of the same weight leaves the total alone.\<close>

lemma total_replace_same: "find m k = Some w \<Longrightarrow> f v = f w \<Longrightarrow> total f (put k v m) = total f m"
  using total_replace [of m k w f v] by simp

text \<open>Erasing never increases a total, and removes exactly the weight of the entry.\<close>

lemma total_erase_diff: "invar m \<Longrightarrow> find m k = Some w \<Longrightarrow> total f (erase k m) = total f m - f w"
  using total_erase [of m k w f] by simp

lemma total_erase_weightless: "invar m \<Longrightarrow> find m k = Some w \<Longrightarrow> f w = 0 \<Longrightarrow> total f (erase k m) = total f m"
  using total_erase [of m k w f] by simp

lemma total_bound: "invar m \<Longrightarrow> find m k = Some w \<Longrightarrow> f w \<le> total f m"
  using total_erase [of m k w f] by simp

text \<open>Inserting a fresh entry and erasing it again restores every total.\<close>

lemma total_insert_erase:
  "invar m \<Longrightarrow> find m k = None \<Longrightarrow> total f (erase k (put k v m)) = total f m"
  using total_erase [of "put k v m" k v f] total_insert [of m k f v]
  by (simp add: find_put invar_put)

end

interpretation um: counted_store map_of um_put um_erase um_total um_wf
  by unfold_locales
    (auto simp: um_total_put_new um_total_put_old um_total_erase)

text \<open>
  A machine with an invariant: the contract every stateful component states for its
  step relation, and the lift of the invariant to every run.
\<close>

locale invariant_machine =
  fixes step :: "'s \<Rightarrow> 's \<Rightarrow> bool"
    and init :: "'s \<Rightarrow> bool"
    and inv :: "'s \<Rightarrow> bool"
  assumes init_inv: "init s \<Longrightarrow> inv s"
    and step_inv: "inv s \<Longrightarrow> step s t \<Longrightarrow> inv t"
begin

lemma run_inv: "step\<^sup>*\<^sup>* s t \<Longrightarrow> inv s \<Longrightarrow> inv t"
  by (induction rule: rtranclp_induct) (auto intro: step_inv)

lemma reachable_inv: "init s \<Longrightarrow> step\<^sup>*\<^sup>* s t \<Longrightarrow> inv t"
  by (blast intro: run_inv init_inv)

lemma run_monotone:
  assumes "step\<^sup>*\<^sup>* s t" and "inv s" and "Q s"
    and "\<And>a b. inv a \<Longrightarrow> step a b \<Longrightarrow> Q a \<Longrightarrow> Q b"
  shows "Q t"
  using assms(1-3)
proof (induction rule: rtranclp_induct)
  case base
  then show ?case by simp
next
  case (step u v)
  then show ?case using assms(4) run_inv by blast
qed

end

end
