(* ===== verification/Ids.thy ===== *)
theory Ids
  imports Prelude
begin

unbundle bit_operations_syntax

text \<open>
  Identities and generations (\<open>include/itf/ids.hpp\<close>): the 128-bit identity with its
  order, its canonical hexadecimal rendering and strict parser, and the 64-bit
  generation counter. The phantom tags of the C++ templates become type synonyms.
\<close>

section \<open>Definitions\<close>

definition hex_value :: "char \<Rightarrow> int" where
  "hex_value c =
     (let v = int (of_char c) in
      if 48 \<le> v \<and> v \<le> 57 then v - 48
      else if 97 \<le> v \<and> v \<le> 102 then v - 97 + 10
      else if 65 \<le> v \<and> v \<le> 70 then v - 65 + 10
      else - 1)"

definition hex_digit :: "nat \<Rightarrow> char" where
  "hex_digit v = (if v < 10 then char_of (48 + v) else char_of (97 + v - 10))"

datatype id128 = Id128 (high: u64) (low: u64)

definition nil_id :: id128 where
  "nil_id = Id128 0 0"

definition is_nil :: "id128 \<Rightarrow> bool" where
  "is_nil i \<longleftrightarrow> high i = 0 \<and> low i = 0"

definition id_nibble :: "u64 \<Rightarrow> nat \<Rightarrow> nat" where
  "id_nibble source shift = unat (drop_bit shift source AND 15)"

definition id_to_string :: "id128 \<Rightarrow> string" where
  "id_to_string i =
     map (\<lambda>n. hex_digit (id_nibble (if n < 16 then high i else low i) ((15 - n mod 16) * 4))) [0..<32]"

fun id_parse_loop :: "nat \<Rightarrow> string \<Rightarrow> u64 \<Rightarrow> u64 \<Rightarrow> id128 option" where
  "id_parse_loop i [] h l = Some (Id128 h l)"
| "id_parse_loop i (c # cs) h l =
     (let digit = hex_value c in
      if digit < 0 then None
      else if i < 16 then id_parse_loop (Suc i) cs (push_bit 4 h OR word_of_int digit) l
      else id_parse_loop (Suc i) cs h (push_bit 4 l OR word_of_int digit))"

definition id_parse :: "string \<Rightarrow> id128 option" where
  "id_parse text = (if length text \<noteq> 32 then None else id_parse_loop 0 text 0 0)"

definition id_less :: "id128 \<Rightarrow> id128 \<Rightarrow> bool" where
  "id_less a b = (if high a \<noteq> high b then high a < high b else low a < low b)"

definition id_hash :: "id128 \<Rightarrow> u64" where
  "id_hash i =
     (let x = high i XOR (low i + 0x9E3779B97F4A7C15 + push_bit 6 (high i) + drop_bit 2 (high i));
          x = x XOR drop_bit 30 x;
          x = x * 0xBF58476D1CE4E5B9;
          x = x XOR drop_bit 27 x;
          x = x * 0x94D049BB133111EB;
          x = x XOR drop_bit 31 x
      in x)"

type_synonym RequestId = id128
type_synonym AttemptId = id128
type_synonym StateTransferId = id128
type_synonym FlowId = id128
type_synonym BootId = id128

type_synonym generation = u64

definition is_unset :: "generation \<Rightarrow> bool" where
  "is_unset g \<longleftrightarrow> g = 0"

definition gen_next :: "generation \<Rightarrow> generation" where
  "gen_next g = g + 1"

section \<open>The order on identities\<close>

instantiation id128 :: linorder
begin

definition less_id128 :: "id128 \<Rightarrow> id128 \<Rightarrow> bool" where
  "less_id128 = id_less"

definition less_eq_id128 :: "id128 \<Rightarrow> id128 \<Rightarrow> bool" where
  "less_eq_id128 a b \<longleftrightarrow> id_less a b \<or> a = b"

instance
proof
  fix x y z :: id128
  show "x < y \<longleftrightarrow> x \<le> y \<and> \<not> y \<le> x"
    by (cases x; cases y) (auto simp: less_id128_def less_eq_id128_def id_less_def)
  show "x \<le> x"
    by (simp add: less_eq_id128_def)
  show "x \<le> y \<Longrightarrow> y \<le> z \<Longrightarrow> x \<le> z"
    by (cases x; cases y; cases z) (auto simp: less_eq_id128_def id_less_def split: if_splits)
  show "x \<le> y \<Longrightarrow> y \<le> x \<Longrightarrow> x = y"
    by (cases x; cases y) (auto simp: less_eq_id128_def id_less_def split: if_splits)
  show "x \<le> y \<or> y \<le> x"
    by (cases x; cases y) (auto simp: less_eq_id128_def id_less_def)
qed

end

section \<open>Lemmas\<close>

lemma is_nil_iff [simp]: "is_nil i \<longleftrightarrow> i = nil_id"
  by (cases i) (simp add: is_nil_def nil_id_def)

lemma is_unset_iff [simp]: "is_unset g \<longleftrightarrow> g = 0"
  by (simp add: is_unset_def)

lemma gen_next_unat: "g \<noteq> - 1 \<Longrightarrow> unat (gen_next g) = Suc (unat g)"
  using unatSuc [of g] by (simp add: gen_next_def eq_neg_iff_add_eq_0 add.commute)

lemma gen_next_nonzero: "g \<noteq> - 1 \<Longrightarrow> gen_next g \<noteq> 0"
  by (simp add: gen_next_def eq_neg_iff_add_eq_0)

lemma id_nibble_less: "id_nibble source shift < 16"
proof -
  have "unat (drop_bit shift source AND 15) \<le> unat (15 :: u64)"
    by (rule word_and_le1 [THEN word_le_nat_alt [THEN iffD1]])
  then show ?thesis by (simp add: id_nibble_def)
qed

lemma hex_value_digit: "v < 16 \<Longrightarrow> hex_value (hex_digit v) = int v"
proof -
  assume "v < 16"
  then have "v = 0 \<or> v = 1 \<or> v = 2 \<or> v = 3 \<or> v = 4 \<or> v = 5 \<or> v = 6 \<or> v = 7 \<or> v = 8
    \<or> v = 9 \<or> v = 10 \<or> v = 11 \<or> v = 12 \<or> v = 13 \<or> v = 14 \<or> v = 15"
    by presburger
  then show ?thesis
    by (auto simp: hex_value_def hex_digit_def)
qed

lemma push_nibble: "push_bit 4 (drop_bit (n + 4) x) OR (drop_bit n x AND 15) = drop_bit n (x :: u64)"
proof (rule bit_word_eqI)
  fix m assume "m < LENGTH(64)"
  have "(15 :: u64) = mask 4"
    by (simp add: mask_eq_exp_minus_1)
  then have fifteen: "bit (15 :: u64) m \<longleftrightarrow> m < 4"
    using \<open>m < LENGTH(64)\<close> by (simp only: bit_mask_iff) auto
  show "bit (push_bit 4 (drop_bit (n + 4) x) OR (drop_bit n x AND 15)) m = bit (drop_bit n x) m"
  proof (cases "m < 4")
    case True
    with fifteen have "bit (15 :: u64) m" by blast
    with True show ?thesis
      by (simp only: bit_or_iff bit_and_iff bit_push_bit_iff) simp
  next
    case False
    then have "n + 4 + (m - 4) = n + m" by simp
    moreover from False fifteen have "\<not> bit (15 :: u64) m" by blast
    ultimately show ?thesis
      using False \<open>m < LENGTH(64)\<close>
      by (simp only: bit_or_iff bit_and_iff bit_push_bit_iff bit_drop_bit_eq o_def) simp
  qed
qed


lemma hex_nibble:
  "word_of_int (hex_value (hex_digit (id_nibble x n))) = (drop_bit n x AND 15 :: u64)"
  "hex_value (hex_digit (id_nibble x n)) \<ge> 0"
  using hex_value_digit [OF id_nibble_less [of x n]] by (simp_all add: id_nibble_def)

lemma id_parse_high:
  "k \<le> 16 \<Longrightarrow>
   id_parse_loop (16 - k)
     (map (\<lambda>n. hex_digit (id_nibble x ((15 - n mod 16) * 4))) [16 - k..<16] @ cs)
     (drop_bit (4 * k) x) l = id_parse_loop 16 cs x l"
proof (induction k)
  case 0
  then show ?case by simp
next
  case (Suc k)
  then have succ: "Suc (16 - Suc k) = 16 - k" and less: "16 - Suc k < 16"
    by simp_all
  have upt: "[16 - Suc k..<16] = (16 - Suc k) # [16 - k..<16]"
    using upt_conv_Cons [OF less] by (simp only: succ)
  have shift: "(15 - (16 - Suc k) mod 16) * 4 = 4 * k"
    using Suc.prems by simp
  have "push_bit 4 (drop_bit (4 * Suc k) x) OR (drop_bit (4 * k) x AND 15) = drop_bit (4 * k) x"
    using push_nibble [of "4 * k" x] by (simp add: add.commute)
  moreover have "\<not> hex_value (hex_digit (id_nibble x (4 * k))) < 0"
    using hex_nibble(2) [of x "4 * k"] by simp
  ultimately show ?case
    using Suc.IH Suc.prems less
    by (simp only: upt list.map append_Cons id_parse_loop.simps Let_def shift hex_nibble succ if_True if_False)
qed

lemma id_parse_low:
  "k \<le> 16 \<Longrightarrow>
   id_parse_loop (32 - k)
     (map (\<lambda>n. hex_digit (id_nibble y ((15 - n mod 16) * 4))) [32 - k..<32])
     h (drop_bit (4 * k) y) = Some (Id128 h y)"
proof (induction k)
  case 0
  then show ?case by simp
next
  case (Suc k)
  then have succ: "Suc (32 - Suc k) = 32 - k" and less: "32 - Suc k < 32"
    by simp_all
  have upt: "[32 - Suc k..<32] = (32 - Suc k) # [32 - k..<32]"
    using upt_conv_Cons [OF less] by (simp only: succ)
  have "(32 - Suc k) mod 16 = 16 - Suc k"
  proof -
    have "32 - Suc k = (16 - Suc k) + 16" using Suc.prems by simp
    then show ?thesis by (metis Suc.prems diff_less mod_add_self2 mod_less zero_less_Suc zero_less_numeral)
  qed
  then have shift: "(15 - (32 - Suc k) mod 16) * 4 = 4 * k"
    using Suc.prems by simp
  have "push_bit 4 (drop_bit (4 * Suc k) y) OR (drop_bit (4 * k) y AND 15) = drop_bit (4 * k) y"
    using push_nibble [of "4 * k" y] by (simp add: add.commute)
  moreover have "\<not> hex_value (hex_digit (id_nibble y (4 * k))) < 0"
    using hex_nibble(2) [of y "4 * k"] by simp
  moreover have "\<not> 32 - Suc k < 16"
    using Suc.prems by simp
  ultimately show ?case
    using Suc.IH Suc.prems
    by (simp only: upt list.map id_parse_loop.simps Let_def shift hex_nibble succ if_True if_False)
qed

lemma drop_bit_all: "drop_bit 64 (x :: u64) = 0"
  by (rule bit_word_eqI) (auto simp: bit_simps dest: bit_imp_le_length)

lemma id_parse_loop_accepts:
  "id_parse_loop i cs h l \<noteq> None \<longleftrightarrow> (\<forall>c \<in> set cs. 0 \<le> hex_value c)"
  by (induction i cs h l rule: id_parse_loop.induct) (auto simp: Let_def not_less)

section \<open>Properties\<close>

text \<open>
  Round trip of identities: rendering an identity (any 128-bit value) and parsing the
  text gives the identity back.
\<close>

theorem id_parse_to_string: "id_parse (id_to_string i) = Some i"
proof -
  have upt: "[0..<32] = [0..<16] @ [16..<32 :: nat]"
    by (simp add: upt_add_eq_append [of 0 16 16, simplified])
  let ?h = "map (\<lambda>n. hex_digit (id_nibble (high i) ((15 - n mod 16) * 4))) [0..<16]"
  let ?l = "map (\<lambda>n. hex_digit (id_nibble (low i) ((15 - n mod 16) * 4))) [16..<32]"
  have str: "id_to_string i = ?h @ ?l"
    unfolding id_to_string_def upt map_append by (intro arg_cong2 [where f = append]) auto
  have "id_parse_loop 0 (?h @ ?l) 0 0 = id_parse_loop 16 ?l (high i) 0"
    using id_parse_high [of 16 "high i" ?l 0] by (simp add: drop_bit_all)
  also have "\<dots> = Some i"
    using id_parse_low [of 16 "low i" "high i"] by (simp add: drop_bit_all)
  finally show ?thesis
    by (simp add: id_parse_def str)
qed

text \<open>
  The identity parser is strict: a text is accepted exactly when it is 32 characters
  long and every character is a hexadecimal digit (no prefix, blank or trailing text).
\<close>

theorem id_parse_strict:
  "id_parse s \<noteq> None \<longleftrightarrow> length s = 32 \<and> list_all (\<lambda>c. 0 \<le> hex_value c) s"
  using id_parse_loop_accepts [of 0 s 0 0] by (auto simp: id_parse_def list_all_iff)

end
