(* ===== verification/Status.thy ===== *)
theory Status
  imports Ids
begin

text \<open>
  Status codes, results and the time domain (\<open>include/itf/error.hpp\<close>,
  \<open>include/itf/time.hpp\<close>, \<open>include/itf/bytes.hpp\<close>).
  A \<open>Status\<close> is its code: the C++ equality compares the code only and the message is
  diagnostic. A \<open>Result<T>\<close> is a sum, \<open>Inl\<close> the failure code and \<open>Inr\<close> the value.
\<close>

section \<open>Status codes and results\<close>

datatype StatusCode =
    ST_Ok | ST_InvalidArgument | ST_OutOfRange | ST_NotFound | ST_AlreadyExists
  | ST_BoundsExceeded | ST_IntegrityMismatch | ST_MalformedInput | ST_TrailingGarbage
  | ST_UnsupportedVersion | ST_Unsupported | ST_StaleGeneration | ST_StaleEpoch
  | ST_StaleAuthority | ST_Cancelled | ST_Conflict | ST_NotAuthorized | ST_CapacityExhausted
  | ST_InvalidTransition | ST_PolicyInvalid | ST_EvidenceUnknown | ST_EvidenceStale
  | ST_RevalidationRequired | ST_ReplayRejected | ST_Closed | ST_ShuttingDown | ST_IoError
  | ST_Internal | ST_DuplicateIgnored | ST_Refused

type_synonym 'a result = "StatusCode + 'a"

section \<open>Instants\<close>

text \<open>
  An instant is a signed nanosecond count whose least value means "unset".
\<close>

type_synonym Instant = i64

definition instant_unset :: Instant where
  "instant_unset = i64_min"

definition instant_at :: "i64 \<Rightarrow> Instant" where
  "instant_at nanos = nanos"

definition instant_from_now :: "i64 \<Rightarrow> i64 \<Rightarrow> Instant" where
  "instant_from_now now delta =
     (if delta \<le> 0 then instant_unset
      else if now > i64_max - delta then instant_unset
      else instant_at (now + delta))"

definition instant_is_set :: "Instant \<Rightarrow> bool" where
  "instant_is_set t \<longleftrightarrow> t \<noteq> i64_min"

definition instant_expired_at :: "Instant \<Rightarrow> i64 \<Rightarrow> bool" where
  "instant_expired_at t now \<longleftrightarrow> instant_is_set t \<and> now \<ge> t"

definition instant_remaining_at :: "Instant \<Rightarrow> i64 \<Rightarrow> i64" where
  "instant_remaining_at t now = (if \<not> instant_is_set t \<or> now \<ge> t then 0 else t - now)"

definition instant_less :: "Instant \<Rightarrow> Instant \<Rightarrow> bool" where
  "instant_less a b = (if \<not> instant_is_set a then False else if \<not> instant_is_set b then True else a < b)"

definition millis_to_nanos :: "u64 \<Rightarrow> i64" where
  "millis_to_nanos millis =
     (if uint millis > i64_max div 1000000 then i64_max else i64_of_u64 millis * 1000000)"

section \<open>Checked arithmetic\<close>

definition checked_add :: "u64 \<Rightarrow> u64 \<Rightarrow> u64 option" where
  "checked_add a b = (if a > (- 1) - b then None else Some (a + b))"

definition checked_mul :: "u64 \<Rightarrow> u64 \<Rightarrow> u64 option" where
  "checked_mul a b = (if a \<noteq> 0 \<and> b > (- 1) div a then None else Some (a * b))"

section \<open>Lemmas\<close>

lemma unat_minus_one_64: "unat (- 1 :: u64) = 2 ^ 64 - 1"
  by (simp add: unsigned_minus_1_eq_mask mask_eq_exp_minus_1)

lemma unat_u64_less: "unat (a :: u64) < 2 ^ 64"
  using unsigned_less [of a] by simp

lemma checked_add_none_iff: "checked_add a b = None \<longleftrightarrow> 2 ^ 64 \<le> unat a + unat b"
proof -
  have "unat ((- 1) - b) = 2 ^ 64 - 1 - unat b"
    by (metis unat_minus_one_64 unat_sub word_order.extremum)
  then have "a > (- 1) - b \<longleftrightarrow> unat a > 2 ^ 64 - 1 - unat b"
    by (simp add: word_less_nat_alt)
  moreover have "unat b < 2 ^ 64" by (rule unat_u64_less)
  ultimately show ?thesis by (auto simp: checked_add_def)
qed

lemma checked_add_some: "checked_add a b = Some c \<Longrightarrow> unat c = unat a + unat b"
proof -
  assume h: "checked_add a b = Some c"
  then have "c = a + b" by (simp add: checked_add_def split: if_splits)
  moreover have "unat a + unat b < 2 ^ 64"
    using h checked_add_none_iff [of a b] by (cases "2 ^ 64 \<le> unat a + unat b") simp_all
  ultimately show ?thesis by (simp add: unat_word_ariths)
qed

text \<open>
  The overflow-checked addition used by every byte counter refuses exactly the sums that
  do not fit in 64 bits, and otherwise returns the exact sum.
\<close>

theorem checked_add_exact:
  "(case checked_add a b of
      None \<Rightarrow> 2 ^ 64 \<le> unat a + unat b
    | Some c \<Rightarrow> unat c = unat a + unat b \<and> unat a + unat b < 2 ^ 64)"
proof (cases "checked_add a b")
  case None
  then have "2 ^ 64 \<le> unat a + unat b" by (simp only: checked_add_none_iff)
  with None show ?thesis by (simp only: option.case)
next
  case (Some c)
  then show ?thesis
    using checked_add_some [OF Some] checked_add_none_iff [of a b] by (simp only: option.case) simp
qed

text \<open>
  The overflow-checked multiplication refuses exactly the products that do not fit in 64
  bits, and otherwise returns the exact product.
\<close>

theorem checked_mul_exact:
  "(case checked_mul a b of
      None \<Rightarrow> 2 ^ 64 \<le> unat a * unat b
    | Some c \<Rightarrow> unat c = unat a * unat b \<and> unat a * unat b < 2 ^ 64)"
proof (cases "a = 0")
  case True
  then show ?thesis by (simp add: checked_mul_def)
next
  case False
  then have pos: "0 < unat a" by (simp add: unat_gt_0)
  have div: "unat ((- 1) div a) = (2 ^ 64 - 1) div unat a"
    by (simp add: unat_div_distrib unat_minus_one_64)
  have "unat b > (2 ^ 64 - 1) div unat a \<longleftrightarrow> 2 ^ 64 \<le> unat a * unat b"
    using pos div_less_iff_less_mult [OF pos, of "2 ^ 64 - 1" "unat b"]
    by (simp add: mult.commute) linarith
  then have "b > (- 1) div a \<longleftrightarrow> 2 ^ 64 \<le> unat a * unat b"
    by (simp add: word_less_nat_alt div)
  with False show ?thesis
    by (auto simp: checked_mul_def unat_word_ariths not_le)
qed

end
