(* ===== verification/Traffic.thy ===== *)
theory Traffic
  imports Status
begin

text \<open>
  The traffic vocabulary (\<open>include/itf/traffic.hpp\<close>, \<open>src/traffic.cpp\<close>): traffic
  classes, serving stages, the stage machine, the class/stage legality table and the
  request and treatment records. Every enumeration keeps its \<open>Count\<close> sentinel as a
  constructor; the C++ functions treat every out-of-range value as they treat \<open>Count\<close>.
\<close>

section \<open>Enumerations\<close>

datatype TrafficClass =
    TC_Unknown | TC_RequestIngress | TC_PrefillInput | TC_PrefillDecodeHandoff | TC_KvTransfer
  | TC_StateTransfer | TC_ModelTransfer | TC_AdapterTransfer | TC_DecodeStream
  | TC_SpeculativeBranch | TC_ResponseEgress | TC_Control | TC_Count

fun tc_index :: "TrafficClass \<Rightarrow> nat" where
  "tc_index TC_Unknown = 0"
| "tc_index TC_RequestIngress = 1"
| "tc_index TC_PrefillInput = 2"
| "tc_index TC_PrefillDecodeHandoff = 3"
| "tc_index TC_KvTransfer = 4"
| "tc_index TC_StateTransfer = 5"
| "tc_index TC_ModelTransfer = 6"
| "tc_index TC_AdapterTransfer = 7"
| "tc_index TC_DecodeStream = 8"
| "tc_index TC_SpeculativeBranch = 9"
| "tc_index TC_ResponseEgress = 10"
| "tc_index TC_Control = 11"
| "tc_index TC_Count = 12"

definition kTrafficClassCount :: nat where
  "kTrafficClassCount = tc_index TC_Count"

definition traffic_classes :: "TrafficClass list" where
  "traffic_classes =
     [TC_Unknown, TC_RequestIngress, TC_PrefillInput, TC_PrefillDecodeHandoff, TC_KvTransfer,
      TC_StateTransfer, TC_ModelTransfer, TC_AdapterTransfer, TC_DecodeStream,
      TC_SpeculativeBranch, TC_ResponseEgress, TC_Control]"

datatype ServingStage =
    SS_Unknown | SS_Admitted | SS_Routing | SS_PrefillQueued | SS_PrefillRunning
  | SS_HandoffPending | SS_DecodeQueued | SS_DecodeRunning | SS_Streaming | SS_Completing
  | SS_Completed | SS_Cancelled | SS_Failed | SS_Count

fun ss_index :: "ServingStage \<Rightarrow> nat" where
  "ss_index SS_Unknown = 0"
| "ss_index SS_Admitted = 1"
| "ss_index SS_Routing = 2"
| "ss_index SS_PrefillQueued = 3"
| "ss_index SS_PrefillRunning = 4"
| "ss_index SS_HandoffPending = 5"
| "ss_index SS_DecodeQueued = 6"
| "ss_index SS_DecodeRunning = 7"
| "ss_index SS_Streaming = 8"
| "ss_index SS_Completing = 9"
| "ss_index SS_Completed = 10"
| "ss_index SS_Cancelled = 11"
| "ss_index SS_Failed = 12"
| "ss_index SS_Count = 13"

definition serving_stages :: "ServingStage list" where
  "serving_stages =
     [SS_Unknown, SS_Admitted, SS_Routing, SS_PrefillQueued, SS_PrefillRunning,
      SS_HandoffPending, SS_DecodeQueued, SS_DecodeRunning, SS_Streaming, SS_Completing,
      SS_Completed, SS_Cancelled, SS_Failed]"

datatype FlowDirection = FD_Unknown | FD_Ingress | FD_Egress | FD_Lateral | FD_Count

datatype PriorityClass =
  PC_Unknown | PC_LatencyCritical | PC_Interactive | PC_Standard | PC_Background | PC_Bulk | PC_Count

datatype PacingClass =
  PA_Unknown | PA_Immediate | PA_Paced | PA_RateLimited | PA_BestEffort | PA_Count

datatype IntegrityClass =
  IC_Unknown | IC_None | IC_Checksum | IC_ChecksumAndVerify | IC_Count

datatype IsolationDomain =
  ID_Unknown | ID_LatencyCritical | ID_Interactive | ID_Background | ID_Bulk | ID_Control | ID_Count

datatype PriorityHint =
  PH_None | PH_LatencyCritical | PH_Interactive | PH_Batch | PH_Background | PH_Count

datatype SubjectKind = SK_Unknown | SK_Serving | SK_Transfer | SK_Count

text \<open>The numeric values of the enumerations the code compares or records.\<close>

fun ic_index :: "IntegrityClass \<Rightarrow> nat" where
  "ic_index IC_Unknown = 0"
| "ic_index IC_None = 1"
| "ic_index IC_Checksum = 2"
| "ic_index IC_ChecksumAndVerify = 3"
| "ic_index IC_Count = 4"

fun pc_index :: "PriorityClass \<Rightarrow> nat" where
  "pc_index PC_Unknown = 0"
| "pc_index PC_LatencyCritical = 1"
| "pc_index PC_Interactive = 2"
| "pc_index PC_Standard = 3"
| "pc_index PC_Background = 4"
| "pc_index PC_Bulk = 5"
| "pc_index PC_Count = 6"

fun sk_index :: "SubjectKind \<Rightarrow> nat" where
  "sk_index SK_Unknown = 0"
| "sk_index SK_Serving = 1"
| "sk_index SK_Transfer = 2"
| "sk_index SK_Count = 3"

section \<open>Labels\<close>

definition kTrafficLabels :: "string list" where
  "kTrafficLabels =
     [''UNKNOWN'', ''REQUEST_INGRESS'', ''PREFILL_INPUT'', ''PREFILL_DECODE_HANDOFF'',
      ''KV_TRANSFER'', ''STATE_TRANSFER'', ''MODEL_TRANSFER'', ''ADAPTER_TRANSFER'',
      ''DECODE_STREAM'', ''SPECULATIVE_BRANCH'', ''RESPONSE_EGRESS'', ''CONTROL'']"

definition kStageLabels :: "string list" where
  "kStageLabels =
     [''UNKNOWN'', ''ADMITTED'', ''ROUTING'', ''PREFILL_QUEUED'', ''PREFILL_RUNNING'',
      ''HANDOFF_PENDING'', ''DECODE_QUEUED'', ''DECODE_RUNNING'', ''STREAMING'', ''COMPLETING'',
      ''COMPLETED'', ''CANCELLED'', ''FAILED'']"

definition tc_label :: "TrafficClass \<Rightarrow> string" where
  "tc_label value =
     (if tc_index value < kTrafficClassCount then kTrafficLabels ! tc_index value
      else kTrafficLabels ! 0)"

definition traffic_class_from_label :: "string \<Rightarrow> TrafficClass option" where
  "traffic_class_from_label txt = map_of (zip kTrafficLabels traffic_classes) txt"

definition ss_label :: "ServingStage \<Rightarrow> string" where
  "ss_label value =
     (if ss_index value < ss_index SS_Count then kStageLabels ! ss_index value
      else kStageLabels ! 0)"

definition serving_stage_from_label :: "string \<Rightarrow> ServingStage option" where
  "serving_stage_from_label txt = map_of (zip kStageLabels serving_stages) txt"

section \<open>The serving stage machine\<close>

definition ss_is_terminal :: "ServingStage \<Rightarrow> bool" where
  "ss_is_terminal value \<longleftrightarrow> value = SS_Completed \<or> value = SS_Cancelled \<or> value = SS_Failed"

definition is_prefill_stage :: "ServingStage \<Rightarrow> bool" where
  "is_prefill_stage value \<longleftrightarrow> value = SS_PrefillQueued \<or> value = SS_PrefillRunning"

definition is_decode_stage :: "ServingStage \<Rightarrow> bool" where
  "is_decode_stage value \<longleftrightarrow>
     value = SS_DecodeQueued \<or> value = SS_DecodeRunning \<or> value = SS_Streaming"

definition is_serving_active :: "ServingStage \<Rightarrow> bool" where
  "is_serving_active value \<longleftrightarrow> value \<noteq> SS_Unknown \<and> \<not> ss_is_terminal value"

definition is_legal_stage_transition :: "ServingStage \<Rightarrow> ServingStage \<Rightarrow> bool" where
  "is_legal_stage_transition from_stage to_stage =
     (if to_stage = SS_Unknown then False
      else if from_stage = to_stage then True
      else if ss_is_terminal from_stage then False
      else (case from_stage of
        SS_Unknown \<Rightarrow> to_stage = SS_Admitted
      | SS_Admitted \<Rightarrow>
          to_stage \<in> {SS_Routing, SS_PrefillQueued, SS_DecodeQueued, SS_Cancelled, SS_Failed}
      | SS_Routing \<Rightarrow> to_stage \<in> {SS_PrefillQueued, SS_DecodeQueued, SS_Cancelled, SS_Failed}
      | SS_PrefillQueued \<Rightarrow> to_stage \<in> {SS_PrefillRunning, SS_Cancelled, SS_Failed}
      | SS_PrefillRunning \<Rightarrow> to_stage \<in> {SS_HandoffPending, SS_DecodeQueued, SS_Cancelled, SS_Failed}
      | SS_HandoffPending \<Rightarrow> to_stage \<in> {SS_DecodeQueued, SS_DecodeRunning, SS_Cancelled, SS_Failed}
      | SS_DecodeQueued \<Rightarrow> to_stage \<in> {SS_DecodeRunning, SS_Cancelled, SS_Failed}
      | SS_DecodeRunning \<Rightarrow> to_stage \<in> {SS_Streaming, SS_Completing, SS_Cancelled, SS_Failed}
      | SS_Streaming \<Rightarrow> to_stage \<in> {SS_Completing, SS_Cancelled, SS_Failed}
      | SS_Completing \<Rightarrow> to_stage \<in> {SS_Completed, SS_Cancelled, SS_Failed}
      | _ \<Rightarrow> False))"

fun canonical_class_for_stage :: "ServingStage \<Rightarrow> TrafficClass" where
  "canonical_class_for_stage SS_Admitted = TC_RequestIngress"
| "canonical_class_for_stage SS_Routing = TC_RequestIngress"
| "canonical_class_for_stage SS_PrefillQueued = TC_PrefillInput"
| "canonical_class_for_stage SS_PrefillRunning = TC_PrefillInput"
| "canonical_class_for_stage SS_HandoffPending = TC_PrefillDecodeHandoff"
| "canonical_class_for_stage SS_DecodeQueued = TC_PrefillDecodeHandoff"
| "canonical_class_for_stage SS_DecodeRunning = TC_DecodeStream"
| "canonical_class_for_stage SS_Streaming = TC_DecodeStream"
| "canonical_class_for_stage SS_Completing = TC_ResponseEgress"
| "canonical_class_for_stage _ = TC_Unknown"

definition is_class_legal_for_stage :: "TrafficClass \<Rightarrow> ServingStage \<Rightarrow> bool" where
  "is_class_legal_for_stage traffic stage =
     (if traffic = TC_Control then is_serving_active stage
      else (case stage of
        SS_Admitted \<Rightarrow> traffic = TC_RequestIngress
      | SS_Routing \<Rightarrow> traffic = TC_RequestIngress
      | SS_PrefillQueued \<Rightarrow> traffic = TC_PrefillInput
      | SS_PrefillRunning \<Rightarrow> traffic = TC_PrefillInput
      | SS_HandoffPending \<Rightarrow>
          traffic = TC_PrefillDecodeHandoff \<or> traffic = TC_KvTransfer \<or> traffic = TC_StateTransfer
      | SS_DecodeQueued \<Rightarrow> traffic = TC_PrefillDecodeHandoff \<or> traffic = TC_KvTransfer
      | SS_DecodeRunning \<Rightarrow>
          traffic = TC_KvTransfer \<or> traffic = TC_DecodeStream \<or> traffic = TC_SpeculativeBranch
      | SS_Streaming \<Rightarrow>
          traffic = TC_DecodeStream \<or> traffic = TC_SpeculativeBranch \<or> traffic = TC_ResponseEgress
      | SS_Completing \<Rightarrow> traffic = TC_ResponseEgress
      | _ \<Rightarrow> False))"

section \<open>Subjects, bindings, requests and treatments\<close>

record TrafficSubject =
  sub_kind :: SubjectKind
  sub_request :: RequestId
  sub_attempt :: AttemptId
  sub_request_generation :: generation
  sub_transfer :: StateTransferId

definition TrafficSubject_init :: TrafficSubject where
  "TrafficSubject_init =
     \<lparr> sub_kind = SK_Unknown, sub_request = nil_id, sub_attempt = nil_id,
       sub_request_generation = 0, sub_transfer = nil_id \<rparr>"

definition subject_is_valid :: "TrafficSubject \<Rightarrow> bool" where
  "subject_is_valid s =
     (case sub_kind s of
        SK_Serving \<Rightarrow>
          \<not> is_nil (sub_request s) \<and> \<not> is_nil (sub_attempt s) \<and>
          \<not> is_unset (sub_request_generation s)
      | SK_Transfer \<Rightarrow> \<not> is_nil (sub_transfer s)
      | _ \<Rightarrow> False)"

record GenerationBinding =
  b_request_generation :: "generation option"
  b_model_generation :: "generation option"
  b_state_generation :: "generation option"
  b_route_decision :: "generation option"
  b_slo_contract :: "generation option"
  b_topology :: "generation option"
  b_policy :: "generation option"
  b_coordinator_epoch :: "generation option"

definition GenerationBinding_init :: GenerationBinding where
  "GenerationBinding_init =
     \<lparr> b_request_generation = None, b_model_generation = None, b_state_generation = None,
       b_route_decision = None, b_slo_contract = None, b_topology = None, b_policy = None,
       b_coordinator_epoch = None \<rparr>"

record TrafficRequest =
  q_subject :: "TrafficSubject option"
  q_declared_class :: TrafficClass
  q_declared_stage :: ServingStage
  q_direction :: FlowDirection
  q_priority_hint :: PriorityHint
  q_payload_bytes :: u64
  q_observed_bytes :: u64
  q_token_count :: u32
  q_chunk_index :: u32
  q_total_chunks :: u32
  q_tenant_hash :: u64
  q_model_hash :: u64
  q_adapter_hash :: u64
  q_deadline :: Instant
  q_deadline_after_nanos :: u64
  q_binding :: GenerationBinding

definition TrafficRequest_init :: TrafficRequest where
  "TrafficRequest_init =
     \<lparr> q_subject = None, q_declared_class = TC_Unknown, q_declared_stage = SS_Unknown,
       q_direction = FD_Unknown, q_priority_hint = PH_None, q_payload_bytes = 0,
       q_observed_bytes = 0, q_token_count = 0, q_chunk_index = 0, q_total_chunks = 0,
       q_tenant_hash = 0, q_model_hash = 0, q_adapter_hash = 0, q_deadline = instant_unset,
       q_deadline_after_nanos = 0, q_binding = GenerationBinding_init \<rparr>"

definition structurally_valid :: "TrafficRequest \<Rightarrow> bool" where
  "structurally_valid q =
     (if (case q_subject q of Some s \<Rightarrow> \<not> subject_is_valid s | None \<Rightarrow> False) then False
      else if q_subject q = None \<and> q_declared_class q \<noteq> TC_ModelTransfer \<and>
              q_declared_class q \<noteq> TC_AdapterTransfer \<and> q_declared_class q \<noteq> TC_Control then False
      else if q_declared_class q = TC_Count then False
      else if q_declared_stage q = SS_Count then False
      else if q_direction q = FD_Count then False
      else if q_priority_hint q = PH_Count then False
      else if q_total_chunks q \<noteq> 0 \<and> q_chunk_index q \<ge> q_total_chunks q then False
      else if instant_is_set (q_deadline q) \<and> q_deadline_after_nanos q \<noteq> 0 then False
      else True)"

record TrafficTreatment =
  tt_traffic_class :: TrafficClass
  tt_priority :: PriorityClass
  tt_pacing :: PacingClass
  tt_integrity :: IntegrityClass
  tt_isolation :: IsolationDomain
  tt_reserved_weight :: u32
  tt_max_burst_bytes :: u64
  tt_rate_limit_bytes_per_sec :: u64
  tt_flow :: FlowId
  tt_hold_until :: Instant
  tt_defer_count :: u32

definition TrafficTreatment_init :: TrafficTreatment where
  "TrafficTreatment_init =
     \<lparr> tt_traffic_class = TC_Unknown, tt_priority = PC_Unknown, tt_pacing = PA_Unknown,
       tt_integrity = IC_Unknown, tt_isolation = ID_Unknown, tt_reserved_weight = 0,
       tt_max_burst_bytes = 0, tt_rate_limit_bytes_per_sec = 0, tt_flow = nil_id,
       tt_hold_until = instant_unset, tt_defer_count = 0 \<rparr>"

section \<open>Lemmas\<close>

lemma tc_index_less [simp]: "c \<noteq> TC_Count \<Longrightarrow> tc_index c < kTrafficClassCount"
  by (cases c) (simp_all add: kTrafficClassCount_def)

lemma tc_index_inj [simp]: "tc_index a = tc_index b \<longleftrightarrow> a = b"
  by (cases a; cases b) simp_all

lemma ss_index_inj: "ss_index a = ss_index b \<longleftrightarrow> a = b"
  by (cases a; cases b) simp_all

lemma traffic_classes_nth: "c \<noteq> TC_Count \<Longrightarrow> traffic_classes ! tc_index c = c"
  by (cases c) (simp_all add: traffic_classes_def)

lemma traffic_classes_set: "c \<in> set traffic_classes \<longleftrightarrow> c \<noteq> TC_Count"
  by (cases c) (simp_all add: traffic_classes_def)

lemma length_traffic_classes [simp]: "length traffic_classes = kTrafficClassCount"
  by (simp add: traffic_classes_def kTrafficClassCount_def)

lemma traffic_classes_index:
  assumes "i < kTrafficClassCount"
  shows "tc_index (traffic_classes ! i) = i \<and> traffic_classes ! i \<noteq> TC_Count"
proof -
  have "i \<in> {0, 1, 2, 3, 4, 5, 6, 7, 8, 9, 10, 11}"
    using assms by (simp add: kTrafficClassCount_def) presburger
  then show ?thesis by (auto simp: traffic_classes_def)
qed

lemma length_kTrafficLabels [simp]: "length kTrafficLabels = kTrafficClassCount"
  by (simp add: kTrafficLabels_def kTrafficClassCount_def)

lemma distinct_kTrafficLabels: "distinct kTrafficLabels"
  by code_simp

lemma ss_terminal_simps [simp]:
  "ss_is_terminal SS_Completed" "ss_is_terminal SS_Cancelled" "ss_is_terminal SS_Failed"
  "\<not> ss_is_terminal SS_Unknown" "\<not> ss_is_terminal SS_Admitted"
  by (simp_all add: ss_is_terminal_def)

text \<open>
  Labels are a faithful external vocabulary: parsing the label of any real traffic class
  gives that class back, and a string parses to a class only when it is that class's label.
\<close>

theorem traffic_label_roundtrip:
  "(traffic_class_from_label txt = Some c) \<longleftrightarrow> (c \<noteq> TC_Count \<and> txt = tc_label c)"
proof -
  have "traffic_class_from_label txt = Some c \<longleftrightarrow>
      (\<exists>i < kTrafficClassCount. txt = kTrafficLabels ! i \<and> c = traffic_classes ! i)"
    unfolding traffic_class_from_label_def
    by (subst map_of_eq_Some_iff) (auto simp: distinct_kTrafficLabels set_zip)
  also have "\<dots> \<longleftrightarrow> c \<noteq> TC_Count \<and> txt = tc_label c"
  proof
    assume "\<exists>i < kTrafficClassCount. txt = kTrafficLabels ! i \<and> c = traffic_classes ! i"
    then obtain i where "i < kTrafficClassCount" "txt = kTrafficLabels ! i" "c = traffic_classes ! i"
      by blast
    then show "c \<noteq> TC_Count \<and> txt = tc_label c"
      using traffic_classes_index [of i] by (simp add: tc_label_def)
  next
    assume "c \<noteq> TC_Count \<and> txt = tc_label c"
    then have "tc_index c < kTrafficClassCount" "txt = kTrafficLabels ! tc_index c"
      "c = traffic_classes ! tc_index c"
      by (simp_all add: tc_label_def traffic_classes_nth)
    then show "\<exists>i < kTrafficClassCount. txt = kTrafficLabels ! i \<and> c = traffic_classes ! i" by blast
  qed
  finally show ?thesis .
qed

lemma legal_transition_index:
  "is_legal_stage_transition a b \<Longrightarrow> a \<noteq> b \<Longrightarrow> ss_index a < ss_index b \<and> \<not> ss_is_terminal a"
  by (cases a; cases b) (simp_all add: is_legal_stage_transition_def ss_is_terminal_def)

lemma legal_path_index:
  "is_legal_stage_transition\<^sup>*\<^sup>* a b \<Longrightarrow> ss_index a \<le> ss_index b"
proof (induction rule: rtranclp_induct)
  case base
  show ?case by simp
next
  case (step y z)
  then show ?case using legal_transition_index [of y z] by (cases "y = z") auto
qed

lemma legal_path_terminal:
  "is_legal_stage_transition\<^sup>*\<^sup>* a b \<Longrightarrow> ss_is_terminal a \<Longrightarrow> b = a"
proof (induction rule: rtranclp_induct)
  case base
  show ?case by simp
next
  case (step y z)
  then show ?case using legal_transition_index [of y z] by blast
qed

text \<open>
  C27. The serving stage machine is acyclic and its terminal stages are absorbing: along any
  sequence of legal transitions the stage number never decreases, two distinct stages never
  reach each other, and a terminal stage only reaches itself.
\<close>

theorem stage_machine_acyclic:
  "is_legal_stage_transition\<^sup>*\<^sup>* a b \<Longrightarrow>
     ss_index a \<le> ss_index b \<and> (ss_is_terminal a \<longrightarrow> b = a) \<and>
     (is_legal_stage_transition\<^sup>*\<^sup>* b a \<longrightarrow> a = b)"
proof (intro conjI impI)
  assume ab: "is_legal_stage_transition\<^sup>*\<^sup>* a b"
  then show le: "ss_index a \<le> ss_index b" by (rule legal_path_index)
  show "b = a" if "ss_is_terminal a" using legal_path_terminal [OF ab that] .
  show "a = b" if "is_legal_stage_transition\<^sup>*\<^sup>* b a"
    using le legal_path_index [OF that] ss_index_inj by simp
qed

theorem stage_machine_acyclic_witness:
  "is_legal_stage_transition\<^sup>*\<^sup>* SS_Admitted SS_PrefillRunning \<and>
   \<not> is_legal_stage_transition\<^sup>*\<^sup>* SS_PrefillRunning SS_Admitted"
proof -
  have "is_legal_stage_transition SS_Admitted SS_PrefillQueued"
    and "is_legal_stage_transition SS_PrefillQueued SS_PrefillRunning"
    by (simp_all add: is_legal_stage_transition_def ss_is_terminal_def)
  then have "is_legal_stage_transition\<^sup>*\<^sup>* SS_Admitted SS_PrefillRunning" by simp
  with stage_machine_acyclic [OF this] show ?thesis by auto
qed

lemma canonical_class_legal:
  "is_serving_active stage \<Longrightarrow> stage \<noteq> SS_Count \<Longrightarrow>
     is_class_legal_for_stage (canonical_class_for_stage stage) stage"
  by (cases stage) (simp_all add: is_class_legal_for_stage_def is_serving_active_def ss_is_terminal_def)

lemma class_legal_not_unknown:
  "is_class_legal_for_stage c stage \<Longrightarrow>
     c \<noteq> TC_Unknown \<and> c \<noteq> TC_Count \<and> is_serving_active stage"
  by (cases stage; cases c)
    (simp_all add: is_class_legal_for_stage_def is_serving_active_def ss_is_terminal_def)

text \<open>
  Stage-aware classification: a class is legal only in an active stage and is then a real
  class; the stage's canonical class is legal in exactly the active stages; and the model and
  adapter bulk transfers are legal in no serving stage.
\<close>

theorem class_stage_legality:
  "(is_class_legal_for_stage c stage \<longrightarrow>
      is_serving_active stage \<and> c \<noteq> TC_Unknown \<and> c \<noteq> TC_Count \<and>
      c \<noteq> TC_ModelTransfer \<and> c \<noteq> TC_AdapterTransfer) \<and>
   (is_class_legal_for_stage (canonical_class_for_stage stage) stage \<longleftrightarrow>
      is_serving_active stage \<and> stage \<noteq> SS_Count)"
proof -
  have "c \<noteq> TC_ModelTransfer \<and> c \<noteq> TC_AdapterTransfer" if "is_class_legal_for_stage c stage"
    using that by (cases stage) (auto simp: is_class_legal_for_stage_def)
  moreover have "is_class_legal_for_stage (canonical_class_for_stage stage) stage \<longleftrightarrow>
      is_serving_active stage \<and> stage \<noteq> SS_Count"
    by (cases stage)
      (simp_all add: is_class_legal_for_stage_def is_serving_active_def ss_is_terminal_def)
  ultimately show ?thesis using class_legal_not_unknown [of c stage] by blast
qed

theorem class_stage_legality_witness:
  "is_class_legal_for_stage TC_DecodeStream SS_Streaming \<and> is_serving_active SS_Streaming"
proof -
  have "is_class_legal_for_stage TC_DecodeStream SS_Streaming"
    by (simp add: is_class_legal_for_stage_def)
  with class_stage_legality [of TC_DecodeStream SS_Streaming] show ?thesis by simp
qed

end
