(* ===== verification/Policy.thy ===== *)
theory Policy
  imports Traffic
begin

text \<open>
  The policy document (\<open>include/itf/policy.hpp\<close>, \<open>src/policy.cpp\<close>): one rule per
  traffic class, structural validation, the reserved-weight total and the canonical default
  document. The fixed array of rules is a list of \<^const>\<open>kTrafficClassCount\<close> entries.
\<close>

definition kReservedWeightScale :: u32 where
  "kReservedWeightScale = 1000"

definition kMaxExplanationHardLimit :: u32 where
  "kMaxExplanationHardLimit = 32"

definition kMicrosecond :: u64 where "kMicrosecond = 1000"

definition kMillisecond :: u64 where "kMillisecond = 1000 * kMicrosecond"

definition kSecond :: u64 where "kSecond = 1000 * kMillisecond"

definition kKib :: u64 where "kKib = 1024"

definition kMib :: u64 where "kMib = 1024 * kKib"

record ClassPolicyRule =
  pr_enabled :: bool
  pr_priority :: PriorityClass
  pr_pacing :: PacingClass
  pr_integrity :: IntegrityClass
  pr_isolation :: IsolationDomain
  pr_reserved_weight :: u32
  pr_max_burst_bytes :: u64
  pr_rate_limit_bytes_per_sec :: u64
  pr_max_in_flight_bytes :: u64
  pr_requires_current_topology :: bool
  pr_requires_slo_contract :: bool
  pr_requires_current_route :: bool
  pr_requires_model_generation :: bool
  pr_requires_state_generation :: bool
  pr_requires_deadline :: bool
  pr_starvation_protected :: bool
  pr_max_defer_count :: u32
  pr_max_defer_horizon_nanos :: u64
  pr_yields_to_latency :: bool

definition ClassPolicyRule_init :: ClassPolicyRule where
  "ClassPolicyRule_init =
     \<lparr> pr_enabled = False, pr_priority = PC_Unknown, pr_pacing = PA_Unknown,
       pr_integrity = IC_Unknown, pr_isolation = ID_Unknown, pr_reserved_weight = 0,
       pr_max_burst_bytes = 0, pr_rate_limit_bytes_per_sec = 0, pr_max_in_flight_bytes = 0,
       pr_requires_current_topology = False, pr_requires_slo_contract = False,
       pr_requires_current_route = False, pr_requires_model_generation = False,
       pr_requires_state_generation = False, pr_requires_deadline = False,
       pr_starvation_protected = False, pr_max_defer_count = 0,
       pr_max_defer_horizon_nanos = 0, pr_yields_to_latency = False \<rparr>"

datatype PolicyVerdict =
    PV_Unknown | PV_Valid | PV_MissingRule | PV_ReservedWeightOverflow | PV_BulkReserved
  | PV_UnsupportedValue | PV_BoundsExceeded | PV_Count

record PolicyConfig =
  p_generation :: generation
  p_rules :: "ClassPolicyRule list"
  p_allow_unknown_stage :: bool
  p_allow_unknown_traffic_class :: bool
  p_max_explanation_steps :: u32
  p_bulk_in_flight_cap_bytes :: u64
  p_congestion_queue_depth :: u32
  p_congestion_yields_bulk :: bool
  p_defer_hint_nanos :: u64
  p_stale_evidence_grace_nanos :: u64

definition PolicyConfig_init :: PolicyConfig where
  "PolicyConfig_init =
     \<lparr> p_generation = 0, p_rules = replicate kTrafficClassCount ClassPolicyRule_init,
       p_allow_unknown_stage = False, p_allow_unknown_traffic_class = False,
       p_max_explanation_steps = 8, p_bulk_in_flight_cap_bytes = 64 * 1024 * 1024,
       p_congestion_queue_depth = 64, p_congestion_yields_bulk = True,
       p_defer_hint_nanos = 2000000, p_stale_evidence_grace_nanos = 0 \<rparr>"

definition is_bulk_rule :: "ClassPolicyRule \<Rightarrow> bool" where
  "is_bulk_rule rule \<longleftrightarrow> pr_yields_to_latency rule \<or> pr_priority rule = PC_Bulk"

definition policy_rule :: "PolicyConfig \<Rightarrow> TrafficClass \<Rightarrow> ClassPolicyRule" where
  "policy_rule p traffic =
     (if tc_index traffic < kTrafficClassCount then p_rules p ! tc_index traffic
      else p_rules p ! 0)"

definition set_rule :: "TrafficClass \<Rightarrow> ClassPolicyRule \<Rightarrow> PolicyConfig \<Rightarrow> StatusCode \<times> PolicyConfig" where
  "set_rule traffic rule p =
     (if tc_index traffic \<ge> kTrafficClassCount then (ST_InvalidArgument, p)
      else (ST_Ok, p\<lparr> p_rules := (p_rules p)[tc_index traffic := rule] \<rparr>))"

definition set_max_explanation_steps :: "u32 \<Rightarrow> PolicyConfig \<Rightarrow> PolicyConfig" where
  "set_max_explanation_steps value p =
     p\<lparr> p_max_explanation_steps :=
          (if value > kMaxExplanationHardLimit then kMaxExplanationHardLimit else value) \<rparr>"

fun reserved_sum :: "ClassPolicyRule list \<Rightarrow> u64 \<Rightarrow> u64" where
  "reserved_sum [] acc = acc"
| "reserved_sum (rule # rules) acc =
     (if \<not> pr_enabled rule then reserved_sum rules acc
      else if is_bulk_rule rule then reserved_sum rules acc
      else reserved_sum rules (acc + ucast (pr_reserved_weight rule)))"

definition reserved_weight_total :: "PolicyConfig \<Rightarrow> u32" where
  "reserved_weight_total p =
     (let acc = reserved_sum (tl (p_rules p)) 0
      in if acc > ucast kReservedWeightScale then kReservedWeightScale else ucast acc)"

definition rule_defect :: "ClassPolicyRule \<Rightarrow> PolicyVerdict option" where
  "rule_defect rule =
     (if pr_priority rule = PC_Unknown \<or> pr_pacing rule = PA_Unknown \<or>
         pr_integrity rule = IC_Unknown \<or> pr_isolation rule = ID_Unknown
      then Some PV_UnsupportedValue
      else if pr_reserved_weight rule > kReservedWeightScale then Some PV_BoundsExceeded
      else if is_bulk_rule rule \<and> pr_reserved_weight rule \<noteq> 0 then Some PV_BulkReserved
      else if pr_starvation_protected rule \<and>
              (pr_max_defer_count rule = 0 \<or> pr_max_defer_horizon_nanos rule = 0)
      then Some PV_BoundsExceeded
      else if pr_requires_deadline rule \<and> pr_max_defer_horizon_nanos rule > 0 \<and>
              pr_max_defer_horizon_nanos rule > kSecond * 60
      then Some PV_BoundsExceeded
      else None)"

fun validate_rules :: "ClassPolicyRule list \<Rightarrow> u64 \<Rightarrow> PolicyVerdict" where
  "validate_rules [] reserved_total =
     (if reserved_total > ucast kReservedWeightScale then PV_ReservedWeightOverflow else PV_Valid)"
| "validate_rules (rule # rules) reserved_total =
     (if \<not> pr_enabled rule then validate_rules rules reserved_total
      else (case rule_defect rule of
              Some verdict \<Rightarrow> verdict
            | None \<Rightarrow>
                if is_bulk_rule rule then validate_rules rules reserved_total
                else validate_rules rules (reserved_total + ucast (pr_reserved_weight rule))))"

definition policy_validate :: "PolicyConfig \<Rightarrow> PolicyVerdict" where
  "policy_validate p =
     (if p_max_explanation_steps p > kMaxExplanationHardLimit then PV_BoundsExceeded
      else if (p_allow_unknown_traffic_class p \<or> p_allow_unknown_stage p) \<and>
              \<not> pr_enabled (p_rules p ! 0)
      then PV_MissingRule
      else validate_rules (p_rules p) 0)"

definition validate_status :: "PolicyConfig \<Rightarrow> StatusCode" where
  "validate_status p = (if policy_validate p = PV_Valid then ST_Ok else ST_PolicyInvalid)"

section \<open>The canonical default document\<close>

definition canonical_rules :: "(TrafficClass \<times> ClassPolicyRule) list" where
  "canonical_rules =
    [(TC_RequestIngress, ClassPolicyRule_init
       \<lparr> pr_enabled := True, pr_priority := PC_Interactive, pr_pacing := PA_Immediate,
         pr_integrity := IC_Checksum, pr_isolation := ID_Interactive, pr_reserved_weight := 100,
         pr_max_burst_bytes := 256 * kKib, pr_max_in_flight_bytes := 16 * kMib,
         pr_requires_slo_contract := True, pr_requires_current_route := True,
         pr_requires_deadline := True, pr_starvation_protected := True,
         pr_max_defer_count := 8, pr_max_defer_horizon_nanos := 50 * kMillisecond \<rparr>),
     (TC_PrefillInput, ClassPolicyRule_init
       \<lparr> pr_enabled := True, pr_priority := PC_Interactive, pr_pacing := PA_Paced,
         pr_integrity := IC_Checksum, pr_isolation := ID_LatencyCritical,
         pr_reserved_weight := 120, pr_max_burst_bytes := 1 * kMib,
         pr_max_in_flight_bytes := 128 * kMib, pr_requires_current_topology := True,
         pr_requires_slo_contract := True, pr_requires_current_route := True,
         pr_requires_model_generation := True, pr_requires_deadline := True,
         pr_starvation_protected := True, pr_max_defer_count := 8,
         pr_max_defer_horizon_nanos := 50 * kMillisecond \<rparr>),
     (TC_PrefillDecodeHandoff, ClassPolicyRule_init
       \<lparr> pr_enabled := True, pr_priority := PC_LatencyCritical, pr_pacing := PA_Immediate,
         pr_integrity := IC_ChecksumAndVerify, pr_isolation := ID_LatencyCritical,
         pr_reserved_weight := 150, pr_max_burst_bytes := 2 * kMib,
         pr_max_in_flight_bytes := 256 * kMib, pr_requires_current_topology := True,
         pr_requires_slo_contract := True, pr_requires_current_route := True,
         pr_requires_model_generation := True, pr_requires_state_generation := True,
         pr_requires_deadline := True, pr_starvation_protected := True,
         pr_max_defer_count := 8, pr_max_defer_horizon_nanos := 50 * kMillisecond \<rparr>),
     (TC_KvTransfer, ClassPolicyRule_init
       \<lparr> pr_enabled := True, pr_priority := PC_LatencyCritical, pr_pacing := PA_Paced,
         pr_integrity := IC_ChecksumAndVerify, pr_isolation := ID_LatencyCritical,
         pr_reserved_weight := 150, pr_max_burst_bytes := 4 * kMib,
         pr_max_in_flight_bytes := 512 * kMib, pr_requires_current_topology := True,
         pr_requires_slo_contract := True, pr_requires_current_route := True,
         pr_requires_model_generation := True, pr_requires_state_generation := True,
         pr_requires_deadline := True, pr_starvation_protected := True,
         pr_max_defer_count := 8, pr_max_defer_horizon_nanos := 50 * kMillisecond \<rparr>),
     (TC_StateTransfer, ClassPolicyRule_init
       \<lparr> pr_enabled := True, pr_priority := PC_Standard, pr_pacing := PA_Paced,
         pr_integrity := IC_ChecksumAndVerify, pr_isolation := ID_Background,
         pr_reserved_weight := 60, pr_max_burst_bytes := 8 * kMib,
         pr_max_in_flight_bytes := 512 * kMib, pr_requires_current_topology := True,
         pr_requires_current_route := True, pr_requires_model_generation := True,
         pr_requires_state_generation := True, pr_starvation_protected := False,
         pr_max_defer_count := 64, pr_max_defer_horizon_nanos := 2 * kSecond \<rparr>),
     (TC_ModelTransfer, ClassPolicyRule_init
       \<lparr> pr_enabled := True, pr_priority := PC_Bulk, pr_pacing := PA_RateLimited,
         pr_integrity := IC_ChecksumAndVerify, pr_isolation := ID_Bulk, pr_reserved_weight := 0,
         pr_max_burst_bytes := 16 * kMib, pr_rate_limit_bytes_per_sec := 512 * kMib,
         pr_requires_current_topology := True, pr_requires_model_generation := True,
         pr_yields_to_latency := True, pr_starvation_protected := False,
         pr_max_defer_count := 256, pr_max_defer_horizon_nanos := 30 * kSecond \<rparr>),
     (TC_AdapterTransfer, ClassPolicyRule_init
       \<lparr> pr_enabled := True, pr_priority := PC_Bulk, pr_pacing := PA_RateLimited,
         pr_integrity := IC_Checksum, pr_isolation := ID_Bulk, pr_reserved_weight := 0,
         pr_max_burst_bytes := 8 * kMib, pr_rate_limit_bytes_per_sec := 256 * kMib,
         pr_requires_current_topology := True, pr_requires_model_generation := True,
         pr_yields_to_latency := True, pr_starvation_protected := False,
         pr_max_defer_count := 256, pr_max_defer_horizon_nanos := 30 * kSecond \<rparr>),
     (TC_DecodeStream, ClassPolicyRule_init
       \<lparr> pr_enabled := True, pr_priority := PC_LatencyCritical, pr_pacing := PA_Paced,
         pr_integrity := IC_Checksum, pr_isolation := ID_LatencyCritical,
         pr_reserved_weight := 200, pr_max_burst_bytes := 512 * kKib,
         pr_max_in_flight_bytes := 256 * kMib, pr_requires_slo_contract := True,
         pr_requires_current_route := True, pr_requires_model_generation := True,
         pr_requires_deadline := True, pr_starvation_protected := True,
         pr_max_defer_count := 8, pr_max_defer_horizon_nanos := 50 * kMillisecond \<rparr>),
     (TC_SpeculativeBranch, ClassPolicyRule_init
       \<lparr> pr_enabled := True, pr_priority := PC_Background, pr_pacing := PA_BestEffort,
         pr_integrity := IC_Checksum, pr_isolation := ID_Background, pr_reserved_weight := 0,
         pr_max_burst_bytes := 1 * kMib, pr_max_in_flight_bytes := 64 * kMib,
         pr_requires_current_route := True, pr_requires_model_generation := True,
         pr_yields_to_latency := True, pr_starvation_protected := False,
         pr_max_defer_count := 64, pr_max_defer_horizon_nanos := 5 * kSecond \<rparr>),
     (TC_ResponseEgress, ClassPolicyRule_init
       \<lparr> pr_enabled := True, pr_priority := PC_Interactive, pr_pacing := PA_Immediate,
         pr_integrity := IC_Checksum, pr_isolation := ID_Interactive, pr_reserved_weight := 100,
         pr_max_burst_bytes := 256 * kKib, pr_max_in_flight_bytes := 64 * kMib,
         pr_requires_slo_contract := True, pr_requires_current_route := True,
         pr_requires_deadline := True, pr_starvation_protected := True,
         pr_max_defer_count := 8, pr_max_defer_horizon_nanos := 50 * kMillisecond \<rparr>),
     (TC_Control, ClassPolicyRule_init
       \<lparr> pr_enabled := True, pr_priority := PC_LatencyCritical, pr_pacing := PA_Immediate,
         pr_integrity := IC_ChecksumAndVerify, pr_isolation := ID_Control,
         pr_reserved_weight := 20, pr_max_burst_bytes := 64 * kKib,
         pr_max_in_flight_bytes := 16 * kMib, pr_starvation_protected := True,
         pr_max_defer_count := 32, pr_max_defer_horizon_nanos := 1 * kSecond \<rparr>),
     (TC_Unknown, ClassPolicyRule_init\<lparr> pr_enabled := False \<rparr>)]"

definition canonical_defaults :: "generation \<Rightarrow> PolicyConfig" where
  "canonical_defaults gen =
     fold (\<lambda>(traffic, rule) p. snd (set_rule traffic rule p)) canonical_rules
       (PolicyConfig_init\<lparr> p_generation := gen \<rparr>)"

section \<open>Lemmas\<close>

text \<open>The weight a rule reserves, as a mathematical number, and the sum of the reservations.\<close>

definition rule_reservation :: "ClassPolicyRule \<Rightarrow> nat" where
  "rule_reservation rule =
     (if pr_enabled rule \<and> \<not> is_bulk_rule rule then unat (pr_reserved_weight rule) else 0)"

lemma rule_defect_not_valid [simp]: "rule_defect rule \<noteq> Some PV_Valid"
  by (simp add: rule_defect_def)

lemma rule_defect_weight: "rule_defect rule = None \<Longrightarrow> unat (pr_reserved_weight rule) \<le> 1000"
  by (auto simp: rule_defect_def kReservedWeightScale_def word_le_nat_alt not_less split: if_splits)

lemma unat_ucast_u32_u64 [simp]: "unat (ucast (w :: u32) :: u64) = unat w"
proof -
  have "unat w < 2 ^ 32" using unsigned_less [of w, where ?'a = nat] by simp
  then have "unat w < 2 ^ 64" by simp
  then show ?thesis by (simp add: unsigned_ucast_eq take_bit_nat_eq_self)
qed

lemma unat_add_weight:
  "unat (acc :: u64) + n < 2 ^ 64 \<Longrightarrow> unat (w :: u32) \<le> n \<Longrightarrow> unat (acc + ucast w) = unat acc + unat w"
  by (simp add: unat_word_ariths)

lemma validate_rules_iff:
  "unat acc + length rules * 1000 < 2 ^ 64 \<Longrightarrow>
   validate_rules rules acc = PV_Valid \<longleftrightarrow>
     (\<forall>rule \<in> set rules. pr_enabled rule \<longrightarrow> rule_defect rule = None) \<and>
     unat acc + sum_list (map rule_reservation rules) \<le> 1000"
proof (induction rules arbitrary: acc)
  case Nil
  then show ?case by (simp add: kReservedWeightScale_def word_less_nat_alt)
next
  case (Cons rule rules)
  show ?case
  proof (cases "pr_enabled rule \<and> rule_defect rule = None \<and> \<not> is_bulk_rule rule")
    case True
    then have w: "unat (pr_reserved_weight rule) \<le> 1000" by (simp add: rule_defect_weight)
    have e: "unat (acc + ucast (pr_reserved_weight rule)) = unat acc + unat (pr_reserved_weight rule)"
      by (rule unat_add_weight [of _ 1000]) (use Cons.prems w in simp_all)
    with Cons.IH [of "acc + ucast (pr_reserved_weight rule)"] Cons.prems True w
    show ?thesis by (simp add: rule_reservation_def add.assoc)
  next
    case False
    with Cons.IH [of acc] Cons.prems show ?thesis
      by (auto simp: rule_reservation_def split: option.splits)
  qed
qed

lemma reserved_sum_exact:
  "unat acc + sum_list (map rule_reservation rules) < 2 ^ 64 \<Longrightarrow>
   unat (reserved_sum rules acc) = unat acc + sum_list (map rule_reservation rules)"
proof (induction rules arbitrary: acc)
  case Nil
  show ?case by simp
next
  case (Cons rule rules)
  show ?case
  proof (cases "pr_enabled rule \<and> \<not> is_bulk_rule rule")
    case True
    have e: "unat (acc + ucast (pr_reserved_weight rule)) = unat acc + unat (pr_reserved_weight rule)"
      by (rule unat_add_weight [of _ "unat (pr_reserved_weight rule)"])
        (use Cons.prems True in \<open>simp_all add: rule_reservation_def\<close>)
    with Cons.IH [of "acc + ucast (pr_reserved_weight rule)"] Cons.prems True
    show ?thesis by (simp add: rule_reservation_def)
  next
    case False
    with Cons.IH [of acc] Cons.prems show ?thesis by (auto simp: rule_reservation_def)
  qed
qed

lemma policy_validate_iff:
  assumes "length (p_rules p) = kTrafficClassCount"
  shows "policy_validate p = PV_Valid \<longleftrightarrow>
     unat (p_max_explanation_steps p) \<le> 32 \<and>
     (p_allow_unknown_traffic_class p \<or> p_allow_unknown_stage p \<longrightarrow> pr_enabled (p_rules p ! 0)) \<and>
     (\<forall>rule \<in> set (p_rules p). pr_enabled rule \<longrightarrow> rule_defect rule = None) \<and>
     sum_list (map rule_reservation (p_rules p)) \<le> 1000"
proof -
  have "validate_rules (p_rules p) 0 = PV_Valid \<longleftrightarrow>
     (\<forall>rule \<in> set (p_rules p). pr_enabled rule \<longrightarrow> rule_defect rule = None) \<and>
     sum_list (map rule_reservation (p_rules p)) \<le> 1000"
    using validate_rules_iff [of 0 "p_rules p"] assms by (simp add: kTrafficClassCount_def)
  then show ?thesis
    by (auto simp: policy_validate_def kMaxExplanationHardLimit_def word_less_nat_alt)
qed

lemma policy_rule_in:
  "length (p_rules p) = kTrafficClassCount \<Longrightarrow> policy_rule p c \<in> set (p_rules p)"
  by (auto simp: policy_rule_def kTrafficClassCount_def intro!: nth_mem)

lemma valid_rule_facts:
  assumes "rule_defect rule = None"
  shows "pr_priority rule \<noteq> PC_Unknown" "pr_pacing rule \<noteq> PA_Unknown"
    "pr_integrity rule \<noteq> IC_Unknown" "pr_isolation rule \<noteq> ID_Unknown"
    "is_bulk_rule rule \<Longrightarrow> pr_reserved_weight rule = 0"
    "pr_starvation_protected rule \<Longrightarrow> 0 < pr_max_defer_count rule"
    "pr_starvation_protected rule \<Longrightarrow> 0 < pr_max_defer_horizon_nanos rule"
  using assms by (auto simp: rule_defect_def word_gt_0 split: if_splits)

lemma length_fold_set_rule:
  "length (p_rules (fold (\<lambda>(traffic, rule) p. snd (set_rule traffic rule p)) rs p)) = length (p_rules p)"
  by (induction rs arbitrary: p) (auto simp: set_rule_def)

lemma length_canonical_rules [simp]: "length (p_rules (canonical_defaults gen)) = kTrafficClassCount"
  by (simp add: canonical_defaults_def length_fold_set_rule PolicyConfig_init_def)


lemma canonical_valid: "validate_status (canonical_defaults gen) = ST_Ok"
  by code_simp

text \<open>
  The canonical default document always validates, reserves exactly 900 of the 1000
  thousandths of fabric capacity, reserves nothing for any bulk rule, and enables the rule of
  every traffic class except the unknown one.
\<close>

theorem canonical_defaults_valid:
  "validate_status (canonical_defaults gen) = ST_Ok \<and>
   reserved_weight_total (canonical_defaults gen) = 900 \<and>
   p_generation (canonical_defaults gen) = gen \<and>
   list_all (\<lambda>r. pr_reserved_weight r = 0) (filter is_bulk_rule (p_rules (canonical_defaults gen))) \<and>
   list_all (\<lambda>c. pr_enabled (policy_rule (canonical_defaults gen) c) = (c \<noteq> TC_Unknown)) traffic_classes"
  by code_simp


end
