(* ===== verification/Decision.thy ===== *)
theory Decision
  imports Policy
begin

text \<open>
  Decisions, reason codes, explanations, authority stamps, evidence records and accounting
  counters (\<open>include/itf/decision.hpp\<close>, \<open>authority.hpp\<close>, \<open>evidence.hpp\<close>,
  \<open>accounting.hpp\<close> and their sources).
\<close>

section \<open>Authority stamps\<close>

record AuthorityStamp =
  au_epoch :: generation
  au_incarnation :: BootId
  au_policy :: generation
  au_sequence :: generation

definition AuthorityStamp_init :: AuthorityStamp where
  "AuthorityStamp_init = \<lparr> au_epoch = 0, au_incarnation = nil_id, au_policy = 0, au_sequence = 0 \<rparr>"

definition stamp_is_valid :: "AuthorityStamp \<Rightarrow> bool" where
  "stamp_is_valid s \<longleftrightarrow>
     \<not> is_unset (au_epoch s) \<and> \<not> is_nil (au_incarnation s) \<and> \<not> is_unset (au_policy s) \<and>
     \<not> is_unset (au_sequence s)"

definition same_incarnation :: "AuthorityStamp \<Rightarrow> AuthorityStamp \<Rightarrow> bool" where
  "same_incarnation a b \<longleftrightarrow> au_epoch a = au_epoch b \<and> au_incarnation a = au_incarnation b"

datatype AuthorityVerdict =
  AV_Unknown | AV_Current | AV_StaleEpoch | AV_StalePolicy | AV_StaleIncarnation | AV_Absent | AV_Count

definition validate_authority ::
  "AuthorityStamp \<Rightarrow> generation \<Rightarrow> BootId \<Rightarrow> generation \<Rightarrow> AuthorityVerdict" where
  "validate_authority stamp current_epoch current_incarnation current_policy =
     (if is_unset (au_epoch stamp) \<or> is_nil (au_incarnation stamp) then AV_Absent
      else if au_epoch stamp \<noteq> current_epoch then AV_StaleEpoch
      else if au_incarnation stamp \<noteq> current_incarnation then AV_StaleIncarnation
      else if au_policy stamp \<noteq> current_policy then AV_StalePolicy
      else if is_unset (au_sequence stamp) then AV_Absent
      else AV_Current)"

section \<open>Outcomes, reasons and explanations\<close>

datatype DecisionOutcome = DO_Unknown | DO_Allowed | DO_Degraded | DO_Deferred | DO_Rejected | DO_Count

datatype ReasonCode =
    RC_Unknown | RC_Admitted | RC_AdmittedStarvationGuard | RC_AdmittedConservative
  | RC_DegradedStageClaimOverridden | RC_DegradedClassRederived | RC_DegradedStaleTopology
  | RC_DegradedMissingSloContract | RC_DegradedIntegrityRaised | RC_DegradedPriorityLowered
  | RC_DeferredCapacity | RC_DeferredCongestion | RC_DeferredBulkYield | RC_DeferredBulkCapacity
  | RC_DeferredBulkConcurrency | RC_RejectedUnknownRequest | RC_RejectedUnknownAttempt
  | RC_RejectedRequestCancelled | RC_RejectedRequestTerminal | RC_RejectedStaleAttempt
  | RC_RejectedStaleRequestGeneration | RC_RejectedStaleRouteDecision
  | RC_RejectedStaleModelGeneration | RC_RejectedStaleStateGeneration
  | RC_RejectedStaleSloContract | RC_RejectedStaleTopologyGeneration
  | RC_RejectedStalePolicyGeneration | RC_RejectedStaleEpoch | RC_RejectedStaleAuthority
  | RC_RejectedUnknownStage | RC_RejectedUnknownClass | RC_RejectedClassNotLegalForStage
  | RC_RejectedClassDisabled | RC_RejectedSubjectKindMismatch | RC_RejectedUnknownTransfer
  | RC_RejectedEvidenceUnknown | RC_RejectedEvidenceStale | RC_RejectedRevalidationRequired
  | RC_RejectedDeadlineExpired | RC_RejectedCapacityExhausted | RC_RejectedFlowLimit
  | RC_RejectedNotAuthorized | RC_RejectedIntegrityUnavailable | RC_RejectedDuplicateCompletion
  | RC_RejectedTransferAlreadyTerminal | RC_CommittedCompletion | RC_DuplicateCompletionSuppressed
  | RC_AttemptFailed | RC_AttemptSuperseded | RC_Cancelled | RC_Count

fun rc_value :: "ReasonCode \<Rightarrow> nat" where
  "rc_value RC_Unknown = 0"
| "rc_value RC_Admitted = 1"
| "rc_value RC_AdmittedStarvationGuard = 2"
| "rc_value RC_AdmittedConservative = 3"
| "rc_value RC_DegradedStageClaimOverridden = 4"
| "rc_value RC_DegradedClassRederived = 5"
| "rc_value RC_DegradedStaleTopology = 6"
| "rc_value RC_DegradedMissingSloContract = 7"
| "rc_value RC_DegradedIntegrityRaised = 8"
| "rc_value RC_DegradedPriorityLowered = 9"
| "rc_value RC_DeferredCapacity = 10"
| "rc_value RC_DeferredCongestion = 11"
| "rc_value RC_DeferredBulkYield = 12"
| "rc_value RC_DeferredBulkCapacity = 13"
| "rc_value RC_DeferredBulkConcurrency = 14"
| "rc_value RC_RejectedUnknownRequest = 15"
| "rc_value RC_RejectedUnknownAttempt = 16"
| "rc_value RC_RejectedRequestCancelled = 17"
| "rc_value RC_RejectedRequestTerminal = 18"
| "rc_value RC_RejectedStaleAttempt = 19"
| "rc_value RC_RejectedStaleRequestGeneration = 20"
| "rc_value RC_RejectedStaleRouteDecision = 21"
| "rc_value RC_RejectedStaleModelGeneration = 22"
| "rc_value RC_RejectedStaleStateGeneration = 23"
| "rc_value RC_RejectedStaleSloContract = 24"
| "rc_value RC_RejectedStaleTopologyGeneration = 25"
| "rc_value RC_RejectedStalePolicyGeneration = 26"
| "rc_value RC_RejectedStaleEpoch = 27"
| "rc_value RC_RejectedStaleAuthority = 28"
| "rc_value RC_RejectedUnknownStage = 29"
| "rc_value RC_RejectedUnknownClass = 30"
| "rc_value RC_RejectedClassNotLegalForStage = 31"
| "rc_value RC_RejectedClassDisabled = 32"
| "rc_value RC_RejectedSubjectKindMismatch = 33"
| "rc_value RC_RejectedUnknownTransfer = 34"
| "rc_value RC_RejectedEvidenceUnknown = 35"
| "rc_value RC_RejectedEvidenceStale = 36"
| "rc_value RC_RejectedRevalidationRequired = 37"
| "rc_value RC_RejectedDeadlineExpired = 38"
| "rc_value RC_RejectedCapacityExhausted = 39"
| "rc_value RC_RejectedFlowLimit = 40"
| "rc_value RC_RejectedNotAuthorized = 41"
| "rc_value RC_RejectedIntegrityUnavailable = 42"
| "rc_value RC_RejectedDuplicateCompletion = 43"
| "rc_value RC_RejectedTransferAlreadyTerminal = 44"
| "rc_value RC_CommittedCompletion = 45"
| "rc_value RC_DuplicateCompletionSuppressed = 46"
| "rc_value RC_AttemptFailed = 47"
| "rc_value RC_AttemptSuperseded = 48"
| "rc_value RC_Cancelled = 49"
| "rc_value RC_Count = 50"

definition is_rejection :: "ReasonCode \<Rightarrow> bool" where
  "is_rejection value \<longleftrightarrow>
     rc_value value \<ge> rc_value RC_RejectedUnknownRequest \<and>
     rc_value value \<le> rc_value RC_RejectedTransferAlreadyTerminal"

definition is_deferral :: "ReasonCode \<Rightarrow> bool" where
  "is_deferral value \<longleftrightarrow>
     rc_value value \<ge> rc_value RC_DeferredCapacity \<and>
     rc_value value \<le> rc_value RC_DeferredBulkConcurrency"

definition is_admission :: "ReasonCode \<Rightarrow> bool" where
  "is_admission value \<longleftrightarrow>
     value = RC_Admitted \<or> value = RC_AdmittedStarvationGuard \<or> value = RC_AdmittedConservative \<or>
     value = RC_DegradedStageClaimOverridden \<or> value = RC_DegradedClassRederived \<or>
     value = RC_DegradedStaleTopology \<or> value = RC_DegradedMissingSloContract \<or>
     value = RC_DegradedIntegrityRaised \<or> value = RC_DegradedPriorityLowered"

datatype ExplanationRule =
    ER_Unknown | ER_AuthorityBinding | ER_RequestLookup | ER_StageResolution
  | ER_ClassClassification | ER_PolicyRule | ER_TopologyEvidence | ER_SloContract
  | ER_RouteDecision | ER_ModelGeneration | ER_StateGeneration | ER_Capacity | ER_Congestion
  | ER_BulkIsolation | ER_StarvationGuard | ER_Deadline | ER_DeferState | ER_FlowAccounting
  | ER_TerminalState | ER_TransferBinding | ER_Count

definition kMaxExplanationSteps :: nat where
  "kMaxExplanationSteps = 24"

record ExplanationStep =
  es_rule :: ExplanationRule
  es_value :: i64
  es_secondary :: i64

text \<open>
  The explanation accumulator is a fixed array and a count; the model keeps the list of the
  steps recorded so far, whose length is the count.
\<close>

type_synonym ExplanationLog = "ExplanationStep list"

definition log_add ::
  "ExplanationRule \<Rightarrow> i64 \<Rightarrow> i64 \<Rightarrow> u32 \<Rightarrow> ExplanationLog \<Rightarrow> ExplanationLog" where
  "log_add rule value secondary limit steps =
     (if length steps \<ge> kMaxExplanationSteps \<or> length steps \<ge> unat limit then steps
      else steps @ [\<lparr> es_rule = rule, es_value = value, es_secondary = secondary \<rparr>])"

record Decision =
  d_outcome :: DecisionOutcome
  d_reason :: ReasonCode
  d_treatment :: TrafficTreatment
  d_subject :: TrafficSubject
  d_binding :: GenerationBinding
  d_authority :: AuthorityStamp
  d_defer_hint_nanos :: u64
  d_explanation :: ExplanationLog

definition Decision_init :: Decision where
  "Decision_init =
     \<lparr> d_outcome = DO_Unknown, d_reason = RC_Unknown, d_treatment = TrafficTreatment_init,
       d_subject = TrafficSubject_init, d_binding = GenerationBinding_init,
       d_authority = AuthorityStamp_init, d_defer_hint_nanos = 0, d_explanation = [] \<rparr>"

definition permits_traffic :: "Decision \<Rightarrow> bool" where
  "permits_traffic d \<longleftrightarrow> d_outcome d = DO_Allowed \<or> d_outcome d = DO_Degraded"

definition is_authority_denial :: "Decision \<Rightarrow> bool" where
  "is_authority_denial d =
     (if d_outcome d \<noteq> DO_Rejected then False
      else d_reason d \<in>
        {RC_RejectedUnknownRequest, RC_RejectedUnknownAttempt, RC_RejectedRequestCancelled,
         RC_RejectedRequestTerminal, RC_RejectedStaleAttempt, RC_RejectedStaleRequestGeneration,
         RC_RejectedStaleRouteDecision, RC_RejectedStaleModelGeneration,
         RC_RejectedStaleStateGeneration, RC_RejectedStaleSloContract,
         RC_RejectedStaleTopologyGeneration, RC_RejectedStalePolicyGeneration,
         RC_RejectedStaleEpoch, RC_RejectedStaleAuthority, RC_RejectedNotAuthorized,
         RC_RejectedRevalidationRequired, RC_RejectedUnknownTransfer})"

section \<open>Evidence\<close>

datatype EvidenceState = EV_Unknown | EV_Current | EV_Stale | EV_RevalidationRequired | EV_Count

fun ev_index :: "EvidenceState \<Rightarrow> nat" where
  "ev_index EV_Unknown = 0"
| "ev_index EV_Current = 1"
| "ev_index EV_Stale = 2"
| "ev_index EV_RevalidationRequired = 3"
| "ev_index EV_Count = 4"

datatype EvidenceProvenance = EP_Unknown | EP_Synthetic | EP_Measured | EP_Count

record TopologyEvidence =
  te_generation :: generation
  te_provenance :: EvidenceProvenance
  te_observed_boot :: BootId
  te_observed_at_nanos :: i64
  te_max_age_nanos :: u64
  te_node_count :: u32
  te_accelerator_count :: u32
  te_link_count :: u32
  te_fabric_bytes_per_sec :: u64
  te_queue_depth :: u32
  te_congestion_signalled :: bool
  te_disaggregated :: bool

definition TopologyEvidence_init :: TopologyEvidence where
  "TopologyEvidence_init =
     \<lparr> te_generation = 0, te_provenance = EP_Unknown, te_observed_boot = nil_id,
       te_observed_at_nanos = 0, te_max_age_nanos = 0, te_node_count = 0,
       te_accelerator_count = 0, te_link_count = 0, te_fabric_bytes_per_sec = 0,
       te_queue_depth = 0, te_congestion_signalled = False, te_disaggregated = False \<rparr>"

definition topology_is_valid :: "TopologyEvidence \<Rightarrow> bool" where
  "topology_is_valid e =
     (if te_provenance e = EP_Unknown then False
      else if te_node_count e = 0 then False
      else if te_link_count e > te_node_count e * te_node_count e then False
      else if te_accelerator_count e > te_node_count e * 64 then False
      else True)"

definition topology_is_authoritative :: "TopologyEvidence \<Rightarrow> bool" where
  "topology_is_authoritative e \<longleftrightarrow>
     topology_is_valid e \<and> \<not> is_unset (te_generation e) \<and> \<not> is_nil (te_observed_boot e)"

record SloContract =
  slo_generation :: generation
  slo_request :: RequestId
  slo_tail_latency_budget_nanos :: u64
  slo_registration_deadline_nanos :: u64
  slo_min_stream_share_per_mille :: u32

definition slo_is_valid :: "SloContract \<Rightarrow> bool" where
  "slo_is_valid c \<longleftrightarrow>
     \<not> is_unset (slo_generation c) \<and> \<not> is_nil (slo_request c) \<and>
     slo_tail_latency_budget_nanos c > 0 \<and> slo_min_stream_share_per_mille c \<le> 1000"

record RouteDecision =
  rt_generation :: generation
  rt_request :: RequestId
  rt_attempt :: AttemptId
  rt_target_node :: u32
  rt_lateral :: bool
  rt_disaggregated_handoff :: bool

definition route_is_valid :: "RouteDecision \<Rightarrow> bool" where
  "route_is_valid r \<longleftrightarrow>
     \<not> is_unset (rt_generation r) \<and> \<not> is_nil (rt_request r) \<and> \<not> is_nil (rt_attempt r)"

record ModelState =
  ms_model_hash :: u64
  ms_generation :: generation
  ms_requires_revalidation :: bool

definition model_is_valid :: "ModelState \<Rightarrow> bool" where
  "model_is_valid m \<longleftrightarrow> ms_model_hash m \<noteq> 0 \<and> \<not> is_unset (ms_generation m)"

record StateGenerationRecord =
  sg_state_hash :: u64
  sg_generation :: generation
  sg_requires_revalidation :: bool

definition state_is_valid :: "StateGenerationRecord \<Rightarrow> bool" where
  "state_is_valid r \<longleftrightarrow> sg_state_hash r \<noteq> 0 \<and> \<not> is_unset (sg_generation r)"

section \<open>Accounting counters\<close>

record ClassAccounting =
  ca_allowed :: u64
  ca_degraded :: u64
  ca_deferred :: u64
  ca_rejected :: u64
  ca_bytes_allowed :: u64
  ca_bytes_deferred :: u64
  ca_bytes_rejected :: u64
  ca_active_flows :: u32
  ca_peak_active_flows :: u32
  ca_starvation_admissions :: u32

definition ClassAccounting_init :: ClassAccounting where
  "ClassAccounting_init =
     \<lparr> ca_allowed = 0, ca_degraded = 0, ca_deferred = 0, ca_rejected = 0, ca_bytes_allowed = 0,
       ca_bytes_deferred = 0, ca_bytes_rejected = 0, ca_active_flows = 0,
       ca_peak_active_flows = 0, ca_starvation_admissions = 0 \<rparr>"

record AccountingSnapshot =
  ac_per_class :: "ClassAccounting list"
  ac_requests_registered :: u64
  ac_requests_completed :: u64
  ac_requests_cancelled :: u64
  ac_requests_failed :: u64
  ac_requests_interrupted :: u64
  ac_requests_evicted :: u64
  ac_attempts_registered :: u64
  ac_attempts_completed :: u64
  ac_attempts_failed :: u64
  ac_attempts_superseded :: u64
  ac_completions_committed :: u64
  ac_completions_suppressed :: u64
  ac_completions_refused :: u64
  ac_transfers_started :: u64
  ac_transfers_completed :: u64
  ac_transfers_refused :: u64
  ac_active_flows_total :: u32
  ac_peak_active_flows_total :: u32
  ac_pending_deferrals :: u32
  ac_live_requests :: u64
  ac_retained_requests :: u64

definition AccountingSnapshot_init :: AccountingSnapshot where
  "AccountingSnapshot_init =
     \<lparr> ac_per_class = replicate kTrafficClassCount ClassAccounting_init,
       ac_requests_registered = 0, ac_requests_completed = 0, ac_requests_cancelled = 0,
       ac_requests_failed = 0, ac_requests_interrupted = 0, ac_requests_evicted = 0,
       ac_attempts_registered = 0, ac_attempts_completed = 0, ac_attempts_failed = 0,
       ac_attempts_superseded = 0, ac_completions_committed = 0, ac_completions_suppressed = 0,
       ac_completions_refused = 0, ac_transfers_started = 0, ac_transfers_completed = 0,
       ac_transfers_refused = 0, ac_active_flows_total = 0, ac_peak_active_flows_total = 0,
       ac_pending_deferrals = 0, ac_live_requests = 0, ac_retained_requests = 0 \<rparr>"

definition accounting_closed :: "AccountingSnapshot \<Rightarrow> bool" where
  "accounting_closed a \<longleftrightarrow> ac_active_flows_total a = 0"

section \<open>Lemmas\<close>

lemma reason_partition:
  "is_rejection r \<Longrightarrow> \<not> is_deferral r \<and> \<not> is_admission r"
  "is_deferral r \<Longrightarrow> \<not> is_rejection r \<and> \<not> is_admission r"
  "is_admission r \<Longrightarrow> \<not> is_rejection r \<and> \<not> is_deferral r"
  by (cases r; simp add: is_rejection_def is_deferral_def is_admission_def)+

lemma validate_authority_current_iff:
  "validate_authority s e i p = AV_Current \<longleftrightarrow>
     au_epoch s = e \<and> au_incarnation s = i \<and> au_policy s = p \<and>
     e \<noteq> 0 \<and> i \<noteq> nil_id \<and> au_sequence s \<noteq> 0"
  by (auto simp: validate_authority_def)

lemma log_add_length:
  "length steps \<le> kMaxExplanationSteps \<Longrightarrow> length steps \<le> unat limit \<Longrightarrow>
   length (log_add r v w limit steps) \<le> min kMaxExplanationSteps (unat limit)"
  by (auto simp: log_add_def)

lemma log_add_prefix: "\<exists>more. log_add r v w limit steps = steps @ more"
  by (simp add: log_add_def)

end
