(* ===== verification/Ledger.thy ===== *)
theory Ledger
  imports Decision
begin

text \<open>
  The request ledger (\<open>include/itf/ledger.hpp\<close>, \<open>src/ledger.cpp\<close>): the lifecycle of
  requests and attempts, flow accounting, completion publication, cancellation and the bounded
  retention of terminal records. One definition per member function of \<open>RequestLedger\<close>; an
  operation takes its arguments and the ledger and returns its result with the new ledger.

  A reference to a record inside the hash table is modelled by looking the record up, updating
  the value and putting it back under the same key.
\<close>

unbundle bit_operations_syntax

section \<open>Data\<close>

definition kMaxAttemptsPerRequest :: u32 where
  "kMaxAttemptsPerRequest = 8"

datatype RequestLifecycle =
    RL_Unknown | RL_Registered | RL_Active | RL_Completing | RL_Completed | RL_Cancelled
  | RL_Failed | RL_Interrupted | RL_Count

definition is_live_lifecycle :: "RequestLifecycle \<Rightarrow> bool" where
  "is_live_lifecycle lifecycle \<longleftrightarrow>
     lifecycle = RL_Registered \<or> lifecycle = RL_Active \<or> lifecycle = RL_Completing \<or>
     lifecycle = RL_Interrupted"

definition rl_terminal :: "RequestLifecycle \<Rightarrow> bool" where
  "rl_terminal value \<longleftrightarrow> value = RL_Completed \<or> value = RL_Cancelled \<or> value = RL_Failed"

datatype AttemptLifecycle =
    AL_Unknown | AL_Registered | AL_Active | AL_Draining | AL_Completed | AL_Failed
  | AL_Cancelled | AL_Superseded | AL_Count

definition al_terminal :: "AttemptLifecycle \<Rightarrow> bool" where
  "al_terminal value \<longleftrightarrow>
     value = AL_Completed \<or> value = AL_Failed \<or> value = AL_Cancelled \<or> value = AL_Superseded"

record LedgerLimits =
  ll_max_live_requests :: u32
  ll_max_attempts_per_request :: u32
  ll_max_retained_terminal_requests :: u32
  ll_max_active_flows_per_request :: u32
  ll_max_active_flows_total :: u32

definition LedgerLimits_init :: LedgerLimits where
  "LedgerLimits_init =
     \<lparr> ll_max_live_requests = 4096, ll_max_attempts_per_request = kMaxAttemptsPerRequest,
       ll_max_retained_terminal_requests = 2048, ll_max_active_flows_per_request = 64,
       ll_max_active_flows_total = 65536 \<rparr>"

record AttemptRecord =
  a_id :: AttemptId
  a_generation :: generation
  a_stage :: ServingStage
  a_lifecycle :: AttemptLifecycle
  a_model_hash :: u64
  a_model_generation :: generation
  a_route_generation :: generation
  a_success_published :: bool
  a_failure_published :: bool
  a_terminal_reason :: ReasonCode
  a_bytes_in :: u64
  a_bytes_out :: u64
  a_decisions :: u32
  a_defers :: u32
  a_rejections :: u32
  a_registered_at_nanos :: i64
  a_updated_at_nanos :: i64

definition AttemptRecord_init :: AttemptRecord where
  "AttemptRecord_init =
     \<lparr> a_id = nil_id, a_generation = 0, a_stage = SS_Unknown, a_lifecycle = AL_Unknown,
       a_model_hash = 0, a_model_generation = 0, a_route_generation = 0,
       a_success_published = False, a_failure_published = False, a_terminal_reason = RC_Unknown,
       a_bytes_in = 0, a_bytes_out = 0, a_decisions = 0, a_defers = 0, a_rejections = 0,
       a_registered_at_nanos = 0, a_updated_at_nanos = 0 \<rparr>"

record RequestRecord =
  r_id :: RequestId
  r_generation :: generation
  r_lifecycle :: RequestLifecycle
  r_stage :: ServingStage
  r_current_attempt :: AttemptId
  r_current_attempt_generation :: generation
  r_attempt_count :: u32
  r_attempts :: "AttemptRecord list"
  r_terminal_reason :: ReasonCode
  r_registered_at_nanos :: i64
  r_terminal_at_nanos :: i64
  r_requires_revalidation :: bool
  r_accounting_closed :: bool
  r_bytes_in :: u64
  r_bytes_out :: u64
  r_decisions :: u32
  r_defers :: u32
  r_rejections :: u32
  r_active_flows :: u32
  r_authority_floor :: generation

definition RequestRecord_init :: RequestRecord where
  "RequestRecord_init =
     \<lparr> r_id = nil_id, r_generation = 0, r_lifecycle = RL_Unknown, r_stage = SS_Unknown,
       r_current_attempt = nil_id, r_current_attempt_generation = 0, r_attempt_count = 0,
       r_attempts = replicate (unat kMaxAttemptsPerRequest) AttemptRecord_init,
       r_terminal_reason = RC_Unknown, r_registered_at_nanos = 0, r_terminal_at_nanos = 0,
       r_requires_revalidation = False, r_accounting_closed = False, r_bytes_in = 0,
       r_bytes_out = 0, r_decisions = 0, r_defers = 0, r_rejections = 0, r_active_flows = 0,
       r_authority_floor = 0 \<rparr>"

text \<open>The attempt a lookup returns a pointer to, as an index into the attempt array.\<close>

definition find_attempt :: "RequestRecord \<Rightarrow> AttemptId \<Rightarrow> nat option" where
  "find_attempt r attempt_id =
     find (\<lambda>index. a_id (r_attempts r ! index) = attempt_id)
       [0 ..< min (unat (r_attempt_count r)) (unat kMaxAttemptsPerRequest)]"

definition is_current_attempt :: "RequestRecord \<Rightarrow> AttemptId \<Rightarrow> bool" where
  "is_current_attempt r attempt_id \<longleftrightarrow>
     \<not> is_nil (r_current_attempt r) \<and> r_current_attempt r = attempt_id"

record CompletionPublication =
  cp_request :: RequestId
  cp_attempt :: AttemptId
  cp_attempt_generation :: generation
  cp_success :: bool
  cp_reason :: ReasonCode
  cp_bytes_in :: u64
  cp_bytes_out :: u64

datatype Disposition =
  DI_Unknown | DI_Committed | DI_DuplicateSuppressed | DI_Refused | DI_Count

record PublishOutcome =
  po_disposition :: Disposition
  po_refusal :: StatusCode
  po_reason :: ReasonCode
  po_accounted_bytes_in :: u64
  po_accounted_bytes_out :: u64
  po_released_flows :: u32

definition PublishOutcome_init :: PublishOutcome where
  "PublishOutcome_init =
     \<lparr> po_disposition = DI_Unknown, po_refusal = ST_Ok, po_reason = RC_Unknown,
       po_accounted_bytes_in = 0, po_accounted_bytes_out = 0, po_released_flows = 0 \<rparr>"

record FlowRecord =
  f_id :: FlowId
  f_request :: RequestId
  f_attempt :: AttemptId
  f_traffic :: TrafficClass
  f_declared_bytes :: u64
  f_observed_bytes :: u64
  f_opened_at_nanos :: i64

definition FlowRecord_init :: FlowRecord where
  "FlowRecord_init =
     \<lparr> f_id = nil_id, f_request = nil_id, f_attempt = nil_id, f_traffic = TC_Unknown,
       f_declared_bytes = 0, f_observed_bytes = 0, f_opened_at_nanos = 0 \<rparr>"

record RequestAccounting =
  ra_request :: RequestId
  ra_bytes_in :: u64
  ra_bytes_out :: u64
  ra_decisions :: u32
  ra_defers :: u32
  ra_rejections :: u32
  ra_active_flows :: u32
  ra_closed :: bool

record Ledger =
  l_limits :: LedgerLimits
  l_requests :: "(RequestId, RequestRecord) umap"
  l_terminal_order :: "RequestId list"
  l_flows :: "(FlowId, FlowRecord) umap"
  l_flows_by_request :: "(RequestId \<times> FlowId) list"
  l_next_flow_sequence :: u64
  l_accounting :: AccountingSnapshot

definition RequestLedger :: "LedgerLimits \<Rightarrow> Ledger" where
  "RequestLedger limits =
     (let limits1 = (if ll_max_attempts_per_request limits = 0 \<or>
                        ll_max_attempts_per_request limits > kMaxAttemptsPerRequest
                     then limits\<lparr> ll_max_attempts_per_request := kMaxAttemptsPerRequest \<rparr> else limits);
          limits2 = (if ll_max_live_requests limits1 = 0
                     then limits1\<lparr> ll_max_live_requests := 1 \<rparr> else limits1);
          limits3 = (if ll_max_active_flows_total limits2 = 0
                     then limits2\<lparr> ll_max_active_flows_total := 1 \<rparr> else limits2);
          limits4 = (if ll_max_active_flows_per_request limits3 = 0
                     then limits3\<lparr> ll_max_active_flows_per_request := 1 \<rparr> else limits3)
      in \<lparr> l_limits = limits4, l_requests = [], l_terminal_order = [], l_flows = [],
           l_flows_by_request = [], l_next_flow_sequence = 0,
           l_accounting = AccountingSnapshot_init \<rparr>)"

definition ledger_clear :: "Ledger \<Rightarrow> Ledger" where
  "ledger_clear l =
     l\<lparr> l_requests := [], l_terminal_order := [], l_flows := [], l_flows_by_request := [],
        l_next_flow_sequence := 0, l_accounting := AccountingSnapshot_init \<rparr>"

section \<open>Flow accounting, eviction and release\<close>

definition account_flow_open :: "TrafficClass \<Rightarrow> AccountingSnapshot \<Rightarrow> AccountingSnapshot" where
  "account_flow_open traffic a =
     (let a1 = a\<lparr> ac_active_flows_total := ac_active_flows_total a + 1 \<rparr>;
          a2 = (if ac_active_flows_total a1 > ac_peak_active_flows_total a1
                then a1\<lparr> ac_peak_active_flows_total := ac_active_flows_total a1 \<rparr> else a1)
      in if tc_index traffic \<ge> kTrafficClassCount then a2
         else (let entry = ac_per_class a2 ! tc_index traffic;
                   entry1 = entry\<lparr> ca_active_flows := ca_active_flows entry + 1 \<rparr>;
                   entry2 = (if ca_active_flows entry1 > ca_peak_active_flows entry1
                             then entry1\<lparr> ca_peak_active_flows := ca_active_flows entry1 \<rparr>
                             else entry1)
               in a2\<lparr> ac_per_class := (ac_per_class a2)[tc_index traffic := entry2] \<rparr>))"

definition account_flow_close :: "TrafficClass \<Rightarrow> AccountingSnapshot \<Rightarrow> AccountingSnapshot" where
  "account_flow_close traffic a =
     (let a1 = (if ac_active_flows_total a > 0
                then a\<lparr> ac_active_flows_total := ac_active_flows_total a - 1 \<rparr> else a)
      in if tc_index traffic \<ge> kTrafficClassCount then a1
         else (let entry = ac_per_class a1 ! tc_index traffic;
                   entry1 = (if ca_active_flows entry > 0
                             then entry\<lparr> ca_active_flows := ca_active_flows entry - 1 \<rparr> else entry)
               in a1\<lparr> ac_per_class := (ac_per_class a1)[tc_index traffic := entry1] \<rparr>))"

text \<open>
  The loop of \<open>release_request_flows\<close> over the flow identifiers of the request's range.
\<close>

fun release_loop :: "FlowId list \<Rightarrow> Ledger \<Rightarrow> Ledger" where
  "release_loop [] l = l"
| "release_loop (flow # rest) l =
     (case map_of (l_flows l) flow of
        Some record \<Rightarrow>
          release_loop rest
            (l\<lparr> l_accounting := account_flow_close (f_traffic record) (l_accounting l),
                l_flows := um_erase flow (l_flows l) \<rparr>)
      | None \<Rightarrow> release_loop rest l)"

definition release_request_flows :: "RequestRecord \<Rightarrow> Ledger \<Rightarrow> RequestRecord \<times> Ledger" where
  "release_request_flows record l =
     (let l1 = release_loop (mm_range (r_id record) (l_flows_by_request l)) l
      in (record\<lparr> r_active_flows := 0, r_accounting_closed := True \<rparr>,
          l1\<lparr> l_flows_by_request := mm_erase_key (r_id record) (l_flows_by_request l1) \<rparr>))"

definition refresh_request_counts :: "Ledger \<Rightarrow> Ledger" where
  "refresh_request_counts l =
     l\<lparr> l_accounting := (l_accounting l)
          \<lparr> ac_retained_requests := size_t (length (l_terminal_order l)),
            ac_live_requests :=
              (if length (l_requests l) > length (l_terminal_order l)
               then size_t (length (l_requests l) - length (l_terminal_order l)) else 0) \<rparr> \<rparr>"

fun evict_loop ::
  "nat \<Rightarrow> RequestId list \<Rightarrow> (RequestId, RequestRecord) umap \<Rightarrow> u64 \<Rightarrow>
   RequestId list \<times> (RequestId, RequestRecord) umap \<times> u64" where
  "evict_loop limit [] requests evicted = ([], requests, evicted)"
| "evict_loop limit (victim # order) requests evicted =
     (if length (victim # order) > limit
      then (case map_of requests victim of
              None \<Rightarrow> evict_loop limit order requests evicted
            | Some r \<Rightarrow>
                if \<not> rl_terminal (r_lifecycle r) then evict_loop limit order requests evicted
                else evict_loop limit order (um_erase victim requests) (evicted + 1))
      else (victim # order, requests, evicted))"

definition evict_if_needed :: "Ledger \<Rightarrow> Ledger" where
  "evict_if_needed l =
     (case evict_loop (unat (ll_max_retained_terminal_requests (l_limits l)))
             (l_terminal_order l) (l_requests l) (ac_requests_evicted (l_accounting l)) of
        (order, requests, evicted) \<Rightarrow>
          refresh_request_counts
            (l\<lparr> l_terminal_order := order, l_requests := requests,
                l_accounting := (l_accounting l)\<lparr> ac_requests_evicted := evicted \<rparr> \<rparr>))"

text \<open>
  The common tail of the four operations that terminate a request: write the record back with
  its flows released, push its identifier on the retention queue, bump the counters, evict.
\<close>

definition retire_request ::
  "RequestId \<Rightarrow> RequestRecord \<Rightarrow> RequestId \<Rightarrow> (AccountingSnapshot \<Rightarrow> AccountingSnapshot) \<Rightarrow>
   Ledger \<Rightarrow> Ledger" where
  "retire_request key record queued counters l =
     (case release_request_flows record l of
        (record1, l1) \<Rightarrow>
          evict_if_needed
            (l1\<lparr> l_requests := um_put key record1 (l_requests l1),
                 l_terminal_order := l_terminal_order l1 @ [queued],
                 l_accounting := counters (l_accounting l1) \<rparr>))"

section \<open>Registration\<close>

definition ledger_register_request ::
  "RequestId \<Rightarrow> i64 \<Rightarrow> Ledger \<Rightarrow> generation result \<times> Ledger" where
  "ledger_register_request rid now l =
     (if is_nil rid then (Inl ST_InvalidArgument, l)
      else (case map_of (l_requests l) rid of
        Some existing \<Rightarrow>
          if rl_terminal (r_lifecycle existing) then (Inl ST_Conflict, l)
          else (Inl ST_AlreadyExists, l)
      | None \<Rightarrow>
          let live = size_t (length (l_requests l)) - size_t (length (l_terminal_order l))
          in if live \<ge> ucast (ll_max_live_requests (l_limits l)) then (Inl ST_CapacityExhausted, l)
             else (let record = RequestRecord_init
                         \<lparr> r_id := rid, r_generation := 1, r_lifecycle := RL_Registered,
                           r_stage := SS_Unknown, r_registered_at_nanos := now \<rparr>
                   in (Inr (r_generation record),
                       refresh_request_counts
                         (l\<lparr> l_requests := um_emplace rid record (l_requests l),
                             l_accounting :=
                               ac_requests_registered_update (\<lambda>n. n + 1) (l_accounting l) \<rparr>)))))"

text \<open>
  Binding a new attempt to a record: the statements \<open>register_attempt\<close>,
  \<open>revalidate_request\<close> and \<open>supersede_attempt\<close> share.
\<close>

definition bind_attempt :: "AttemptRecord \<Rightarrow> RequestRecord \<Rightarrow> RequestRecord" where
  "bind_attempt entry record =
     record\<lparr> r_attempts := (r_attempts record)[unat (r_attempt_count record) := entry],
             r_attempt_count := r_attempt_count record + 1,
             r_current_attempt := a_id entry,
             r_current_attempt_generation := a_generation entry,
             r_stage := SS_Unknown \<rparr>"

definition fresh_attempt :: "AttemptId \<Rightarrow> RequestRecord \<Rightarrow> i64 \<Rightarrow> AttemptRecord" where
  "fresh_attempt attempt record now =
     AttemptRecord_init
       \<lparr> a_id := attempt, a_generation := ucast (r_attempt_count record + 1),
         a_stage := SS_Unknown, a_lifecycle := AL_Registered,
         a_registered_at_nanos := now, a_updated_at_nanos := now \<rparr>"

definition ledger_register_attempt ::
  "RequestId \<Rightarrow> AttemptId \<Rightarrow> u64 \<Rightarrow> generation \<Rightarrow> generation \<Rightarrow> i64 \<Rightarrow> Ledger \<Rightarrow>
   generation result \<times> Ledger" where
  "ledger_register_attempt rid attempt model_hash model_generation route_generation now l =
     (if is_nil attempt then (Inl ST_InvalidArgument, l)
      else (case map_of (l_requests l) rid of
        None \<Rightarrow> (Inl ST_NotFound, l)
      | Some record \<Rightarrow>
          if rl_terminal (r_lifecycle record) then (Inl ST_Conflict, l)
          else if r_requires_revalidation record then (Inl ST_RevalidationRequired, l)
          else if find_attempt record attempt \<noteq> None then (Inl ST_AlreadyExists, l)
          else if r_attempt_count record \<ge> ll_max_attempts_per_request (l_limits l)
          then (Inl ST_CapacityExhausted, l)
          else (let entry = (fresh_attempt attempt record now)
                      \<lparr> a_model_hash := model_hash, a_model_generation := model_generation,
                        a_route_generation := route_generation \<rparr>;
                    record1 = bind_attempt entry record;
                    record2 = (if r_lifecycle record1 = RL_Interrupted
                               then record1\<lparr> r_lifecycle := RL_Active \<rparr> else record1);
                    record3 = record2\<lparr> r_requires_revalidation := False \<rparr>
                in (Inr (a_generation entry),
                    l\<lparr> l_requests := um_put rid record3 (l_requests l),
                       l_accounting :=
                         ac_attempts_registered_update (\<lambda>n. n + 1) (l_accounting l) \<rparr>))))"

definition ledger_revalidate_request ::
  "RequestId \<Rightarrow> AttemptId \<Rightarrow> i64 \<Rightarrow> Ledger \<Rightarrow> generation result \<times> Ledger" where
  "ledger_revalidate_request rid attempt now l =
     (case map_of (l_requests l) rid of
        None \<Rightarrow> (Inl ST_NotFound, l)
      | Some record \<Rightarrow>
          if rl_terminal (r_lifecycle record) then (Inl ST_Conflict, l)
          else if \<not> r_requires_revalidation record then (Inl ST_Conflict, l)
          else if is_nil attempt then (Inl ST_InvalidArgument, l)
          else if r_attempt_count record \<ge> ll_max_attempts_per_request (l_limits l)
          then (Inl ST_CapacityExhausted, l)
          else (let entry = fresh_attempt attempt record now;
                    record1 = (bind_attempt entry record)
                      \<lparr> r_lifecycle := RL_Active, r_requires_revalidation := False,
                        r_generation := gen_next (r_generation record) \<rparr>
                in (Inr (a_generation entry),
                    l\<lparr> l_requests := um_put rid record1 (l_requests l),
                       l_accounting :=
                         ac_attempts_registered_update (\<lambda>n. n + 1) (l_accounting l) \<rparr>)))"

definition ledger_advance_stage ::
  "RequestId \<Rightarrow> AttemptId \<Rightarrow> ServingStage \<Rightarrow> i64 \<Rightarrow> Ledger \<Rightarrow> StatusCode \<times> Ledger" where
  "ledger_advance_stage rid attempt target now l =
     (if ss_is_terminal target then (ST_InvalidArgument, l)
      else if target = SS_Unknown then (ST_InvalidArgument, l)
      else (case map_of (l_requests l) rid of
        None \<Rightarrow> (ST_NotFound, l)
      | Some record \<Rightarrow>
          if r_lifecycle record = RL_Cancelled then (ST_Cancelled, l)
          else if rl_terminal (r_lifecycle record) then (ST_Conflict, l)
          else if r_requires_revalidation record then (ST_RevalidationRequired, l)
          else (case find_attempt record attempt of
            None \<Rightarrow> (ST_NotFound, l)
          | Some index \<Rightarrow>
              let entry = r_attempts record ! index in
              if \<not> is_current_attempt record attempt then (ST_StaleGeneration, l)
              else if al_terminal (a_lifecycle entry) then (ST_Conflict, l)
              else if \<not> is_legal_stage_transition (a_stage entry) target
              then (ST_InvalidTransition, l)
              else (let entry1 = entry\<lparr> a_stage := target, a_updated_at_nanos := now \<rparr>;
                        entry2 = (if a_lifecycle entry1 = AL_Registered
                                  then entry1\<lparr> a_lifecycle := AL_Active \<rparr> else entry1);
                        entry3 = (if target = SS_Completing
                                  then entry2\<lparr> a_lifecycle := AL_Draining \<rparr> else entry2);
                        record1 = record\<lparr> r_attempts := (r_attempts record)[index := entry3],
                                          r_stage := target \<rparr>;
                        record2 = (if target = SS_Completing
                                   then record1\<lparr> r_lifecycle := RL_Completing \<rparr> else record1)
                    in (ST_Ok, l\<lparr> l_requests := um_put rid record2 (l_requests l) \<rparr>)))))"

section \<open>Failure, replacement, cancellation, interruption\<close>

text \<open>
  \<open>fail_attempt\<close> reads the generation of the failed attempt through a pointer into the record
  after the eviction. When the eviction has erased that record the pointer dangles; the result
  is then \<open>None\<close>.
\<close>

definition ledger_fail_attempt ::
  "RequestId \<Rightarrow> AttemptId \<Rightarrow> ReasonCode \<Rightarrow> i64 \<Rightarrow> Ledger \<Rightarrow> generation result option \<times> Ledger" where
  "ledger_fail_attempt rid attempt reason now l =
     (case map_of (l_requests l) rid of
        None \<Rightarrow> (Some (Inl ST_NotFound), l)
      | Some record \<Rightarrow>
          (case find_attempt record attempt of
             None \<Rightarrow> (Some (Inl ST_NotFound), l)
           | Some index \<Rightarrow>
               let entry = r_attempts record ! index in
               if \<not> is_current_attempt record attempt then (Some (Inl ST_StaleGeneration), l)
               else if al_terminal (a_lifecycle entry)
               then (if a_lifecycle entry = AL_Failed then (Some (Inr (a_generation entry)), l)
                     else (Some (Inl ST_Conflict), l))
               else (let entry1 = entry\<lparr> a_lifecycle := AL_Failed, a_stage := SS_Failed,
                                         a_failure_published := True, a_terminal_reason := reason,
                                         a_updated_at_nanos := now \<rparr>;
                         record1 = record\<lparr> r_attempts := (r_attempts record)[index := entry1],
                                           r_lifecycle := RL_Failed, r_stage := SS_Failed,
                                           r_terminal_reason := reason,
                                           r_terminal_at_nanos := now \<rparr>;
                         l1 = retire_request rid record1 rid
                                (\<lambda>a. a\<lparr> ac_attempts_failed := ac_attempts_failed a + 1,
                                        ac_requests_failed := ac_requests_failed a + 1 \<rparr>) l
                     in (case map_of (l_requests l1) rid of
                           None \<Rightarrow> (None, l1)
                         | Some _ \<Rightarrow> (Some (Inr (a_generation entry1)), l1)))))"

definition ledger_supersede_attempt ::
  "RequestId \<Rightarrow> AttemptId \<Rightarrow> AttemptId \<Rightarrow> i64 \<Rightarrow> Ledger \<Rightarrow> generation result \<times> Ledger" where
  "ledger_supersede_attempt rid attempt replacement now l =
     (if is_nil replacement then (Inl ST_InvalidArgument, l)
      else (case map_of (l_requests l) rid of
        None \<Rightarrow> (Inl ST_NotFound, l)
      | Some record \<Rightarrow>
          if rl_terminal (r_lifecycle record) then (Inl ST_Conflict, l)
          else (case find_attempt record attempt of
            None \<Rightarrow> (Inl ST_NotFound, l)
          | Some index \<Rightarrow>
              if \<not> is_current_attempt record attempt then (Inl ST_StaleGeneration, l)
              else if find_attempt record replacement \<noteq> None then (Inl ST_AlreadyExists, l)
              else if r_attempt_count record \<ge> ll_max_attempts_per_request (l_limits l)
              then (Inl ST_CapacityExhausted, l)
              else (let entry = r_attempts record ! index;
                        entry1 = entry\<lparr> a_lifecycle := AL_Superseded,
                                        a_terminal_reason := RC_AttemptSuperseded,
                                        a_updated_at_nanos := now \<rparr>;
                        fresh = (fresh_attempt replacement record now)
                          \<lparr> a_model_hash := a_model_hash entry,
                            a_model_generation := a_model_generation entry \<rparr>;
                        record1 = record\<lparr> r_attempts := (r_attempts record)[index := entry1] \<rparr>;
                        record2 = (bind_attempt fresh record1)
                          \<lparr> r_generation := gen_next (r_generation record) \<rparr>
                    in (Inr (a_generation fresh),
                        l\<lparr> l_requests := um_put rid record2 (l_requests l),
                           l_accounting := (l_accounting l)
                             \<lparr> ac_attempts_superseded := ac_attempts_superseded (l_accounting l) + 1,
                               ac_attempts_registered := ac_attempts_registered (l_accounting l) + 1 \<rparr> \<rparr>)))))"

definition set_attempt_model ::
  "RequestId \<Rightarrow> AttemptId \<Rightarrow> u64 \<Rightarrow> generation \<Rightarrow> Ledger \<Rightarrow> StatusCode \<times> Ledger" where
  "set_attempt_model rid attempt model_hash model_generation l =
     (case map_of (l_requests l) rid of
        None \<Rightarrow> (ST_NotFound, l)
      | Some record \<Rightarrow>
          (case find_attempt record attempt of
             None \<Rightarrow> (ST_NotFound, l)
           | Some index \<Rightarrow>
               let entry = (r_attempts record ! index)
                     \<lparr> a_model_hash := model_hash, a_model_generation := model_generation \<rparr>
               in (ST_Ok,
                   l\<lparr> l_requests :=
                        um_put rid (record\<lparr> r_attempts := (r_attempts record)[index := entry] \<rparr>)
                          (l_requests l) \<rparr>)))"

text \<open>The loops over the bound attempts in \<open>cancel_request\<close> and \<open>mark_request_interrupted\<close>.\<close>

definition update_bound_attempts ::
  "(AttemptRecord \<Rightarrow> AttemptRecord) \<Rightarrow> RequestRecord \<Rightarrow> RequestRecord" where
  "update_bound_attempts f record =
     record\<lparr> r_attempts :=
       map (\<lambda>(index, entry).
             if index < unat (r_attempt_count record) \<and> index < unat kMaxAttemptsPerRequest
             then f entry else entry)
         (enumerate 0 (r_attempts record)) \<rparr>"

definition ledger_cancel_request ::
  "RequestId \<Rightarrow> ReasonCode \<Rightarrow> generation \<Rightarrow> i64 \<Rightarrow> Ledger \<Rightarrow> StatusCode \<times> Ledger" where
  "ledger_cancel_request rid reason sequence now l =
     (case map_of (l_requests l) rid of
        None \<Rightarrow> (ST_NotFound, l)
      | Some record \<Rightarrow>
          if r_lifecycle record = RL_Cancelled
          then (ST_Ok,
                if \<not> is_unset sequence \<and> sequence > r_authority_floor record
                then l\<lparr> l_requests :=
                          um_put rid (record\<lparr> r_authority_floor := sequence \<rparr>) (l_requests l) \<rparr>
                else l)
          else if rl_terminal (r_lifecycle record) then (ST_Conflict, l)
          else (let record1 = record\<lparr> r_lifecycle := RL_Cancelled, r_stage := SS_Cancelled,
                                      r_terminal_reason := reason, r_terminal_at_nanos := now,
                                      r_requires_revalidation := False \<rparr>;
                    record2 = (if \<not> is_unset sequence \<and> sequence > r_authority_floor record1
                               then record1\<lparr> r_authority_floor := sequence \<rparr> else record1);
                    record3 = update_bound_attempts
                      (\<lambda>entry. if \<not> al_terminal (a_lifecycle entry)
                               then entry\<lparr> a_lifecycle := AL_Cancelled, a_stage := SS_Cancelled,
                                           a_terminal_reason := reason, a_updated_at_nanos := now \<rparr>
                               else entry) record2
                in (ST_Ok,
                    retire_request rid record3 rid
                      (\<lambda>a. a\<lparr> ac_requests_cancelled := ac_requests_cancelled a + 1 \<rparr>) l)))"

definition mark_request_interrupted :: "RequestId \<Rightarrow> i64 \<Rightarrow> Ledger \<Rightarrow> StatusCode \<times> Ledger" where
  "mark_request_interrupted rid now l =
     (case map_of (l_requests l) rid of
        None \<Rightarrow> (ST_NotFound, l)
      | Some record \<Rightarrow>
          if rl_terminal (r_lifecycle record) then (ST_Ok, l)
          else (let record1 = record\<lparr> r_lifecycle := RL_Interrupted,
                                      r_requires_revalidation := True \<rparr>;
                    record2 = update_bound_attempts
                      (\<lambda>entry. if \<not> al_terminal (a_lifecycle entry)
                               then entry\<lparr> a_lifecycle := AL_Cancelled,
                                           a_terminal_reason := RC_Cancelled,
                                           a_updated_at_nanos := now \<rparr>
                               else entry) record1
                in (case release_request_flows record2 l of
                      (record3, l1) \<Rightarrow>
                        (ST_Ok,
                         l1\<lparr> l_requests :=
                               um_put rid (record3\<lparr> r_accounting_closed := False \<rparr>) (l_requests l1),
                             l_accounting :=
                               ac_requests_interrupted_update (\<lambda>n. n + 1) (l_accounting l1) \<rparr>))))"

section \<open>Completion publication\<close>

definition publish_refused ::
  "StatusCode \<Rightarrow> ReasonCode \<Rightarrow> Ledger \<Rightarrow> PublishOutcome result \<times> Ledger" where
  "publish_refused refusal reason l =
     (Inr (PublishOutcome_init
             \<lparr> po_disposition := DI_Refused, po_refusal := refusal, po_reason := reason \<rparr>),
      l\<lparr> l_accounting := ac_completions_refused_update (\<lambda>n. n + 1) (l_accounting l) \<rparr>)"

definition publish_suppressed :: "Ledger \<Rightarrow> PublishOutcome result \<times> Ledger" where
  "publish_suppressed l =
     (Inr (PublishOutcome_init
             \<lparr> po_disposition := DI_DuplicateSuppressed,
               po_reason := RC_DuplicateCompletionSuppressed \<rparr>),
      l\<lparr> l_accounting := ac_completions_suppressed_update (\<lambda>n. n + 1) (l_accounting l) \<rparr>)"

definition publish_failure ::
  "CompletionPublication \<Rightarrow> i64 \<Rightarrow> nat \<Rightarrow> RequestRecord \<Rightarrow> Ledger \<Rightarrow>
   PublishOutcome result \<times> Ledger" where
  "publish_failure p now index record l =
     (let entry = r_attempts record ! index in
      if a_failure_published entry then publish_suppressed l
      else (let entry1 = entry
                  \<lparr> a_failure_published := True, a_lifecycle := AL_Failed, a_stage := SS_Failed,
                    a_terminal_reason :=
                      (if cp_reason p = RC_Unknown then RC_AttemptFailed else cp_reason p),
                    a_updated_at_nanos := now,
                    a_bytes_in := max (a_bytes_in entry) (cp_bytes_in p),
                    a_bytes_out := max (a_bytes_out entry) (cp_bytes_out p) \<rparr>;
                record1 = record
                  \<lparr> r_attempts := (r_attempts record)[index := entry1],
                    r_lifecycle := RL_Failed, r_stage := SS_Failed,
                    r_terminal_reason := a_terminal_reason entry1, r_terminal_at_nanos := now,
                    r_bytes_in := max (r_bytes_in record) (cp_bytes_in p),
                    r_bytes_out := max (r_bytes_out record) (cp_bytes_out p) \<rparr>
            in (Inr (PublishOutcome_init
                       \<lparr> po_disposition := DI_Committed, po_reason := RC_AttemptFailed \<rparr>),
                retire_request (cp_request p) record1 (r_id record1)
                  (\<lambda>a. a\<lparr> ac_attempts_failed := ac_attempts_failed a + 1,
                          ac_requests_failed := ac_requests_failed a + 1 \<rparr>) l)))"

definition publish_success ::
  "CompletionPublication \<Rightarrow> i64 \<Rightarrow> nat \<Rightarrow> RequestRecord \<Rightarrow> Ledger \<Rightarrow>
   PublishOutcome result \<times> Ledger" where
  "publish_success p now index record l =
     (let entry = r_attempts record ! index in
      if a_success_published entry then publish_suppressed l
      else (let entry1 = entry
                  \<lparr> a_success_published := True, a_lifecycle := AL_Completed,
                    a_stage := SS_Completed, a_updated_at_nanos := now,
                    a_bytes_in := max (a_bytes_in entry) (cp_bytes_in p),
                    a_bytes_out := max (a_bytes_out entry) (cp_bytes_out p) \<rparr>;
                record1 = record
                  \<lparr> r_attempts := (r_attempts record)[index := entry1],
                    r_lifecycle := RL_Completed, r_stage := SS_Completed,
                    r_terminal_reason := RC_CommittedCompletion, r_terminal_at_nanos := now,
                    r_bytes_in := max (r_bytes_in record) (cp_bytes_in p),
                    r_bytes_out := max (r_bytes_out record) (cp_bytes_out p) \<rparr>
            in (Inr (PublishOutcome_init
                       \<lparr> po_disposition := DI_Committed, po_reason := RC_CommittedCompletion,
                         po_accounted_bytes_in := cp_bytes_in p,
                         po_accounted_bytes_out := cp_bytes_out p,
                         po_released_flows := r_active_flows record1 \<rparr>),
                retire_request (cp_request p) record1 (r_id record1)
                  (\<lambda>a. a\<lparr> ac_attempts_completed := ac_attempts_completed a + 1,
                          ac_requests_completed := ac_requests_completed a + 1,
                          ac_completions_committed := ac_completions_committed a + 1 \<rparr>) l)))"

definition ledger_publish_completion ::
  "CompletionPublication \<Rightarrow> i64 \<Rightarrow> Ledger \<Rightarrow> PublishOutcome result \<times> Ledger" where
  "ledger_publish_completion p now l =
     (if is_nil (cp_request p) \<or> is_nil (cp_attempt p) then (Inl ST_InvalidArgument, l)
      else (case map_of (l_requests l) (cp_request p) of
        None \<Rightarrow> (Inl ST_NotFound, l)
      | Some record \<Rightarrow>
          (case find_attempt record (cp_attempt p) of
             None \<Rightarrow> publish_refused ST_StaleGeneration RC_RejectedUnknownAttempt l
           | Some index \<Rightarrow>
               let entry = r_attempts record ! index in
               if \<not> is_unset (cp_attempt_generation p) \<and>
                  cp_attempt_generation p \<noteq> a_generation entry
               then publish_refused ST_StaleGeneration RC_RejectedStaleAttempt l
               else if r_lifecycle record = RL_Cancelled
               then publish_refused ST_Cancelled RC_RejectedRequestCancelled l
               else if r_lifecycle record = RL_Completed then publish_suppressed l
               else if rl_terminal (r_lifecycle record)
               then publish_refused ST_Conflict RC_RejectedRequestTerminal l
               else if a_lifecycle entry = AL_Superseded
               then publish_refused ST_StaleGeneration RC_RejectedStaleAttempt l
               else if a_lifecycle entry = AL_Failed
               then publish_refused ST_Conflict RC_AttemptFailed l
               else if a_lifecycle entry = AL_Cancelled
               then publish_refused ST_Cancelled RC_RejectedRequestCancelled l
               else if \<not> cp_success p then publish_failure p now index record l
               else publish_success p now index record l)))"

section \<open>Flows\<close>

definition flow_mix :: "RequestId \<Rightarrow> AttemptId \<Rightarrow> TrafficClass \<Rightarrow> u64" where
  "flow_mix rid attempt traffic =
     high rid XOR (low rid * 0x9E3779B97F4A7C15) XOR (high attempt * 0xBF58476D1CE4E5B9) XOR
     low attempt XOR push_bit 56 (of_nat (tc_index traffic))"

definition ledger_open_flow ::
  "RequestId \<Rightarrow> AttemptId \<Rightarrow> TrafficClass \<Rightarrow> u64 \<Rightarrow> i64 \<Rightarrow> Ledger \<Rightarrow> FlowId result \<times> Ledger" where
  "ledger_open_flow rid attempt traffic declared_bytes now l =
     (if traffic = TC_Unknown \<or> traffic = TC_Count then (Inl ST_InvalidArgument, l)
      else (case map_of (l_requests l) rid of
        None \<Rightarrow> (Inl ST_NotFound, l)
      | Some record \<Rightarrow>
          if r_lifecycle record = RL_Cancelled then (Inl ST_Cancelled, l)
          else if rl_terminal (r_lifecycle record) then (Inl ST_Conflict, l)
          else if r_requires_revalidation record then (Inl ST_RevalidationRequired, l)
          else (case find_attempt record attempt of
            None \<Rightarrow> (Inl ST_NotFound, l)
          | Some index \<Rightarrow>
              let entry = r_attempts record ! index in
              if \<not> is_current_attempt record attempt then (Inl ST_StaleGeneration, l)
              else if a_lifecycle entry = AL_Superseded then (Inl ST_StaleGeneration, l)
              else if al_terminal (a_lifecycle entry) then (Inl ST_Conflict, l)
              else if r_active_flows record \<ge> ll_max_active_flows_per_request (l_limits l)
              then (Inl ST_CapacityExhausted, l)
              else if ac_active_flows_total (l_accounting l) \<ge> ll_max_active_flows_total (l_limits l)
              then (Inl ST_CapacityExhausted, l)
              else (let sequence = l_next_flow_sequence l + 1;
                        flow = Id128 sequence (flow_mix rid attempt traffic);
                        flow_record = FlowRecord_init
                          \<lparr> f_id := flow, f_request := rid, f_traffic := traffic,
                            f_declared_bytes := declared_bytes, f_opened_at_nanos := now \<rparr>
                    in (Inr flow,
                        l\<lparr> l_next_flow_sequence := sequence,
                           l_flows := um_emplace flow flow_record (l_flows l),
                           l_flows_by_request := (rid, flow) # l_flows_by_request l,
                           l_requests :=
                             um_put rid (record\<lparr> r_active_flows := r_active_flows record + 1 \<rparr>)
                               (l_requests l),
                           l_accounting := account_flow_open traffic (l_accounting l) \<rparr>)))))"

definition ledger_release_flow :: "FlowId \<Rightarrow> Ledger \<Rightarrow> StatusCode \<times> Ledger" where
  "ledger_release_flow flow l =
     (case map_of (l_flows l) flow of
        None \<Rightarrow> (ST_NotFound, l)
      | Some record \<Rightarrow>
          let l1 = l\<lparr> l_accounting := account_flow_close (f_traffic record) (l_accounting l),
                      l_flows := um_erase flow (l_flows l),
                      l_flows_by_request := remove1 (f_request record, flow) (l_flows_by_request l) \<rparr>
          in (ST_Ok,
              case map_of (l_requests l1) (f_request record) of
                Some request \<Rightarrow>
                  if r_active_flows request > 0
                  then l1\<lparr> l_requests :=
                             um_put (f_request record)
                               (request\<lparr> r_active_flows := r_active_flows request - 1 \<rparr>)
                               (l_requests l1) \<rparr>
                  else l1
              | None \<Rightarrow> l1))"

definition ledger_record_flow_bytes :: "FlowId \<Rightarrow> u64 \<Rightarrow> bool \<Rightarrow> Ledger \<Rightarrow> StatusCode \<times> Ledger" where
  "ledger_record_flow_bytes flow bytes inbound l =
     (case map_of (l_flows l) flow of
        None \<Rightarrow> (ST_NotFound, l)
      | Some record \<Rightarrow>
          (case checked_add (f_observed_bytes record) bytes of
             None \<Rightarrow> (ST_BoundsExceeded, l)
           | Some updated \<Rightarrow>
               let l1 = l\<lparr> l_flows :=
                            um_put flow (record\<lparr> f_observed_bytes := updated \<rparr>) (l_flows l) \<rparr>
               in (case map_of (l_requests l1) (f_request record) of
                     None \<Rightarrow> (ST_Ok, l1)
                   | Some request \<Rightarrow>
                       if inbound
                       then (case checked_add (r_bytes_in request) bytes of
                               None \<Rightarrow> (ST_BoundsExceeded, l1)
                             | Some updated_total \<Rightarrow>
                                 (ST_Ok, l1\<lparr> l_requests :=
                                   um_put (f_request record) (request\<lparr> r_bytes_in := updated_total \<rparr>)
                                     (l_requests l1) \<rparr>))
                       else (case checked_add (r_bytes_out request) bytes of
                               None \<Rightarrow> (ST_BoundsExceeded, l1)
                             | Some updated_total \<Rightarrow>
                                 (ST_Ok, l1\<lparr> l_requests :=
                                   um_put (f_request record) (request\<lparr> r_bytes_out := updated_total \<rparr>)
                                     (l_requests l1) \<rparr>)))))"

section \<open>Decision accounting\<close>

text \<open>The per-class counters a decision moves.\<close>

definition class_decision ::
  "DecisionOutcome \<Rightarrow> ReasonCode \<Rightarrow> u64 \<Rightarrow> ClassAccounting \<Rightarrow> ClassAccounting" where
  "class_decision outcome reason bytes c =
     (let c1 = (case outcome of
            DO_Allowed \<Rightarrow> c\<lparr> ca_allowed := ca_allowed c + 1, ca_bytes_allowed := ca_bytes_allowed c + bytes \<rparr>
          | DO_Degraded \<Rightarrow> c\<lparr> ca_degraded := ca_degraded c + 1, ca_bytes_allowed := ca_bytes_allowed c + bytes \<rparr>
          | DO_Deferred \<Rightarrow> c\<lparr> ca_deferred := ca_deferred c + 1, ca_bytes_deferred := ca_bytes_deferred c + bytes \<rparr>
          | DO_Rejected \<Rightarrow> c\<lparr> ca_rejected := ca_rejected c + 1, ca_bytes_rejected := ca_bytes_rejected c + bytes \<rparr>
          | _ \<Rightarrow> c)
      in if reason = RC_AdmittedStarvationGuard
         then c1\<lparr> ca_starvation_admissions := ca_starvation_admissions c1 + 1 \<rparr> else c1)"

definition attempt_decision :: "DecisionOutcome \<Rightarrow> AttemptRecord \<Rightarrow> AttemptRecord" where
  "attempt_decision outcome entry =
     (let e1 = entry\<lparr> a_decisions := a_decisions entry + 1 \<rparr>
      in (case outcome of
            DO_Deferred \<Rightarrow> e1\<lparr> a_defers := a_defers e1 + 1 \<rparr>
          | DO_Rejected \<Rightarrow> e1\<lparr> a_rejections := a_rejections e1 + 1 \<rparr>
          | _ \<Rightarrow> e1))"

definition record_decision_counts ::
  "AttemptId \<Rightarrow> DecisionOutcome \<Rightarrow> RequestRecord \<Rightarrow> RequestRecord" where
  "record_decision_counts attempt outcome record =
     (let record1 = record\<lparr> r_decisions := r_decisions record + 1 \<rparr>;
          record2 = (case find_attempt record1 attempt of
              Some index \<Rightarrow> record1\<lparr> r_attempts :=
                (r_attempts record1)[index := attempt_decision outcome (r_attempts record1 ! index)] \<rparr>
            | None \<Rightarrow> record1)
      in (case outcome of
            DO_Deferred \<Rightarrow> record2\<lparr> r_defers := r_defers record2 + 1 \<rparr>
          | DO_Rejected \<Rightarrow> record2\<lparr> r_rejections := r_rejections record2 + 1 \<rparr>
          | _ \<Rightarrow> record2))"

definition ledger_record_decision ::
  "RequestId \<Rightarrow> AttemptId \<Rightarrow> TrafficClass \<Rightarrow> DecisionOutcome \<Rightarrow> ReasonCode \<Rightarrow> u64 \<Rightarrow> Ledger \<Rightarrow>
   StatusCode \<times> Ledger" where
  "ledger_record_decision rid attempt traffic outcome reason bytes l =
     (case map_of (l_requests l) rid of
        None \<Rightarrow> (ST_NotFound, l)
      | Some record \<Rightarrow>
          let a = l_accounting l;
              a1 = (if tc_index traffic < kTrafficClassCount
                    then a\<lparr> ac_per_class := (ac_per_class a)
                      [tc_index traffic := class_decision outcome reason bytes
                                             (ac_per_class a ! tc_index traffic)] \<rparr>
                    else a)
          in (ST_Ok,
              l\<lparr> l_requests :=
                   um_put rid (record_decision_counts attempt outcome record) (l_requests l),
                 l_accounting := a1 \<rparr>))"

section \<open>Queries\<close>

definition ledger_contains :: "Ledger \<Rightarrow> RequestId \<Rightarrow> bool" where
  "ledger_contains l rid \<longleftrightarrow> map_of (l_requests l) rid \<noteq> None"

definition is_cancelled :: "Ledger \<Rightarrow> RequestId \<Rightarrow> bool" where
  "is_cancelled l rid \<longleftrightarrow>
     (case map_of (l_requests l) rid of
        Some r \<Rightarrow> r_lifecycle r = RL_Cancelled
      | None \<Rightarrow> False)"

definition snapshot_request :: "Ledger \<Rightarrow> RequestId \<Rightarrow> RequestRecord option" where
  "snapshot_request l rid = map_of (l_requests l) rid"

definition snapshot_accounting :: "Ledger \<Rightarrow> RequestId \<Rightarrow> RequestAccounting option" where
  "snapshot_accounting l rid =
     (case map_of (l_requests l) rid of
        None \<Rightarrow> None
      | Some r \<Rightarrow> Some
          \<lparr> ra_request = r_id r, ra_bytes_in = r_bytes_in r, ra_bytes_out = r_bytes_out r,
            ra_decisions = r_decisions r, ra_defers = r_defers r, ra_rejections = r_rejections r,
            ra_active_flows = r_active_flows r,
            ra_closed = (rl_terminal (r_lifecycle r) \<and> r_active_flows r = 0) \<rparr>)"

fun closure_count :: "(FlowId \<times> FlowRecord) list \<Rightarrow> u32 list \<Rightarrow> u32 \<Rightarrow> u32 list \<times> u32" where
  "closure_count [] per_class acc = (per_class, acc)"
| "closure_count (entry # rest) per_class acc =
     (let index = tc_index (f_traffic (snd entry))
      in closure_count rest
           (if index < kTrafficClassCount
            then per_class[index := per_class ! index + 1] else per_class)
           (acc + 1))"

definition record_closed :: "RequestRecord \<Rightarrow> bool" where
  "record_closed r =
     (if rl_terminal (r_lifecycle r) \<and> r_active_flows r \<noteq> 0 then False
      else if \<not> rl_terminal (r_lifecycle r) \<and> r_requires_revalidation r \<and> r_active_flows r \<noteq> 0
      then False
      else True)"

definition verify_closure :: "Ledger \<Rightarrow> StatusCode" where
  "verify_closure l =
     (case closure_count (l_flows l) (replicate kTrafficClassCount 0) 0 of
        (per_class, acc) \<Rightarrow>
          if acc \<noteq> ac_active_flows_total (l_accounting l) then ST_Internal
          else if \<not> list_all (\<lambda>index. per_class ! index =
                                ca_active_flows (ac_per_class (l_accounting l) ! index))
                     [0 ..< kTrafficClassCount]
          then ST_Internal
          else if \<not> list_all (\<lambda>entry. record_closed (snd entry)) (l_requests l) then ST_Internal
          else ST_Ok)"

section \<open>Restore and export\<close>

definition restore_record :: "RequestRecord \<Rightarrow> Ledger \<Rightarrow> StatusCode \<times> Ledger" where
  "restore_record record l =
     (if is_nil (r_id record) then (ST_InvalidArgument, l)
      else if r_attempt_count record > kMaxAttemptsPerRequest then (ST_MalformedInput, l)
      else if map_of (l_requests l) (r_id record) \<noteq> None then (ST_AlreadyExists, l)
      else (let restored = record\<lparr> r_attempts :=
                  map (\<lambda>index. if index < unat (r_attempt_count record)
                               then r_attempts record ! index else AttemptRecord_init)
                    [0 ..< unat kMaxAttemptsPerRequest] \<rparr>;
                terminal = rl_terminal (r_lifecycle restored);
                restored1 = (if terminal
                  then restored\<lparr> r_accounting_closed := True, r_active_flows := 0 \<rparr>
                  else restored\<lparr> r_lifecycle := RL_Interrupted, r_requires_revalidation := True,
                                 r_active_flows := 0, r_accounting_closed := False \<rparr>);
                order = (if terminal then l_terminal_order l @ [r_id restored]
                         else l_terminal_order l);
                a = l_accounting l;
                a1 = (case r_lifecycle restored1 of
                        RL_Completed \<Rightarrow> a\<lparr> ac_requests_completed := ac_requests_completed a + 1 \<rparr>
                      | RL_Cancelled \<Rightarrow> a\<lparr> ac_requests_cancelled := ac_requests_cancelled a + 1 \<rparr>
                      | RL_Failed \<Rightarrow> a\<lparr> ac_requests_failed := ac_requests_failed a + 1 \<rparr>
                      | _ \<Rightarrow> a\<lparr> ac_requests_interrupted := ac_requests_interrupted a + 1 \<rparr>);
                a2 = a1\<lparr> ac_requests_registered := ac_requests_registered a1 + 1 \<rparr>
            in (ST_Ok,
                evict_if_needed
                  (refresh_request_counts
                    (l\<lparr> l_terminal_order := order, l_accounting := a2,
                        l_requests := um_emplace (r_id restored1) restored1 (l_requests l) \<rparr>)))))"

fun export_loop ::
  "RequestId list \<Rightarrow> nat \<Rightarrow> (RequestId, RequestRecord) umap \<Rightarrow> RequestRecord list \<Rightarrow> RequestRecord list" where
  "export_loop [] max_records requests out = out"
| "export_loop (rid # rest) max_records requests out =
     (if length out < max_records
      then export_loop rest max_records requests
             (case map_of requests rid of Some r \<Rightarrow> out @ [r] | None \<Rightarrow> out)
      else out)"

definition export_terminal_records :: "Ledger \<Rightarrow> nat \<Rightarrow> RequestRecord list" where
  "export_terminal_records l max_records =
     export_loop (rev (l_terminal_order l)) max_records (l_requests l) []"

definition export_live_records :: "Ledger \<Rightarrow> RequestRecord list" where
  "export_live_records l =
     map snd (filter (\<lambda>entry. \<not> rl_terminal (r_lifecycle (snd entry))) (l_requests l))"

section \<open>The ledger as a machine\<close>

text \<open>One constructor per member function that changes the ledger, with its arguments.\<close>

datatype LedgerOp =
    LO_RegisterRequest RequestId i64
  | LO_RegisterAttempt RequestId AttemptId u64 generation generation i64
  | LO_RevalidateRequest RequestId AttemptId i64
  | LO_AdvanceStage RequestId AttemptId ServingStage i64
  | LO_FailAttempt RequestId AttemptId ReasonCode i64
  | LO_SupersedeAttempt RequestId AttemptId AttemptId i64
  | LO_SetAttemptModel RequestId AttemptId u64 generation
  | LO_CancelRequest RequestId ReasonCode generation i64
  | LO_MarkInterrupted RequestId i64
  | LO_PublishCompletion CompletionPublication i64
  | LO_OpenFlow RequestId AttemptId TrafficClass u64 i64
  | LO_ReleaseFlow FlowId
  | LO_RecordFlowBytes FlowId u64 bool
  | LO_RecordDecision RequestId AttemptId TrafficClass DecisionOutcome ReasonCode u64
  | LO_RestoreRecord RequestRecord
  | LO_Clear

fun ledger_apply :: "LedgerOp \<Rightarrow> Ledger \<Rightarrow> Ledger" where
  "ledger_apply (LO_RegisterRequest rid now) l = snd (ledger_register_request rid now l)"
| "ledger_apply (LO_RegisterAttempt rid attempt hash model route now) l =
     snd (ledger_register_attempt rid attempt hash model route now l)"
| "ledger_apply (LO_RevalidateRequest rid attempt now) l =
     snd (ledger_revalidate_request rid attempt now l)"
| "ledger_apply (LO_AdvanceStage rid attempt target now) l =
     snd (ledger_advance_stage rid attempt target now l)"
| "ledger_apply (LO_FailAttempt rid attempt reason now) l =
     snd (ledger_fail_attempt rid attempt reason now l)"
| "ledger_apply (LO_SupersedeAttempt rid attempt replacement now) l =
     snd (ledger_supersede_attempt rid attempt replacement now l)"
| "ledger_apply (LO_SetAttemptModel rid attempt hash model) l =
     snd (set_attempt_model rid attempt hash model l)"
| "ledger_apply (LO_CancelRequest rid reason sequence now) l =
     snd (ledger_cancel_request rid reason sequence now l)"
| "ledger_apply (LO_MarkInterrupted rid now) l = snd (mark_request_interrupted rid now l)"
| "ledger_apply (LO_PublishCompletion p now) l = snd (ledger_publish_completion p now l)"
| "ledger_apply (LO_OpenFlow rid attempt traffic bytes now) l =
     snd (ledger_open_flow rid attempt traffic bytes now l)"
| "ledger_apply (LO_ReleaseFlow flow) l = snd (ledger_release_flow flow l)"
| "ledger_apply (LO_RecordFlowBytes flow bytes inbound) l =
     snd (ledger_record_flow_bytes flow bytes inbound l)"
| "ledger_apply (LO_RecordDecision rid attempt traffic outcome reason bytes) l =
     snd (ledger_record_decision rid attempt traffic outcome reason bytes l)"
| "ledger_apply (LO_RestoreRecord record) l = snd (restore_record record l)"
| "ledger_apply LO_Clear l = ledger_clear l"

text \<open>
  A record handed to \<open>restore_record\<close> comes from an exported ledger: if it is cancelled, none
  of its bound attempts is still live.
\<close>

definition attempts_sealed :: "RequestRecord \<Rightarrow> bool" where
  "attempts_sealed r \<longleftrightarrow>
     (\<forall>index < unat (r_attempt_count r). al_terminal (a_lifecycle (r_attempts r ! index)))"

fun op_admissible :: "LedgerOp \<Rightarrow> bool" where
  "op_admissible (LO_RestoreRecord r) = (r_lifecycle r = RL_Cancelled \<longrightarrow> attempts_sealed r)"
| "op_admissible _ = True"

text \<open>
  One step of the ledger. The flow identifier counter is 64 bits wide and is assumed not to
  wrap within one incarnation: a step is taken only while an identifier is left.
\<close>

inductive ledger_step :: "Ledger \<Rightarrow> Ledger \<Rightarrow> bool" where
  ledger_stepI:
    "l_next_flow_sequence l \<noteq> - 1 \<Longrightarrow> op_admissible op \<Longrightarrow> ledger_step l (ledger_apply op l)"

end
