(* ===== verification/LedgerInv.thy ===== *)
theory LedgerInv
  imports Ledger
begin

text \<open>
  The accounting invariant of the request ledger and its preservation by every operation.
  The flow table, the per-request index, the per-request counters, the per-class counters and
  the global counter always agree, flows belong only to live requests, and the retention queue
  covers the terminal records and is bounded.
\<close>

section \<open>The invariant\<close>

definition flows_of :: "RequestId \<Rightarrow> (FlowId, FlowRecord) umap \<Rightarrow> nat" where
  "flows_of rid flows = um_total (\<lambda>f. of_bool (f_request f = rid)) flows"

definition flows_in :: "TrafficClass \<Rightarrow> (FlowId, FlowRecord) umap \<Rightarrow> nat" where
  "flows_in c flows = um_total (\<lambda>f. of_bool (f_traffic f = c)) flows"

definition record_open :: "RequestRecord \<Rightarrow> bool" where
  "record_open r \<longleftrightarrow> \<not> rl_terminal (r_lifecycle r) \<and> \<not> r_requires_revalidation r"

definition record_shape :: "RequestRecord \<Rightarrow> bool" where
  "record_shape r \<longleftrightarrow>
     r_id r \<noteq> nil_id \<and> length (r_attempts r) = 8 \<and> unat (r_attempt_count r) \<le> 8"

definition request_inv ::
  "(FlowId, FlowRecord) umap \<Rightarrow> RequestId list \<Rightarrow> RequestId \<Rightarrow> RequestRecord \<Rightarrow> bool" where
  "request_inv flows order rid r \<longleftrightarrow>
     r_id r = rid \<and> record_shape r \<and> unat (r_active_flows r) = flows_of rid flows \<and>
     (rl_terminal (r_lifecycle r) \<longrightarrow> rid \<in> set order)"

definition flow_inv :: "(RequestId, RequestRecord) umap \<Rightarrow> u64 \<Rightarrow> FlowId \<Rightarrow> FlowRecord \<Rightarrow> bool" where
  "flow_inv requests sequence fid f \<longleftrightarrow>
     f_id f = fid \<and> f_traffic f \<noteq> TC_Unknown \<and> f_traffic f \<noteq> TC_Count \<and> high fid \<le> sequence \<and>
     (\<exists>r. map_of requests (f_request f) = Some r \<and> record_open r)"

definition index_inv :: "(FlowId, FlowRecord) umap \<Rightarrow> (RequestId \<times> FlowId) list \<Rightarrow> bool" where
  "index_inv flows idx \<longleftrightarrow>
     distinct idx \<and>
     (\<forall>rid fid. (rid, fid) \<in> set idx \<longleftrightarrow> (\<exists>f. map_of flows fid = Some f \<and> f_request f = rid))"

definition counters_inv :: "(FlowId, FlowRecord) umap \<Rightarrow> AccountingSnapshot \<Rightarrow> bool" where
  "counters_inv flows a \<longleftrightarrow>
     unat (ac_active_flows_total a) = length flows \<and>
     map (\<lambda>c. unat (ca_active_flows c)) (ac_per_class a) =
       map (\<lambda>c. flows_in c flows) traffic_classes"

definition ledger_core :: "Ledger \<Rightarrow> bool" where
  "ledger_core l \<longleftrightarrow>
     um_wf (l_requests l) \<and> um_wf (l_flows l) \<and>
     (\<forall>rid r. map_of (l_requests l) rid = Some r \<longrightarrow>
        request_inv (l_flows l) (l_terminal_order l) rid r) \<and>
     (\<forall>fid f. map_of (l_flows l) fid = Some f \<longrightarrow>
        flow_inv (l_requests l) (l_next_flow_sequence l) fid f) \<and>
     index_inv (l_flows l) (l_flows_by_request l) \<and>
     counters_inv (l_flows l) (l_accounting l) \<and>
     unat (ll_max_attempts_per_request (l_limits l)) \<le> 8"

definition retention_bounded :: "Ledger \<Rightarrow> bool" where
  "retention_bounded l \<longleftrightarrow>
     length (l_terminal_order l) \<le> unat (ll_max_retained_terminal_requests (l_limits l))"

definition ledger_inv :: "Ledger \<Rightarrow> bool" where
  "ledger_inv l \<longleftrightarrow> ledger_core l \<and> retention_bounded l"

definition ledger_init :: "Ledger \<Rightarrow> bool" where
  "ledger_init l \<longleftrightarrow> (\<exists>limits. l = RequestLedger limits)"

section \<open>Counters\<close>

definition same_active :: "AccountingSnapshot \<Rightarrow> AccountingSnapshot \<Rightarrow> bool" where
  "same_active a b \<longleftrightarrow>
     ac_active_flows_total a = ac_active_flows_total b \<and>
     map ca_active_flows (ac_per_class a) = map ca_active_flows (ac_per_class b)"

lemma same_active_counters: "same_active a b \<Longrightarrow> counters_inv flows b \<Longrightarrow> counters_inv flows a"
proof -
  assume s: "same_active a b" and c: "counters_inv flows b"
  have "map (\<lambda>c. unat (ca_active_flows c)) (ac_per_class x) =
        map unat (map ca_active_flows (ac_per_class x))" for x by simp
  with s c show ?thesis unfolding counters_inv_def same_active_def by metis
qed

lemma counters_per_class:
  assumes "counters_inv flows a" and "c \<noteq> TC_Count"
  shows "unat (ca_active_flows (ac_per_class a ! tc_index c)) = flows_in c flows"
    and "tc_index c < length (ac_per_class a)"
proof -
  have m: "map (\<lambda>c. unat (ca_active_flows c)) (ac_per_class a) =
      map (\<lambda>c. flows_in c flows) traffic_classes"
    using assms(1) by (simp add: counters_inv_def)
  then have len: "length (ac_per_class a) = kTrafficClassCount"
    by (metis length_map length_traffic_classes)
  then show l: "tc_index c < length (ac_per_class a)" using assms(2) by simp
  have "map (\<lambda>c. unat (ca_active_flows c)) (ac_per_class a) ! tc_index c =
      map (\<lambda>c. flows_in c flows) traffic_classes ! tc_index c" using m by simp
  then show "unat (ca_active_flows (ac_per_class a ! tc_index c)) = flows_in c flows"
    using l assms(2) by (simp add: traffic_classes_nth)
qed

lemma counters_length: "counters_inv flows a \<Longrightarrow> length (ac_per_class a) = kTrafficClassCount"
  unfolding counters_inv_def by (metis length_map length_traffic_classes)

lemma countersI:
  assumes "unat (ac_active_flows_total a) = length flows"
    and "length (ac_per_class a) = kTrafficClassCount"
    and "\<And>c. c \<noteq> TC_Count \<Longrightarrow> unat (ca_active_flows (ac_per_class a ! tc_index c)) = flows_in c flows"
  shows "counters_inv flows a"
proof -
  have "map (\<lambda>c. unat (ca_active_flows c)) (ac_per_class a) =
      map (\<lambda>c. flows_in c flows) traffic_classes"
  proof (rule nth_equalityI)
    fix i assume "i < length (map (\<lambda>c. unat (ca_active_flows c)) (ac_per_class a))"
    then have i: "i < kTrafficClassCount" using assms(2) by simp
    then show "map (\<lambda>c. unat (ca_active_flows c)) (ac_per_class a) ! i =
        map (\<lambda>c. flows_in c flows) traffic_classes ! i"
      using assms(2) assms(3) [of "traffic_classes ! i"] traffic_classes_index [OF i] by simp
  qed (simp add: assms(2))
  with assms(1) show ?thesis by (simp add: counters_inv_def)
qed

lemma unat_u32_inc: "unat (x :: u32) + 1 < 2 ^ 32 \<Longrightarrow> unat (x + 1) = unat x + 1"
  by (simp add: unat_word_ariths)

lemma unat_u32_dec: "0 < unat (x :: u32) \<Longrightarrow> unat (x - 1) = unat x - 1"
  by (metis unat_gt_0 unat_minus_one)

lemma flows_in_put_new:
  "map_of flows k = None \<Longrightarrow> flows_in c (um_put k f flows) = flows_in c flows + of_bool (f_traffic f = c)"
  by (simp add: flows_in_def um_total_put_new)

lemma flows_of_put_new:
  "map_of flows k = None \<Longrightarrow> flows_of c (um_put k f flows) = flows_of c flows + of_bool (f_request f = c)"
  by (simp add: flows_of_def um_total_put_new)

lemma flows_in_erase:
  "um_wf flows \<Longrightarrow> map_of flows k = Some f \<Longrightarrow>
   flows_in c (um_erase k flows) = flows_in c flows - of_bool (f_traffic f = c)"
  by (simp add: flows_in_def um.total_erase_diff)

lemma flows_of_erase:
  "um_wf flows \<Longrightarrow> map_of flows k = Some f \<Longrightarrow>
   flows_of c (um_erase k flows) = flows_of c flows - of_bool (f_request f = c)"
  by (simp add: flows_of_def um.total_erase_diff)

lemma flows_in_le: "flows_in c flows \<le> length flows"
  using um_total_mono [of "\<lambda>f. of_bool (f_traffic f = c)" "\<lambda>_. Suc 0" flows]
  by (simp add: flows_in_def)

lemma flows_of_le: "flows_of c flows \<le> length flows"
  using um_total_mono [of "\<lambda>f. of_bool (f_request f = c)" "\<lambda>_. Suc 0" flows]
  by (simp add: flows_of_def)

lemma flows_in_pos: "um_wf flows \<Longrightarrow> map_of flows k = Some f \<Longrightarrow> 0 < flows_in (f_traffic f) flows"
  using um.total_bound [of flows k f "\<lambda>g. of_bool (f_traffic g = f_traffic f)"]
  by (simp add: flows_in_def)

lemma flows_of_pos: "um_wf flows \<Longrightarrow> map_of flows k = Some f \<Longrightarrow> 0 < flows_of (f_request f) flows"
  using um.total_bound [of flows k f "\<lambda>g. of_bool (f_request g = f_request f)"]
  by (simp add: flows_of_def)

lemma flows_of_0: "um_wf flows \<Longrightarrow> flows_of rid flows = 0 \<longleftrightarrow> (\<forall>k f. map_of flows k = Some f \<longrightarrow> f_request f \<noteq> rid)"
  by (fastforce simp: flows_of_def um_total_eq_0 um_find_set)

lemma account_flow_open_counters:
  assumes c: "counters_inv flows a" and new: "map_of flows k = None"
    and t: "f_traffic f \<noteq> TC_Count" and room: "length flows + 1 < 2 ^ 32"
  shows "counters_inv (um_put k f flows) (account_flow_open (f_traffic f) a)"
proof (rule countersI)
  have tot: "unat (ac_active_flows_total a) = length flows" using c by (simp add: counters_inv_def)
  have idx: "tc_index (f_traffic f) < kTrafficClassCount" using t by simp
  show "unat (ac_active_flows_total (account_flow_open (f_traffic f) a)) = length (um_put k f flows)"
    using tot room idx unat_u32_inc [of "ac_active_flows_total a"]
    by (simp add: account_flow_open_def Let_def um_length_put new)
  show "length (ac_per_class (account_flow_open (f_traffic f) a)) = kTrafficClassCount"
    using counters_length [OF c] by (simp add: account_flow_open_def Let_def)
  fix d assume d: "d \<noteq> TC_Count"
  have inc: "unat (ca_active_flows (ac_per_class a ! tc_index d) + 1) = flows_in d flows + 1"
    using unat_u32_inc [of "ca_active_flows (ac_per_class a ! tc_index d)"]
      counters_per_class(1) [OF c d] flows_in_le [of d flows] room by simp
  show "unat (ca_active_flows (ac_per_class (account_flow_open (f_traffic f) a) ! tc_index d)) =
      flows_in d (um_put k f flows)"
  proof (cases "d = f_traffic f")
    case True
    then show ?thesis
      using idx inc counters_per_class(2) [OF c d] new
      by (simp add: account_flow_open_def Let_def flows_in_put_new)
  next
    case False
    then show ?thesis
      using idx counters_per_class(1) [OF c d] new
      by (auto simp: account_flow_open_def Let_def flows_in_put_new)
  qed
qed

lemma account_flow_close_counters:
  assumes c: "counters_inv flows a" and wf: "um_wf flows" and k: "map_of flows k = Some f"
    and t: "f_traffic f \<noteq> TC_Count"
  shows "counters_inv (um_erase k flows) (account_flow_close (f_traffic f) a)"
proof (rule countersI)
  have tot: "unat (ac_active_flows_total a) = length flows" using c by (simp add: counters_inv_def)
  have idx: "tc_index (f_traffic f) < kTrafficClassCount" using t by simp
  have "0 < length flows" using k by (cases flows) auto
  then have pos: "0 < unat (ac_active_flows_total a)" using tot by simp
  show "unat (ac_active_flows_total (account_flow_close (f_traffic f) a)) = length (um_erase k flows)"
    using tot pos idx unat_u32_dec [OF pos] um_length_erase [OF wf k]
    by (auto simp: account_flow_close_def Let_def unat_gt_0 word_gt_0)
  show "length (ac_per_class (account_flow_close (f_traffic f) a)) = kTrafficClassCount"
    using counters_length [OF c] by (simp add: account_flow_close_def Let_def)
  fix d assume d: "d \<noteq> TC_Count"
  show "unat (ca_active_flows (ac_per_class (account_flow_close (f_traffic f) a) ! tc_index d)) =
      flows_in d (um_erase k flows)"
  proof (cases "d = f_traffic f")
    case True
    then have p: "0 < unat (ca_active_flows (ac_per_class a ! tc_index d))"
      using counters_per_class(1) [OF c d] flows_in_pos [OF wf k] by simp
    then show ?thesis
      using True idx unat_u32_dec [OF p] counters_per_class [OF c d] flows_in_erase [OF wf k]
      by (simp add: account_flow_close_def Let_def unat_gt_0 word_gt_0)
  next
    case False
    then show ?thesis
      using idx counters_per_class(1) [OF c d] flows_in_erase [OF wf k]
      by (auto simp: account_flow_close_def Let_def)
  qed
qed

section \<open>Release of all flows of a request\<close>

lemma um_erase_filter:
  "um_erase k (filter P m) = filter (\<lambda>p. fst p \<noteq> k \<and> P p) m"
  by (simp add: um_erase_def conj_commute)

lemma map_of_filter_wf:
  "um_wf m \<Longrightarrow> map_of (filter P m) k = (case map_of m k of Some v \<Rightarrow> if P (k, v) then Some v else None | None \<Rightarrow> None)"
proof (induction m)
  case Nil
  show ?case by simp
next
  case (Cons p m)
  obtain k' v where p: "p = (k', v)" by (cases p)
  have wf: "um_wf m" and n: "k' \<notin> fst ` set m" using Cons.prems by (auto simp: um_wf_def p)
  have "map_of m k' = None" using n by (simp add: map_of_eq_None_iff)
  then show ?case using Cons.IH [OF wf] by (auto simp: p)
qed

lemma um_wf_filter [simp]: "um_wf m \<Longrightarrow> um_wf (filter P m)"
  by (induction m) (auto simp: um_wf_def)

lemma release_loop_frame [simp]:
  "l_limits (release_loop fs l) = l_limits l"
  "l_requests (release_loop fs l) = l_requests l"
  "l_terminal_order (release_loop fs l) = l_terminal_order l"
  "l_flows_by_request (release_loop fs l) = l_flows_by_request l"
  "l_next_flow_sequence (release_loop fs l) = l_next_flow_sequence l"
  by (induction fs arbitrary: l) (simp_all split: option.splits)

lemma account_flow_close_frame [simp]:
  "ac_requests_evicted (account_flow_close c a) = ac_requests_evicted a"
  "ac_completions_committed (account_flow_close c a) = ac_completions_committed a"
  by (simp_all add: account_flow_close_def Let_def)

lemma release_loop_table:
  "um_wf (l_flows l) \<Longrightarrow> l_flows (release_loop fs l) = filter (\<lambda>p. fst p \<notin> set fs) (l_flows l)"
proof (induction fs arbitrary: l)
  case Nil
  show ?case by simp
next
  case (Cons x fs)
  show ?case
  proof (cases "map_of (l_flows l) x")
    case None
    then have "x \<notin> fst ` set (l_flows l)" by (simp add: map_of_eq_None_iff)
    then have "filter (\<lambda>p. fst p \<notin> set fs) (l_flows l) = filter (\<lambda>p. fst p \<notin> set (x # fs)) (l_flows l)"
      by (intro filter_cong) auto
    then show ?thesis using None Cons by simp
  next
    case (Some fr)
    let ?l = "l\<lparr> l_accounting := account_flow_close (f_traffic fr) (l_accounting l),
                l_flows := um_erase x (l_flows l) \<rparr>"
    have "l_flows (release_loop (x # fs) l) = filter (\<lambda>p. fst p \<notin> set fs) (um_erase x (l_flows l))"
      using Cons.IH [of ?l] Cons.prems Some by simp
    also have "\<dots> = filter (\<lambda>p. fst p \<notin> set (x # fs)) (l_flows l)"
      unfolding um_erase_def filter_filter by (rule filter_cong) auto
    finally show ?thesis .
  qed
qed

lemma release_loop_counters:
  "um_wf (l_flows l) \<Longrightarrow> counters_inv (l_flows l) (l_accounting l) \<Longrightarrow>
   (\<And>k f. map_of (l_flows l) k = Some f \<Longrightarrow> f_traffic f \<noteq> TC_Count) \<Longrightarrow>
   counters_inv (l_flows (release_loop fs l)) (l_accounting (release_loop fs l))"
proof (induction fs arbitrary: l)
  case Nil
  then show ?case by simp
next
  case (Cons x fs)
  show ?case
  proof (cases "map_of (l_flows l) x")
    case None
    then show ?thesis using Cons by simp
  next
    case (Some fr)
    let ?l = "l\<lparr> l_accounting := account_flow_close (f_traffic fr) (l_accounting l),
                l_flows := um_erase x (l_flows l) \<rparr>"
    have "counters_inv (l_flows (release_loop fs ?l)) (l_accounting (release_loop fs ?l))"
    proof (rule Cons.IH)
      show "um_wf (l_flows ?l)" using Cons.prems by simp
      show "counters_inv (l_flows ?l) (l_accounting ?l)"
        using account_flow_close_counters [OF Cons.prems(2,1) Some] Cons.prems(3) [OF Some] by simp
      show "f_traffic f \<noteq> TC_Count" if "map_of (l_flows ?l) k = Some f" for k f
        using that Cons.prems(3) by (auto split: if_splits)
    qed
    then show ?thesis using Some by simp
  qed
qed

lemma release_loop_acc [simp]:
  "ac_requests_evicted (l_accounting (release_loop fs l)) = ac_requests_evicted (l_accounting l)"
  "ac_completions_committed (l_accounting (release_loop fs l)) = ac_completions_committed (l_accounting l)"
  by (induction fs arbitrary: l) (simp_all split: option.splits)

lemma index_range:
  "index_inv flows idx \<Longrightarrow> um_wf flows \<Longrightarrow> p \<in> set flows \<Longrightarrow>
   fst p \<in> set (mm_range rid idx) \<longleftrightarrow> f_request (snd p) = rid"
  by (cases p) (simp add: index_inv_def flip: um_find_set)

lemma flows_of_filter:
  "flows_of rid (filter (\<lambda>p. f_request (snd p) \<noteq> x) flows) = (if rid = x then 0 else flows_of rid flows)"
  by (induction flows) (auto simp: flows_of_def)

lemma index_inv_release:
  assumes "index_inv flows idx" and "um_wf flows"
  shows "index_inv (filter (\<lambda>p. f_request (snd p) \<noteq> rid) flows) (mm_erase_key rid idx)"
  using assms
  by (auto simp: index_inv_def map_of_filter_wf distinct_mm_erase_key split: option.splits)

text \<open>Releasing every flow of one request and writing its record back.\<close>

lemma release_core:
  assumes core: "ledger_core l" and at: "map_of (l_requests l) rid = Some r0"
    and l1: "l1 = release_loop (mm_range rid (l_flows_by_request l)) l"
    and r: "r_id r = rid" "record_shape r" "r_active_flows r = 0"
      "rl_terminal (r_lifecycle r) \<Longrightarrow> rid \<in> set order"
    and order: "set (l_terminal_order l) \<subseteq> set order"
    and a: "same_active a (l_accounting l1)"
  shows "ledger_core (l1\<lparr> l_flows_by_request := mm_erase_key rid (l_flows_by_request l1),
           l_requests := um_put rid r (l_requests l1), l_terminal_order := order,
           l_accounting := a \<rparr>)"
proof -
  have wf: "um_wf (l_flows l)" "um_wf (l_requests l)" and idx: "index_inv (l_flows l) (l_flows_by_request l)"
    and req: "\<And>k v. map_of (l_requests l) k = Some v \<Longrightarrow> request_inv (l_flows l) (l_terminal_order l) k v"
    and flw: "\<And>k v. map_of (l_flows l) k = Some v \<Longrightarrow> flow_inv (l_requests l) (l_next_flow_sequence l) k v"
    and cnt: "counters_inv (l_flows l) (l_accounting l)"
    and lim: "unat (ll_max_attempts_per_request (l_limits l)) \<le> 8"
    using core by (auto simp: ledger_core_def)
  have tab: "l_flows l1 = filter (\<lambda>p. f_request (snd p) \<noteq> rid) (l_flows l)"
    unfolding l1 release_loop_table [OF wf(1)]
    by (rule filter_cong) (auto simp only: index_range [OF idx wf(1)])
  have cnt1: "counters_inv (l_flows l1) (l_accounting l1)"
    unfolding l1 using wf(1) cnt flw by (intro release_loop_counters) (auto simp: flow_inv_def)
  have req1: "request_inv (l_flows l1) order k v"
    if "map_of (um_put rid r (l_requests l)) k = Some v" for k v
    using that r req [of k v] order
    by (auto simp: request_inv_def tab flows_of_filter split: if_splits)
  have flw1: "flow_inv (um_put rid r (l_requests l)) (l_next_flow_sequence l) k v"
    if "map_of (l_flows l1) k = Some v" for k v
    using that flw [of k v] wf
    by (auto simp: flow_inv_def tab map_of_filter_wf split: option.splits if_splits)
  have frame: "l_limits l1 = l_limits l" "l_requests l1 = l_requests l"
    "l_flows_by_request l1 = l_flows_by_request l" "l_next_flow_sequence l1 = l_next_flow_sequence l"
    by (simp_all add: l1)
  have "index_inv (l_flows l1) (mm_erase_key rid (l_flows_by_request l))"
    unfolding tab by (rule index_inv_release [OF idx wf(1)])
  moreover have "um_wf (l_flows l1)" using wf by (simp add: tab)
  ultimately show ?thesis
    using wf(2) lim req1 flw1 same_active_counters [OF a cnt1]
    by (simp add: ledger_core_def frame)
qed

lemma release_core_keep:
  assumes "ledger_core l" and "map_of (l_requests l) rid = Some r0"
    and l1: "l1 = release_loop (mm_range rid (l_flows_by_request l)) l"
    and "r_id r = rid" "record_shape r" "r_active_flows r = 0" "\<not> rl_terminal (r_lifecycle r)"
    and "same_active a (l_accounting l1)"
  shows "ledger_core (l1\<lparr> l_flows_by_request := mm_erase_key rid (l_flows_by_request l1),
           l_requests := um_put rid r (l_requests l1), l_accounting := a \<rparr>)"
proof -
  have "l_terminal_order l1 = l_terminal_order l" by (simp add: l1)
  then have "l1\<lparr> l_flows_by_request := x, l_requests := y, l_accounting := a \<rparr> =
      l1\<lparr> l_flows_by_request := x, l_requests := y, l_terminal_order := l_terminal_order l,
          l_accounting := a \<rparr>" for x y
    by (cases l1) simp
  then show ?thesis
    using release_core [OF assms(1-6), of "l_terminal_order l" a] assms(7,8) by simp
qed

section \<open>Eviction\<close>

definition evictable :: "RequestId set \<Rightarrow> RequestId \<times> RequestRecord \<Rightarrow> bool" where
  "evictable victims p \<longleftrightarrow> fst p \<in> victims \<and> rl_terminal (r_lifecycle (snd p))"

lemma evict_loop_count:
  "um_wf requests \<Longrightarrow> evict_loop n order requests evicted = (order', requests', evicted') \<Longrightarrow>
   evicted' + of_nat (length requests') = evicted + of_nat (length requests)"
proof (induction order arbitrary: requests evicted)
  case Nil
  then show ?case by simp
next
  case (Cons v order)
  show ?case
  proof (cases "length (v # order) > n \<and> (\<exists>r. map_of requests v = Some r \<and> rl_terminal (r_lifecycle r))")
    case True
    then obtain r where r: "map_of requests v = Some r" by blast
    have "evict_loop n order (um_erase v requests) (evicted + 1) = (order', requests', evicted')"
      using True Cons.prems(2) by auto
    then have "evicted' + of_nat (length requests') = evicted + 1 + of_nat (length (um_erase v requests))"
      by (rule Cons.IH [OF um_wf_erase [OF Cons.prems(1)]])
    moreover have "length requests = Suc (length (um_erase v requests))"
      using um_length_erase [OF Cons.prems(1) r] by simp
    ultimately show ?thesis by simp
  next
    case False
    then have "evict_loop n (v # order) requests evicted = evict_loop n order requests evicted \<or>
        evict_loop n (v # order) requests evicted = (v # order, requests, evicted)"
      by (simp split: option.splits)
    then show ?thesis
      using Cons.IH [OF Cons.prems(1), of evicted] Cons.prems(2) by (elim disjE) simp_all
  qed
qed

lemma evict_loop_exact:
  "um_wf requests \<Longrightarrow>
   \<exists>evicted'. evict_loop n order requests evicted =
     (drop (length order - n) order,
      filter (\<lambda>p. \<not> evictable (set (take (length order - n) order)) p) requests, evicted')"
proof (induction order arbitrary: requests evicted)
  case Nil
  show ?case by (simp add: evictable_def)
next
  case (Cons v order)
  show ?case
  proof (cases "length (v # order) > n")
    case False
    then have "length (v # order) - n = 0" by simp
    then show ?thesis using False by (simp add: evictable_def)
  next
    case long: True
    then have k: "length (v # order) - n = Suc (length order - n)" by simp
    let ?T = "set (take (length order - n) order)"
    have T: "set (take (Suc (length order - n)) (v # order)) = insert v ?T" by simp
    show ?thesis
    proof (cases "\<exists>r. map_of requests v = Some r \<and> rl_terminal (r_lifecycle r)")
      case False
      then have "p \<in> set requests \<Longrightarrow> fst p = v \<Longrightarrow> \<not> rl_terminal (r_lifecycle (snd p))" for p
        using Cons.prems by (cases p) (auto simp: um_find_set)
      then have "filter (\<lambda>p. \<not> evictable ?T p) requests =
          filter (\<lambda>p. \<not> evictable (insert v ?T) p) requests"
        by (intro filter_cong) (auto simp: evictable_def)
      moreover have "evict_loop n (v # order) requests evicted = evict_loop n order requests evicted"
        using long False by (auto split: option.splits)
      ultimately show ?thesis
        using Cons.IH [OF Cons.prems, of evicted] unfolding k T by simp
    next
      case fin: True
      then have "p \<in> set requests \<Longrightarrow> fst p = v \<Longrightarrow> rl_terminal (r_lifecycle (snd p))" for p
        using Cons.prems by (cases p) (auto simp flip: um_find_set)
      then have "filter (\<lambda>p. \<not> evictable ?T p) (um_erase v requests) =
          filter (\<lambda>p. \<not> evictable (insert v ?T) p) requests"
        unfolding um_erase_def filter_filter by (intro filter_cong) (auto simp: evictable_def)
      moreover have "evict_loop n (v # order) requests evicted =
          evict_loop n order (um_erase v requests) (evicted + 1)"
        using long fin by auto
      ultimately show ?thesis
        using Cons.IH [OF um_wf_erase [OF Cons.prems], of v "evicted + 1"] unfolding k T by simp
    qed
  qed
qed

lemma refresh_frame [simp]:
  "l_limits (refresh_request_counts l) = l_limits l"
  "l_requests (refresh_request_counts l) = l_requests l"
  "l_terminal_order (refresh_request_counts l) = l_terminal_order l"
  "l_flows (refresh_request_counts l) = l_flows l"
  "l_flows_by_request (refresh_request_counts l) = l_flows_by_request l"
  "l_next_flow_sequence (refresh_request_counts l) = l_next_flow_sequence l"
  "ac_active_flows_total (l_accounting (refresh_request_counts l)) = ac_active_flows_total (l_accounting l)"
  "ac_per_class (l_accounting (refresh_request_counts l)) = ac_per_class (l_accounting l)"
  "ac_completions_committed (l_accounting (refresh_request_counts l)) =
     ac_completions_committed (l_accounting l)"
  by (simp_all add: refresh_request_counts_def)

lemma evict_frame [simp]:
  "l_limits (evict_if_needed l) = l_limits l"
  "l_flows (evict_if_needed l) = l_flows l"
  "l_flows_by_request (evict_if_needed l) = l_flows_by_request l"
  "l_next_flow_sequence (evict_if_needed l) = l_next_flow_sequence l"
  "ac_active_flows_total (l_accounting (evict_if_needed l)) = ac_active_flows_total (l_accounting l)"
  "ac_per_class (l_accounting (evict_if_needed l)) = ac_per_class (l_accounting l)"
  "ac_completions_committed (l_accounting (evict_if_needed l)) = ac_completions_committed (l_accounting l)"
  by (simp_all add: evict_if_needed_def split: prod.split)

text \<open>The number of records an eviction pops off the front of the retention queue.\<close>

definition overflow :: "Ledger \<Rightarrow> nat" where
  "overflow l = length (l_terminal_order l) - unat (ll_max_retained_terminal_requests (l_limits l))"

lemma evict_requests:
  assumes "um_wf (l_requests l)"
  shows "l_terminal_order (evict_if_needed l) = drop (overflow l) (l_terminal_order l)"
    and "l_requests (evict_if_needed l) =
      filter (\<lambda>p. \<not> evictable (set (take (overflow l) (l_terminal_order l))) p) (l_requests l)"
  using evict_loop_exact [OF assms, of "unat (ll_max_retained_terminal_requests (l_limits l))"
      "l_terminal_order l" "ac_requests_evicted (l_accounting l)"]
  by (auto simp: evict_if_needed_def overflow_def)

lemma evict_find:
  assumes "um_wf (l_requests l)"
  shows "map_of (l_requests (evict_if_needed l)) rid =
     (case map_of (l_requests l) rid of
        Some r \<Rightarrow> if evictable (set (take (overflow l) (l_terminal_order l))) (rid, r) then None else Some r
      | None \<Rightarrow> None)"
  by (auto simp: evict_requests [OF assms] map_of_filter_wf [OF assms] split: option.splits)

lemma evict_find_Some:
  assumes "um_wf (l_requests l)"
  shows "map_of (l_requests (evict_if_needed l)) rid = Some r \<longleftrightarrow>
     map_of (l_requests l) rid = Some r \<and>
     \<not> (rid \<in> set (take (overflow l) (l_terminal_order l)) \<and> rl_terminal (r_lifecycle r))"
  by (auto simp: evict_find [OF assms] evictable_def split: option.splits)

lemma take_drop_mem: "x \<in> set xs \<Longrightarrow> x \<notin> set (take n xs) \<Longrightarrow> x \<in> set (drop n xs)"
  by (metis UnE append_take_drop_id set_append)

lemma evict_inv:
  assumes core: "ledger_core l"
  shows "ledger_inv (evict_if_needed l)"
proof -
  have wf: "um_wf (l_requests l)" "um_wf (l_flows l)"
    and req: "\<And>k v. map_of (l_requests l) k = Some v \<Longrightarrow> request_inv (l_flows l) (l_terminal_order l) k v"
    and flw: "\<And>k v. map_of (l_flows l) k = Some v \<Longrightarrow> flow_inv (l_requests l) (l_next_flow_sequence l) k v"
    and rest: "index_inv (l_flows l) (l_flows_by_request l)" "counters_inv (l_flows l) (l_accounting l)"
      "unat (ll_max_attempts_per_request (l_limits l)) \<le> 8"
    using core by (auto simp: ledger_core_def)
  have "request_inv (l_flows l) (drop (overflow l) (l_terminal_order l)) rid r"
    if "map_of (l_requests (evict_if_needed l)) rid = Some r" for rid r
    using that req [of rid r] take_drop_mem [of rid "l_terminal_order l" "overflow l"]
    unfolding evict_find_Some [OF wf(1)] request_inv_def by blast
  moreover have "flow_inv (l_requests (evict_if_needed l)) (l_next_flow_sequence l) fid f"
    if "map_of (l_flows l) fid = Some f" for fid f
    using flw [OF that] unfolding flow_inv_def evict_find_Some [OF wf(1)] record_open_def by blast
  moreover have "counters_inv (l_flows l) (l_accounting (evict_if_needed l))"
    using rest(2) by (simp add: counters_inv_def)
  moreover have "um_wf (l_requests (evict_if_needed l))"
    using wf by (simp add: evict_requests(2))
  ultimately have "ledger_core (evict_if_needed l)"
    unfolding ledger_core_def evict_frame evict_requests(1) [OF wf(1)] using wf rest by blast
  moreover have "retention_bounded (evict_if_needed l)"
    by (simp add: retention_bounded_def evict_requests(1) [OF wf(1)] overflow_def)
  ultimately show ?thesis by (simp add: ledger_inv_def)
qed

section \<open>Writing one record back\<close>

lemma update_core:
  assumes core: "ledger_core l" and at: "map_of (l_requests l) rid = Some r0"
    and r: "r_id r = rid" "record_shape r" "r_active_flows r = r_active_flows r0"
      "rl_terminal (r_lifecycle r) \<Longrightarrow> rid \<in> set (l_terminal_order l)"
      "record_open r0 \<Longrightarrow> record_open r"
    and a: "same_active a (l_accounting l)"
  shows "ledger_core (l\<lparr> l_requests := um_put rid r (l_requests l), l_accounting := a \<rparr>)"
proof -
  have wf: "um_wf (l_requests l)" "um_wf (l_flows l)"
    and req: "\<And>k v. map_of (l_requests l) k = Some v \<Longrightarrow> request_inv (l_flows l) (l_terminal_order l) k v"
    and flw: "\<And>k v. map_of (l_flows l) k = Some v \<Longrightarrow> flow_inv (l_requests l) (l_next_flow_sequence l) k v"
    and rest: "index_inv (l_flows l) (l_flows_by_request l)" "counters_inv (l_flows l) (l_accounting l)"
      "unat (ll_max_attempts_per_request (l_limits l)) \<le> 8"
    using core by (auto simp: ledger_core_def)
  have "request_inv (l_flows l) (l_terminal_order l) k v"
    if "map_of (um_put rid r (l_requests l)) k = Some v" for k v
    using that req [of k v] req [OF at] r by (auto simp: request_inv_def split: if_splits)
  moreover have "flow_inv (um_put rid r (l_requests l)) (l_next_flow_sequence l) k v"
    if "map_of (l_flows l) k = Some v" for k v
    using flw [OF that] at r(5) by (auto simp: flow_inv_def)
  ultimately show ?thesis
    using wf rest same_active_counters [OF a rest(2)] by (simp add: ledger_core_def)
qed

lemma same_active_refl [simp]: "same_active a a"
  by (simp add: same_active_def)

lemma core_record:
  assumes "ledger_core l" and "map_of (l_requests l) rid = Some r"
  shows "r_id r = rid" "record_shape r" "unat (r_active_flows r) = flows_of rid (l_flows l)"
    "rl_terminal (r_lifecycle r) \<Longrightarrow> rid \<in> set (l_terminal_order l)"
  using assms by (auto simp: ledger_core_def request_inv_def)

lemma core_limits: "ledger_core l \<Longrightarrow> unat (ll_max_attempts_per_request (l_limits l)) \<le> 8"
  by (simp add: ledger_core_def)

lemma retire_inv:
  assumes core: "ledger_core l" and at: "map_of (l_requests l) rid = Some r0"
    and r: "r_id r = rid" "record_shape r" and c: "\<And>a. same_active (counters a) a"
  shows "ledger_inv (retire_request rid r rid counters l)"
proof -
  let ?l1 = "release_loop (mm_range rid (l_flows_by_request l)) l"
  have "ledger_core (?l1\<lparr> l_flows_by_request := mm_erase_key rid (l_flows_by_request ?l1),
      l_requests := um_put rid (r\<lparr> r_active_flows := 0, r_accounting_closed := True \<rparr>) (l_requests ?l1),
      l_terminal_order := l_terminal_order l @ [rid], l_accounting := counters (l_accounting ?l1) \<rparr>)"
    by (rule release_core [OF core at refl]) (use r c in \<open>auto simp: record_shape_def\<close>)
  then have "ledger_inv (evict_if_needed (?l1\<lparr> l_flows_by_request := mm_erase_key rid (l_flows_by_request ?l1),
      l_requests := um_put rid (r\<lparr> r_active_flows := 0, r_accounting_closed := True \<rparr>) (l_requests ?l1),
      l_terminal_order := l_terminal_order l @ [rid], l_accounting := counters (l_accounting ?l1) \<rparr>))"
    by (rule evict_inv)
  then show ?thesis
    by (simp add: retire_request_def release_request_flows_def Let_def r)
qed

lemma record_shape_update [simp]:
  "record_shape (r\<lparr> r_attempts := (r_attempts r)[i := e] \<rparr>) = record_shape r"
  "record_shape (r\<lparr> r_lifecycle := x1 \<rparr>) = record_shape r"
  "record_shape (r\<lparr> r_stage := x2 \<rparr>) = record_shape r"
  "record_shape (r\<lparr> r_requires_revalidation := x3 \<rparr>) = record_shape r"
  "record_shape (r\<lparr> r_generation := x4 \<rparr>) = record_shape r"
  "record_shape (r\<lparr> r_authority_floor := x5 \<rparr>) = record_shape r"
  "record_shape (r\<lparr> r_terminal_reason := x6 \<rparr>) = record_shape r"
  "record_shape (r\<lparr> r_terminal_at_nanos := x7 \<rparr>) = record_shape r"
  "record_shape (r\<lparr> r_bytes_in := x8 \<rparr>) = record_shape r"
  "record_shape (r\<lparr> r_bytes_out := x9 \<rparr>) = record_shape r"
  "record_shape (r\<lparr> r_active_flows := x10 \<rparr>) = record_shape r"
  "record_shape (r\<lparr> r_accounting_closed := x11 \<rparr>) = record_shape r"
  "record_shape (r\<lparr> r_decisions := x12 \<rparr>) = record_shape r"
  "record_shape (r\<lparr> r_defers := x13 \<rparr>) = record_shape r"
  "record_shape (r\<lparr> r_rejections := x14 \<rparr>) = record_shape r"
  by (simp_all add: record_shape_def)

lemma record_shape_bound_attempts [simp]:
  "record_shape (update_bound_attempts f r) = record_shape r"
  by (simp add: record_shape_def update_bound_attempts_def)

lemma update_bound_attempts_frame [simp]:
  "r_id (update_bound_attempts f r) = r_id r"
  "r_lifecycle (update_bound_attempts f r) = r_lifecycle r"
  "r_requires_revalidation (update_bound_attempts f r) = r_requires_revalidation r"
  "r_active_flows (update_bound_attempts f r) = r_active_flows r"
  "r_authority_floor (update_bound_attempts f r) = r_authority_floor r"
  by (simp_all add: update_bound_attempts_def)

lemma bind_attempt_frame [simp]:
  "r_id (bind_attempt e r) = r_id r"
  "r_lifecycle (bind_attempt e r) = r_lifecycle r"
  "r_requires_revalidation (bind_attempt e r) = r_requires_revalidation r"
  "r_active_flows (bind_attempt e r) = r_active_flows r"
  "r_authority_floor (bind_attempt e r) = r_authority_floor r"
  by (simp_all add: bind_attempt_def)

lemma record_shape_bind:
  assumes "record_shape r" and "r_attempt_count r < limit" and "unat limit \<le> 8"
  shows "record_shape (bind_attempt e r)"
proof -
  have "unat (r_attempt_count r) < 8" using assms(2,3) by (simp add: word_less_nat_alt)
  then have "unat (r_attempt_count r + 1) \<le> 8" using unat_u32_inc [of "r_attempt_count r"] by simp
  then show ?thesis using assms(1) by (simp add: record_shape_def bind_attempt_def)
qed

lemma same_active_counters_update [simp]:
  "same_active (ac_requests_registered_update f a) a"
  "same_active (ac_attempts_registered_update f a) a"
  "same_active (ac_attempts_superseded_update f a) a"
  "same_active (ac_requests_interrupted_update f a) a"
  "same_active (ac_completions_refused_update f a) a"
  "same_active (ac_completions_suppressed_update f a) a"
  by (simp_all add: same_active_def)

lemma ledger_invI: "ledger_core l \<Longrightarrow> retention_bounded l \<Longrightarrow> ledger_inv l"
  by (simp add: ledger_inv_def)

text \<open>The write-back lemma in the form the operations use it.\<close>

lemma update_inv:
  assumes inv: "ledger_inv l" and at: "map_of (l_requests l) rid = Some r0"
    and r: "r_id r = rid" "record_shape r" "r_active_flows r = r_active_flows r0"
      "rl_terminal (r_lifecycle r) \<Longrightarrow> rl_terminal (r_lifecycle r0)"
      "record_open r0 \<Longrightarrow> record_open r"
    and a: "same_active a (l_accounting l)"
  shows "ledger_inv (l\<lparr> l_requests := um_put rid r (l_requests l), l_accounting := a \<rparr>)"
proof (rule ledger_invI)
  have core: "ledger_core l" using inv by (simp add: ledger_inv_def)
  show "ledger_core (l\<lparr> l_requests := um_put rid r (l_requests l), l_accounting := a \<rparr>)"
    using core_record(4) [OF core at] by (intro update_core [OF core at]) (use r a in auto)
  show "retention_bounded (l\<lparr> l_requests := um_put rid r (l_requests l), l_accounting := a \<rparr>)"
    using inv by (simp add: ledger_inv_def retention_bounded_def)
qed

lemma update_inv':
  assumes "ledger_inv l" and "map_of (l_requests l) rid = Some r0"
    and "r_id r = rid" "record_shape r" "r_active_flows r = r_active_flows r0"
      "rl_terminal (r_lifecycle r) \<Longrightarrow> rl_terminal (r_lifecycle r0)"
      "record_open r0 \<Longrightarrow> record_open r"
  shows "ledger_inv (l\<lparr> l_requests := um_put rid r (l_requests l) \<rparr>)"
  using update_inv [OF assms, of "l_accounting l"] by simp

lemma accounting_inv:
  "ledger_inv l \<Longrightarrow> same_active a (l_accounting l) \<Longrightarrow> ledger_inv (l\<lparr> l_accounting := a \<rparr>)"
  using same_active_counters by (auto simp: ledger_inv_def ledger_core_def retention_bounded_def)

section \<open>Preservation, operation by operation\<close>

lemma inv_core: "ledger_inv l \<Longrightarrow> ledger_core l"
  by (simp add: ledger_inv_def)

lemma register_attempt_inv:
  assumes inv: "ledger_inv l"
  shows "ledger_inv (snd (ledger_register_attempt rid attempt hash model route now l))"
proof (cases "map_of (l_requests l) rid")
  case None
  then show ?thesis using inv by (simp add: ledger_register_attempt_def)
next
  case (Some r)
  note facts = core_record [OF inv_core [OF inv] Some] core_limits [OF inv_core [OF inv]]
  show ?thesis
    using inv Some
    by (auto simp: ledger_register_attempt_def Let_def not_le record_open_def facts rl_terminal_def
        intro!: update_inv [OF inv Some] record_shape_bind [OF facts(2)])
qed

lemma revalidate_request_inv:
  assumes inv: "ledger_inv l"
  shows "ledger_inv (snd (ledger_revalidate_request rid attempt now l))"
proof (cases "map_of (l_requests l) rid")
  case None
  then show ?thesis using inv by (simp add: ledger_revalidate_request_def)
next
  case (Some r)
  note facts = core_record [OF inv_core [OF inv] Some] core_limits [OF inv_core [OF inv]]
  show ?thesis
    using inv Some
    by (auto simp: ledger_revalidate_request_def Let_def not_le record_open_def facts rl_terminal_def
        intro!: update_inv [OF inv Some] record_shape_bind [OF facts(2)])
qed

lemma advance_stage_inv:
  assumes inv: "ledger_inv l"
  shows "ledger_inv (snd (ledger_advance_stage rid attempt target now l))"
proof (cases "map_of (l_requests l) rid")
  case None
  then show ?thesis using inv by (simp add: ledger_advance_stage_def)
next
  case (Some r)
  note facts = core_record [OF inv_core [OF inv] Some]
  show ?thesis
    using inv Some
    by (auto simp: ledger_advance_stage_def Let_def record_open_def facts rl_terminal_def
        split: option.splits intro!: update_inv' [OF inv Some])
qed

lemma supersede_attempt_inv:
  assumes inv: "ledger_inv l"
  shows "ledger_inv (snd (ledger_supersede_attempt rid attempt replacement now l))"
proof (cases "map_of (l_requests l) rid")
  case None
  then show ?thesis using inv by (simp add: ledger_supersede_attempt_def)
next
  case (Some r)
  note facts = core_record [OF inv_core [OF inv] Some] core_limits [OF inv_core [OF inv]]
  have shape: "record_shape (bind_attempt e (r\<lparr> r_attempts := (r_attempts r)[i := e'] \<rparr>))"
    if "r_attempt_count r < ll_max_attempts_per_request (l_limits l)" for e e' i
    by (rule record_shape_bind [of _ "ll_max_attempts_per_request (l_limits l)"])
      (use that facts in simp_all)
  show ?thesis
    using inv Some shape
    by (auto simp: ledger_supersede_attempt_def Let_def not_le record_open_def facts same_active_def
        split: option.splits intro!: update_inv [OF inv Some])
qed

lemma set_attempt_model_inv:
  assumes inv: "ledger_inv l"
  shows "ledger_inv (snd (set_attempt_model rid attempt hash model l))"
proof (cases "map_of (l_requests l) rid")
  case None
  then show ?thesis using inv by (simp add: set_attempt_model_def)
next
  case (Some r)
  note facts = core_record [OF inv_core [OF inv] Some]
  show ?thesis
    using inv Some
    by (auto simp: set_attempt_model_def Let_def record_open_def facts
        split: option.splits intro!: update_inv' [OF inv Some])
qed

lemma fail_attempt_inv:
  assumes inv: "ledger_inv l"
  shows "ledger_inv (snd (ledger_fail_attempt rid attempt reason now l))"
proof (cases "map_of (l_requests l) rid")
  case None
  then show ?thesis using inv by (simp add: ledger_fail_attempt_def)
next
  case (Some r)
  note facts = core_record [OF inv_core [OF inv] Some]
  show ?thesis
    using inv Some
    by (auto simp: ledger_fail_attempt_def Let_def facts same_active_def
        split: option.splits intro!: retire_inv [OF inv_core [OF inv] Some])
qed

lemma cancel_request_inv:
  assumes inv: "ledger_inv l"
  shows "ledger_inv (snd (ledger_cancel_request rid reason sequence now l))"
proof (cases "map_of (l_requests l) rid")
  case None
  then show ?thesis using inv by (simp add: ledger_cancel_request_def)
next
  case (Some r)
  note facts = core_record [OF inv_core [OF inv] Some]
  show ?thesis
    using inv Some
    by (auto simp: ledger_cancel_request_def Let_def facts same_active_def record_open_def rl_terminal_def
        intro!: retire_inv [OF inv_core [OF inv] Some] update_inv' [OF inv Some])
qed

lemma publish_completion_inv:
  assumes inv: "ledger_inv l"
  shows "ledger_inv (snd (ledger_publish_completion p now l))"
proof (cases "map_of (l_requests l) (cp_request p)")
  case None
  then show ?thesis using inv by (simp add: ledger_publish_completion_def)
next
  case (Some r)
  note facts = core_record [OF inv_core [OF inv] Some]
  have ref: "ledger_inv (snd (publish_refused x y l))" "ledger_inv (snd (publish_suppressed l))" for x y
    using inv by (simp_all add: publish_refused_def publish_suppressed_def accounting_inv)
  have "ledger_inv (snd (publish_failure p now index r l))" for index
    using ref(2)
    by (auto simp: publish_failure_def Let_def facts same_active_def
        intro!: retire_inv [OF inv_core [OF inv] Some])
  moreover have "ledger_inv (snd (publish_success p now index r l))" for index
    using ref(2)
    by (auto simp: publish_success_def Let_def facts same_active_def
        intro!: retire_inv [OF inv_core [OF inv] Some])
  ultimately show ?thesis
    using inv Some ref by (simp add: ledger_publish_completion_def Let_def split: option.splits)
qed

lemma mark_interrupted_inv:
  assumes inv: "ledger_inv l"
  shows "ledger_inv (snd (mark_request_interrupted rid now l))"
proof (cases "map_of (l_requests l) rid")
  case None
  then show ?thesis using inv by (simp add: mark_request_interrupted_def)
next
  case (Some r)
  let ?l1 = "release_loop (mm_range rid (l_flows_by_request l)) l"
  note facts = core_record [OF inv_core [OF inv] Some]
  have "ledger_core (?l1\<lparr> l_flows_by_request := mm_erase_key rid (l_flows_by_request ?l1),
      l_requests := um_put rid r' (l_requests ?l1),
      l_accounting := ac_requests_interrupted_update f (l_accounting ?l1) \<rparr>)"
    if "r_id r' = rid" "record_shape r'" "r_active_flows r' = 0" "r_lifecycle r' = RL_Interrupted" for r' f
    by (rule release_core_keep [OF inv_core [OF inv] Some refl]) (use that in \<open>auto simp: rl_terminal_def\<close>)
  then show ?thesis
    using inv Some facts
    by (auto simp: mark_request_interrupted_def Let_def release_request_flows_def
        ledger_inv_def retention_bounded_def)
qed

lemma refresh_core [simp]: "ledger_core (refresh_request_counts l) = ledger_core l"
  by (simp add: ledger_core_def counters_inv_def)

lemma refresh_inv [simp]: "ledger_inv (refresh_request_counts l) = ledger_inv l"
  by (simp add: ledger_inv_def retention_bounded_def)

lemma insert_core:
  assumes core: "ledger_core l" and new: "map_of (l_requests l) rid = None"
    and r: "r_id r = rid" "record_shape r" "r_active_flows r = 0"
      "rl_terminal (r_lifecycle r) \<Longrightarrow> rid \<in> set order"
    and order: "set (l_terminal_order l) \<subseteq> set order"
    and a: "same_active a (l_accounting l)"
  shows "ledger_core (l\<lparr> l_terminal_order := order, l_accounting := a,
           l_requests := um_emplace rid r (l_requests l) \<rparr>)"
proof -
  have wf: "um_wf (l_requests l)" "um_wf (l_flows l)"
    and req: "\<And>k v. map_of (l_requests l) k = Some v \<Longrightarrow> request_inv (l_flows l) (l_terminal_order l) k v"
    and flw: "\<And>k v. map_of (l_flows l) k = Some v \<Longrightarrow> flow_inv (l_requests l) (l_next_flow_sequence l) k v"
    and rest: "index_inv (l_flows l) (l_flows_by_request l)" "counters_inv (l_flows l) (l_accounting l)"
      "unat (ll_max_attempts_per_request (l_limits l)) \<le> 8"
    using core by (auto simp: ledger_core_def)
  have none: "flows_of rid (l_flows l) = 0"
    unfolding flows_of_0 [OF wf(2)] using flw new by (fastforce simp: flow_inv_def)
  have put: "um_emplace rid r (l_requests l) = um_put rid r (l_requests l)"
    using new by (simp add: um_emplace_def)
  have "request_inv (l_flows l) order k v"
    if "map_of (um_put rid r (l_requests l)) k = Some v" for k v
    using that req [of k v] r none order by (auto simp: request_inv_def split: if_splits)
  moreover have "flow_inv (um_put rid r (l_requests l)) (l_next_flow_sequence l) k v"
    if "map_of (l_flows l) k = Some v" for k v
    using flw [OF that] new by (auto simp: flow_inv_def)
  ultimately show ?thesis
    using wf rest same_active_counters [OF a rest(2)] by (simp add: ledger_core_def put)
qed

lemma record_shape_init:
  "rid \<noteq> nil_id \<Longrightarrow> record_shape (RequestRecord_init\<lparr> r_id := rid \<rparr>)"
  by (simp add: record_shape_def RequestRecord_init_def kMaxAttemptsPerRequest_def)

lemma register_request_inv:
  assumes inv: "ledger_inv l"
  shows "ledger_inv (snd (ledger_register_request rid now l))"
proof -
  let ?r = "RequestRecord_init\<lparr> r_id := rid, r_generation := 1, r_lifecycle := RL_Registered,
              r_stage := SS_Unknown, r_registered_at_nanos := now \<rparr>"
  let ?a = "ac_requests_registered_update (\<lambda>n. n + 1) (l_accounting l)"
  have "ledger_inv (l\<lparr> l_requests := um_emplace rid ?r (l_requests l), l_accounting := ?a \<rparr>)"
    if "rid \<noteq> nil_id" and "map_of (l_requests l) rid = None"
  proof -
    have "ledger_core (l\<lparr> l_terminal_order := l_terminal_order l, l_accounting := ?a,
        l_requests := um_emplace rid ?r (l_requests l) \<rparr>)"
      by (rule insert_core [OF inv_core [OF inv] that(2)])
        (use that in \<open>auto simp: record_shape_def RequestRecord_init_def kMaxAttemptsPerRequest_def rl_terminal_def\<close>)
    moreover have "l\<lparr> l_terminal_order := l_terminal_order l, l_accounting := ?a,
        l_requests := um_emplace rid ?r (l_requests l) \<rparr> =
        l\<lparr> l_requests := um_emplace rid ?r (l_requests l), l_accounting := ?a \<rparr>" by (cases l) simp
    ultimately have "ledger_core (l\<lparr> l_requests := um_emplace rid ?r (l_requests l), l_accounting := ?a \<rparr>)"
      by (simp only:)
    then show ?thesis using inv by (simp add: ledger_inv_def retention_bounded_def)
  qed
  then show ?thesis using inv by (auto simp: ledger_register_request_def Let_def split: option.splits)
qed

lemma restore_record_inv:
  assumes inv: "ledger_inv l"
  shows "ledger_inv (snd (restore_record r l))"
proof -
  have ins: "ledger_inv (evict_if_needed (refresh_request_counts
      (l\<lparr> l_terminal_order := order, l_accounting := a,
          l_requests := um_emplace (r_id r) r' (l_requests l) \<rparr>)))"
    if "map_of (l_requests l) (r_id r) = None" "r_id r' = r_id r" "record_shape r'" "r_active_flows r' = 0"
      "rl_terminal (r_lifecycle r') \<Longrightarrow> r_id r \<in> set order"
      "set (l_terminal_order l) \<subseteq> set order" "same_active a (l_accounting l)" for r' a order
    by (rule evict_inv, unfold refresh_core, rule insert_core [OF inv_core [OF inv] that(1)])
      (use that in auto)
  have keep: "ledger_inv (evict_if_needed (refresh_request_counts
      (l\<lparr> l_accounting := a, l_requests := um_emplace (r_id r) r' (l_requests l) \<rparr>)))"
    if "map_of (l_requests l) (r_id r) = None" "r_id r' = r_id r" "record_shape r'" "r_active_flows r' = 0"
      "\<not> rl_terminal (r_lifecycle r')" "same_active a (l_accounting l)" for r' a
    using ins [of r' "l_terminal_order l" a] that by simp
  show ?thesis
  proof (cases "is_nil (r_id r) \<or> r_attempt_count r > kMaxAttemptsPerRequest \<or>
      map_of (l_requests l) (r_id r) \<noteq> None")
    case True
    then show ?thesis using inv by (auto simp: restore_record_def)
  next
    case False
    then have c: "unat (r_attempt_count r) \<le> 8"
      by (simp add: kMaxAttemptsPerRequest_def word_less_nat_alt)
    show ?thesis
      using False c
      by (auto simp: restore_record_def Let_def record_shape_def same_active_def rl_terminal_def
          kMaxAttemptsPerRequest_def intro!: ins keep split: RequestLifecycle.split)
  qed
qed

lemma RequestLedger_frame [simp]:
  "l_requests (RequestLedger limits) = []" "l_terminal_order (RequestLedger limits) = []"
  "l_flows (RequestLedger limits) = []" "l_flows_by_request (RequestLedger limits) = []"
  "l_next_flow_sequence (RequestLedger limits) = 0"
  "l_accounting (RequestLedger limits) = AccountingSnapshot_init"
  "ll_max_attempts_per_request (l_limits (RequestLedger limits)) =
     (if ll_max_attempts_per_request limits = 0 \<or>
         ll_max_attempts_per_request limits > kMaxAttemptsPerRequest
      then kMaxAttemptsPerRequest else ll_max_attempts_per_request limits)"
  by (simp_all add: RequestLedger_def Let_def)

lemma init_counters: "counters_inv [] AccountingSnapshot_init"
  by (simp add: counters_inv_def AccountingSnapshot_init_def ClassAccounting_init_def
      flows_in_def traffic_classes_def kTrafficClassCount_def numeral_eq_Suc)

lemma init_inv: "ledger_inv (RequestLedger limits)"
  by (simp add: ledger_inv_def ledger_core_def retention_bounded_def init_counters index_inv_def
      kMaxAttemptsPerRequest_def word_less_nat_alt)

lemma clear_inv: "ledger_inv l \<Longrightarrow> ledger_inv (ledger_clear l)"
  by (simp add: ledger_inv_def ledger_core_def retention_bounded_def ledger_clear_def index_inv_def
      init_counters)

lemma unat_u64_inc: "(x :: u64) \<noteq> - 1 \<Longrightarrow> unat (x + 1) = unat x + 1"
  by (metis Suc_eq_plus1 add.commute add.right_inverse add_left_cancel unatSuc)

lemma index_inv_open:
  assumes "index_inv flows idx" and "map_of flows fid = None"
  shows "index_inv (um_put fid f flows) ((f_request f, fid) # idx)"
  using assms by (auto simp: index_inv_def)

lemma open_core:
  assumes core: "ledger_core l" and at: "map_of (l_requests l) rid = Some r" and "record_open r"
    and seq: "l_next_flow_sequence l \<noteq> - 1" and room: "length (l_flows l) + 1 < 2 ^ 32"
    and fid: "high fid = l_next_flow_sequence l + 1"
    and f: "f_id f = fid" "f_request f = rid" "f_traffic f \<noteq> TC_Unknown" "f_traffic f \<noteq> TC_Count"
  shows "ledger_core (l\<lparr> l_next_flow_sequence := l_next_flow_sequence l + 1,
           l_flows := um_emplace fid f (l_flows l), l_flows_by_request := (rid, fid) # l_flows_by_request l,
           l_requests := um_put rid (r\<lparr> r_active_flows := r_active_flows r + 1 \<rparr>) (l_requests l),
           l_accounting := account_flow_open (f_traffic f) (l_accounting l) \<rparr>)"
proof -
  have wf: "um_wf (l_requests l)" "um_wf (l_flows l)"
    and req: "\<And>k v. map_of (l_requests l) k = Some v \<Longrightarrow> request_inv (l_flows l) (l_terminal_order l) k v"
    and flw: "\<And>k v. map_of (l_flows l) k = Some v \<Longrightarrow> flow_inv (l_requests l) (l_next_flow_sequence l) k v"
    and rest: "index_inv (l_flows l) (l_flows_by_request l)" "counters_inv (l_flows l) (l_accounting l)"
      "unat (ll_max_attempts_per_request (l_limits l)) \<le> 8"
    using core by (auto simp: ledger_core_def)
  have lt: "l_next_flow_sequence l < l_next_flow_sequence l + 1"
    using unat_u64_inc [OF seq] by (simp add: word_less_nat_alt)
  have new: "map_of (l_flows l) fid = None"
  proof (cases "map_of (l_flows l) fid")
    case (Some v)
    then have "high fid \<le> l_next_flow_sequence l" using flw by (simp add: flow_inv_def)
    then show ?thesis using fid lt by (auto dest: leD)
  qed
  have act: "unat (r_active_flows r) = flows_of rid (l_flows l)" by (rule core_record(3) [OF core at])
  have inc: "unat (r_active_flows r + 1) = unat (r_active_flows r) + 1"
    using act flows_of_le [of rid "l_flows l"] room by (intro unat_u32_inc) simp
  have "request_inv (um_put fid f (l_flows l)) (l_terminal_order l) k v"
    if "map_of (um_put rid (r\<lparr> r_active_flows := r_active_flows r + 1 \<rparr>) (l_requests l)) k = Some v" for k v
    using that req [of k v] req [OF at] inc f(2)
    by (auto simp: request_inv_def flows_of_put_new [OF new] split: if_splits)
  moreover have "flow_inv (um_put rid (r\<lparr> r_active_flows := r_active_flows r + 1 \<rparr>) (l_requests l))
      (l_next_flow_sequence l + 1) k v"
    if "map_of (um_put fid f (l_flows l)) k = Some v" for k v
    using that flw [of k v] f fid lt at \<open>record_open r\<close>
    by (auto simp: flow_inv_def record_open_def split: if_splits)
  moreover have "index_inv (um_put fid f (l_flows l)) ((rid, fid) # l_flows_by_request l)"
    using index_inv_open [OF rest(1) new, of f] f(2) by simp
  moreover have "counters_inv (um_put fid f (l_flows l)) (account_flow_open (f_traffic f) (l_accounting l))"
    by (rule account_flow_open_counters [OF rest(2) new f(4) room])
  moreover have "um_emplace fid f (l_flows l) = um_put fid f (l_flows l)"
    using new by (simp add: um_emplace_def)
  ultimately show ?thesis using wf rest(3) by (simp add: ledger_core_def)
qed

lemma open_flow_inv:
  assumes inv: "ledger_inv l" and seq: "l_next_flow_sequence l \<noteq> - 1"
  shows "ledger_inv (snd (ledger_open_flow rid attempt traffic bytes now l))"
proof (cases "map_of (l_requests l) rid")
  case None
  then show ?thesis using inv by (simp add: ledger_open_flow_def)
next
  case (Some r)
  have room: "length (l_flows l) + 1 < 2 ^ 32"
    if "\<not> ac_active_flows_total (l_accounting l) \<ge> ll_max_active_flows_total (l_limits l)"
  proof -
    have "unat (ac_active_flows_total (l_accounting l)) = length (l_flows l)"
      using inv by (simp add: ledger_inv_def ledger_core_def counters_inv_def)
    moreover have "unat (ll_max_active_flows_total (l_limits l)) < 2 ^ 32"
      using unsigned_less [of "ll_max_active_flows_total (l_limits l)", where ?'a = nat] by simp
    ultimately show ?thesis using that by (simp add: word_le_nat_alt)
  qed
  have "ledger_core (l\<lparr> l_next_flow_sequence := l_next_flow_sequence l + 1,
      l_flows := um_emplace fid f (l_flows l), l_flows_by_request := (rid, fid) # l_flows_by_request l,
      l_requests := um_put rid (r\<lparr> r_active_flows := r_active_flows r + 1 \<rparr>) (l_requests l),
      l_accounting := account_flow_open traffic (l_accounting l) \<rparr>)"
    if "record_open r" "high fid = l_next_flow_sequence l + 1" "f_id f = fid" "f_request f = rid"
      "f_traffic f = traffic" "traffic \<noteq> TC_Unknown" "traffic \<noteq> TC_Count"
      "\<not> ac_active_flows_total (l_accounting l) \<ge> ll_max_active_flows_total (l_limits l)" for fid f
    using open_core [OF inv_core [OF inv] Some that(1) seq room [OF that(8)] that(2-4)] that by simp
  then show ?thesis
    using inv Some
    by (auto simp: ledger_open_flow_def Let_def record_open_def ledger_inv_def retention_bounded_def
        split: option.splits)
qed

lemma index_inv_close:
  assumes "index_inv flows idx" and "map_of flows fid = Some f"
  shows "index_inv (um_erase fid flows) (remove1 (f_request f, fid) idx)"
  using assms by (auto simp: index_inv_def)

lemma release_flow_inv:
  assumes inv: "ledger_inv l"
  shows "ledger_inv (snd (ledger_release_flow fid l))"
proof (cases "map_of (l_flows l) fid")
  case None
  then show ?thesis using inv by (simp add: ledger_release_flow_def)
next
  case (Some f)
  have core: "ledger_core l" using inv by (rule inv_core)
  have wf: "um_wf (l_requests l)" "um_wf (l_flows l)"
    and req: "\<And>k v. map_of (l_requests l) k = Some v \<Longrightarrow> request_inv (l_flows l) (l_terminal_order l) k v"
    and flw: "\<And>k v. map_of (l_flows l) k = Some v \<Longrightarrow> flow_inv (l_requests l) (l_next_flow_sequence l) k v"
    and rest: "index_inv (l_flows l) (l_flows_by_request l)" "counters_inv (l_flows l) (l_accounting l)"
      "unat (ll_max_attempts_per_request (l_limits l)) \<le> 8"
    using core by (auto simp: ledger_core_def)
  obtain r where r: "map_of (l_requests l) (f_request f) = Some r" "record_open r"
    using flw [OF Some] by (auto simp: flow_inv_def)
  let ?r = "r\<lparr> r_active_flows := r_active_flows r - 1 \<rparr>"
  have pos: "0 < unat (r_active_flows r)"
    using core_record(3) [OF core r(1)] flows_of_pos [OF wf(2) Some] by simp
  then have pos': "r_active_flows r > 0" by (simp add: unat_gt_0 word_gt_0)
  have "request_inv (um_erase fid (l_flows l)) (l_terminal_order l) k v"
    if "map_of (um_put (f_request f) ?r (l_requests l)) k = Some v" for k v
    using that req [of k v] req [OF r(1)] unat_u32_dec [OF pos]
    by (auto simp: request_inv_def flows_of_erase [OF wf(2) Some] split: if_splits)
  moreover have "flow_inv (um_put (f_request f) ?r (l_requests l)) (l_next_flow_sequence l) k v"
    if "map_of (um_erase fid (l_flows l)) k = Some v" for k v
    using that flw [of k v] r by (auto simp: flow_inv_def record_open_def split: if_splits)
  moreover have "counters_inv (um_erase fid (l_flows l)) (account_flow_close (f_traffic f) (l_accounting l))"
    using account_flow_close_counters [OF rest(2) wf(2) Some] flw [OF Some] by (simp add: flow_inv_def)
  ultimately show ?thesis
    using Some r pos' wf rest index_inv_close [OF rest(1) Some] inv
    by (simp add: ledger_release_flow_def Let_def ledger_inv_def ledger_core_def retention_bounded_def)
qed

text \<open>Replacing a flow record by one with the same identity, owner and class.\<close>

lemma flow_update_inv:
  assumes inv: "ledger_inv l" and at: "map_of (l_flows l) fid = Some f"
    and f: "f_id f' = f_id f" "f_request f' = f_request f" "f_traffic f' = f_traffic f"
  shows "ledger_inv (l\<lparr> l_flows := um_put fid f' (l_flows l) \<rparr>)"
proof -
  have wf: "um_wf (l_requests l)" "um_wf (l_flows l)"
    and req: "\<And>k v. map_of (l_requests l) k = Some v \<Longrightarrow> request_inv (l_flows l) (l_terminal_order l) k v"
    and flw: "\<And>k v. map_of (l_flows l) k = Some v \<Longrightarrow> flow_inv (l_requests l) (l_next_flow_sequence l) k v"
    and rest: "index_inv (l_flows l) (l_flows_by_request l)" "counters_inv (l_flows l) (l_accounting l)"
      "unat (ll_max_attempts_per_request (l_limits l)) \<le> 8"
    using inv_core [OF inv] by (auto simp: ledger_core_def)
  have fl: "flows_of rid (um_put fid f' (l_flows l)) = flows_of rid (l_flows l)"
    "flows_in c (um_put fid f' (l_flows l)) = flows_in c (l_flows l)" for rid c
    unfolding flows_of_def flows_in_def by (rule um.total_replace_same [OF at]; simp add: f)+
  have "length (um_put fid f' (l_flows l)) = length (l_flows l)"
    using um_length_put [of fid f' "l_flows l"] at by simp
  then have "counters_inv (um_put fid f' (l_flows l)) (l_accounting l)"
    using rest(2) by (simp add: counters_inv_def fl)
  moreover have "request_inv (um_put fid f' (l_flows l)) (l_terminal_order l) k v"
    if "map_of (l_requests l) k = Some v" for k v
    using req [OF that] by (simp add: request_inv_def fl)
  moreover have "flow_inv (l_requests l) (l_next_flow_sequence l) k v"
    if "map_of (um_put fid f' (l_flows l)) k = Some v" for k v
    using that flw [of k v] flw [OF at] f by (auto simp: flow_inv_def split: if_splits)
  moreover have "index_inv (um_put fid f' (l_flows l)) (l_flows_by_request l)"
    using rest(1) at f by (auto simp: index_inv_def)
  ultimately show ?thesis
    using wf rest(3) inv by (simp add: ledger_inv_def ledger_core_def retention_bounded_def)
qed

lemma record_flow_bytes_inv:
  assumes inv: "ledger_inv l"
  shows "ledger_inv (snd (ledger_record_flow_bytes fid bytes inbound l))"
proof (cases "map_of (l_flows l) fid")
  case None
  then show ?thesis using inv by (simp add: ledger_record_flow_bytes_def)
next
  case (Some f)
  show ?thesis
  proof (cases "checked_add (f_observed_bytes f) bytes")
    case None
    then show ?thesis using inv Some by (simp add: ledger_record_flow_bytes_def)
  next
    case added: (Some n)
    let ?l1 = "l\<lparr> l_flows := um_put fid (f\<lparr> f_observed_bytes := n \<rparr>) (l_flows l) \<rparr>"
    have inv1: "ledger_inv ?l1" by (rule flow_update_inv [OF inv Some]) simp_all
    show ?thesis
    proof (cases "map_of (l_requests l) (f_request f)")
      case None
      then show ?thesis using inv1 Some added by (simp add: ledger_record_flow_bytes_def Let_def)
    next
      case r: (Some r)
      have "ledger_inv (?l1\<lparr> l_requests := um_put (f_request f) r' (l_requests l) \<rparr>)"
        if "r_id r' = r_id r" "record_shape r' = record_shape r" "r_active_flows r' = r_active_flows r"
          "r_lifecycle r' = r_lifecycle r" "r_requires_revalidation r' = r_requires_revalidation r" for r'
        using update_inv' [OF inv1, of "f_request f" r r'] r that core_record [OF inv_core [OF inv] r]
        by (simp add: record_open_def)
      then show ?thesis
        using inv1 Some added r
        by (simp add: ledger_record_flow_bytes_def Let_def split: option.splits)
    qed
  qed
qed

lemma class_decision_active [simp]:
  "ca_active_flows (class_decision outcome reason bytes c) = ca_active_flows c"
  by (simp add: class_decision_def Let_def split: DecisionOutcome.split)

lemma record_decision_counts_frame [simp]:
  "r_id (record_decision_counts attempt outcome r) = r_id r"
  "r_lifecycle (record_decision_counts attempt outcome r) = r_lifecycle r"
  "r_requires_revalidation (record_decision_counts attempt outcome r) = r_requires_revalidation r"
  "r_active_flows (record_decision_counts attempt outcome r) = r_active_flows r"
  "r_authority_floor (record_decision_counts attempt outcome r) = r_authority_floor r"
  "record_shape (record_decision_counts attempt outcome r) = record_shape r"
  by (simp_all add: record_decision_counts_def Let_def record_shape_def
      split: DecisionOutcome.splits option.splits)

lemma record_decision_inv:
  assumes inv: "ledger_inv l"
  shows "ledger_inv (snd (ledger_record_decision rid attempt traffic outcome reason bytes l))"
proof (cases "map_of (l_requests l) rid")
  case None
  then show ?thesis using inv by (simp add: ledger_record_decision_def)
next
  case (Some r)
  note facts = core_record [OF inv_core [OF inv] Some]
  have "same_active (a\<lparr> ac_per_class := (ac_per_class a)
      [i := class_decision outcome reason bytes (ac_per_class a ! i)] \<rparr>) a" for a i
    by (cases "i < length (ac_per_class a)")
      (auto simp: same_active_def map_update list_update_same_conv list_update_beyond)
  then have act: "same_active (if tc_index traffic < kTrafficClassCount
      then (l_accounting l)\<lparr> ac_per_class := (ac_per_class (l_accounting l))
        [tc_index traffic := class_decision outcome reason bytes
          (ac_per_class (l_accounting l) ! tc_index traffic)] \<rparr>
      else l_accounting l) (l_accounting l)" by simp
  show ?thesis
    using update_inv [OF inv Some, of "record_decision_counts attempt outcome r"] act Some facts
    by (simp add: ledger_record_decision_def Let_def record_open_def split: if_splits)
qed

section \<open>The machine\<close>

lemma ledger_apply_inv:
  assumes "ledger_inv l" and "l_next_flow_sequence l \<noteq> - 1"
  shows "ledger_inv (ledger_apply op l)"
  using assms
  by (cases op)
    (simp_all add: register_request_inv register_attempt_inv revalidate_request_inv advance_stage_inv
      fail_attempt_inv supersede_attempt_inv set_attempt_model_inv cancel_request_inv
      mark_interrupted_inv publish_completion_inv open_flow_inv release_flow_inv
      record_flow_bytes_inv record_decision_inv restore_record_inv clear_inv)

inductive_cases ledger_stepE: "ledger_step l l'"

interpretation ledger: invariant_machine ledger_step ledger_init ledger_inv
  by unfold_locales (auto simp: ledger_init_def init_inv elim!: ledger_stepE intro: ledger_apply_inv)

end
