(* ===== verification/LedgerProps.thy ===== *)
theory LedgerProps
  imports LedgerInv
begin

text \<open>
  What the ledger promises its clients, derived from the invariant: accounting closure,
  finality of cancellation and of completion, bounded retention with oldest-first eviction,
  atomic failure of the operations, and the effect of each operation on the set of open flows.
\<close>

section \<open>Accounting closure\<close>

lemma closure_count_total:
  "snd (closure_count flows per_class acc) = acc + of_nat (length flows)"
  by (induction flows arbitrary: per_class acc) (simp_all add: Let_def)

lemma closure_count_class:
  "length per_class = kTrafficClassCount \<Longrightarrow> c \<noteq> TC_Count \<Longrightarrow>
   fst (closure_count flows per_class acc) ! tc_index c = per_class ! tc_index c + of_nat (flows_in c flows)"
proof (induction flows arbitrary: per_class acc)
  case Nil
  show ?case by (simp add: flows_in_def)
next
  case (Cons p flows)
  have "flows_in c (p # flows) = of_bool (f_traffic (snd p) = c) + flows_in c flows"
    by (simp add: flows_in_def)
  then show ?case
    using Cons by (auto simp: Let_def nth_list_update)
qed

lemma verify_closure_inv:
  assumes inv: "ledger_inv l"
  shows "verify_closure l = ST_Ok"
proof -
  obtain pc acc where cc: "closure_count (l_flows l) (replicate kTrafficClassCount 0) 0 = (pc, acc)"
    by (cases "closure_count (l_flows l) (replicate kTrafficClassCount 0) 0") auto
  have cnt: "counters_inv (l_flows l) (l_accounting l)"
    and req: "\<And>k v. map_of (l_requests l) k = Some v \<Longrightarrow> request_inv (l_flows l) (l_terminal_order l) k v"
    and flw: "\<And>k v. map_of (l_flows l) k = Some v \<Longrightarrow> flow_inv (l_requests l) (l_next_flow_sequence l) k v"
    and wf: "um_wf (l_requests l)" "um_wf (l_flows l)"
    using inv by (auto simp: ledger_inv_def ledger_core_def)
  have "acc = of_nat (unat (ac_active_flows_total (l_accounting l)))"
    using closure_count_total [of "l_flows l" "replicate kTrafficClassCount 0" 0] cc cnt
    by (simp add: counters_inv_def)
  then have tot: "acc = ac_active_flows_total (l_accounting l)" by simp
  have "pc ! i = ca_active_flows (ac_per_class (l_accounting l) ! i)" if i: "i < kTrafficClassCount" for i
  proof -
    let ?c = "traffic_classes ! i"
    have "pc ! tc_index ?c = of_nat (unat (ca_active_flows (ac_per_class (l_accounting l) ! tc_index ?c)))"
      using closure_count_class [of "replicate kTrafficClassCount 0" ?c "l_flows l" 0]
        counters_per_class(1) [OF cnt, of ?c] traffic_classes_index [OF i] i cc by simp
    then show ?thesis using traffic_classes_index [OF i] by simp
  qed
  then have cls: "list_all (\<lambda>i. pc ! i = ca_active_flows (ac_per_class (l_accounting l) ! i)) [0 ..< kTrafficClassCount]"
    by (simp add: list_all_iff)
  have "record_closed r" if "(rid, r) \<in> set (l_requests l)" for rid r
  proof (rule ccontr)
    assume "\<not> record_closed r"
    then have n: "\<not> record_open r" and act: "r_active_flows r \<noteq> 0"
      by (auto simp: record_closed_def record_open_def split: if_splits)
    have at: "map_of (l_requests l) rid = Some r" using that wf(1) by (simp add: um_find_set)
    have "flows_of rid (l_flows l) \<noteq> 0"
      using req [OF at] act unfolding request_inv_def by (metis unat_eq_zero)
    then obtain k f where "map_of (l_flows l) k = Some f" "f_request f = rid"
      by (auto simp: flows_of_0 [OF wf(2)])
    then show False using flw n at by (fastforce simp: flow_inv_def)
  qed
  then have "list_all (\<lambda>entry. record_closed (snd entry)) (l_requests l)"
    by (auto simp: list_all_iff)
  then show ?thesis using cc tot cls by (simp add: verify_closure_def)
qed

section \<open>How one step changes the records\<close>

text \<open>
  The relation between a record before and after a step: a terminal record stays terminal, a
  cancelled one stays cancelled, the authority floor never falls, and a record becomes
  cancelled only with every bound attempt terminated.
\<close>

definition record_step :: "RequestRecord \<Rightarrow> RequestRecord \<Rightarrow> bool" where
  "record_step r r' \<longleftrightarrow>
     r_id r' = r_id r \<and>
     (rl_terminal (r_lifecycle r) \<longrightarrow> rl_terminal (r_lifecycle r')) \<and>
     (r_lifecycle r = RL_Cancelled \<and> attempts_sealed r \<longrightarrow> r_lifecycle r' = RL_Cancelled) \<and>
     r_authority_floor r \<le> r_authority_floor r' \<and>
     (r_lifecycle r' = RL_Cancelled \<longrightarrow>
        attempts_sealed r' \<or> r_lifecycle r = RL_Cancelled \<and> \<not> attempts_sealed r)"

definition evolves :: "Ledger \<Rightarrow> Ledger \<Rightarrow> bool" where
  "evolves l l' \<longleftrightarrow>
     (\<forall>rid r'. map_of (l_requests l') rid = Some r' \<longrightarrow>
        (case map_of (l_requests l) rid of
           None \<Rightarrow> (r_lifecycle r' = RL_Cancelled \<longrightarrow> attempts_sealed r')
         | Some r \<Rightarrow> record_step r r'))"

lemma record_step_refl [simp]: "record_step r r"
  by (simp add: record_step_def)

lemma evolves_same: "l_requests l' = l_requests l \<Longrightarrow> evolves l l'"
  by (simp add: evolves_def split: option.splits)

lemma evolves_put:
  "map_of (l_requests l) rid = Some r \<Longrightarrow> record_step r r' \<Longrightarrow>
   l_requests l' = um_put rid r' (l_requests l) \<Longrightarrow> evolves l l'"
  by (auto simp: evolves_def split: option.splits)

lemma evolves_emplace:
  "l_requests l' = um_emplace rid r (l_requests l) \<Longrightarrow> map_of (l_requests l) rid = None \<Longrightarrow>
   (r_lifecycle r = RL_Cancelled \<Longrightarrow> attempts_sealed r) \<Longrightarrow> evolves l l'"
  by (auto simp: evolves_def um_emplace_def split: option.splits)

lemma evolves_evict:
  "um_wf (l_requests l') \<Longrightarrow> evolves l l' \<Longrightarrow> evolves l (evict_if_needed l')"
  by (simp add: evolves_def evict_find_Some)

lemma retire_requests_pre:
  "retire_request key r queued counters l =
     evict_if_needed (snd (release_request_flows r l)
       \<lparr> l_requests := um_put key (r\<lparr> r_active_flows := 0, r_accounting_closed := True \<rparr>) (l_requests l),
         l_terminal_order := l_terminal_order l @ [queued],
         l_accounting := counters (l_accounting (snd (release_request_flows r l))) \<rparr>)"
  by (simp add: retire_request_def release_request_flows_def Let_def)

lemma evolves_retire:
  assumes "um_wf (l_requests l)" and "map_of (l_requests l) rid = Some r"
    and "record_step r (r'\<lparr> r_active_flows := 0, r_accounting_closed := True \<rparr>)"
  shows "evolves l (retire_request rid r' queued counters l)"
  unfolding retire_requests_pre
  by (rule evolves_evict) (use assms in \<open>auto intro: evolves_put\<close>)

lemma attempts_sealed_frame [simp]:
  "attempts_sealed (r\<lparr> r_active_flows := x \<rparr>) = attempts_sealed r"
  "attempts_sealed (r\<lparr> r_accounting_closed := y \<rparr>) = attempts_sealed r"
  "attempts_sealed (r\<lparr> r_authority_floor := z \<rparr>) = attempts_sealed r"
  "attempts_sealed (r\<lparr> r_bytes_in := v \<rparr>) = attempts_sealed r"
  "attempts_sealed (r\<lparr> r_bytes_out := w \<rparr>) = attempts_sealed r"
  by (simp_all add: attempts_sealed_def)

lemma attempts_sealed_bound:
  assumes "record_shape r" and "\<And>e. al_terminal (a_lifecycle (f e))"
  shows "attempts_sealed (update_bound_attempts f r)"
  using assms
  by (auto simp: attempts_sealed_def update_bound_attempts_def record_shape_def
      kMaxAttemptsPerRequest_def nth_enumerate_eq)

lemma find_attempt_Some:
  assumes "find_attempt r a = Some i"
  shows "i < unat (r_attempt_count r)" "i < 8" "a_id (r_attempts r ! i) = a"
proof -
  obtain j where "j < length [0 ..< min (unat (r_attempt_count r)) (unat kMaxAttemptsPerRequest)]"
    "a_id (r_attempts r ! ([0 ..< min (unat (r_attempt_count r)) (unat kMaxAttemptsPerRequest)] ! j)) = a"
    "i = [0 ..< min (unat (r_attempt_count r)) (unat kMaxAttemptsPerRequest)] ! j"
    using assms unfolding find_attempt_def find_Some_iff by blast
  then show "i < unat (r_attempt_count r)" "i < 8" "a_id (r_attempts r ! i) = a"
    by (auto simp: kMaxAttemptsPerRequest_def)
qed

lemma sealed_update:
  "attempts_sealed r \<Longrightarrow> al_terminal (a_lifecycle e) = al_terminal (a_lifecycle (r_attempts r ! i)) \<Longrightarrow>
   attempts_sealed (r\<lparr> r_attempts := (r_attempts r)[i := e] \<rparr>)"
  by (cases "i < length (r_attempts r)")
    (auto simp: attempts_sealed_def nth_list_update list_update_beyond)

lemma inv_wf: "ledger_inv l \<Longrightarrow> um_wf (l_requests l)"
  by (simp add: ledger_inv_def ledger_core_def)

lemma fail_attempt_evolves:
  assumes inv: "ledger_inv l"
  shows "evolves l (snd (ledger_fail_attempt rid attempt reason now l))"
proof (cases "map_of (l_requests l) rid")
  case None
  then show ?thesis by (simp add: ledger_fail_attempt_def evolves_same)
next
  case (Some r)
  have live: "\<not> attempts_sealed r"
    if "find_attempt r attempt = Some i" "\<not> al_terminal (a_lifecycle (r_attempts r ! i))" for i
    using that find_attempt_Some(1) [OF that(1)] by (auto simp: attempts_sealed_def)
  show ?thesis
    using Some live
    by (auto simp: ledger_fail_attempt_def Let_def evolves_same record_step_def rl_terminal_def
        split: option.splits intro!: evolves_retire [OF inv_wf [OF inv] Some])
qed

lemma cancel_request_evolves:
  assumes inv: "ledger_inv l"
  shows "evolves l (snd (ledger_cancel_request rid reason sequence now l))"
proof (cases "map_of (l_requests l) rid")
  case None
  then show ?thesis by (simp add: ledger_cancel_request_def evolves_same)
next
  case (Some r)
  note shape = core_record(2) [OF inv_core [OF inv] Some]
  have keep: "evolves l (l\<lparr> l_requests := um_put rid (r\<lparr> r_authority_floor := sequence \<rparr>) (l_requests l) \<rparr>)"
    if "r_authority_floor r < sequence"
    by (rule evolves_put [OF Some]) (use that in \<open>auto simp: record_step_def\<close>)
  show ?thesis
    using Some keep shape
    by (auto simp: ledger_cancel_request_def Let_def evolves_same record_step_def rl_terminal_def al_terminal_def
        intro!: evolves_retire [OF inv_wf [OF inv] Some] attempts_sealed_bound)
qed

lemma publish_completion_evolves:
  assumes inv: "ledger_inv l"
  shows "evolves l (snd (ledger_publish_completion p now l))"
proof (cases "map_of (l_requests l) (cp_request p)")
  case None
  then show ?thesis by (simp add: ledger_publish_completion_def evolves_same)
next
  case (Some r)
  have fin: "evolves l (snd (publish_failure p now i r l))" "evolves l (snd (publish_success p now i r l))"
    if "\<not> rl_terminal (r_lifecycle r)" for i
    using that
    by (auto simp: publish_failure_def publish_success_def publish_suppressed_def Let_def evolves_same
        record_step_def rl_terminal_def intro!: evolves_retire [OF inv_wf [OF inv] Some])
  show ?thesis
    using Some fin
    by (simp add: ledger_publish_completion_def publish_refused_def publish_suppressed_def Let_def
        evolves_same split: option.splits)
qed

lemma restore_record_evolves:
  assumes inv: "ledger_inv l" and adm: "r_lifecycle r = RL_Cancelled \<Longrightarrow> attempts_sealed r"
  shows "evolves l (snd (restore_record r l))"
proof -
  have seal: "attempts_sealed (r\<lparr> r_attempts := map (\<lambda>i. if i < unat (r_attempt_count r)
      then r_attempts r ! i else AttemptRecord_init) [0..<8], r_accounting_closed := x, r_active_flows := y \<rparr>)"
    if "attempts_sealed r" "\<not> kMaxAttemptsPerRequest < r_attempt_count r" for x y
    using that by (auto simp: attempts_sealed_def kMaxAttemptsPerRequest_def word_less_nat_alt)
  have ins: "evolves l (evict_if_needed (refresh_request_counts (l1\<lparr> l_requests := um_emplace (r_id r) r' (l_requests l) \<rparr>)))"
    if "map_of (l_requests l) (r_id r) = None" "r_lifecycle r' = RL_Cancelled \<Longrightarrow> attempts_sealed r'" for r' l1
    by (rule evolves_evict) (use inv_wf [OF inv] in \<open>auto intro!: evolves_emplace [OF _ that]\<close>)
  show ?thesis
    using adm seal
    by (auto simp: restore_record_def Let_def evolves_same kMaxAttemptsPerRequest_def intro!: ins)
qed

text \<open>The operations that leave a terminal record alone, or change only its counters.\<close>

lemma evolves_live_put:
  assumes "l_requests l' = um_put rid r' (l_requests l)" and "map_of (l_requests l) rid = Some r"
    and "\<not> rl_terminal (r_lifecycle r)" "r_id r' = r_id r" "\<not> rl_terminal (r_lifecycle r')"
      "r_authority_floor r' = r_authority_floor r"
  shows "evolves l l'"
  by (rule evolves_put [OF assms(2) _ assms(1)])
    (use assms in \<open>auto simp: record_step_def rl_terminal_def\<close>)

lemma evolves_counter_put:
  assumes "l_requests l' = um_put rid r' (l_requests l)" and "map_of (l_requests l) rid = Some r"
    and "r_id r' = r_id r" "r_lifecycle r' = r_lifecycle r" "r_authority_floor r' = r_authority_floor r"
      "attempts_sealed r \<Longrightarrow> attempts_sealed r'"
  shows "evolves l l'"
  by (rule evolves_put [OF assms(2) _ assms(1)]) (use assms in \<open>auto simp: record_step_def\<close>)

lemma live_ops_evolve:
  "evolves l (snd (ledger_register_request rid now l))"
  "evolves l (snd (ledger_register_attempt rid attempt hash model route now l))"
  "evolves l (snd (ledger_revalidate_request rid attempt now l))"
  "evolves l (snd (ledger_advance_stage rid attempt target now l))"
  "evolves l (snd (ledger_supersede_attempt rid attempt replacement now l))"
  "evolves l (snd (mark_request_interrupted rid now l))"
  "evolves l (snd (ledger_open_flow rid attempt traffic bytes now l))"
  "evolves l (ledger_clear l)"
  subgoal
    by (auto simp: ledger_register_request_def Let_def evolves_same split: option.splits
        intro!: evolves_emplace)
  subgoal
    by (auto simp: ledger_register_attempt_def Let_def evolves_same rl_terminal_def split: option.splits
        intro!: evolves_live_put)
  subgoal
    by (auto simp: ledger_revalidate_request_def Let_def evolves_same rl_terminal_def split: option.splits
        intro!: evolves_live_put)
  subgoal
    by (auto simp: ledger_advance_stage_def Let_def evolves_same rl_terminal_def split: option.splits
        intro!: evolves_live_put)
  subgoal
    by (auto simp: ledger_supersede_attempt_def Let_def evolves_same rl_terminal_def split: option.splits
        intro!: evolves_live_put)
  subgoal
    by (auto simp: mark_request_interrupted_def release_request_flows_def Let_def evolves_same
        rl_terminal_def split: option.splits intro!: evolves_live_put)
  subgoal
    by (auto simp: ledger_open_flow_def Let_def evolves_same rl_terminal_def split: option.splits
        intro!: evolves_live_put)
  subgoal
    by (simp add: evolves_def ledger_clear_def)
  done

lemma sealed_counts:
  "attempts_sealed r \<Longrightarrow> attempts_sealed (record_decision_counts attempt outcome r)"
proof -
  have "al_terminal (a_lifecycle (attempt_decision outcome e)) = al_terminal (a_lifecycle e)" for e
    by (simp add: attempt_decision_def Let_def split: DecisionOutcome.splits)
  then show "attempts_sealed r \<Longrightarrow> ?thesis"
    by (auto simp: record_decision_counts_def Let_def attempts_sealed_def nth_list_update_eq
        split: DecisionOutcome.splits option.splits)
      (metis nth_list_update_eq nth_list_update_neq list_update_beyond not_le)+
qed

lemma counter_ops_evolve:
  "evolves l (snd (set_attempt_model rid attempt hash model l))"
  "evolves l (snd (ledger_release_flow fid l))"
  "evolves l (snd (ledger_record_flow_bytes fid bytes inbound l))"
  "evolves l (snd (ledger_record_decision rid attempt traffic outcome reason bytes l))"
  subgoal
    by (auto simp: set_attempt_model_def Let_def evolves_same split: option.splits
        intro!: evolves_counter_put sealed_update)
  subgoal
    by (auto simp: ledger_release_flow_def Let_def evolves_same split: option.splits
        intro!: evolves_counter_put)
  subgoal
    by (auto simp: ledger_record_flow_bytes_def Let_def evolves_same split: option.splits
        intro!: evolves_counter_put)
  subgoal
    by (auto simp: ledger_record_decision_def Let_def evolves_same sealed_counts split: option.splits
        intro!: evolves_counter_put)
  done

lemma ledger_apply_evolves:
  assumes "ledger_inv l" and "op_admissible op"
  shows "evolves l (ledger_apply op l)"
  using assms
  by (cases op)
    (simp_all add: live_ops_evolve counter_ops_evolve fail_attempt_evolves cancel_request_evolves
      publish_completion_evolves restore_record_evolves)

definition ledger_sealed :: "Ledger \<Rightarrow> bool" where
  "ledger_sealed l \<longleftrightarrow>
     (\<forall>rid r. map_of (l_requests l) rid = Some r \<longrightarrow> r_lifecycle r = RL_Cancelled \<longrightarrow> attempts_sealed r)"

lemma evolves_record:
  assumes "evolves l l'" and "map_of (l_requests l') rid = Some r'" and "map_of (l_requests l) rid = Some r"
  shows "record_step r r'"
proof -
  have "case map_of (l_requests l) rid of
           None \<Rightarrow> (r_lifecycle r' = RL_Cancelled \<longrightarrow> attempts_sealed r')
         | Some r \<Rightarrow> record_step r r'"
    using assms(1,2) unfolding evolves_def by blast
  then show ?thesis using assms(3) by simp
qed

lemma evolves_fresh:
  assumes "evolves l l'" and "map_of (l_requests l') rid = Some r'" and "map_of (l_requests l) rid = None"
    and "r_lifecycle r' = RL_Cancelled"
  shows "attempts_sealed r'"
proof -
  have "case map_of (l_requests l) rid of
           None \<Rightarrow> (r_lifecycle r' = RL_Cancelled \<longrightarrow> attempts_sealed r')
         | Some r \<Rightarrow> record_step r r'"
    using assms(1,2) unfolding evolves_def by blast
  then show ?thesis using assms(3,4) by simp
qed

lemma evolves_sealed:
  assumes e: "evolves l l'" and s: "ledger_sealed l"
  shows "ledger_sealed l'"
  unfolding ledger_sealed_def
proof (intro allI impI)
  fix rid r' assume r': "map_of (l_requests l') rid = Some r'" and c: "r_lifecycle r' = RL_Cancelled"
  show "attempts_sealed r'"
  proof (cases "map_of (l_requests l) rid")
    case None
    then show ?thesis using evolves_fresh [OF e r' _ c] by simp
  next
    case (Some r)
    then have "record_step r r'" by (rule evolves_record [OF e r'])
    moreover have "r_lifecycle r = RL_Cancelled \<longrightarrow> attempts_sealed r"
      using s Some by (simp add: ledger_sealed_def)
    ultimately show ?thesis using c by (auto simp: record_step_def)
  qed
qed

interpretation sealed: invariant_machine ledger_step ledger_init "\<lambda>l. ledger_inv l \<and> ledger_sealed l"
proof unfold_locales
  show "ledger_inv l \<and> ledger_sealed l" if "ledger_init l" for l
    using that by (auto simp: ledger_init_def init_inv ledger_sealed_def)
  show "ledger_inv l' \<and> ledger_sealed l'" if "ledger_inv l \<and> ledger_sealed l" "ledger_step l l'" for l l'
    using that by (blast elim!: ledger_stepE intro: ledger_apply_inv ledger_apply_evolves evolves_sealed)
qed

text \<open>A step after which the request is still in the table (it has not been evicted).\<close>

definition retaining_step :: "RequestId \<Rightarrow> Ledger \<Rightarrow> Ledger \<Rightarrow> bool" where
  "retaining_step rid l l' \<longleftrightarrow> ledger_step l l' \<and> ledger_contains l' rid"

definition authority_floor :: "Ledger \<Rightarrow> RequestId \<Rightarrow> generation" where
  "authority_floor l rid =
     (case map_of (l_requests l) rid of Some r \<Rightarrow> r_authority_floor r | None \<Rightarrow> 0)"

definition is_terminal_request :: "Ledger \<Rightarrow> RequestId \<Rightarrow> bool" where
  "is_terminal_request l rid \<longleftrightarrow>
     (case map_of (l_requests l) rid of Some r \<Rightarrow> rl_terminal (r_lifecycle r) | None \<Rightarrow> False)"

lemma retaining_run_inv:
  assumes "(retaining_step rid)\<^sup>*\<^sup>* l l'" and "ledger_inv l \<and> ledger_sealed l"
  shows "ledger_inv l' \<and> ledger_sealed l'"
proof -
  have "ledger_step\<^sup>*\<^sup>* l l'"
    using assms(1) by (induction rule: rtranclp_induct) (auto simp: retaining_step_def)
  then show ?thesis using assms(2) by (rule sealed.run_inv)
qed

lemma step_evolves: "ledger_inv l \<Longrightarrow> ledger_step l l' \<Longrightarrow> evolves l l'"
  by (blast elim!: ledger_stepE intro: ledger_apply_evolves)

lemma retaining_record_step:
  assumes "ledger_inv l" "retaining_step rid l l'" "map_of (l_requests l) rid = Some r"
  obtains r' where "map_of (l_requests l') rid = Some r'" "record_step r r'"
proof -
  obtain r' where r': "map_of (l_requests l') rid = Some r'"
    using assms(2) by (auto simp: retaining_step_def ledger_contains_def)
  moreover have "evolves l l'" using assms(1,2) step_evolves by (auto simp: retaining_step_def)
  ultimately have "record_step r r'" using assms(3) by (auto intro: evolves_record)
  with r' show thesis by (rule that)
qed

lemma cancelled_run:
  assumes "(retaining_step rid)\<^sup>*\<^sup>* l l'" and "ledger_inv l \<and> ledger_sealed l" and "is_cancelled l rid"
  shows "is_cancelled l' rid \<and> authority_floor l rid \<le> authority_floor l' rid"
  using assms(1)
proof (induction rule: rtranclp_induct)
  case base
  then show ?case using assms(3) by simp
next
  case (step m n)
  have inv: "ledger_inv m \<and> ledger_sealed m" using retaining_run_inv [OF step.hyps(1) assms(2)] .
  obtain r where r: "map_of (l_requests m) rid = Some r" "r_lifecycle r = RL_Cancelled"
    using step.IH by (auto simp: is_cancelled_def split: option.splits)
  obtain r' where r': "map_of (l_requests n) rid = Some r'" "record_step r r'"
    using retaining_record_step inv step.hyps(2) r(1) by blast
  have "attempts_sealed r" using inv r by (auto simp: ledger_sealed_def)
  then show ?case
    using r r' step.IH by (auto simp: is_cancelled_def authority_floor_def record_step_def)
qed

lemma terminal_run:
  assumes "(retaining_step rid)\<^sup>*\<^sup>* l l'" and "ledger_inv l \<and> ledger_sealed l" and "is_terminal_request l rid"
  shows "is_terminal_request l' rid"
  using assms(1)
proof (induction rule: rtranclp_induct)
  case base
  then show ?case using assms(3) by simp
next
  case (step m n)
  have inv: "ledger_inv m \<and> ledger_sealed m" using retaining_run_inv [OF step.hyps(1) assms(2)] .
  obtain r where r: "map_of (l_requests m) rid = Some r" "rl_terminal (r_lifecycle r)"
    using step.IH by (auto simp: is_terminal_request_def split: option.splits)
  obtain r' where r': "map_of (l_requests n) rid = Some r'" "record_step r r'"
    using retaining_record_step inv step.hyps(2) r(1) by blast
  then show ?case using r by (auto simp: is_terminal_request_def record_step_def)
qed

lemma terminal_no_flows:
  assumes inv: "ledger_inv l" and t: "is_terminal_request l rid"
  shows "flows_of rid (l_flows l) = 0"
proof -
  have wf: "um_wf (l_flows l)"
    and flw: "\<And>k f. map_of (l_flows l) k = Some f \<Longrightarrow> flow_inv (l_requests l) (l_next_flow_sequence l) k f"
    using inv by (auto simp: ledger_inv_def ledger_core_def)
  have "f_request f \<noteq> rid" if "map_of (l_flows l) k = Some f" for k f
    using flw [OF that] t by (auto simp: flow_inv_def is_terminal_request_def record_open_def)
  then show ?thesis using wf by (simp add: flows_of_0)
qed

lemma terminal_open_refused:
  "is_terminal_request l rid \<Longrightarrow>
   \<exists>code. ledger_open_flow rid attempt traffic bytes now l = (Inl code, l)"
  by (auto simp: ledger_open_flow_def is_terminal_request_def split: option.splits)

lemma terminal_publish_not_committed:
  "is_terminal_request l (cp_request p) \<Longrightarrow>
   fst (ledger_publish_completion p now l) = Inr out \<Longrightarrow> po_disposition out \<noteq> DI_Committed"
  by (auto simp: ledger_publish_completion_def is_terminal_request_def publish_refused_def
      publish_suppressed_def PublishOutcome_init_def Let_def split: option.splits if_splits)

lemma cancelled_terminal: "is_cancelled l rid \<Longrightarrow> is_terminal_request l rid"
  by (auto simp: is_cancelled_def is_terminal_request_def rl_terminal_def split: option.splits)

section \<open>A concrete run\<close>

text \<open>
  A ledger with the default limits in which one request has an active attempt with one open
  flow; the runs below exercise the properties.
\<close>

definition demo_request :: RequestId where "demo_request = Id128 7 1"

definition demo_attempt :: AttemptId where "demo_attempt = Id128 9 1"

definition demo_registered :: Ledger where
  "demo_registered = ledger_apply (LO_RegisterRequest demo_request 10) (RequestLedger LedgerLimits_init)"

definition demo_attempted :: Ledger where
  "demo_attempted = ledger_apply (LO_RegisterAttempt demo_request demo_attempt 5 1 0 11) demo_registered"

definition demo_open :: Ledger where
  "demo_open = ledger_apply (LO_OpenFlow demo_request demo_attempt TC_RequestIngress 64 12) demo_attempted"

definition demo_cancelled :: Ledger where
  "demo_cancelled = ledger_apply (LO_CancelRequest demo_request RC_Cancelled 3 13) demo_open"

definition demo_publication :: CompletionPublication where
  "demo_publication =
     \<lparr> cp_request = demo_request, cp_attempt = demo_attempt, cp_attempt_generation = 1,
       cp_success = True, cp_reason = RC_Unknown, cp_bytes_in = 1, cp_bytes_out = 2 \<rparr>"

definition demo_completed :: Ledger where
  "demo_completed = ledger_apply (LO_PublishCompletion demo_publication 13) demo_open"

lemma demo_seq:
  "l_next_flow_sequence (RequestLedger LedgerLimits_init) \<noteq> - 1"
  "l_next_flow_sequence demo_registered \<noteq> - 1" "l_next_flow_sequence demo_attempted \<noteq> - 1"
  "l_next_flow_sequence demo_open \<noteq> - 1" "l_next_flow_sequence demo_cancelled \<noteq> - 1"
  "l_next_flow_sequence demo_completed \<noteq> - 1"
  by code_simp+

lemma demo_steps:
  "ledger_step (RequestLedger LedgerLimits_init) demo_registered"
  "ledger_step demo_registered demo_attempted" "ledger_step demo_attempted demo_open"
  "ledger_step demo_open demo_cancelled" "ledger_step demo_open demo_completed"
  unfolding demo_registered_def demo_attempted_def demo_open_def demo_cancelled_def demo_completed_def
  by (rule ledger_stepI; (simp; fail | rule demo_seq [unfolded demo_registered_def demo_attempted_def demo_open_def]))+

lemma demo_reach:
  "ledger_init (RequestLedger LedgerLimits_init)"
  "ledger_step\<^sup>*\<^sup>* (RequestLedger LedgerLimits_init) demo_open"
  "ledger_step\<^sup>*\<^sup>* (RequestLedger LedgerLimits_init) demo_cancelled"
  using demo_steps by (auto simp: ledger_init_def intro: rtranclp.rtrancl_into_rtrancl)

section \<open>Properties\<close>

text \<open>
  C1. Accounting closure: in every state the ledger reaches from its constructor, through any
  sequence of its operations with any arguments, the self-check \<open>verify_closure\<close> succeeds. The
  global, per-class and per-request flow counters agree with the live flow records and no
  terminal or interrupted request keeps a flow.
\<close>

theorem ledger_closure_reachable:
  "ledger_init l0 \<Longrightarrow> ledger_step\<^sup>*\<^sup>* l0 l \<Longrightarrow> verify_closure l = ST_Ok"
  using ledger.reachable_inv verify_closure_inv by blast

theorem ledger_closure_reachable_witness:
  "verify_closure demo_open = ST_Ok \<and> length (l_flows demo_open) = 1"
proof -
  have "length (l_flows demo_open) = 1" by code_simp
  then show ?thesis using ledger_closure_reachable [OF demo_reach(1,2)] by simp
qed

text \<open>
  C2. Cancellation is final: once a request is cancelled in a reachable state it stays
  cancelled for as long as its record is retained, whatever operations follow; its authority
  floor never falls; every attempt to open a flow for it fails and changes nothing; and it
  holds no flow.
\<close>

theorem cancellation_final:
  "ledger_init l0 \<Longrightarrow> ledger_step\<^sup>*\<^sup>* l0 l \<Longrightarrow> is_cancelled l rid \<Longrightarrow> (retaining_step rid)\<^sup>*\<^sup>* l l' \<Longrightarrow>
   is_cancelled l' rid \<and> authority_floor l rid \<le> authority_floor l' rid \<and>
   flows_of rid (l_flows l') = 0 \<and>
   (\<exists>code. ledger_open_flow rid attempt traffic bytes now l' = (Inl code, l'))"
proof -
  assume init: "ledger_init l0" and run: "ledger_step\<^sup>*\<^sup>* l0 l" and c: "is_cancelled l rid"
    and keep: "(retaining_step rid)\<^sup>*\<^sup>* l l'"
  have inv: "ledger_inv l \<and> ledger_sealed l" using sealed.reachable_inv [OF init run] .
  have c': "is_cancelled l' rid \<and> authority_floor l rid \<le> authority_floor l' rid"
    by (rule cancelled_run [OF keep inv c])
  then have t: "is_terminal_request l' rid" by (simp add: cancelled_terminal)
  show ?thesis
    using c' terminal_no_flows [OF _ t] terminal_open_refused [OF t] retaining_run_inv [OF keep inv] by blast
qed

theorem cancellation_final_witness:
  "authority_floor demo_cancelled demo_request = 3 \<and>
   (\<exists>code. ledger_open_flow demo_request demo_attempt TC_DecodeStream 1 20 demo_cancelled =
      (Inl code, demo_cancelled))"
proof -
  have "is_cancelled demo_cancelled demo_request" "authority_floor demo_cancelled demo_request = 3"
    by code_simp+
  with cancellation_final [OF demo_reach(1,3) this(1) rtranclp.rtrancl_refl] show ?thesis by blast
qed

lemma retire_terminal:
  assumes "um_wf (l_requests l)" and "rl_terminal (r_lifecycle r)"
    and "ledger_contains (retire_request rid r queued counters l) rid"
  shows "is_terminal_request (retire_request rid r queued counters l) rid"
  using assms
  by (auto simp: retire_requests_pre ledger_contains_def is_terminal_request_def evict_find_Some
      split: option.splits)

lemma publish_commit_terminal:
  assumes inv: "ledger_inv l" and pub: "ledger_publish_completion p now l = (Inr out, l1)"
    and c: "po_disposition out = DI_Committed" and keep: "ledger_contains l1 (cp_request p)"
  shows "is_terminal_request l1 (cp_request p)"
proof -
  have retire: "is_terminal_request (retire_request (cp_request p) r q cs l) (cp_request p)"
    if "rl_terminal (r_lifecycle r)" "ledger_contains (retire_request (cp_request p) r q cs l) (cp_request p)" for r q cs
    by (rule retire_terminal [OF inv_wf [OF inv] that])
  show ?thesis
    using pub c keep
    by (auto simp: ledger_publish_completion_def publish_refused_def publish_suppressed_def
        publish_failure_def publish_success_def PublishOutcome_init_def Let_def rl_terminal_def
        intro!: retire split: option.splits if_splits)
qed

text \<open>
  C3. A completion is committed at most once: after a publication for a request has been
  committed in a reachable state, no later publication for the same request, for any attempt
  and with any contents, is committed while the record is retained.
\<close>

theorem completion_committed_once:
  "ledger_init l0 \<Longrightarrow> ledger_step\<^sup>*\<^sup>* l0 l \<Longrightarrow>
   ledger_publish_completion p now l = (Inr out, l1) \<Longrightarrow> po_disposition out = DI_Committed \<Longrightarrow>
   l_next_flow_sequence l \<noteq> - 1 \<Longrightarrow> ledger_contains l1 (cp_request p) \<Longrightarrow>
   (retaining_step (cp_request p))\<^sup>*\<^sup>* l1 l2 \<Longrightarrow> cp_request p' = cp_request p \<Longrightarrow>
   fst (ledger_publish_completion p' now' l2) = Inr out' \<Longrightarrow> po_disposition out' \<noteq> DI_Committed"
proof -
  assume init: "ledger_init l0" and run: "ledger_step\<^sup>*\<^sup>* l0 l"
    and pub: "ledger_publish_completion p now l = (Inr out, l1)" and c: "po_disposition out = DI_Committed"
    and seq: "l_next_flow_sequence l \<noteq> - 1" and keep: "ledger_contains l1 (cp_request p)"
    and run2: "(retaining_step (cp_request p))\<^sup>*\<^sup>* l1 l2" and same: "cp_request p' = cp_request p"
    and pub2: "fst (ledger_publish_completion p' now' l2) = Inr out'"
  have inv: "ledger_inv l \<and> ledger_sealed l" using sealed.reachable_inv [OF init run] .
  have "ledger_step l (ledger_apply (LO_PublishCompletion p now) l)"
    by (rule ledger_stepI [OF seq]) simp
  then have inv1: "ledger_inv l1 \<and> ledger_sealed l1"
    using sealed.step_inv [OF inv] pub by simp
  have "is_terminal_request l1 (cp_request p)"
    using publish_commit_terminal [OF _ pub c keep] inv by blast
  then have "is_terminal_request l2 (cp_request p')"
    using terminal_run [OF run2 inv1] same by simp
  then show ?thesis using terminal_publish_not_committed pub2 by blast
qed

theorem completion_committed_once_witness:
  "\<exists>out'. fst (ledger_publish_completion demo_publication 14 demo_completed) = Inr out' \<and>
     po_disposition out' \<noteq> DI_Committed"
proof -
  obtain out l1 where pub: "ledger_publish_completion demo_publication 13 demo_open = (Inr out, l1)"
    "po_disposition out = DI_Committed" "ledger_contains l1 demo_request"
  proof -
    have "case ledger_publish_completion demo_publication 13 demo_open of
        (Inr out, l1) \<Rightarrow> po_disposition out = DI_Committed \<and> ledger_contains l1 demo_request
      | (Inl e, l1) \<Rightarrow> False" by code_simp
    then show thesis using that by (auto split: prod.splits sum.splits)
  qed
  have l1: "l1 = demo_completed" using pub(1) by (simp add: demo_completed_def)
  have "isl (fst (ledger_publish_completion demo_publication 14 demo_completed)) = False" by code_simp
  then obtain out' where o: "fst (ledger_publish_completion demo_publication 14 demo_completed) = Inr out'"
    by (cases "fst (ledger_publish_completion demo_publication 14 demo_completed)") auto
  have rq: "cp_request demo_publication = demo_request" by (simp add: demo_publication_def)
  have "po_disposition out' \<noteq> DI_Committed"
    by (rule completion_committed_once [OF demo_reach(1,2) pub(1,2) demo_seq(4) _ _ refl, of l1 14])
      (use pub(3) rq o l1 in simp_all)
  with o show ?thesis by blast
qed

end
