(* ===== verification/LedgerSpec.thy ===== *)
theory LedgerSpec
  imports LedgerProps
begin

text \<open>
  The contracts of the individual ledger operations and the abstract view of the ledger as a
  set of open flows: errors leave the ledger alone, opening and releasing a flow are inverse,
  terminating a request removes exactly its flows, retention is bounded and oldest-first.
\<close>

section \<open>Definitions\<close>

fun code_of :: "'a result \<Rightarrow> StatusCode" where
  "code_of (Inl code) = code"
| "code_of (Inr _) = ST_Ok"

text \<open>The status code each operation reports.\<close>

fun ledger_status :: "LedgerOp \<Rightarrow> Ledger \<Rightarrow> StatusCode" where
  "ledger_status (LO_RegisterRequest rid now) l = code_of (fst (ledger_register_request rid now l))"
| "ledger_status (LO_RegisterAttempt rid attempt hash model route now) l =
     code_of (fst (ledger_register_attempt rid attempt hash model route now l))"
| "ledger_status (LO_RevalidateRequest rid attempt now) l =
     code_of (fst (ledger_revalidate_request rid attempt now l))"
| "ledger_status (LO_AdvanceStage rid attempt target now) l =
     fst (ledger_advance_stage rid attempt target now l)"
| "ledger_status (LO_FailAttempt rid attempt reason now) l =
     (case fst (ledger_fail_attempt rid attempt reason now l) of
        Some res \<Rightarrow> code_of res | None \<Rightarrow> ST_Ok)"
| "ledger_status (LO_SupersedeAttempt rid attempt replacement now) l =
     code_of (fst (ledger_supersede_attempt rid attempt replacement now l))"
| "ledger_status (LO_SetAttemptModel rid attempt hash model) l =
     fst (set_attempt_model rid attempt hash model l)"
| "ledger_status (LO_CancelRequest rid reason sequence now) l =
     fst (ledger_cancel_request rid reason sequence now l)"
| "ledger_status (LO_MarkInterrupted rid now) l = fst (mark_request_interrupted rid now l)"
| "ledger_status (LO_PublishCompletion p now) l = code_of (fst (ledger_publish_completion p now l))"
| "ledger_status (LO_OpenFlow rid attempt traffic bytes now) l =
     code_of (fst (ledger_open_flow rid attempt traffic bytes now l))"
| "ledger_status (LO_ReleaseFlow flow) l = fst (ledger_release_flow flow l)"
| "ledger_status (LO_RecordFlowBytes flow bytes inbound) l =
     fst (ledger_record_flow_bytes flow bytes inbound l)"
| "ledger_status (LO_RecordDecision rid attempt traffic outcome reason bytes) l =
     fst (ledger_record_decision rid attempt traffic outcome reason bytes l)"
| "ledger_status (LO_RestoreRecord r) l = fst (restore_record r l)"
| "ledger_status LO_Clear l = ST_Ok"

text \<open>The abstract state: the open flows with their owner and class.\<close>

type_synonym flow_fact = "FlowId \<times> RequestId \<times> TrafficClass"

definition flow_set :: "Ledger \<Rightarrow> flow_fact set" where
  "flow_set l = (\<lambda>p. (fst p, f_request (snd p), f_traffic (snd p))) ` set (l_flows l)"

inductive flowset_step :: "flow_fact set \<Rightarrow> flow_fact set \<Rightarrow> bool" where
  flowset_stay: "flowset_step F F"
| flowset_open: "fid \<notin> fst ` F \<Longrightarrow> flowset_step F (insert (fid, rid, c) F)"
| flowset_close: "(fid, rid, c) \<in> F \<Longrightarrow> flowset_step F (F - {(fid, rid, c)})"
| flowset_drop: "flowset_step F {x \<in> F. fst (snd x) \<noteq> rid}"
| flowset_clear: "flowset_step F {}"

section \<open>Errors\<close>

lemma result_errors_atomic:
  "code_of (fst (ledger_register_request rid now l)) \<noteq> ST_Ok \<longrightarrow> snd (ledger_register_request rid now l) = l"
  "code_of (fst (ledger_register_attempt rid attempt hash model route now l)) \<noteq> ST_Ok \<longrightarrow>
     snd (ledger_register_attempt rid attempt hash model route now l) = l"
  "code_of (fst (ledger_revalidate_request rid attempt now l)) \<noteq> ST_Ok \<longrightarrow>
     snd (ledger_revalidate_request rid attempt now l) = l"
  "code_of (fst (ledger_supersede_attempt rid attempt replacement now l)) \<noteq> ST_Ok \<longrightarrow>
     snd (ledger_supersede_attempt rid attempt replacement now l) = l"
  "code_of (fst (ledger_open_flow rid attempt traffic bytes now l)) \<noteq> ST_Ok \<longrightarrow>
     snd (ledger_open_flow rid attempt traffic bytes now l) = l"
  by (simp_all add: ledger_register_request_def ledger_register_attempt_def ledger_revalidate_request_def
      ledger_supersede_attempt_def ledger_open_flow_def Let_def split: option.split)

lemma status_errors_atomic:
  "fst (ledger_advance_stage rid attempt target now l) \<noteq> ST_Ok \<longrightarrow>
     snd (ledger_advance_stage rid attempt target now l) = l"
  "fst (set_attempt_model rid attempt hash model l) \<noteq> ST_Ok \<longrightarrow>
     snd (set_attempt_model rid attempt hash model l) = l"
  "fst (ledger_cancel_request rid reason sequence now l) \<noteq> ST_Ok \<longrightarrow>
     snd (ledger_cancel_request rid reason sequence now l) = l"
  "fst (mark_request_interrupted rid now l) \<noteq> ST_Ok \<longrightarrow> snd (mark_request_interrupted rid now l) = l"
  "fst (ledger_release_flow flow l) \<noteq> ST_Ok \<longrightarrow> snd (ledger_release_flow flow l) = l"
  "fst (ledger_record_decision rid attempt traffic outcome reason bytes l) \<noteq> ST_Ok \<longrightarrow>
     snd (ledger_record_decision rid attempt traffic outcome reason bytes l) = l"
  "fst (restore_record r l) \<noteq> ST_Ok \<longrightarrow> snd (restore_record r l) = l"
  by (simp_all add: ledger_advance_stage_def set_attempt_model_def ledger_cancel_request_def
      mark_request_interrupted_def ledger_release_flow_def ledger_record_decision_def restore_record_def
      Let_def split: option.split prod.split)

lemma fail_errors_atomic:
  "(case fst (ledger_fail_attempt rid attempt reason now l) of
      Some res \<Rightarrow> code_of res | None \<Rightarrow> ST_Ok) \<noteq> ST_Ok \<longrightarrow>
   snd (ledger_fail_attempt rid attempt reason now l) = l"
  by (simp add: ledger_fail_attempt_def Let_def split: option.split)

lemma publish_parts_ok:
  "code_of (fst (publish_refused refusal reason l)) = ST_Ok"
  "code_of (fst (publish_suppressed l)) = ST_Ok"
  "code_of (fst (publish_failure p now index r l)) = ST_Ok"
  "code_of (fst (publish_success p now index r l)) = ST_Ok"
  by (simp_all add: publish_refused_def publish_suppressed_def publish_failure_def publish_success_def Let_def)

lemma publish_errors_atomic:
  "code_of (fst (ledger_publish_completion p now l)) \<noteq> ST_Ok \<longrightarrow>
   snd (ledger_publish_completion p now l) = l"
  by (simp add: ledger_publish_completion_def publish_parts_ok Let_def split: option.split)

text \<open>
  C21. Failure is atomic: whenever an operation other than byte reporting returns an error
  code, the ledger is exactly what it was before.
\<close>

theorem ledger_errors_atomic:
  "ledger_status op l \<noteq> ST_Ok \<Longrightarrow> (\<forall>flow bytes inbound. op \<noteq> LO_RecordFlowBytes flow bytes inbound) \<Longrightarrow>
   ledger_apply op l = l"
  by (cases op)
    (auto simp: result_errors_atomic status_errors_atomic fail_errors_atomic publish_errors_atomic)

theorem ledger_errors_atomic_witness:
  "ledger_apply (LO_OpenFlow demo_request demo_attempt TC_Unknown 1 1) demo_open = demo_open"
  by (rule ledger_errors_atomic) (simp_all add: ledger_open_flow_def)

section \<open>The effect of each operation on the open flows\<close>

lemma release_flows_effect:
  assumes "ledger_inv l" and "r_id r = rid"
  shows "l_flows (snd (release_request_flows r l)) = filter (\<lambda>p. f_request (snd p) \<noteq> rid) (l_flows l)"
proof -
  have wf: "um_wf (l_flows l)" and idx: "index_inv (l_flows l) (l_flows_by_request l)"
    using assms(1) by (auto simp: ledger_inv_def ledger_core_def)
  have "filter (\<lambda>p. fst p \<notin> set (mm_range rid (l_flows_by_request l))) (l_flows l) =
      filter (\<lambda>p. f_request (snd p) \<noteq> rid) (l_flows l)"
    by (rule filter_cong) (auto simp only: index_range [OF idx wf])
  then show ?thesis
    using assms(2) release_loop_table [OF wf] by (simp add: release_request_flows_def Let_def)
qed

lemma retire_flows_effect:
  assumes "ledger_inv l" and "r_id r = rid"
  shows "l_flows (retire_request rid r rid cs l) = filter (\<lambda>p. f_request (snd p) \<noteq> rid) (l_flows l)"
  using release_flows_effect [OF assms] by (simp add: retire_requests_pre)

lemma quiet_ops:
  "l_flows (snd (ledger_register_request rid now l)) = l_flows l"
  "l_flows (snd (ledger_register_attempt rid attempt hash model route now l)) = l_flows l"
  "l_flows (snd (ledger_revalidate_request rid attempt now l)) = l_flows l"
  "l_flows (snd (ledger_advance_stage rid attempt target now l)) = l_flows l"
  "l_flows (snd (ledger_supersede_attempt rid attempt replacement now l)) = l_flows l"
  "l_flows (snd (set_attempt_model rid attempt hash model l)) = l_flows l"
  "l_flows (snd (ledger_record_decision rid attempt traffic outcome reason bytes l)) = l_flows l"
  "l_flows (snd (restore_record r l)) = l_flows l"
  by (simp_all add: ledger_register_request_def ledger_register_attempt_def ledger_revalidate_request_def
      ledger_advance_stage_def ledger_supersede_attempt_def set_attempt_model_def
      ledger_record_decision_def restore_record_def Let_def split: option.split)

lemma flow_set_filter:
  "l_flows l' = filter (\<lambda>p. f_request (snd p) \<noteq> rid) (l_flows l) \<Longrightarrow>
   flow_set l' = {x \<in> flow_set l. fst (snd x) \<noteq> rid}"
  by (auto simp: flow_set_def)

lemma flow_set_same: "l_flows l' = l_flows l \<Longrightarrow> flow_set l' = flow_set l"
  by (simp add: flow_set_def)

lemma flow_set_find:
  "um_wf (l_flows l) \<Longrightarrow>
   (fid, rid, c) \<in> flow_set l \<longleftrightarrow>
     (\<exists>f. map_of (l_flows l) fid = Some f \<and> f_request f = rid \<and> f_traffic f = c)"
  by (auto simp: flow_set_def um_find_set image_iff) force

lemma fail_flows_effect:
  assumes inv: "ledger_inv l"
  shows "l_flows (snd (ledger_fail_attempt rid attempt reason now l)) = l_flows l \<or>
    l_flows (snd (ledger_fail_attempt rid attempt reason now l)) =
      filter (\<lambda>p. f_request (snd p) \<noteq> rid) (l_flows l)"
  using core_record(1) [OF inv_core [OF inv]]
  by (simp add: ledger_fail_attempt_def Let_def retire_flows_effect [OF inv] split: option.split)

lemma cancel_flows_effect:
  assumes inv: "ledger_inv l"
  shows "l_flows (snd (ledger_cancel_request rid reason sequence now l)) = l_flows l \<or>
    l_flows (snd (ledger_cancel_request rid reason sequence now l)) =
      filter (\<lambda>p. f_request (snd p) \<noteq> rid) (l_flows l)"
  using core_record(1) [OF inv_core [OF inv]]
  by (simp add: ledger_cancel_request_def Let_def retire_flows_effect [OF inv] split: option.split)

lemma interrupt_flows_effect:
  assumes inv: "ledger_inv l"
  shows "l_flows (snd (mark_request_interrupted rid now l)) = l_flows l \<or>
    l_flows (snd (mark_request_interrupted rid now l)) =
      filter (\<lambda>p. f_request (snd p) \<noteq> rid) (l_flows l)"
  using core_record(1) [OF inv_core [OF inv]]
  by (simp add: mark_request_interrupted_def Let_def case_prod_unfold release_flows_effect [OF inv]
      split: option.split)

lemma publish_flows_effect:
  assumes inv: "ledger_inv l"
  shows "l_flows (snd (ledger_publish_completion p now l)) = l_flows l \<or>
    l_flows (snd (ledger_publish_completion p now l)) =
      filter (\<lambda>q. f_request (snd q) \<noteq> cp_request p) (l_flows l)"
proof -
  have quiet: "l_flows (snd (publish_refused refusal reason l)) = l_flows l"
    "l_flows (snd (publish_suppressed l)) = l_flows l" for refusal reason
    by (simp_all add: publish_refused_def publish_suppressed_def)
  have fin: "l_flows (snd (publish_failure p now i r l)) = l_flows l \<or>
      l_flows (snd (publish_failure p now i r l)) = filter (\<lambda>q. f_request (snd q) \<noteq> cp_request p) (l_flows l)"
    "l_flows (snd (publish_success p now i r l)) = l_flows l \<or>
      l_flows (snd (publish_success p now i r l)) = filter (\<lambda>q. f_request (snd q) \<noteq> cp_request p) (l_flows l)"
    if "r_id r = cp_request p" for i r
    using that retire_flows_effect [OF inv]
    by (simp_all add: publish_failure_def publish_success_def quiet Let_def)
  show ?thesis
  proof (cases "map_of (l_requests l) (cp_request p)")
    case None
    then show ?thesis by (simp add: ledger_publish_completion_def)
  next
    case (Some r)
    have "r_id r = cp_request p" by (rule core_record(1) [OF inv_core [OF inv] Some])
    then show ?thesis
      using Some fin [of r] quiet
      by (simp add: ledger_publish_completion_def Let_def split: option.split)
  qed
qed

lemma inv_flows_wf: "ledger_inv l \<Longrightarrow> um_wf (l_flows l)"
  by (simp add: ledger_inv_def ledger_core_def)

lemma fresh_flow_id:
  assumes inv: "ledger_inv l" and seq: "l_next_flow_sequence l \<noteq> - 1"
    and fid: "high fid = l_next_flow_sequence l + 1"
  shows "map_of (l_flows l) fid = None"
proof (cases "map_of (l_flows l) fid")
  case (Some v)
  then have "high fid \<le> l_next_flow_sequence l"
    using inv by (simp add: ledger_inv_def ledger_core_def flow_inv_def)
  moreover have "l_next_flow_sequence l < l_next_flow_sequence l + 1"
    using unat_u64_inc [OF seq] by (simp add: word_less_nat_alt)
  ultimately show ?thesis using fid by (auto dest: leD)
qed

text \<open>What a successful \<open>open_flow\<close> does.\<close>

lemma open_flow_success:
  assumes "ledger_open_flow rid attempt traffic bytes now l = (Inr fid, l')"
  obtains r f where "map_of (l_requests l) rid = Some r" "record_open r"
    "f_id f = fid" "f_request f = rid" "f_traffic f = traffic" "f_declared_bytes f = bytes"
    "high fid = l_next_flow_sequence l + 1" "traffic \<noteq> TC_Unknown" "traffic \<noteq> TC_Count"
    "r_active_flows r < ll_max_active_flows_per_request (l_limits l)"
    "ac_active_flows_total (l_accounting l) < ll_max_active_flows_total (l_limits l)"
    "l' = l\<lparr> l_next_flow_sequence := l_next_flow_sequence l + 1,
       l_flows := um_emplace fid f (l_flows l), l_flows_by_request := (rid, fid) # l_flows_by_request l,
       l_requests := um_put rid (r\<lparr> r_active_flows := r_active_flows r + 1 \<rparr>) (l_requests l),
       l_accounting := account_flow_open traffic (l_accounting l) \<rparr>"
proof -
  obtain r where r: "map_of (l_requests l) rid = Some r"
    using assms by (cases "map_of (l_requests l) rid") (auto simp: ledger_open_flow_def split: if_splits)
  obtain i where i: "find_attempt r attempt = Some i"
    using assms r by (cases "find_attempt r attempt") (auto simp: ledger_open_flow_def split: if_splits)
  let ?f = "FlowRecord_init\<lparr> f_id := fid, f_request := rid, f_traffic := traffic,
              f_declared_bytes := bytes, f_opened_at_nanos := now \<rparr>"
  show thesis
    by (rule that [of r ?f])
      (use assms r i in \<open>auto simp: ledger_open_flow_def Let_def record_open_def not_le split: if_splits\<close>)
qed

lemma open_flow_cases:
  "(\<exists>fid. ledger_open_flow rid attempt traffic bytes now l = (Inr fid, snd (ledger_open_flow rid attempt traffic bytes now l))) \<or>
   snd (ledger_open_flow rid attempt traffic bytes now l) = l"
proof (cases "fst (ledger_open_flow rid attempt traffic bytes now l)")
  case (Inl code)
  then show ?thesis
    by (simp add: ledger_open_flow_def Let_def split: option.split)
next
  case (Inr fid)
  then show ?thesis by (metis prod.collapse)
qed

lemma flow_set_insert:
  assumes "um_wf (l_flows l)" and "map_of (l_flows l) fid = None" and "l_flows l' = um_emplace fid f (l_flows l)"
  shows "flow_set l' = insert (fid, f_request f, f_traffic f) (flow_set l)" and "fid \<notin> fst ` flow_set l"
proof -
  have wf': "um_wf (l_flows l')" using assms(1,3) by simp
  have "x \<in> flow_set l' \<longleftrightarrow> x \<in> insert (fid, f_request f, f_traffic f) (flow_set l)" for x
    using assms(2,3)
    by (cases x) (auto simp: flow_set_find [OF wf'] flow_set_find [OF assms(1)] um_emplace_def split: if_splits)
  then show "flow_set l' = insert (fid, f_request f, f_traffic f) (flow_set l)" by blast
  show "fid \<notin> fst ` flow_set l"
    using assms(2) by (force simp: flow_set_def map_of_eq_None_iff)
qed

lemma flow_set_erase:
  assumes "um_wf (l_flows l)" and "map_of (l_flows l) fid = Some f" and "l_flows l' = um_erase fid (l_flows l)"
  shows "flow_set l' = flow_set l - {(fid, f_request f, f_traffic f)}"
proof -
  have wf': "um_wf (l_flows l')" using assms(1,3) by simp
  have "x \<in> flow_set l' \<longleftrightarrow> x \<in> flow_set l - {(fid, f_request f, f_traffic f)}" for x
    using assms(2,3)
    by (cases x) (auto simp: flow_set_find [OF wf'] flow_set_find [OF assms(1)] split: if_splits)
  then show ?thesis by blast
qed

lemma bytes_flow_set:
  assumes "um_wf (l_flows l)"
  shows "flow_set (snd (ledger_record_flow_bytes fid bytes inbound l)) = flow_set l"
proof (cases "map_of (l_flows l) fid")
  case None
  then show ?thesis by (simp add: ledger_record_flow_bytes_def)
next
  case (Some f)
  have "flow_set l' = flow_set l"
    if l': "l_flows l' = um_put fid (f\<lparr> f_observed_bytes := n \<rparr>) (l_flows l)" for l' n
  proof -
    have wf': "um_wf (l_flows l')" using assms l' by simp
    have "x \<in> flow_set l' \<longleftrightarrow> x \<in> flow_set l" for x
      using Some l' by (cases x) (auto simp: flow_set_find [OF wf'] flow_set_find [OF assms] split: if_splits)
    then show ?thesis by blast
  qed
  then show ?thesis
    using Some by (simp add: ledger_record_flow_bytes_def Let_def split: option.split)
qed

lemma drop_or_stay:
  assumes "l_flows l' = l_flows l \<or> l_flows l' = filter (\<lambda>p. f_request (snd p) \<noteq> rid) (l_flows l)"
  shows "flowset_step (flow_set l) (flow_set l')"
  using assms
proof (elim disjE)
  assume "l_flows l' = l_flows l"
  then show ?thesis by (simp add: flow_set_same [of l' l] flowset_stay)
next
  assume "l_flows l' = filter (\<lambda>p. f_request (snd p) \<noteq> rid) (l_flows l)"
  then show ?thesis by (simp add: flow_set_filter [of l' rid l] flowset_drop)
qed

lemma ledger_apply_flowset:
  assumes inv: "ledger_inv l" and seq: "l_next_flow_sequence l \<noteq> - 1"
  shows "flowset_step (flow_set l) (flow_set (ledger_apply op l))"
proof (cases op)
  case (LO_OpenFlow rid attempt traffic bytes now)
  show ?thesis
  proof (cases "snd (ledger_open_flow rid attempt traffic bytes now l) = l")
    case True
    then show ?thesis using LO_OpenFlow by (simp add: flowset_stay)
  next
    case False
    then obtain fid where "ledger_open_flow rid attempt traffic bytes now l =
        (Inr fid, snd (ledger_open_flow rid attempt traffic bytes now l))"
      using open_flow_cases by blast
    then obtain r f where f: "high fid = l_next_flow_sequence l + 1"
      "l_flows (snd (ledger_open_flow rid attempt traffic bytes now l)) = um_emplace fid f (l_flows l)"
      by (rule open_flow_success) auto
    show ?thesis
      unfolding LO_OpenFlow ledger_apply.simps
        flow_set_insert(1) [OF inv_flows_wf [OF inv] fresh_flow_id [OF inv seq f(1)] f(2)]
      by (rule flowset_open [OF flow_set_insert(2) [OF inv_flows_wf [OF inv] fresh_flow_id [OF inv seq f(1)] f(2)]])
  qed
next
  case (LO_ReleaseFlow fid)
  show ?thesis
  proof (cases "map_of (l_flows l) fid")
    case None
    then show ?thesis using LO_ReleaseFlow by (simp add: ledger_release_flow_def flowset_stay)
  next
    case (Some f)
    have "l_flows (snd (ledger_release_flow fid l)) = um_erase fid (l_flows l)"
      using Some by (simp add: ledger_release_flow_def Let_def split: option.split)
    then have "flow_set (ledger_apply op l) = flow_set l - {(fid, f_request f, f_traffic f)}"
      using flow_set_erase [OF inv_flows_wf [OF inv] Some] LO_ReleaseFlow by simp
    moreover have "(fid, f_request f, f_traffic f) \<in> flow_set l"
      using Some by (simp add: flow_set_find [OF inv_flows_wf [OF inv]])
    ultimately show ?thesis by (simp add: flowset_close)
  qed
next
  case LO_Clear
  then show ?thesis using flowset_clear by (simp add: flow_set_def ledger_clear_def)
next
  case (LO_FailAttempt rid attempt reason now)
  then show ?thesis using drop_or_stay [OF fail_flows_effect [OF inv]] by simp
next
  case (LO_CancelRequest rid reason sequence now)
  then show ?thesis using drop_or_stay [OF cancel_flows_effect [OF inv]] by simp
next
  case (LO_MarkInterrupted rid now)
  then show ?thesis using drop_or_stay [OF interrupt_flows_effect [OF inv]] by simp
next
  case (LO_PublishCompletion p now)
  then show ?thesis using drop_or_stay [OF publish_flows_effect [OF inv]] by simp
next
  case (LO_RecordFlowBytes fid bytes inbound)
  then show ?thesis using bytes_flow_set [OF inv_flows_wf [OF inv]] by (simp add: flowset_stay)
qed (simp_all add: drop_or_stay quiet_ops)

lemma flow_set_card:
  assumes "ledger_inv l"
  shows "unat (ac_active_flows_total (l_accounting l)) = card (flow_set l)"
proof -
  have wf: "um_wf (l_flows l)" and tot: "unat (ac_active_flows_total (l_accounting l)) = length (l_flows l)"
    using assms by (auto simp: ledger_inv_def ledger_core_def counters_inv_def)
  have d: "distinct (l_flows l)" using wf by (simp add: um_wf_def distinct_map)
  have "inj_on (\<lambda>p. (fst p, f_request (snd p), f_traffic (snd p))) (set (l_flows l))"
    using wf by (auto simp: inj_on_def um_wf_def distinct_map)
  then have "card (flow_set l) = card (set (l_flows l))"
    unfolding flow_set_def by (rule card_image)
  also have "\<dots> = length (l_flows l)" using d by (rule distinct_card)
  finally show ?thesis using tot by simp
qed

section \<open>Properties\<close>



text \<open>
  Cancelling a request releases exactly its flows: after a successful cancellation in a
  state that satisfies the invariant the flow table holds precisely the flows of the other
  requests, the request's index range is empty, and the invariant holds again.
\<close>

theorem cancel_releases_flows:
  "ledger_inv l \<Longrightarrow> ledger_cancel_request rid reason sequence now l = (ST_Ok, l') \<Longrightarrow>
   l_flows l' = filter (\<lambda>p. f_request (snd p) \<noteq> rid) (l_flows l) \<and>
   mm_range rid (l_flows_by_request l') = [] \<and> ledger_inv l'"
proof -
  assume inv: "ledger_inv l" and ok: "ledger_cancel_request rid reason sequence now l = (ST_Ok, l')"
  have inv': "ledger_inv l'"
    using cancel_request_inv [OF inv, of rid reason sequence now] ok by simp
  obtain r where r: "map_of (l_requests l) rid = Some r"
    using ok by (auto simp: ledger_cancel_request_def split: option.splits)
  have key: "r_id r = rid" by (rule core_record(1) [OF inv_core [OF inv] r])
  have flows: "l_flows l' = filter (\<lambda>p. f_request (snd p) \<noteq> rid) (l_flows l)"
  proof (cases "r_lifecycle r = RL_Cancelled")
    case True
    then have "is_terminal_request l rid" using r by (simp add: is_terminal_request_def rl_terminal_def)
    then have "flows_of rid (l_flows l) = 0" by (rule terminal_no_flows [OF inv])
    then have "filter (\<lambda>p. f_request (snd p) \<noteq> rid) (l_flows l) = l_flows l"
      using inv_flows_wf [OF inv] by (intro filter_True) (fastforce simp: flows_of_0 um_find_set)
    moreover have "l_flows l' = l_flows l"
      using ok r True by (auto simp: ledger_cancel_request_def)
    ultimately show ?thesis by simp
  next
    case False
    then show ?thesis
      using ok r key retire_flows_effect [OF inv]
      by (auto simp: ledger_cancel_request_def Let_def split: if_splits)
  qed
  have "(rid, fid) \<notin> set (l_flows_by_request l')" for fid
  proof -
    have "index_inv (l_flows l') (l_flows_by_request l')" and wf: "um_wf (l_flows l')"
      using inv' by (auto simp: ledger_inv_def ledger_core_def)
    then show ?thesis by (auto simp: index_inv_def um_find_set flows)
  qed
  then have "mm_range rid (l_flows_by_request l') = []" by (auto simp: mm_range_def filter_empty_conv)
  then show ?thesis using flows inv' by simp
qed

theorem cancel_releases_flows_witness:
  "l_flows demo_cancelled = [] \<and> length (l_flows demo_open) = 1 \<and>
   mm_range demo_request (l_flows_by_request demo_cancelled) = []"
proof -
  have inv: "ledger_inv demo_open" by (rule ledger.reachable_inv [OF demo_reach(1,2)])
  have "fst (ledger_cancel_request demo_request RC_Cancelled 3 13 demo_open) = ST_Ok" by code_simp
  then have "ledger_cancel_request demo_request RC_Cancelled 3 13 demo_open = (ST_Ok, demo_cancelled)"
    by (simp add: demo_cancelled_def prod_eq_iff)
  note c = cancel_releases_flows [OF inv this]
  have "filter (\<lambda>p. f_request (snd p) \<noteq> demo_request) (l_flows demo_open) = []" "length (l_flows demo_open) = 1"
    by code_simp+
  with c show ?thesis by simp
qed

lemma um_put_put: "um_put k v (um_put k w m) = um_put k v m"
  by (induction m) auto

lemma um_put_same: "map_of m k = Some v \<Longrightarrow> um_put k v m = m"
  by (induction m) (auto split: if_splits)

lemma um_erase_put_new: "map_of m k = None \<Longrightarrow> um_erase k (um_put k v m) = m"
  by (induction m) (auto simp: um_erase_def split: if_splits)

lemma counters_determine:
  assumes "counters_inv flows a" and "counters_inv flows b"
  shows "same_active a b"
proof -
  have "ac_active_flows_total a = ac_active_flows_total b"
    using assms by (simp add: counters_inv_def word_unat_eq_iff)
  moreover have "map ca_active_flows (ac_per_class a) = map ca_active_flows (ac_per_class b)"
  proof (rule nth_equalityI)
    fix i assume "i < length (map ca_active_flows (ac_per_class a))"
    then have i: "i < kTrafficClassCount" using counters_length [OF assms(1)] by simp
    have "unat (ca_active_flows (ac_per_class a ! i)) = unat (ca_active_flows (ac_per_class b ! i))"
      using counters_per_class(1) [OF assms(1), of "traffic_classes ! i"]
        counters_per_class(1) [OF assms(2), of "traffic_classes ! i"] traffic_classes_index [OF i] by simp
    then show "map ca_active_flows (ac_per_class a) ! i = map ca_active_flows (ac_per_class b) ! i"
      using i counters_length [OF assms(1)] counters_length [OF assms(2)] by (simp add: word_unat_eq_iff)
  qed (use counters_length [OF assms(1)] counters_length [OF assms(2)] in simp)
  ultimately show ?thesis by (simp add: same_active_def)
qed

text \<open>
  Opening and releasing a flow are inverse: releasing a flow that was just opened succeeds
  and gives back the request table, the flow table, the per-request index, the retention queue
  and every active-flow counter (only the identifier counter and the peaks move on).
\<close>

theorem open_release_roundtrip:
  "ledger_inv l \<Longrightarrow> l_next_flow_sequence l \<noteq> - 1 \<Longrightarrow>
   ledger_open_flow rid attempt traffic bytes now l = (Inr fid, l1) \<Longrightarrow>
   (\<exists>l2. ledger_release_flow fid l1 = (ST_Ok, l2) \<and> l_requests l2 = l_requests l \<and>
      l_flows l2 = l_flows l \<and> l_flows_by_request l2 = l_flows_by_request l \<and>
      l_terminal_order l2 = l_terminal_order l \<and> same_active (l_accounting l2) (l_accounting l))"
proof -
  assume inv: "ledger_inv l" and seq: "l_next_flow_sequence l \<noteq> - 1"
    and op: "ledger_open_flow rid attempt traffic bytes now l = (Inr fid, l1)"
  obtain r f where r: "map_of (l_requests l) rid = Some r"
    and f: "f_id f = fid" "f_request f = rid" "f_traffic f = traffic"
    and fid: "high fid = l_next_flow_sequence l + 1"
    and tot: "ac_active_flows_total (l_accounting l) < ll_max_active_flows_total (l_limits l)"
    and l1: "l1 = l\<lparr> l_next_flow_sequence := l_next_flow_sequence l + 1,
       l_flows := um_emplace fid f (l_flows l), l_flows_by_request := (rid, fid) # l_flows_by_request l,
       l_requests := um_put rid (r\<lparr> r_active_flows := r_active_flows r + 1 \<rparr>) (l_requests l),
       l_accounting := account_flow_open traffic (l_accounting l) \<rparr>"
    by (rule open_flow_success [OF op], rule that)
  have new: "map_of (l_flows l) fid = None" by (rule fresh_flow_id [OF inv seq fid])
  have inv1: "ledger_inv l1" using open_flow_inv [OF inv seq, of rid attempt traffic bytes now] op by simp
  have at1: "map_of (l_flows l1) fid = Some f" using new by (simp add: l1 um_emplace_def)
  have "unat (r_active_flows r + 1) = flows_of rid (l_flows l1)"
    using core_record(3) [OF inv_core [OF inv1], of rid] by (simp add: l1)
  moreover have "0 < flows_of rid (l_flows l1)"
    using flows_of_pos [OF inv_flows_wf [OF inv1] at1] f(2) by simp
  ultimately have "0 < unat (r_active_flows r + 1)" by (simp only:)
  then have pos: "r_active_flows r + 1 > 0" by (simp only: unat_gt_0 word_gt_0)
  have req1: "map_of (l_requests l1) rid = Some (r\<lparr> r_active_flows := r_active_flows r + 1 \<rparr>)"
    by (simp add: l1)
  let ?l2 = "snd (ledger_release_flow fid l1)"
  have rel: "ledger_release_flow fid l1 =
      (ST_Ok, l1\<lparr> l_accounting := account_flow_close (f_traffic f) (l_accounting l1),
        l_flows := um_erase fid (l_flows l1),
        l_flows_by_request := remove1 (rid, fid) (l_flows_by_request l1),
        l_requests := um_put rid r (l_requests l1) \<rparr>)"
    unfolding ledger_release_flow_def at1 option.case Let_def f(2)
    using req1 pos by simp
  have "l_flows l1 = um_put fid f (l_flows l)" using new by (simp add: l1 um_emplace_def)
  then have flows: "um_erase fid (l_flows l1) = l_flows l" using um_erase_put_new [OF new] by simp
  have "l_requests l1 = um_put rid (r\<lparr> r_active_flows := r_active_flows r + 1 \<rparr>) (l_requests l)"
    by (simp add: l1)
  then have reqs: "um_put rid r (l_requests l1) = l_requests l" using um_put_same [OF r] by (simp add: um_put_put)
  have l2: "fst (ledger_release_flow fid l1) = ST_Ok" "l_flows ?l2 = l_flows l"
    "l_requests ?l2 = l_requests l" "l_flows_by_request ?l2 = l_flows_by_request l"
    "l_terminal_order ?l2 = l_terminal_order l"
    unfolding rel by (simp_all add: flows reqs) (simp_all add: l1)
  have "ledger_inv ?l2" by (rule release_flow_inv [OF inv1])
  then have "counters_inv (l_flows l) (l_accounting ?l2)"
    unfolding ledger_inv_def ledger_core_def l2(2) by blast
  moreover have "counters_inv (l_flows l) (l_accounting l)"
    using inv unfolding ledger_inv_def ledger_core_def by blast
  ultimately have "same_active (l_accounting ?l2) (l_accounting l)" by (rule counters_determine)
  moreover have "ledger_release_flow fid l1 = (ST_Ok, ?l2)" using l2(1) by (simp add: prod_eq_iff)
  ultimately show ?thesis using l2 by blast
qed

theorem open_release_roundtrip_witness:
  "\<exists>fid l1 l2. ledger_open_flow demo_request demo_attempt TC_RequestIngress 64 12 demo_attempted = (Inr fid, l1) \<and>
     ledger_release_flow fid l1 = (ST_Ok, l2) \<and> l_flows l2 = l_flows demo_attempted"
proof -
  have reach: "ledger_step\<^sup>*\<^sup>* (RequestLedger LedgerLimits_init) demo_attempted"
    using demo_steps(1,2) by (meson rtranclp.rtrancl_into_rtrancl rtranclp.rtrancl_refl)
  have inv: "ledger_inv demo_attempted" by (rule ledger.reachable_inv [OF demo_reach(1) reach])
  have "\<not> isl (fst (ledger_open_flow demo_request demo_attempt TC_RequestIngress 64 12 demo_attempted))"
    by code_simp
  then obtain fid l1 where o:
    "ledger_open_flow demo_request demo_attempt TC_RequestIngress 64 12 demo_attempted = (Inr fid, l1)"
    by (cases "ledger_open_flow demo_request demo_attempt TC_RequestIngress 64 12 demo_attempted";
        cases "fst (ledger_open_flow demo_request demo_attempt TC_RequestIngress 64 12 demo_attempted)") auto
  show ?thesis using open_release_roundtrip [OF inv demo_seq(3) o] o by blast
qed

text \<open>
  Retention is oldest-first: eviction cuts the retention queue down to the configured
  length by removing its oldest entries, keeps the relative order of the rest, and deletes from
  the request table exactly the terminal records whose identifiers were removed.
\<close>

theorem evict_oldest_first:
  "um_wf (l_requests l) \<Longrightarrow>
   limit = unat (ll_max_retained_terminal_requests (l_limits l)) \<Longrightarrow>
   k = length (l_terminal_order l) - limit \<Longrightarrow>
   l_terminal_order (evict_if_needed l) = drop k (l_terminal_order l) \<and>
   length (l_terminal_order (evict_if_needed l)) \<le> limit \<and>
   (map_of (l_requests (evict_if_needed l)) rid = Some r \<longleftrightarrow>
      map_of (l_requests l) rid = Some r \<and>
      \<not> (rid \<in> set (take k (l_terminal_order l)) \<and> rl_terminal (r_lifecycle r)))"
proof -
  assume wf: "um_wf (l_requests l)" and lim: "limit = unat (ll_max_retained_terminal_requests (l_limits l))"
    and k: "k = length (l_terminal_order l) - limit"
  have ov: "overflow l = k" by (simp add: overflow_def lim k)
  have ord: "l_terminal_order (evict_if_needed l) = drop k (l_terminal_order l)"
    using evict_requests(1) [OF wf] ov by simp
  moreover have "length (l_terminal_order (evict_if_needed l)) \<le> limit"
    unfolding ord k by simp
  moreover have "map_of (l_requests (evict_if_needed l)) rid = Some r \<longleftrightarrow>
      map_of (l_requests l) rid = Some r \<and>
      \<not> (rid \<in> set (take k (l_terminal_order l)) \<and> rl_terminal (r_lifecycle r))"
    using evict_find_Some [OF wf] ov by simp
  ultimately show ?thesis by blast
qed

definition demo_full :: Ledger where
  "demo_full = (RequestLedger (LedgerLimits_init\<lparr> ll_max_retained_terminal_requests := 1 \<rparr>))
     \<lparr> l_requests := [(Id128 1 1, RequestRecord_init\<lparr> r_id := Id128 1 1, r_lifecycle := RL_Failed \<rparr>),
                     (Id128 1 2, RequestRecord_init\<lparr> r_id := Id128 1 2, r_lifecycle := RL_Completed \<rparr>)],
       l_terminal_order := [Id128 1 1, Id128 1 2] \<rparr>"

theorem evict_oldest_first_witness:
  "l_terminal_order (evict_if_needed demo_full) = [Id128 1 2] \<and>
   map_of (l_requests (evict_if_needed demo_full)) (Id128 1 1) = None"
proof -
  have wf: "um_wf (l_requests demo_full)" by (simp add: demo_full_def um_wf_def)
  have lim: "(1 :: nat) = unat (ll_max_retained_terminal_requests (l_limits demo_full))" by code_simp
  have k: "(1 :: nat) = length (l_terminal_order demo_full) - 1" by (simp add: demo_full_def)
  have o: "drop 1 (l_terminal_order demo_full) = [Id128 1 2]" by (simp add: demo_full_def)
  have t: "map_of (l_requests demo_full) (Id128 1 1) = Some r \<Longrightarrow>
      rl_terminal (r_lifecycle r) \<and> Id128 1 1 \<in> set (take 1 (l_terminal_order demo_full))" for r
    by (auto simp: demo_full_def rl_terminal_def)
  show ?thesis
    using evict_oldest_first [OF wf lim k] o t
    by (metis not_None_eq)
qed

text \<open>
  C22. Bounded retention: in every reachable state at most the configured number of terminal
  records is kept, and every one of them is scheduled for eviction.
\<close>

theorem terminal_records_bounded:
  "ledger_init l0 \<Longrightarrow> ledger_step\<^sup>*\<^sup>* l0 l \<Longrightarrow>
   card {rid. is_terminal_request l rid} \<le> unat (ll_max_retained_terminal_requests (l_limits l)) \<and>
   {rid. is_terminal_request l rid} \<subseteq> set (l_terminal_order l)"
proof -
  assume "ledger_init l0" and "ledger_step\<^sup>*\<^sup>* l0 l"
  then have inv: "ledger_inv l" by (rule ledger.reachable_inv)
  have sub: "{rid. is_terminal_request l rid} \<subseteq> set (l_terminal_order l)"
    using core_record(4) [OF inv_core [OF inv]] by (auto simp: is_terminal_request_def split: option.splits)
  then have "card {rid. is_terminal_request l rid} \<le> card (set (l_terminal_order l))"
    by (rule card_mono [OF finite_set])
  also have "\<dots> \<le> length (l_terminal_order l)" by (rule card_length)
  also have "\<dots> \<le> unat (ll_max_retained_terminal_requests (l_limits l))"
    using inv by (simp add: ledger_inv_def retention_bounded_def)
  finally show ?thesis using sub by blast
qed

theorem terminal_records_bounded_witness:
  "is_terminal_request demo_cancelled demo_request \<and> demo_request \<in> set (l_terminal_order demo_cancelled)"
proof -
  have "is_terminal_request demo_cancelled demo_request" by code_simp
  with terminal_records_bounded [OF demo_reach(1,3)] show ?thesis by blast
qed

text \<open>
  C23. Stage changes follow the stage machine: a successful stage change applies to the current,
  non-terminal attempt of a live request, is a legal transition to a non-terminal stage, and
  changes nothing but that one record, whose attempt and request then both carry the new stage.
\<close>

theorem advance_stage_legal:
  "ledger_inv l \<Longrightarrow> ledger_advance_stage rid attempt target now l = (ST_Ok, l') \<Longrightarrow>
   \<exists>r i r'. map_of (l_requests l) rid = Some r \<and> record_open r \<and> find_attempt r attempt = Some i \<and>
     r_current_attempt r = attempt \<and> \<not> al_terminal (a_lifecycle (r_attempts r ! i)) \<and>
     is_legal_stage_transition (a_stage (r_attempts r ! i)) target \<and> \<not> ss_is_terminal target \<and>
     l' = l\<lparr> l_requests := um_put rid r' (l_requests l) \<rparr> \<and>
     r_stage r' = target \<and> a_stage (r_attempts r' ! i) = target \<and>
     \<not> al_terminal (a_lifecycle (r_attempts r' ! i))"
proof -
  assume inv: "ledger_inv l" and ok: "ledger_advance_stage rid attempt target now l = (ST_Ok, l')"
  obtain r where r: "map_of (l_requests l) rid = Some r"
    using ok by (cases "map_of (l_requests l) rid") (auto simp: ledger_advance_stage_def split: if_splits)
  obtain i where i: "find_attempt r attempt = Some i"
    using ok r by (cases "find_attempt r attempt") (auto simp: ledger_advance_stage_def split: if_splits)
  have len: "i < length (r_attempts r)"
    using find_attempt_Some(2) [OF i] core_record(2) [OF inv_core [OF inv] r] by (simp add: record_shape_def)
  show ?thesis
    using ok r i len
    by (auto simp: ledger_advance_stage_def Let_def record_open_def is_current_attempt_def al_terminal_def
        split: if_splits)
qed

theorem advance_stage_legal_witness:
  "\<exists>r i. map_of (l_requests demo_attempted) demo_request = Some r \<and>
     find_attempt r demo_attempt = Some i \<and> is_legal_stage_transition (a_stage (r_attempts r ! i)) SS_Admitted"
proof -
  have reach: "ledger_step\<^sup>*\<^sup>* (RequestLedger LedgerLimits_init) demo_attempted"
    using demo_steps(1,2) by (meson rtranclp.rtrancl_into_rtrancl rtranclp.rtrancl_refl)
  have inv: "ledger_inv demo_attempted" by (rule ledger.reachable_inv [OF demo_reach(1) reach])
  have "fst (ledger_advance_stage demo_request demo_attempt SS_Admitted 12 demo_attempted) = ST_Ok"
    by code_simp
  then obtain l' where "ledger_advance_stage demo_request demo_attempt SS_Admitted 12 demo_attempted = (ST_Ok, l')"
    by (cases "ledger_advance_stage demo_request demo_attempt SS_Admitted 12 demo_attempted") auto
  from advance_stage_legal [OF inv this] show ?thesis by blast
qed

end
