(* ===== verification/LedgerDiscipline.thy ===== *)
theory LedgerDiscipline
  imports LedgerSpec
begin

text \<open>
  The retention queue under the discipline that completions are published for the current
  attempt: the queue then lists every terminal record exactly once, the live-request count of
  \<open>register_request\<close> is exact, and \<open>fail_attempt\<close> never reads an evicted record. The last
  section shows with concrete runs what happens outside that discipline.
\<close>

section \<open>Definitions\<close>

definition current_sealed :: "RequestRecord \<Rightarrow> bool" where
  "current_sealed r \<longleftrightarrow>
     (case find_attempt r (r_current_attempt r) of
        Some i \<Rightarrow> al_terminal (a_lifecycle (r_attempts r ! i))
      | None \<Rightarrow> True)"

definition tracked :: "Ledger \<Rightarrow> bool" where
  "tracked l \<longleftrightarrow>
     distinct (l_terminal_order l) \<and>
     (\<forall>rid. rid \<in> set (l_terminal_order l) \<longleftrightarrow> is_terminal_request l rid) \<and>
     (\<forall>rid r. map_of (l_requests l) rid = Some r \<longrightarrow> rl_terminal (r_lifecycle r) \<longrightarrow> current_sealed r)"

fun op_targets_current :: "LedgerOp \<Rightarrow> Ledger \<Rightarrow> bool" where
  "op_targets_current (LO_PublishCompletion p now) l =
     (case map_of (l_requests l) (cp_request p) of
        Some r \<Rightarrow> cp_attempt p = r_current_attempt r
      | None \<Rightarrow> True)"
| "op_targets_current (LO_RestoreRecord r) l = (rl_terminal (r_lifecycle r) \<longrightarrow> current_sealed r)"
| "op_targets_current _ l = True"

inductive disciplined_step :: "Ledger \<Rightarrow> Ledger \<Rightarrow> bool" where
  disciplined_stepI:
    "l_next_flow_sequence l \<noteq> - 1 \<Longrightarrow> op_targets_current op l \<Longrightarrow>
     disciplined_step l (ledger_apply op l)"

section \<open>Preservation\<close>

lemma tracked_same:
  "tracked l \<Longrightarrow> l_requests l' = l_requests l \<Longrightarrow> l_terminal_order l' = l_terminal_order l \<Longrightarrow> tracked l'"
  by (simp add: tracked_def is_terminal_request_def)

lemma tracked_refresh [simp]: "tracked (refresh_request_counts l) = tracked l"
  by (simp add: tracked_def is_terminal_request_def)

lemma tracked_frame [simp]:
  "tracked (l\<lparr> l_accounting := a \<rparr>) = tracked l"
  "tracked (l\<lparr> l_flows := f \<rparr>) = tracked l"
  "tracked (l\<lparr> l_flows_by_request := b \<rparr>) = tracked l"
  by (simp_all add: tracked_def is_terminal_request_def)

lemma tracked_put:
  assumes "l_requests l' = um_put rid r' (l_requests l)" and "l_terminal_order l' = l_terminal_order l"
    and "tracked l" and "map_of (l_requests l) rid = Some r"
    and "rl_terminal (r_lifecycle r') = rl_terminal (r_lifecycle r)"
    and "rl_terminal (r_lifecycle r') \<Longrightarrow> current_sealed r'"
  shows "tracked l'"
  using assms by (auto simp: tracked_def is_terminal_request_def)

lemma tracked_evict:
  assumes wf: "um_wf (l_requests l)" and t: "tracked l"
  shows "tracked (evict_if_needed l)"
proof -
  let ?k = "overflow l"
  have d: "distinct (l_terminal_order l)" using t by (simp add: tracked_def)
  have dis: "set (take ?k (l_terminal_order l)) \<inter> set (drop ?k (l_terminal_order l)) = {}"
    using d by (metis append_take_drop_id distinct_append)
  have un: "set (l_terminal_order l) = set (take ?k (l_terminal_order l)) \<union> set (drop ?k (l_terminal_order l))"
    by (metis append_take_drop_id set_append)
  have fin: "is_terminal_request (evict_if_needed l) rid \<longleftrightarrow>
      is_terminal_request l rid \<and> rid \<notin> set (take ?k (l_terminal_order l))" for rid
    by (auto simp: is_terminal_request_def evict_find [OF wf] evictable_def split: option.split)
  show ?thesis
    using t d dis un fin
    by (auto simp: tracked_def evict_requests(1) [OF wf] evict_find_Some [OF wf])
qed

lemma tracked_push:
  assumes t: "tracked l" and at: "map_of (l_requests l) rid = Some r" and live: "\<not> rl_terminal (r_lifecycle r)"
    and fin: "rl_terminal (r_lifecycle r')" "current_sealed r'"
    and req: "l_requests l' = um_put rid r' (l_requests l)"
    and ord: "l_terminal_order l' = l_terminal_order l @ [rid]"
  shows "tracked l'"
proof -
  have "rid \<notin> set (l_terminal_order l)"
    using t at live by (simp add: tracked_def is_terminal_request_def)
  then show ?thesis
    using t fin unfolding tracked_def is_terminal_request_def req ord
    by (auto split: if_splits)
qed

lemma tracked_retire:
  assumes wf: "um_wf (l_requests l)" and t: "tracked l" and at: "map_of (l_requests l) rid = Some r"
    and live: "\<not> rl_terminal (r_lifecycle r)"
    and fin: "rl_terminal (r_lifecycle r')"
      "current_sealed (r'\<lparr> r_active_flows := 0, r_accounting_closed := True \<rparr>)"
  shows "tracked (retire_request rid r' rid cs l)"
  unfolding retire_requests_pre
proof (rule tracked_evict)
  let ?l = "snd (release_request_flows r' l)
     \<lparr> l_requests := um_put rid (r'\<lparr> r_active_flows := 0, r_accounting_closed := True \<rparr>) (l_requests l),
       l_terminal_order := l_terminal_order l @ [rid],
       l_accounting := cs (l_accounting (snd (release_request_flows r' l))) \<rparr>"
  show "um_wf (l_requests ?l)" using wf by simp
  show "tracked ?l"
    by (rule tracked_push [OF t at live, of "r'\<lparr> r_active_flows := 0, r_accounting_closed := True \<rparr>"])
      (use fin in simp_all)
qed

lemma find_attempt_update:
  assumes "a_id e = a_id (r_attempts r ! i)" and "r_attempts r' = (r_attempts r)[i := e]"
    and "r_attempt_count r' = r_attempt_count r"
  shows "find_attempt r' a = find_attempt r a"
proof -
  have "a_id (r_attempts r' ! j) = a_id (r_attempts r ! j)" for j
    using assms by (cases "i < length (r_attempts r)") (auto simp: nth_list_update list_update_beyond)
  then show ?thesis using assms(3) by (simp add: find_attempt_def)
qed

lemma current_sealed_update:
  assumes "find_attempt r (r_current_attempt r) = Some i" and "record_shape r"
    and "a_id e = a_id (r_attempts r ! i)" and "al_terminal (a_lifecycle e)"
    and "r_attempts r' = (r_attempts r)[i := e]" "r_attempt_count r' = r_attempt_count r"
      "r_current_attempt r' = r_current_attempt r"
  shows "current_sealed r'"
proof -
  have "find_attempt r' (r_current_attempt r') = Some i"
    using find_attempt_update [OF assms(3,5,6)] assms(1,7) by simp
  moreover have "i < length (r_attempts r)"
    using find_attempt_Some(2) [OF assms(1)] assms(2) by (simp add: record_shape_def)
  ultimately show ?thesis using assms(4,5) by (simp add: current_sealed_def)
qed

lemma sealed_current:
  "attempts_sealed r \<Longrightarrow> current_sealed r"
  by (auto simp: current_sealed_def attempts_sealed_def dest: find_attempt_Some(1) split: option.split)

lemma bound_current_sealed:
  "record_shape r \<Longrightarrow> (\<And>e. al_terminal (a_lifecycle (f e))) \<Longrightarrow>
   current_sealed ((update_bound_attempts f r)\<lparr> r_active_flows := x, r_accounting_closed := y \<rparr>)"
  by (rule sealed_current) (simp add: attempts_sealed_bound)

lemma fail_attempt_tracked:
  assumes inv: "ledger_inv l" and t: "tracked l"
  shows "tracked (snd (ledger_fail_attempt rid attempt reason now l))"
proof (cases "map_of (l_requests l) rid")
  case None
  then show ?thesis using t by (simp add: ledger_fail_attempt_def)
next
  case (Some r)
  show ?thesis
  proof (cases "find_attempt r attempt")
    case None
    then show ?thesis using t Some by (simp add: ledger_fail_attempt_def)
  next
    case i: (Some i)
    have "rl_terminal (r_lifecycle r) \<Longrightarrow> current_sealed r" using t Some by (simp add: tracked_def)
    then have live: "\<not> rl_terminal (r_lifecycle r)"
      if "is_current_attempt r attempt" "\<not> al_terminal (a_lifecycle (r_attempts r ! i))"
      using i that by (auto simp: current_sealed_def is_current_attempt_def)
    have "tracked (retire_request rid r' rid cs l)"
      if "is_current_attempt r attempt" "\<not> al_terminal (a_lifecycle (r_attempts r ! i))"
        "r_lifecycle r' = RL_Failed" "r_attempts r' = (r_attempts r)[i := e]"
        "a_id e = a_id (r_attempts r ! i)" "a_lifecycle e = AL_Failed"
        "r_attempt_count r' = r_attempt_count r" "r_current_attempt r' = r_current_attempt r" for r' e cs
    proof (rule tracked_retire [OF inv_wf [OF inv] t Some live [OF that(1,2)]])
      show "rl_terminal (r_lifecycle r')" using that by (simp add: rl_terminal_def)
      show "current_sealed (r'\<lparr> r_active_flows := 0, r_accounting_closed := True \<rparr>)"
        by (rule current_sealed_update [of r i e])
          (use i that core_record(2) [OF inv_core [OF inv] Some] in
            \<open>auto simp: is_current_attempt_def al_terminal_def\<close>)
    qed
    then show ?thesis
      using t Some i by (simp add: ledger_fail_attempt_def Let_def split: option.split)
  qed
qed

lemma cancel_request_tracked:
  assumes inv: "ledger_inv l" and t: "tracked l"
  shows "tracked (snd (ledger_cancel_request rid reason sequence now l))"
proof (cases "map_of (l_requests l) rid")
  case None
  then show ?thesis using t by (simp add: ledger_cancel_request_def)
next
  case (Some r)
  note shape = core_record(2) [OF inv_core [OF inv] Some]
  have floor: "current_sealed (r\<lparr> r_authority_floor := x \<rparr>) = current_sealed r" for x
    by (simp add: current_sealed_def find_attempt_def split: option.split)
  have cur: "rl_terminal (r_lifecycle r) \<Longrightarrow> current_sealed r"
    using t Some by (simp add: tracked_def)
  show ?thesis
    using t Some shape cur
    by (auto simp: ledger_cancel_request_def Let_def rl_terminal_def al_terminal_def floor
        intro!: tracked_retire [OF inv_wf [OF inv] t Some] bound_current_sealed
          tracked_put [OF _ _ t Some])
qed

lemma publish_completion_tracked:
  assumes inv: "ledger_inv l" and t: "tracked l"
    and cur: "\<And>r. map_of (l_requests l) (cp_request p) = Some r \<Longrightarrow> cp_attempt p = r_current_attempt r"
  shows "tracked (snd (ledger_publish_completion p now l))"
proof (cases "map_of (l_requests l) (cp_request p)")
  case None
  then show ?thesis using t by (simp add: ledger_publish_completion_def)
next
  case (Some r)
  note facts = core_record(1,2) [OF inv_core [OF inv] Some]
  have quiet: "tracked (snd (publish_refused refusal reason l))" "tracked (snd (publish_suppressed l))"
    for refusal reason
    using t by (auto simp: publish_refused_def publish_suppressed_def intro: tracked_same)
  show ?thesis
  proof (cases "find_attempt r (cp_attempt p)")
    case None
    then show ?thesis using Some t quiet by (simp add: ledger_publish_completion_def)
  next
    case i: (Some i)
    have ci: "find_attempt r (r_current_attempt r) = Some i" using i cur [OF Some] by simp
    have sealed: "tracked (retire_request (cp_request p) r' (cp_request p) cs l)"
      if "\<not> rl_terminal (r_lifecycle r)" "rl_terminal (r_lifecycle r')"
        "r_attempts r' = (r_attempts r)[i := e]"
        "a_id e = a_id (r_attempts r ! i)" "al_terminal (a_lifecycle e)"
        "r_attempt_count r' = r_attempt_count r" "r_current_attempt r' = r_current_attempt r" for r' e cs
      by (rule tracked_retire [OF inv_wf [OF inv] t Some that(1,2)],
          rule current_sealed_update [OF ci facts(2), of e]) (use that in simp_all)
    have "tracked (snd (publish_failure p now i r l))" "tracked (snd (publish_success p now i r l))"
      if "\<not> rl_terminal (r_lifecycle r)"
      using that quiet(2) facts(1)
      by (auto simp: publish_failure_def publish_success_def Let_def rl_terminal_def al_terminal_def
          intro!: sealed)
    then show ?thesis
      using Some i t quiet by (simp add: ledger_publish_completion_def Let_def)
  qed
qed

lemma restore_record_tracked:
  assumes inv: "ledger_inv l" and t: "tracked l" and c: "rl_terminal (r_lifecycle r) \<Longrightarrow> current_sealed r"
  shows "tracked (snd (restore_record r l))"
proof -
  have ins: "tracked (evict_if_needed (refresh_request_counts l'))"
    if "l_requests l' = um_emplace (r_id r) r' (l_requests l)" "map_of (l_requests l) (r_id r) = None"
      "l_terminal_order l' = (if rl_terminal (r_lifecycle r') then l_terminal_order l @ [r_id r] else l_terminal_order l)"
      "rl_terminal (r_lifecycle r') \<Longrightarrow> current_sealed r'" for l' r'
  proof (rule tracked_evict)
    show "um_wf (l_requests (refresh_request_counts l'))" using inv_wf [OF inv] that by simp
    have "r_id r \<notin> set (l_terminal_order l)"
      using t that(2) by (simp add: tracked_def is_terminal_request_def)
    then show "tracked (refresh_request_counts l')"
      using t that unfolding tracked_def is_terminal_request_def
      by (auto simp: um_emplace_def split: if_splits)
  qed
  have same: "find_attempt (r\<lparr> r_attempts := map (\<lambda>i. if i < unat (r_attempt_count r)
        then r_attempts r ! i else AttemptRecord_init) [0..<8], r_accounting_closed := x, r_active_flows := y \<rparr>) a =
      find_attempt r a" for a x y
    unfolding find_attempt_def
    by (rule find_cong) (auto simp: kMaxAttemptsPerRequest_def)
  have "current_sealed (r\<lparr> r_attempts := map (\<lambda>i. if i < unat (r_attempt_count r)
      then r_attempts r ! i else AttemptRecord_init) [0..<8], r_accounting_closed := x, r_active_flows := y \<rparr>)"
    if "rl_terminal (r_lifecycle r)" for x y
    using c [OF that] find_attempt_Some
    by (fastforce simp: current_sealed_def same split: option.splits)
  then show ?thesis
    using t
    by (auto simp: restore_record_def Let_def kMaxAttemptsPerRequest_def rl_terminal_def intro!: ins)
qed

lemma simple_ops_tracked:
  assumes t: "tracked l"
  shows "tracked (snd (ledger_register_attempt rid attempt hash model route now l))"
    "tracked (snd (ledger_revalidate_request rid attempt now l))"
    "tracked (snd (ledger_advance_stage rid attempt target now l))"
    "tracked (snd (ledger_supersede_attempt rid attempt replacement now l))"
    "tracked (snd (mark_request_interrupted rid now l))"
    "tracked (snd (ledger_open_flow rid attempt traffic bytes now l))"
  subgoal
    using t by (auto simp: ledger_register_attempt_def Let_def rl_terminal_def split: option.splits
        intro!: tracked_put [OF _ _ t])
  subgoal
    using t by (auto simp: ledger_revalidate_request_def Let_def rl_terminal_def split: option.splits
        intro!: tracked_put [OF _ _ t])
  subgoal
    using t by (auto simp: ledger_advance_stage_def Let_def rl_terminal_def split: option.splits
        intro!: tracked_put [OF _ _ t])
  subgoal
    using t by (auto simp: ledger_supersede_attempt_def Let_def rl_terminal_def split: option.splits
        intro!: tracked_put [OF _ _ t])
  subgoal
    using t by (auto simp: mark_request_interrupted_def release_request_flows_def Let_def rl_terminal_def
        split: option.splits intro!: tracked_put [OF _ _ t])
  subgoal
    using t by (auto simp: ledger_open_flow_def Let_def rl_terminal_def split: option.splits
        intro!: tracked_put [OF _ _ t])
  done

lemma current_sealed_cong:
  assumes "r_attempt_count r' = r_attempt_count r" "r_current_attempt r' = r_current_attempt r"
    and "\<And>j. a_id (r_attempts r' ! j) = a_id (r_attempts r ! j)"
    and "\<And>j. a_lifecycle (r_attempts r' ! j) = a_lifecycle (r_attempts r ! j)"
  shows "current_sealed r' = current_sealed r"
  using assms by (simp add: current_sealed_def find_attempt_def split: option.split)

lemma current_sealed_one:
  assumes "r_attempt_count r' = r_attempt_count r" "r_current_attempt r' = r_current_attempt r"
    and "r_attempts r' = (r_attempts r)[i := e]"
    and "a_id e = a_id (r_attempts r ! i)" "a_lifecycle e = a_lifecycle (r_attempts r ! i)"
  shows "current_sealed r' = current_sealed r"
proof (rule current_sealed_cong [OF assms(1,2)])
  show "a_id (r_attempts r' ! j) = a_id (r_attempts r ! j)" for j
    using assms by (cases "i < length (r_attempts r)"; cases "j = i") (auto simp: list_update_beyond)
  show "a_lifecycle (r_attempts r' ! j) = a_lifecycle (r_attempts r ! j)" for j
    using assms by (cases "i < length (r_attempts r)"; cases "j = i") (auto simp: list_update_beyond)
qed

lemma decision_counts_sealed:
  "current_sealed (record_decision_counts attempt outcome r) = current_sealed r"
proof (cases "find_attempt (r\<lparr> r_decisions := r_decisions r + 1 \<rparr>) attempt")
  case None
  then show ?thesis
    by (intro current_sealed_cong)
      (auto simp: record_decision_counts_def Let_def split: DecisionOutcome.split)
next
  case (Some i)
  show ?thesis
    by (rule current_sealed_one [of _ _ i "attempt_decision outcome (r_attempts r ! i)"])
      (use Some in \<open>auto simp: record_decision_counts_def attempt_decision_def Let_def
        split: DecisionOutcome.split\<close>)
qed

lemma counter_ops_tracked:
  assumes inv: "ledger_inv l" and t: "tracked l"
  shows "tracked (snd (ledger_register_request rid now l))"
    "tracked (snd (set_attempt_model rid attempt hash model l))"
    "tracked (snd (ledger_release_flow fid l))"
    "tracked (snd (ledger_record_flow_bytes fid bytes inbound l))"
    "tracked (snd (ledger_record_decision rid attempt traffic outcome reason bytes l))"
    "tracked (ledger_clear l)"
proof -
  have cur: "map_of (l_requests l) k = Some r \<Longrightarrow> rl_terminal (r_lifecycle r) \<Longrightarrow> current_sealed r" for k r
    using t by (simp add: tracked_def)
  have plain: "current_sealed (r\<lparr> r_active_flows := x \<rparr>) = current_sealed r"
    "current_sealed (r\<lparr> r_bytes_in := y \<rparr>) = current_sealed r"
    "current_sealed (r\<lparr> r_bytes_out := z \<rparr>) = current_sealed r" for r x y z
    by (rule current_sealed_cong; simp)+
  have "tracked (l\<lparr> l_requests := um_emplace rid r (l_requests l), l_accounting := a \<rparr>)"
    if "map_of (l_requests l) rid = None" "r_lifecycle r = RL_Registered" for r a
    using t that unfolding tracked_def is_terminal_request_def
    by (auto simp: um_emplace_def rl_terminal_def split: if_splits)
  then show "tracked (snd (ledger_register_request rid now l))"
    using t
    by (auto simp: ledger_register_request_def Let_def split: option.splits)
  have "current_sealed (r\<lparr> r_attempts := (r_attempts r)[i := (r_attempts r ! i)
      \<lparr> a_model_hash := hash, a_model_generation := model \<rparr>] \<rparr>) = current_sealed r" for r i
    by (rule current_sealed_one [of _ r i "(r_attempts r ! i)
      \<lparr> a_model_hash := hash, a_model_generation := model \<rparr>"]) simp_all
  then show "tracked (snd (set_attempt_model rid attempt hash model l))"
    using t cur by (auto simp: set_attempt_model_def Let_def split: option.splits intro!: tracked_put [OF _ _ t])
  show "tracked (snd (ledger_release_flow fid l))"
    using t cur
    by (auto simp: ledger_release_flow_def Let_def plain split: option.splits
        intro!: tracked_put [OF _ _ t])
  show "tracked (snd (ledger_record_flow_bytes fid bytes inbound l))"
    using t cur
    by (auto simp: ledger_record_flow_bytes_def Let_def plain split: option.splits
        intro!: tracked_put [OF _ _ t])
  show "tracked (snd (ledger_record_decision rid attempt traffic outcome reason bytes l))"
    using t cur
    by (auto simp: ledger_record_decision_def Let_def decision_counts_sealed split: option.splits
        intro!: tracked_put [OF _ _ t])
  show "tracked (ledger_clear l)"
    by (simp add: tracked_def ledger_clear_def is_terminal_request_def)
qed

lemma ledger_apply_tracked:
  assumes "ledger_inv l" and "tracked l" and "op_targets_current op l"
  shows "tracked (ledger_apply op l)"
  using assms
  by (cases op)
    (auto simp: simple_ops_tracked counter_ops_tracked fail_attempt_tracked cancel_request_tracked
      restore_record_tracked split: option.splits intro: publish_completion_tracked)

inductive_cases disciplined_stepE: "disciplined_step l l'"

interpretation disciplined: invariant_machine disciplined_step ledger_init "\<lambda>l. ledger_inv l \<and> tracked l"
proof unfold_locales
  show "ledger_inv l \<and> tracked l" if "ledger_init l" for l
    using that by (auto simp: ledger_init_def init_inv tracked_def is_terminal_request_def)
  show "ledger_inv l' \<and> tracked l'" if "ledger_inv l \<and> tracked l" "disciplined_step l l'" for l l'
    using that by (blast elim!: disciplined_stepE intro: ledger_apply_inv ledger_apply_tracked)
qed

section \<open>Properties\<close>

lemma evict_keeps_newest:
  assumes wf: "um_wf (l_requests l)" and ord: "l_terminal_order l = order @ [rid]"
    and d: "distinct (order @ [rid])" and len: "length order \<le> unat (ll_max_retained_terminal_requests (l_limits l))"
    and one: "ll_max_retained_terminal_requests (l_limits l) \<noteq> 0"
    and at: "map_of (l_requests l) rid = Some r"
  shows "map_of (l_requests (evict_if_needed l)) rid = Some r"
proof -
  have "0 < unat (ll_max_retained_terminal_requests (l_limits l))"
    using one by (simp add: unat_gt_0)
  then have "overflow l \<le> length order" using len by (simp add: overflow_def ord)
  then have "set (take (overflow l) (l_terminal_order l)) \<subseteq> set order"
    using set_take_subset [of "overflow l" order] by (simp add: ord)
  then have "rid \<notin> set (take (overflow l) (l_terminal_order l))" using d by auto
  then show ?thesis using at by (simp add: evict_find_Some [OF wf])
qed

text \<open>
  C24. Memory safety of \<open>fail_attempt\<close>: when completions are published for current attempts and
  at least one terminal record is retained, failing an attempt in any reachable state returns a
  result - the record it reads after the eviction is still in the table.
\<close>

theorem fail_attempt_defined:
  "ledger_init l0 \<Longrightarrow> disciplined_step\<^sup>*\<^sup>* l0 l \<Longrightarrow>
   ll_max_retained_terminal_requests (l_limits l) \<noteq> 0 \<Longrightarrow>
   \<exists>res. fst (ledger_fail_attempt rid attempt reason now l) = Some res"
proof -
  assume init: "ledger_init l0" and run: "disciplined_step\<^sup>*\<^sup>* l0 l"
    and one: "ll_max_retained_terminal_requests (l_limits l) \<noteq> 0"
  have inv: "ledger_inv l" and t: "tracked l" using disciplined.reachable_inv [OF init run] by auto
  show ?thesis
  proof (cases "map_of (l_requests l) rid")
    case None
    then show ?thesis by (simp add: ledger_fail_attempt_def)
  next
    case (Some r)
    show ?thesis
    proof (cases "find_attempt r attempt")
      case None
      then show ?thesis using Some by (simp add: ledger_fail_attempt_def)
    next
      case i: (Some i)
      have "rl_terminal (r_lifecycle r) \<Longrightarrow> current_sealed r" using t Some by (simp add: tracked_def)
      then have live: "\<not> rl_terminal (r_lifecycle r)"
        if "is_current_attempt r attempt" "\<not> al_terminal (a_lifecycle (r_attempts r ! i))"
        using i that by (auto simp: current_sealed_def is_current_attempt_def)
      have "map_of (l_requests (retire_request rid r' rid cs l)) rid =
          Some (r'\<lparr> r_active_flows := 0, r_accounting_closed := True \<rparr>)"
        if "is_current_attempt r attempt" "\<not> al_terminal (a_lifecycle (r_attempts r ! i))" for r' cs
      proof -
        have "rid \<notin> set (l_terminal_order l)"
          using live [OF that] t Some by (simp add: tracked_def is_terminal_request_def)
        then show ?thesis
          unfolding retire_requests_pre
          by (intro evict_keeps_newest [where order = "l_terminal_order l"])
            (use inv t one in \<open>auto simp: inv_wf tracked_def ledger_inv_def retention_bounded_def
               release_request_flows_def Let_def\<close>)
      qed
      then show ?thesis
        using Some i by (auto simp: ledger_fail_attempt_def Let_def)
    qed
  qed
qed

lemma demo_disciplined:
  "disciplined_step\<^sup>*\<^sup>* (RequestLedger LedgerLimits_init) demo_attempted"
proof -
  have "disciplined_step (RequestLedger LedgerLimits_init) demo_registered"
    unfolding demo_registered_def by (rule disciplined_stepI [OF demo_seq(1)]) simp
  moreover have "disciplined_step demo_registered demo_attempted"
    unfolding demo_attempted_def by (rule disciplined_stepI [OF demo_seq(2)]) simp
  ultimately show ?thesis by (meson rtranclp.rtrancl_into_rtrancl rtranclp.rtrancl_refl)
qed

theorem fail_attempt_defined_witness:
  "\<exists>res. fst (ledger_fail_attempt demo_request demo_attempt RC_AttemptFailed 20 demo_attempted) = Some res"
proof -
  have "ll_max_retained_terminal_requests (l_limits demo_attempted) \<noteq> 0" by code_simp
  then show ?thesis by (rule fail_attempt_defined [OF demo_reach(1) demo_disciplined])
qed

text \<open>
  C25. The live-request count is exact: under the same discipline the retention queue is never
  longer than the request table, so the subtraction in \<open>register_request\<close> cannot underflow,
  and the difference is precisely the number of non-terminal requests.
\<close>

theorem live_count_exact:
  "ledger_init l0 \<Longrightarrow> disciplined_step\<^sup>*\<^sup>* l0 l \<Longrightarrow>
   length (l_terminal_order l) \<le> length (l_requests l) \<and>
   length (l_requests l) - length (l_terminal_order l) = length (export_live_records l)"
proof -
  assume init: "ledger_init l0" and run: "disciplined_step\<^sup>*\<^sup>* l0 l"
  have inv: "ledger_inv l" and t: "tracked l" using disciplined.reachable_inv [OF init run] by auto
  have wf: "um_wf (l_requests l)" by (rule inv_wf [OF inv])
  let ?T = "filter (\<lambda>p. rl_terminal (r_lifecycle (snd p))) (l_requests l)"
  let ?N = "filter (\<lambda>p. \<not> rl_terminal (r_lifecycle (snd p))) (l_requests l)"
  have "set (map fst ?T) = set (l_terminal_order l)"
  proof (rule set_eqI)
    fix rid
    have "rid \<in> set (map fst ?T) \<longleftrightarrow> (\<exists>r. (rid, r) \<in> set (l_requests l) \<and> rl_terminal (r_lifecycle r))"
      by force
    also have "\<dots> \<longleftrightarrow> is_terminal_request l rid"
      by (auto simp: is_terminal_request_def simp flip: um_find_set [OF wf] split: option.split)
    finally show "rid \<in> set (map fst ?T) \<longleftrightarrow> rid \<in> set (l_terminal_order l)"
      using t by (simp add: tracked_def)
  qed
  moreover have "distinct (map fst ?T)" using um_wf_filter [OF wf] by (simp add: um_wf_def)
  moreover have "distinct (l_terminal_order l)" using t by (simp add: tracked_def)
  ultimately have "length (map fst ?T) = length (l_terminal_order l)" by (metis distinct_card)
  moreover have "length ?T + length ?N = length (l_requests l)" by (rule sum_length_filter_compl)
  moreover have "length (export_live_records l) = length ?N" by (simp add: export_live_records_def)
  ultimately show ?thesis by simp
qed

theorem live_count_exact_witness:
  "length (l_requests demo_attempted) - length (l_terminal_order demo_attempted) = 1"
proof -
  have "length (export_live_records demo_attempted) = 1" by code_simp
  then show ?thesis using live_count_exact [OF demo_reach(1) demo_disciplined] by simp
qed

section \<open>Outside the discipline\<close>

definition demo_second :: AttemptId where "demo_second = Id128 9 2"

text \<open>Two attempts are bound; the completion of the first, no longer current, is committed.\<close>

definition demo_late_completed :: Ledger where
  "demo_late_completed =
     ledger_apply (LO_PublishCompletion demo_publication 13)
       (ledger_apply (LO_RegisterAttempt demo_request demo_second 5 1 0 12) demo_attempted)"

text \<open>
  \<open>fail_attempt\<close> does not look at the lifecycle of the request: failing the current attempt of a
  completed request turns the request into a failed one and queues its identifier twice.
\<close>

lemma late_failure_overwrites_completion:
  "map_option r_lifecycle (map_of (l_requests demo_late_completed) demo_request) = Some RL_Completed \<and>
   map_option r_lifecycle (map_of (l_requests
     (ledger_apply (LO_FailAttempt demo_request demo_second RC_AttemptFailed 14) demo_late_completed))
     demo_request) = Some RL_Failed \<and>
   l_terminal_order (ledger_apply (LO_FailAttempt demo_request demo_second RC_AttemptFailed 14)
     demo_late_completed) = [demo_request, demo_request]"
  by code_simp

text \<open>
  With a retention of zero the record is evicted inside \<open>fail_attempt\<close> before the generation of
  the failed attempt is read from it.
\<close>

lemma fail_attempt_dangles_without_retention:
  "fst (ledger_fail_attempt demo_request demo_attempt RC_AttemptFailed 14
     (fold ledger_apply
       [LO_RegisterRequest demo_request 10, LO_RegisterAttempt demo_request demo_attempt 5 1 0 11]
       (RequestLedger (LedgerLimits_init\<lparr> ll_max_retained_terminal_requests := 0 \<rparr>)))) = None"
  by code_simp

text \<open>
  \<open>record_flow_bytes\<close> is not atomic: when the request total would overflow the call fails, but
  the observed bytes of the flow have already been increased.
\<close>

definition demo_saturated :: Ledger where
  "demo_saturated = demo_open\<lparr> l_requests :=
     map (\<lambda>p. (fst p, (snd p)\<lparr> r_bytes_in := - 1 \<rparr>)) (l_requests demo_open) \<rparr>"

lemma record_flow_bytes_partial:
  "map_option (\<lambda>f. fst (ledger_record_flow_bytes f 1 True demo_saturated))
     (case l_flows demo_open of [] \<Rightarrow> None | p # _ \<Rightarrow> Some (fst p)) = Some ST_BoundsExceeded \<and>
   map (\<lambda>p. f_observed_bytes (snd p)) (l_flows demo_saturated) = [0] \<and>
   map (\<lambda>p. f_observed_bytes (snd p))
     (l_flows (snd (ledger_record_flow_bytes (fst (hd (l_flows demo_open))) 1 True demo_saturated))) = [1]"
  by code_simp

text \<open>
  \<open>revalidate_request\<close> accepts an attempt identifier the request has already used; the lookup
  then finds the old, cancelled attempt and the revalidated request cannot advance.
\<close>

lemma revalidation_reuses_attempt:
  "code_of (fst (ledger_revalidate_request demo_request demo_attempt 15
      (ledger_apply (LO_MarkInterrupted demo_request 14) demo_attempted))) = ST_Ok \<and>
   fst (ledger_advance_stage demo_request demo_attempt SS_Admitted 16
      (snd (ledger_revalidate_request demo_request demo_attempt 15
        (ledger_apply (LO_MarkInterrupted demo_request 14) demo_attempted)))) = ST_Conflict"
  by code_simp

end
