(* ===== verification/Coordinator.thy ===== *)
theory Coordinator
  imports LedgerDiscipline
begin

text \<open>
  The coordinator (\<open>include/itf/coordinator.hpp\<close>, \<open>src/coordinator.cpp\<close>): its state, boot and
  recovery, policy, topology evidence, the SLO, route, model and state registries, and the
  operations it forwards to the ledger. Decision evaluation, flows and transfers follow in
  their own theories.

  Every public method holds the mutex from its first to its last statement, so a method is one
  atomic function of the state. What the environment supplies is an argument: the clock reading
  \<open>now\<close>, the numbers drawn from the random engine at boot. The record selected by
  \<open>defers_.begin()\<close> depends on the hash table's layout; the field \<open>c_begin\<close> stands for it.
\<close>

unbundle bit_operations_syntax

section \<open>Data\<close>

record CoordinatorLimits =
  cl_ledger :: LedgerLimits
  cl_max_slo_contracts :: u32
  cl_max_route_decisions :: u32
  cl_max_model_records :: u32
  cl_max_state_records :: u32
  cl_max_transfer_records :: u32
  cl_max_defer_records :: u32
  cl_max_transfer_bytes :: u64
  cl_max_single_payload_bytes :: u64

definition CoordinatorLimits_init :: CoordinatorLimits where
  "CoordinatorLimits_init =
     \<lparr> cl_ledger = LedgerLimits_init, cl_max_slo_contracts = 4096, cl_max_route_decisions = 8192,
       cl_max_model_records = 256, cl_max_state_records = 4096, cl_max_transfer_records = 4096,
       cl_max_defer_records = 8192, cl_max_transfer_bytes = push_bit 40 1,
       cl_max_single_payload_bytes = push_bit 32 1 \<rparr>"

datatype TransferState =
    TS_Unknown | TS_Registered | TS_Authorized | TS_InProgress | TS_Completed | TS_Refused
  | TS_Abandoned | TS_Count

fun ts_index :: "TransferState \<Rightarrow> nat" where
  "ts_index TS_Unknown = 0"
| "ts_index TS_Registered = 1"
| "ts_index TS_Authorized = 2"
| "ts_index TS_InProgress = 3"
| "ts_index TS_Completed = 4"
| "ts_index TS_Refused = 5"
| "ts_index TS_Abandoned = 6"
| "ts_index TS_Count = 7"

fun rl_index :: "RequestLifecycle \<Rightarrow> nat" where
  "rl_index RL_Unknown = 0"
| "rl_index RL_Registered = 1"
| "rl_index RL_Active = 2"
| "rl_index RL_Completing = 3"
| "rl_index RL_Completed = 4"
| "rl_index RL_Cancelled = 5"
| "rl_index RL_Failed = 6"
| "rl_index RL_Interrupted = 7"
| "rl_index RL_Count = 8"

text \<open>The comparison the sources repeat wherever a transfer must not be terminal.\<close>

definition ts_terminal :: "TransferState \<Rightarrow> bool" where
  "ts_terminal state \<longleftrightarrow> state = TS_Completed \<or> state = TS_Refused \<or> state = TS_Abandoned"

record TransferRegistration =
  tg_id :: StateTransferId
  tg_state_hash :: u64
  tg_model_hash :: u64
  tg_payload_bytes :: u64
  tg_declared_class :: TrafficClass
  tg_direction :: FlowDirection
  tg_required_integrity :: IntegrityClass
  tg_request :: RequestId
  tg_attempt :: AttemptId
  tg_deadline :: Instant

record TransferRecord =
  tr_id :: StateTransferId
  tr_state_hash :: u64
  tr_model_hash :: u64
  tr_payload_bytes :: u64
  tr_verified_bytes :: u64
  tr_model_generation :: generation
  tr_state_generation :: generation
  tr_request :: RequestId
  tr_attempt :: AttemptId
  tr_declared_class :: TrafficClass
  tr_direction :: FlowDirection
  tr_required_integrity :: IntegrityClass
  tr_state :: TransferState
  tr_terminal_reason :: ReasonCode
  tr_deadline :: Instant
  tr_registered_at :: Instant
  tr_flow :: FlowId

definition TransferRecord_init :: TransferRecord where
  "TransferRecord_init =
     \<lparr> tr_id = nil_id, tr_state_hash = 0, tr_model_hash = 0, tr_payload_bytes = 0,
       tr_verified_bytes = 0, tr_model_generation = 0, tr_state_generation = 0,
       tr_request = nil_id, tr_attempt = nil_id, tr_declared_class = TC_Unknown,
       tr_direction = FD_Lateral, tr_required_integrity = IC_Unknown, tr_state = TS_Unknown,
       tr_terminal_reason = RC_Unknown, tr_deadline = instant_unset,
       tr_registered_at = instant_unset, tr_flow = nil_id \<rparr>"

record TransferAuthorization =
  ta_transfer :: StateTransferId
  ta_traffic_class :: TrafficClass
  ta_integrity :: IntegrityClass
  ta_pacing :: PacingClass
  ta_priority :: PriorityClass
  ta_authority :: AuthorityStamp
  ta_reason :: ReasonCode
  ta_authorized :: bool
  ta_flow :: FlowId

record CoordinatorConfig =
  cc_policy :: PolicyConfig
  cc_limits :: CoordinatorLimits
  cc_default_evidence_max_age_nanos :: u64
  cc_max_retained_completion_records :: u32
  cc_boot_seed :: u64

definition CoordinatorConfig_init :: CoordinatorConfig where
  "CoordinatorConfig_init =
     \<lparr> cc_policy = canonical_defaults 1, cc_limits = CoordinatorLimits_init,
       cc_default_evidence_max_age_nanos = 5000000000, cc_max_retained_completion_records = 4096,
       cc_boot_seed = 0 \<rparr>"

record DeferRecord =
  dr_kind :: SubjectKind
  dr_request :: RequestId
  dr_attempt :: AttemptId
  dr_transfer :: StateTransferId
  dr_traffic :: TrafficClass
  dr_count :: u32
  dr_first_defer_nanos :: i64
  dr_last_defer_nanos :: i64
  dr_starvation_class :: bool

record CoordFlow =
  cf_id :: FlowId
  cf_request :: RequestId
  cf_attempt :: AttemptId
  cf_transfer :: StateTransferId
  cf_traffic :: TrafficClass
  cf_declared_bytes :: u64
  cf_observed_bytes :: u64
  cf_sequence :: generation
  cf_bulk :: bool

record CoordinatorStatus =
  cs_epoch :: generation
  cs_incarnation :: BootId
  cs_policy_generation :: generation
  cs_topology_generation :: generation
  cs_topology_state :: EvidenceState
  cs_topology_provenance :: EvidenceProvenance
  cs_live_requests :: u64
  cs_transfers :: u64
  cs_active_flows :: u32
  cs_authority_sequence :: u64

record PersistedCoordinatorState =
  ps_format_version :: u16
  ps_epoch :: generation
  ps_previous_incarnation :: BootId
  ps_boot_count :: u64
  ps_policy :: PolicyConfig
  ps_topology_present :: bool
  ps_topology :: TopologyEvidence
  ps_models :: "ModelState list"
  ps_states :: "StateGenerationRecord list"
  ps_terminal_requests :: "RequestRecord list"
  ps_interrupted_requests :: "RequestRecord list"

record Coordinator =
  c_config :: CoordinatorConfig
  c_begin :: "(u64, DeferRecord) umap \<Rightarrow> u64"
  c_epoch :: generation
  c_incarnation :: BootId
  c_authority_sequence :: generation
  c_policy :: PolicyConfig
  c_topology :: TopologyEvidence
  c_topology_present :: bool
  c_models :: "(u64, ModelState) umap"
  c_states :: "(u64, StateGenerationRecord) umap"
  c_slo_contracts :: "(RequestId, SloContract) umap"
  c_route_decisions :: "(AttemptId, RouteDecision) umap"
  c_transfers :: "(StateTransferId, TransferRecord) umap"
  c_flows :: "(FlowId, CoordFlow) umap"
  c_flows_by_request :: "(RequestId \<times> FlowId) list"
  c_flows_by_transfer :: "(StateTransferId \<times> FlowId) list"
  c_transfers_by_request :: "(RequestId \<times> StateTransferId) list"
  c_defers :: "(u64, DeferRecord) umap"
  c_completions :: "(RequestId, PublishOutcome) umap"
  c_completion_order :: "RequestId list"
  c_ledger :: Ledger
  c_transfer_class_accounting :: "ClassAccounting list"
  c_boot_count :: u64
  c_bulk_in_flight_bytes :: u64
  c_streaming_deferrals :: u32
  c_transfers_started :: u64
  c_transfers_completed :: u64
  c_transfers_refused :: u64
  c_next_flow_sequence :: u64

definition kSnapshotFormatVersion :: u16 where
  "kSnapshotFormatVersion = 1"

section \<open>Helpers\<close>

definition mix64 :: "u64 \<Rightarrow> u64" where
  "mix64 v =
     (let v = v XOR drop_bit 30 v;
          v = v * 0xBF58476D1CE4E5B9;
          v = v XOR drop_bit 27 v;
          v = v * 0x94D049BB133111EB;
          v = v XOR drop_bit 31 v
      in v)"

text \<open>\<open>draw\<close> is the pair of numbers the engine returns for the two calls.\<close>

definition make_random_id :: "u64 \<times> u64 \<Rightarrow> id128" where
  "make_random_id draw =
     (case draw of (h, l) \<Rightarrow> if h = 0 \<and> l = 0 then Id128 h 1 else Id128 h l)"

definition is_transfer_class :: "TrafficClass \<Rightarrow> bool" where
  "is_transfer_class value \<longleftrightarrow>
     value = TC_KvTransfer \<or> value = TC_StateTransfer \<or> value = TC_ModelTransfer \<or>
     value = TC_AdapterTransfer"

definition max_integrity :: "IntegrityClass \<Rightarrow> IntegrityClass \<Rightarrow> IntegrityClass" where
  "max_integrity a b = (if ic_index a \<ge> ic_index b then a else b)"

definition set_unset_generation :: "PolicyConfig \<Rightarrow> PolicyConfig" where
  "set_unset_generation p = (if is_unset (p_generation p) then p\<lparr> p_generation := 1 \<rparr> else p)"

definition gen_succ :: "generation \<Rightarrow> generation" where
  "gen_succ g = (if is_unset g then 1 else gen_next g)"

section \<open>Construction, boot and recovery\<close>

definition Coordinator_new ::
  "CoordinatorConfig \<Rightarrow> ((u64, DeferRecord) umap \<Rightarrow> u64) \<Rightarrow> Coordinator" where
  "Coordinator_new config first =
     \<lparr> c_config = config, c_begin = first, c_epoch = 0, c_incarnation = nil_id,
       c_authority_sequence = 0, c_policy = set_unset_generation (cc_policy config),
       c_topology = TopologyEvidence_init, c_topology_present = False, c_models = [],
       c_states = [], c_slo_contracts = [], c_route_decisions = [], c_transfers = [],
       c_flows = [], c_flows_by_request = [], c_flows_by_transfer = [],
       c_transfers_by_request = [], c_defers = [], c_completions = [], c_completion_order = [],
       c_ledger = RequestLedger (cl_ledger (cc_limits config)),
       c_transfer_class_accounting = replicate kTrafficClassCount ClassAccounting_init,
       c_boot_count = 0, c_bulk_in_flight_bytes = 0, c_streaming_deferrals = 0,
       c_transfers_started = 0, c_transfers_completed = 0, c_transfers_refused = 0,
       c_next_flow_sequence = 0 \<rparr>"

definition authority :: "Coordinator \<Rightarrow> AuthorityStamp" where
  "authority c =
     \<lparr> au_epoch = c_epoch c, au_incarnation = c_incarnation c,
       au_policy = p_generation (c_policy c), au_sequence = c_authority_sequence c \<rparr>"

definition mint_stamp :: "Coordinator \<Rightarrow> AuthorityStamp \<times> Coordinator" where
  "mint_stamp c =
     (let c1 = c\<lparr> c_authority_sequence := gen_succ (c_authority_sequence c) \<rparr>
      in (\<lparr> au_epoch = c_epoch c1, au_incarnation = c_incarnation c1,
            au_policy = p_generation (c_policy c1), au_sequence = c_authority_sequence c1 \<rparr>, c1))"

definition clear_state :: "Coordinator \<Rightarrow> Coordinator" where
  "clear_state c =
     c\<lparr> c_topology_present := False, c_models := [], c_states := [], c_slo_contracts := [],
        c_route_decisions := [], c_transfers := [], c_flows := [], c_flows_by_request := [],
        c_flows_by_transfer := [], c_transfers_by_request := [], c_defers := [],
        c_completions := [], c_completion_order := [], c_ledger := ledger_clear (c_ledger c),
        c_transfer_class_accounting :=
          map (\<lambda>_. ClassAccounting_init) (c_transfer_class_accounting c),
        c_bulk_in_flight_bytes := 0, c_streaming_deferrals := 0, c_transfers_started := 0,
        c_transfers_completed := 0, c_transfers_refused := 0, c_next_flow_sequence := 0 \<rparr>"

text \<open>
  The engine is reseeded when a boot seed is configured: \<open>seeded s\<close> is the pair of first
  outputs of an engine seeded with \<open>s\<close>, \<open>drawn\<close> the next two outputs of the running engine.
\<close>

definition reseed_boot_identity ::
  "(u64 \<Rightarrow> u64 \<times> u64) \<Rightarrow> u64 \<times> u64 \<Rightarrow> Coordinator \<Rightarrow> Coordinator" where
  "reseed_boot_identity seeded drawn c =
     c\<lparr> c_incarnation := make_random_id
          (if cc_boot_seed (c_config c) \<noteq> 0
           then seeded (cc_boot_seed (c_config c) + c_boot_count c * 0x9E3779B97F4A7C15)
           else drawn) \<rparr>"

definition boot_fresh ::
  "(u64 \<Rightarrow> u64 \<times> u64) \<Rightarrow> u64 \<times> u64 \<Rightarrow> Coordinator \<Rightarrow> generation result \<times> Coordinator" where
  "boot_fresh seeded drawn c =
     (let c1 = clear_state (c\<lparr> c_epoch := 1 \<rparr>);
          c2 = c1\<lparr> c_boot_count := c_boot_count c1 + 1 \<rparr>;
          c3 = reseed_boot_identity seeded drawn c2;
          c4 = c3\<lparr> c_authority_sequence := 1,
                   c_policy := set_unset_generation (cc_policy (c_config c3)) \<rparr>
      in (Inr (c_epoch c4), c4))"

text \<open>The lambda \<open>inspect\<close>, threading the identifiers seen so far.\<close>

fun inspect_records :: "RequestRecord list \<Rightarrow> RequestId list \<Rightarrow> StatusCode \<times> RequestId list" where
  "inspect_records [] seen = (ST_Ok, seen)"
| "inspect_records (r # rs) seen =
     (if is_nil (r_id r) then (ST_MalformedInput, seen)
      else if r_attempt_count r > kMaxAttemptsPerRequest then (ST_MalformedInput, seen)
      else if r_id r \<in> set seen then (ST_AlreadyExists, seen)
      else inspect_records rs (seen @ [r_id r]))"

definition validate_restored_state ::
  "PersistedCoordinatorState \<Rightarrow> Coordinator \<Rightarrow> StatusCode" where
  "validate_restored_state s c =
     (if ps_format_version s \<noteq> kSnapshotFormatVersion then ST_UnsupportedVersion
      else if policy_validate (ps_policy s) \<noteq> PV_Valid then ST_PolicyInvalid
      else if is_unset (p_generation (ps_policy s)) then ST_MalformedInput
      else if length (ps_models s) > unat (cl_max_model_records (cc_limits (c_config c)))
      then ST_BoundsExceeded
      else if \<not> list_all model_is_valid (ps_models s) then ST_MalformedInput
      else if length (ps_states s) > unat (cl_max_state_records (cc_limits (c_config c)))
      then ST_BoundsExceeded
      else if \<not> list_all state_is_valid (ps_states s) then ST_MalformedInput
      else if ps_topology_present s \<and> \<not> topology_is_authoritative (ps_topology s)
      then ST_MalformedInput
      else (case inspect_records (ps_terminal_requests s) [] of
              (status, seen) \<Rightarrow>
                if status \<noteq> ST_Ok then status
                else fst (inspect_records (ps_interrupted_requests s) seen)))"

fun restore_records :: "RequestRecord list \<Rightarrow> Ledger \<Rightarrow> StatusCode \<times> Ledger" where
  "restore_records [] l = (ST_Ok, l)"
| "restore_records (r # rs) l =
     (case restore_record r l of
        (status, l1) \<Rightarrow> if status \<noteq> ST_Ok then (status, l1) else restore_records rs l1)"

definition restore_state ::
  "PersistedCoordinatorState \<Rightarrow> Coordinator \<Rightarrow> StatusCode \<times> Coordinator" where
  "restore_state s c =
     (let validated = validate_restored_state s c in
      if validated \<noteq> ST_Ok then (validated, c)
      else (let c1 = c\<lparr> c_policy := (ps_policy s)
                          \<lparr> p_generation := gen_succ (p_generation (ps_policy s)) \<rparr> \<rparr>;
                c2 = c1\<lparr> c_models :=
                  fold (\<lambda>m. um_emplace (ms_model_hash m) (m\<lparr> ms_requires_revalidation := True \<rparr>))
                    (ps_models s) (c_models c1) \<rparr>;
                c3 = c2\<lparr> c_states :=
                  fold (\<lambda>g. um_emplace (sg_state_hash g) (g\<lparr> sg_requires_revalidation := True \<rparr>))
                    (ps_states s) (c_states c2) \<rparr>;
                c4 = (if ps_topology_present s
                      then c3\<lparr> c_topology := ps_topology s, c_topology_present := True \<rparr> else c3)
            in (case restore_records (ps_terminal_requests s) (c_ledger c4) of
                  (status, l1) \<Rightarrow>
                    if status \<noteq> ST_Ok then (status, c4\<lparr> c_ledger := l1 \<rparr>)
                    else (case restore_records (ps_interrupted_requests s) l1 of
                            (status2, l2) \<Rightarrow> (status2, c4\<lparr> c_ledger := l2 \<rparr>)))))"

definition boot_from ::
  "(u64 \<Rightarrow> u64 \<times> u64) \<Rightarrow> u64 \<times> u64 \<Rightarrow> PersistedCoordinatorState \<Rightarrow> Coordinator \<Rightarrow>
   generation result \<times> Coordinator" where
  "boot_from seeded drawn s c =
     (case restore_state s (clear_state c) of
        (status, c1) \<Rightarrow>
          if status \<noteq> ST_Ok then (Inl status, clear_state c1)
          else (let c2 = c1\<lparr> c_boot_count :=
                              (if ps_boot_count s > c_boot_count c1 then ps_boot_count s
                               else c_boot_count c1) + 1 \<rparr>;
                    c3 = c2\<lparr> c_epoch := gen_succ (ps_epoch s) \<rparr>;
                    c4 = reseed_boot_identity seeded drawn c3;
                    c5 = c4\<lparr> c_authority_sequence := 1 \<rparr>
                in (Inr (c_epoch c5), c5)))"

section \<open>Policy and topology evidence\<close>

definition apply_policy :: "PolicyConfig \<Rightarrow> Coordinator \<Rightarrow> StatusCode \<times> Coordinator" where
  "apply_policy p c =
     (if policy_validate p \<noteq> PV_Valid then (ST_PolicyInvalid, c)
      else (ST_Ok, c\<lparr> c_policy := p\<lparr> p_generation := gen_succ (p_generation p) \<rparr> \<rparr>))"

definition publish_topology ::
  "TopologyEvidence \<Rightarrow> i64 \<Rightarrow> Coordinator \<Rightarrow> generation result \<times> Coordinator" where
  "publish_topology evidence now c =
     (if te_provenance evidence = EP_Unknown then (Inl ST_InvalidArgument, c)
      else if te_node_count evidence = 0 then (Inl ST_InvalidArgument, c)
      else (let e1 = evidence
                  \<lparr> te_generation := (if c_topology_present c
                                      then gen_next (te_generation (c_topology c)) else 1),
                    te_observed_boot := c_incarnation c, te_observed_at_nanos := now \<rparr>;
                e2 = (if te_max_age_nanos e1 = 0
                      then e1\<lparr> te_max_age_nanos := cc_default_evidence_max_age_nanos (c_config c) \<rparr>
                      else e1)
            in if \<not> topology_is_authoritative e2 then (Inl ST_InvalidArgument, c)
               else (Inr (te_generation e2), c\<lparr> c_topology := e2, c_topology_present := True \<rparr>)))"

definition topology_state :: "i64 \<Rightarrow> Coordinator \<Rightarrow> EvidenceState" where
  "topology_state now c =
     (if \<not> c_topology_present c then EV_Unknown
      else if te_observed_boot (c_topology c) \<noteq> c_incarnation c then EV_RevalidationRequired
      else if te_max_age_nanos (c_topology c) > 0 \<and> now > te_observed_at_nanos (c_topology c) \<and>
              u64_of_i64 (now - te_observed_at_nanos (c_topology c)) > te_max_age_nanos (c_topology c)
      then EV_Stale
      else EV_Current)"

definition topology :: "Coordinator \<Rightarrow> TopologyEvidence option" where
  "topology c = (if \<not> c_topology_present c then None else Some (c_topology c))"

section \<open>Registries\<close>

definition register_slo_contract ::
  "RequestId \<Rightarrow> u64 \<Rightarrow> u64 \<Rightarrow> u32 \<Rightarrow> Coordinator \<Rightarrow> SloContract result \<times> Coordinator" where
  "register_slo_contract rid tail_latency_budget_nanos registration_deadline_nanos
     min_stream_share_per_mille c =
     (if is_nil rid then (Inl ST_InvalidArgument, c)
      else if \<not> ledger_contains (c_ledger c) rid then (Inl ST_NotFound, c)
      else if tail_latency_budget_nanos = 0 then (Inl ST_InvalidArgument, c)
      else (let existing = map_of (c_slo_contracts c) rid in
        if existing = None \<and>
           length (c_slo_contracts c) \<ge> unat (cl_max_slo_contracts (cc_limits (c_config c)))
        then (Inl ST_CapacityExhausted, c)
        else (let contract =
                \<lparr> slo_generation = (case existing of None \<Rightarrow> 1 | Some k \<Rightarrow> gen_next (slo_generation k)),
                  slo_request = rid,
                  slo_tail_latency_budget_nanos = tail_latency_budget_nanos,
                  slo_registration_deadline_nanos = registration_deadline_nanos,
                  slo_min_stream_share_per_mille =
                    (if min_stream_share_per_mille > 1000 then 1000
                     else min_stream_share_per_mille) \<rparr>
              in if \<not> slo_is_valid contract then (Inl ST_InvalidArgument, c)
                 else (Inr contract,
                       c\<lparr> c_slo_contracts := um_put rid contract (c_slo_contracts c) \<rparr>))))"

definition issue_route_decision ::
  "RequestId \<Rightarrow> AttemptId \<Rightarrow> u32 \<Rightarrow> bool \<Rightarrow> bool \<Rightarrow> Coordinator \<Rightarrow>
   RouteDecision result \<times> Coordinator" where
  "issue_route_decision rid attempt target_node lateral disaggregated_handoff c =
     (case snapshot_request (c_ledger c) rid of
        None \<Rightarrow> (Inl ST_NotFound, c)
      | Some r \<Rightarrow>
          if find_attempt r attempt = None then (Inl ST_NotFound, c)
          else (let existing = map_of (c_route_decisions c) attempt in
            if existing = None \<and>
               length (c_route_decisions c) \<ge> unat (cl_max_route_decisions (cc_limits (c_config c)))
            then (Inl ST_CapacityExhausted, c)
            else (let decision =
                    \<lparr> rt_generation = (case existing of None \<Rightarrow> 1 | Some k \<Rightarrow> gen_next (rt_generation k)),
                      rt_request = rid, rt_attempt = attempt, rt_target_node = target_node,
                      rt_lateral = lateral, rt_disaggregated_handoff = disaggregated_handoff \<rparr>
                  in if \<not> route_is_valid decision then (Inl ST_InvalidArgument, c)
                     else (Inr decision,
                           c\<lparr> c_route_decisions := um_put attempt decision (c_route_decisions c) \<rparr>))))"

definition set_model_generation ::
  "u64 \<Rightarrow> generation option \<Rightarrow> Coordinator \<Rightarrow> generation result \<times> Coordinator" where
  "set_model_generation model_hash expected_current c =
     (if model_hash = 0 then (Inl ST_InvalidArgument, c)
      else (let existing = map_of (c_models c) model_hash;
                refusal = (case existing of
                    None \<Rightarrow>
                      if expected_current \<noteq> None then Some ST_Conflict
                      else if length (c_models c) \<ge>
                              unat (cl_max_model_records (cc_limits (c_config c)))
                      then Some ST_CapacityExhausted
                      else None
                  | Some m \<Rightarrow>
                      if ms_requires_revalidation m then Some ST_RevalidationRequired
                      else if expected_current \<noteq> None \<and> expected_current \<noteq> Some (ms_generation m)
                      then Some ST_Conflict
                      else None)
            in case refusal of
                 Some code \<Rightarrow> (Inl code, c)
               | None \<Rightarrow>
                   (let state =
                      \<lparr> ms_model_hash = model_hash,
                        ms_generation = (case existing of None \<Rightarrow> 1 | Some m \<Rightarrow> gen_next (ms_generation m)),
                        ms_requires_revalidation = False \<rparr>
                    in (Inr (ms_generation state),
                        c\<lparr> c_models := um_put model_hash state (c_models c) \<rparr>))))"

definition revalidate_model_generation ::
  "u64 \<Rightarrow> Coordinator \<Rightarrow> generation result \<times> Coordinator" where
  "revalidate_model_generation model_hash c =
     (case map_of (c_models c) model_hash of
        None \<Rightarrow> (Inl ST_NotFound, c)
      | Some m \<Rightarrow>
          (Inr (ms_generation m),
           c\<lparr> c_models := um_put model_hash (m\<lparr> ms_requires_revalidation := False \<rparr>) (c_models c) \<rparr>))"

definition advance_state_generation ::
  "u64 \<Rightarrow> generation option \<Rightarrow> Coordinator \<Rightarrow> generation result \<times> Coordinator" where
  "advance_state_generation state_hash expected_current c =
     (if state_hash = 0 then (Inl ST_InvalidArgument, c)
      else (let existing = map_of (c_states c) state_hash;
                refusal = (case existing of
                    None \<Rightarrow>
                      if expected_current \<noteq> None then Some ST_Conflict
                      else if length (c_states c) \<ge>
                              unat (cl_max_state_records (cc_limits (c_config c)))
                      then Some ST_CapacityExhausted
                      else None
                  | Some g \<Rightarrow>
                      if sg_requires_revalidation g then Some ST_RevalidationRequired
                      else if expected_current \<noteq> None \<and> expected_current \<noteq> Some (sg_generation g)
                      then Some ST_Conflict
                      else None)
            in case refusal of
                 Some code \<Rightarrow> (Inl code, c)
               | None \<Rightarrow>
                   (let state =
                      \<lparr> sg_state_hash = state_hash,
                        sg_generation = (case existing of None \<Rightarrow> 1 | Some g \<Rightarrow> gen_next (sg_generation g)),
                        sg_requires_revalidation = False \<rparr>
                    in (Inr (sg_generation state),
                        c\<lparr> c_states := um_put state_hash state (c_states c) \<rparr>))))"

definition revalidate_state_generation ::
  "u64 \<Rightarrow> Coordinator \<Rightarrow> generation result \<times> Coordinator" where
  "revalidate_state_generation state_hash c =
     (case map_of (c_states c) state_hash of
        None \<Rightarrow> (Inl ST_NotFound, c)
      | Some g \<Rightarrow>
          (Inr (sg_generation g),
           c\<lparr> c_states := um_put state_hash (g\<lparr> sg_requires_revalidation := False \<rparr>) (c_states c) \<rparr>))"

definition require_model_generation :: "u64 \<Rightarrow> Coordinator \<Rightarrow> generation result" where
  "require_model_generation model_hash c =
     (case map_of (c_models c) model_hash of
        None \<Rightarrow> Inl ST_NotFound
      | Some m \<Rightarrow>
          if ms_requires_revalidation m then Inl ST_RevalidationRequired
          else Inr (ms_generation m))"

definition require_state_generation :: "u64 \<Rightarrow> Coordinator \<Rightarrow> generation result" where
  "require_state_generation state_hash c =
     (case map_of (c_states c) state_hash of
        None \<Rightarrow> Inl ST_NotFound
      | Some g \<Rightarrow>
          if sg_requires_revalidation g then Inl ST_RevalidationRequired
          else Inr (sg_generation g))"

end
