(* ===== verification/Evaluate.thy ===== *)
theory Evaluate
  imports Coordinator
begin

text \<open>
  Decision evaluation (\<open>Coordinator::evaluate_locked\<close> and its helpers in
  \<open>src/coordinator.cpp\<close>). The local variables of the function form the record \<open>Eval\<close>; each
  block of checks is one definition that either refuses, giving the arguments of the
  \<open>build(Rejected, ...)\<close> call it returns through, or passes the updated locals on. None of the
  checks touches the coordinator: its state changes in the deferral bookkeeping and in
  \<open>build\<close> only.
\<close>

unbundle bit_operations_syntax

section \<open>Deferral records\<close>

definition defer_key :: "TrafficSubject \<Rightarrow> TrafficClass \<Rightarrow> u64" where
  "defer_key s traffic =
     (let key = mix64 (of_nat (tc_index traffic) * 0x9E3779B97F4A7C15 + 0x165667B19E3779F9)
      in if sub_kind s = SK_Serving
         then key XOR mix64 (high (sub_request s) XOR 0xD6E8FEB86659FD93)
                  XOR mix64 (low (sub_request s) + 0x9E3779B97F4A7C15)
                  XOR mix64 (high (sub_attempt s) + 0xBF58476D1CE4E5B9)
                  XOR mix64 (low (sub_attempt s) XOR 0x94D049BB133111EB)
         else key XOR mix64 (high (sub_transfer s) + 0x2545F4914F6CDD1D)
                  XOR mix64 (low (sub_transfer s) XOR 0x9E3779B97F4A7C15))"

definition defer_matches :: "DeferRecord \<Rightarrow> TrafficSubject \<Rightarrow> bool" where
  "defer_matches d s =
     (if dr_kind d \<noteq> sub_kind s then False
      else if sub_kind s = SK_Serving
      then dr_request d = sub_request s \<and> dr_attempt d = sub_attempt s
      else dr_transfer d = sub_transfer s)"

text \<open>
  Erasing the deferral record under a key: the decrement of the streaming counter and the
  erasure that \<open>evict_defer_records_locked\<close>, \<open>note_defer_locked\<close> and
  \<open>clear_defer_locked\<close> share.
\<close>

definition erase_defer :: "u64 \<Rightarrow> DeferRecord \<Rightarrow> Coordinator \<Rightarrow> Coordinator" where
  "erase_defer key d c =
     c\<lparr> c_streaming_deferrals :=
          (if dr_starvation_class d \<and> c_streaming_deferrals c > 0
           then c_streaming_deferrals c - 1 else c_streaming_deferrals c),
        c_defers := um_erase key (c_defers c) \<rparr>"

definition evict_defer_records :: "Coordinator \<Rightarrow> Coordinator" where
  "evict_defer_records c =
     (if c_defers c = [] then c
      else (let victim = c_begin c (c_defers c) in
            case map_of (c_defers c) victim of
              Some d \<Rightarrow> erase_defer victim d c
            | None \<Rightarrow> c))"

definition note_defer ::
  "TrafficSubject \<Rightarrow> TrafficClass \<Rightarrow> i64 \<Rightarrow> Coordinator \<Rightarrow> u32 \<times> Coordinator" where
  "note_defer s traffic now c =
     (let starvation_class = pr_starvation_protected (policy_rule (c_policy c) traffic);
          key = defer_key s traffic;
          c1 = (case map_of (c_defers c) key of
                  Some d \<Rightarrow> if \<not> defer_matches d s then erase_defer key d c else c
                | None \<Rightarrow> c)
      in (case map_of (c_defers c1) key of
            None \<Rightarrow>
              let c2 = (if length (c_defers c1) \<ge> unat (cl_max_defer_records (cc_limits (c_config c1)))
                        then evict_defer_records c1 else c1);
                  d = \<lparr> dr_kind = sub_kind s, dr_request = sub_request s,
                        dr_attempt = sub_attempt s, dr_transfer = sub_transfer s,
                        dr_traffic = traffic, dr_count = 1, dr_first_defer_nanos = now,
                        dr_last_defer_nanos = now, dr_starvation_class = starvation_class \<rparr>
              in (1, c2\<lparr> c_defers := um_emplace key d (c_defers c2),
                         c_streaming_deferrals :=
                           (if starvation_class then c_streaming_deferrals c2 + 1
                            else c_streaming_deferrals c2) \<rparr>)
          | Some d \<Rightarrow>
              let d1 = d\<lparr> dr_count := dr_count d + 1, dr_last_defer_nanos := now \<rparr>
              in (dr_count d1, c1\<lparr> c_defers := um_put key d1 (c_defers c1) \<rparr>)))"

definition clear_defer :: "TrafficSubject \<Rightarrow> TrafficClass \<Rightarrow> Coordinator \<Rightarrow> Coordinator" where
  "clear_defer s traffic c =
     (let key = defer_key s traffic in
      case map_of (c_defers c) key of
        None \<Rightarrow> c
      | Some d \<Rightarrow> if \<not> defer_matches d s then c else erase_defer key d c)"

definition streaming_pressure :: "Coordinator \<Rightarrow> bool" where
  "streaming_pressure c \<longleftrightarrow> c_streaming_deferrals c > 0"

section \<open>Building a decision\<close>

definition account_decision ::
  "TrafficClass \<Rightarrow> DecisionOutcome \<Rightarrow> u64 \<Rightarrow> Coordinator \<Rightarrow> Coordinator" where
  "account_decision traffic outcome bytes c =
     (let index = tc_index traffic in
      if index \<ge> kTrafficClassCount then c
      else (let entry = c_transfer_class_accounting c ! index;
                entry1 = (case outcome of
                    DO_Allowed \<Rightarrow> entry\<lparr> ca_allowed := ca_allowed entry + 1,
                                        ca_bytes_allowed := ca_bytes_allowed entry + bytes \<rparr>
                  | DO_Degraded \<Rightarrow> entry\<lparr> ca_degraded := ca_degraded entry + 1,
                                         ca_bytes_allowed := ca_bytes_allowed entry + bytes \<rparr>
                  | DO_Deferred \<Rightarrow> entry\<lparr> ca_deferred := ca_deferred entry + 1,
                                         ca_bytes_deferred := ca_bytes_deferred entry + bytes \<rparr>
                  | DO_Rejected \<Rightarrow> entry\<lparr> ca_rejected := ca_rejected entry + 1,
                                         ca_bytes_rejected := ca_bytes_rejected entry + bytes \<rparr>
                  | _ \<Rightarrow> entry)
            in c\<lparr> c_transfer_class_accounting :=
                    (c_transfer_class_accounting c)[index := entry1] \<rparr>))"

abbreviation log_rule ::
  "ExplanationRule \<Rightarrow> i64 \<Rightarrow> i64 \<Rightarrow> ExplanationLog \<Rightarrow> ExplanationLog" where
  "log_rule rule v w log \<equiv> log_add rule v w (of_nat kMaxExplanationSteps) log"

definition build_decision ::
  "DecisionOutcome \<Rightarrow> ReasonCode \<Rightarrow> TrafficClass \<Rightarrow> ExplanationLog \<Rightarrow> TrafficRequest \<Rightarrow>
   TrafficSubject \<Rightarrow> Coordinator \<Rightarrow> Decision \<times> Coordinator" where
  "build_decision outcome reason traffic log q s c =
     (case mint_stamp c of (stamp, c1) \<Rightarrow>
        let limit = (if unat (p_max_explanation_steps (c_policy c1)) > kMaxExplanationSteps
                     then kMaxExplanationSteps
                     else unat (p_max_explanation_steps (c_policy c1)));
            decision = Decision_init
              \<lparr> d_outcome := outcome, d_reason := reason, d_subject := s,
                d_binding := q_binding q, d_authority := stamp,
                d_explanation := take limit log \<rparr>;
            c2 = (if sub_kind s = SK_Serving \<and> ledger_contains (c_ledger c1) (sub_request s)
                  then c1\<lparr> c_ledger := snd (ledger_record_decision (sub_request s) (sub_attempt s)
                             traffic outcome reason (q_payload_bytes q) (c_ledger c1)) \<rparr>
                  else account_decision traffic outcome (q_payload_bytes q) c1)
        in (decision, c2))"

definition reject_decision ::
  "TrafficRequest \<Rightarrow> TrafficSubject \<Rightarrow> ReasonCode \<Rightarrow> Coordinator \<Rightarrow> Decision \<times> Coordinator" where
  "reject_decision q s reason c =
     (case mint_stamp c of (stamp, c1) \<Rightarrow>
        (Decision_init\<lparr> d_outcome := DO_Rejected, d_reason := reason, d_subject := s,
                        d_binding := q_binding q, d_authority := stamp \<rparr>, c1))"

section \<open>The checks\<close>

text \<open>
  The locals of \<open>evaluate_locked\<close>. \<open>e_transfer\<close> is the local transfer record with
  \<open>has_transfer\<close> telling whether it is set; \<open>e_attempt\<close> is the attempt the pointer refers to.
\<close>

record Eval =
  e_log :: ExplanationLog
  e_serving :: bool
  e_record :: RequestRecord
  e_transfer :: "TransferRecord option"
  e_stage :: ServingStage
  e_attempt :: "AttemptRecord option"
  e_degrade_reason :: ReasonCode
  e_degraded :: bool
  e_effective :: TrafficClass
  e_evidence :: EvidenceState
  e_slo :: "SloContract option"
  e_deadline :: Instant

definition Eval_init :: "Coordinator \<Rightarrow> Eval" where
  "Eval_init c =
     \<lparr> e_log = log_rule ER_AuthorityBinding (i64_of_u64 (c_epoch c))
                 (i64_of_u64 (p_generation (c_policy c))) [],
       e_serving = False, e_record = RequestRecord_init, e_transfer = None,
       e_stage = SS_Unknown, e_attempt = None, e_degrade_reason = RC_Unknown,
       e_degraded = False, e_effective = TC_Unknown, e_evidence = EV_Unknown, e_slo = None,
       e_deadline = instant_unset \<rparr>"

type_synonym refusal = "ReasonCode \<times> TrafficClass \<times> ExplanationLog"

text \<open>An optional generation of the binding that must equal the current one when present.\<close>

definition fence ::
  "generation option \<Rightarrow> generation \<Rightarrow> (generation \<Rightarrow> refusal) \<Rightarrow> Eval \<Rightarrow> refusal + Eval" where
  "fence bound current refuse e =
     (case bound of
        Some g \<Rightarrow> if g \<noteq> current then Inl (refuse g) else Inr e
      | None \<Rightarrow> Inr e)"

definition log_generations ::
  "ExplanationRule \<Rightarrow> generation \<Rightarrow> generation \<Rightarrow> ExplanationLog \<Rightarrow> ExplanationLog" where
  "log_generations rule g h log = log_rule rule (i64_of_u64 g) (i64_of_u64 h) log"

definition check_binding :: "TrafficRequest \<Rightarrow> Coordinator \<Rightarrow> Eval \<Rightarrow> refusal + Eval" where
  "check_binding q c e =
     (if \<not> structurally_valid q \<or> q_subject q = None
      then Inl (RC_RejectedSubjectKindMismatch, q_declared_class q,
                log_rule ER_RequestLookup 0 0 (e_log e))
      else and_then
        (fence (b_coordinator_epoch (q_binding q)) (c_epoch c)
          (\<lambda>g. (RC_RejectedStaleEpoch, q_declared_class q,
                log_generations ER_AuthorityBinding g (c_epoch c) (e_log e))) e)
        (\<lambda>e. fence (b_policy (q_binding q)) (p_generation (c_policy c))
          (\<lambda>g. (RC_RejectedStalePolicyGeneration, q_declared_class q,
                log_generations ER_AuthorityBinding g (p_generation (c_policy c)) (e_log e))) e))"

definition resolve_serving ::
  "TrafficRequest \<Rightarrow> TrafficSubject \<Rightarrow> Coordinator \<Rightarrow> Eval \<Rightarrow> refusal + Eval" where
  "resolve_serving q s c e =
     (case snapshot_request (c_ledger c) (sub_request s) of
        None \<Rightarrow> Inl (RC_RejectedUnknownRequest, q_declared_class q,
                     log_rule ER_RequestLookup 0 0 (e_log e))
      | Some r \<Rightarrow>
          let lifecycle = int (rl_index (r_lifecycle r));
              log = log_rule ER_RequestLookup (i64_of_u64 (r_generation r)) lifecycle (e_log e)
          in if r_lifecycle r = RL_Cancelled
             then Inl (RC_RejectedRequestCancelled, q_declared_class q,
                       log_rule ER_TerminalState lifecycle 1 log)
             else if r_requires_revalidation r
             then Inl (RC_RejectedRevalidationRequired, q_declared_class q,
                       log_rule ER_RequestLookup 0 1 log)
             else if rl_terminal (r_lifecycle r)
             then Inl (RC_RejectedRequestTerminal, q_declared_class q,
                       log_rule ER_TerminalState lifecycle 0 log)
             else (case find_attempt r (sub_attempt s) of
                     None \<Rightarrow> Inl (RC_RejectedUnknownAttempt, q_declared_class q, log)
                   | Some index \<Rightarrow>
                       if \<not> is_current_attempt r (sub_attempt s)
                       then Inl (RC_RejectedStaleAttempt, q_declared_class q, log)
                       else and_then
                         (fence (b_request_generation (q_binding q)) (r_generation r)
                           (\<lambda>g. (RC_RejectedStaleRequestGeneration, q_declared_class q,
                                 log_generations ER_RequestLookup g (r_generation r) log)) e)
                         (\<lambda>e. let stage = a_stage (r_attempts r ! index)
                               in Inr (e\<lparr> e_serving := True, e_record := r,
                                          e_attempt := Some (r_attempts r ! index),
                                          e_stage := stage,
                                          e_log := log_rule ER_StageResolution
                                            (int (ss_index stage))
                                            (int (ss_index (q_declared_stage q))) log \<rparr>))))"

text \<open>The reason a failed registry lookup is refused with.\<close>

definition registry_refusal :: "ReasonCode \<Rightarrow> StatusCode \<Rightarrow> ReasonCode" where
  "registry_refusal stale code =
     (if code = ST_RevalidationRequired then RC_RejectedRevalidationRequired else stale)"

definition check_transfer_model ::
  "TransferRecord \<Rightarrow> Coordinator \<Rightarrow> Eval \<Rightarrow> refusal + Eval" where
  "check_transfer_model t c e =
     (if tr_model_hash t \<noteq> 0
      then (case require_model_generation (tr_model_hash t) c of
              Inl code \<Rightarrow> Inl (registry_refusal RC_RejectedStaleModelGeneration code,
                              tr_declared_class t, e_log e)
            | Inr g \<Rightarrow>
                if tr_model_generation t \<noteq> g
                then Inl (RC_RejectedStaleModelGeneration, tr_declared_class t,
                          log_generations ER_ModelGeneration (tr_model_generation t) g (e_log e))
                else Inr e)
      else Inr e)"

definition check_transfer_state ::
  "TransferRecord \<Rightarrow> Coordinator \<Rightarrow> Eval \<Rightarrow> refusal + Eval" where
  "check_transfer_state t c e =
     (case require_state_generation (tr_state_hash t) c of
        Inl code \<Rightarrow> Inl (registry_refusal RC_RejectedStaleStateGeneration code,
                        tr_declared_class t, e_log e)
      | Inr g \<Rightarrow>
          if tr_state_generation t \<noteq> g
          then Inl (RC_RejectedStaleStateGeneration, tr_declared_class t,
                    log_generations ER_StateGeneration (tr_state_generation t) g (e_log e))
          else Inr e)"

definition resolve_transfer ::
  "TrafficRequest \<Rightarrow> TrafficSubject \<Rightarrow> Coordinator \<Rightarrow> Eval \<Rightarrow> refusal + Eval" where
  "resolve_transfer q s c e =
     (case map_of (c_transfers c) (sub_transfer s) of
        None \<Rightarrow> Inl (RC_RejectedUnknownTransfer, q_declared_class q, e_log e)
      | Some t \<Rightarrow>
          let log = log_rule ER_TransferBinding (int (ts_index (tr_state t))) 0 (e_log e);
              e1 = e\<lparr> e_transfer := Some t, e_log := log \<rparr>
          in if ts_terminal (tr_state t)
             then Inl (RC_RejectedTransferAlreadyTerminal, tr_declared_class t, log)
             else if \<not> is_nil (tr_request t) \<and> is_cancelled (c_ledger c) (tr_request t)
             then Inl (RC_RejectedRequestCancelled, tr_declared_class t, log)
             else and_then (check_transfer_model t c e1) (\<lambda>e.
                  and_then (check_transfer_state t c e) (\<lambda>e.
                  and_then (fence (b_model_generation (q_binding q)) (tr_model_generation t)
                    (\<lambda>_. (RC_RejectedStaleModelGeneration, tr_declared_class t, e_log e)) e) (\<lambda>e.
                  fence (b_state_generation (q_binding q)) (tr_state_generation t)
                    (\<lambda>_. (RC_RejectedStaleStateGeneration, tr_declared_class t, e_log e)) e))))"

definition resolve_subject ::
  "TrafficRequest \<Rightarrow> TrafficSubject \<Rightarrow> Coordinator \<Rightarrow> Eval \<Rightarrow> refusal + Eval" where
  "resolve_subject q s c e =
     (if sub_kind s = SK_Serving then resolve_serving q s c e
      else if sub_kind s = SK_Transfer then resolve_transfer q s c e
      else Inl (RC_RejectedSubjectKindMismatch, q_declared_class q, e_log e))"

text \<open>Setting the two degradation locals together, as the code always does.\<close>

definition degrade :: "ReasonCode \<Rightarrow> Eval \<Rightarrow> Eval" where
  "degrade reason e = e\<lparr> e_degraded := True, e_degrade_reason := reason \<rparr>"

definition classify_serving :: "TrafficRequest \<Rightarrow> Coordinator \<Rightarrow> Eval \<Rightarrow> refusal + Eval" where
  "classify_serving q c e =
     (if \<not> is_serving_active (e_stage e)
      then (if e_stage e \<noteq> SS_Unknown
            then Inl (RC_RejectedRequestTerminal, q_declared_class q,
                      log_rule ER_TerminalState (int (ss_index (e_stage e))) 0 (e_log e))
            else if \<not> p_allow_unknown_stage (c_policy c)
            then Inl (RC_RejectedUnknownStage, q_declared_class q,
                      log_rule ER_StageResolution 0 0 (e_log e))
            else Inr (degrade RC_AdmittedConservative
                        (e\<lparr> e_log := log_rule ER_StageResolution 0 2 (e_log e),
                            e_effective := TC_Unknown \<rparr>)))
      else (let e1 = (if q_declared_stage q \<noteq> SS_Unknown \<and> q_declared_stage q \<noteq> e_stage e
                      then degrade RC_DegradedStageClaimOverridden e else e);
                derived = canonical_class_for_stage (e_stage e);
                e2 = (if e_effective e1 = TC_Unknown
                      then e1\<lparr> e_effective := derived,
                               e_log := log_rule ER_ClassClassification
                                 (int (tc_index derived)) 0 (e_log e1) \<rparr>
                      else if \<not> is_class_legal_for_stage (e_effective e1) (e_stage e)
                      then degrade RC_DegradedClassRederived
                             (e1\<lparr> e_effective := derived,
                                  e_log := log_rule ER_ClassClassification
                                    (int (tc_index (e_effective e1))) (int (tc_index derived))
                                    (e_log e1) \<rparr>)
                      else e1)
            in if e_effective e2 = TC_Unknown
               then (if \<not> p_allow_unknown_traffic_class (c_policy c)
                     then Inl (RC_RejectedUnknownClass, q_declared_class q, e_log e2)
                     else Inr (degrade RC_AdmittedConservative e2))
               else Inr e2))"

definition classify_transfer :: "TransferRecord \<Rightarrow> Coordinator \<Rightarrow> Eval \<Rightarrow> refusal + Eval" where
  "classify_transfer t c e =
     (let e1 = (if e_effective e = TC_Unknown then e\<lparr> e_effective := tr_declared_class t \<rparr> else e)
      in if \<not> is_transfer_class (e_effective e1)
         then (if \<not> p_allow_unknown_traffic_class (c_policy c)
               then Inl (RC_RejectedClassNotLegalForStage, e_effective e1, e_log e1)
               else Inr (degrade RC_AdmittedConservative e1))
         else if e_effective e1 \<noteq> tr_declared_class t
         then Inr (degrade RC_DegradedClassRederived
                (e1\<lparr> e_log := log_rule ER_ClassClassification (int (tc_index (e_effective e1)))
                                (int (tc_index (tr_declared_class t))) (e_log e1),
                     e_effective := tr_declared_class t \<rparr>))
         else Inr e1)"

text \<open>
  \<open>transfer\<close> is default-constructed when the subject is not a transfer; it is read under
  \<open>!serving\<close> only.
\<close>

definition local_transfer :: "Eval \<Rightarrow> TransferRecord" where
  "local_transfer e = (case e_transfer e of Some t \<Rightarrow> t | None \<Rightarrow> TransferRecord_init)"

definition classify :: "TrafficRequest \<Rightarrow> Coordinator \<Rightarrow> Eval \<Rightarrow> refusal + Eval" where
  "classify q c e =
     (let e1 = e\<lparr> e_effective := q_declared_class q \<rparr>
      in if e_serving e1 then classify_serving q c e1
         else classify_transfer (local_transfer e1) c e1)"

definition eval_rule :: "Coordinator \<Rightarrow> Eval \<Rightarrow> ClassPolicyRule" where
  "eval_rule c e = policy_rule (c_policy c) (e_effective e)"

definition check_enabled :: "Coordinator \<Rightarrow> Eval \<Rightarrow> refusal + Eval" where
  "check_enabled c e =
     (if \<not> pr_enabled (eval_rule c e)
      then Inl (RC_RejectedClassDisabled, e_effective e,
                log_rule ER_PolicyRule (int (tc_index (e_effective e))) 0 (e_log e))
      else Inr (e\<lparr> e_log := log_rule ER_PolicyRule (int (pc_index (pr_priority (eval_rule c e))))
                              (int (unat (pr_reserved_weight (eval_rule c e)))) (e_log e) \<rparr>))"

definition evidence_grace :: "i64 \<Rightarrow> Coordinator \<Rightarrow> bool" where
  "evidence_grace now c =
     (if p_stale_evidence_grace_nanos (c_policy c) > 0 \<and> c_topology_present c \<and>
         now > te_observed_at_nanos (c_topology c)
      then u64_of_i64 (now - te_observed_at_nanos (c_topology c)) \<le>
             p_stale_evidence_grace_nanos (c_policy c)
      else False)"

definition check_topology ::
  "i64 \<Rightarrow> TrafficRequest \<Rightarrow> Coordinator \<Rightarrow> Eval \<Rightarrow> refusal + Eval" where
  "check_topology now q c e0 =
     (let evidence = topology_state now c;
          e = e0\<lparr> e_evidence := evidence \<rparr>
      in if \<not> pr_requires_current_topology (eval_rule c e) then Inr e
         else if evidence = EV_Unknown
         then Inl (RC_RejectedEvidenceUnknown, e_effective e,
                   log_rule ER_TopologyEvidence 0 0 (e_log e))
         else and_then
           (if evidence \<noteq> EV_Current
            then (if \<not> evidence_grace now c
                  then Inl (if evidence = EV_RevalidationRequired
                            then RC_RejectedRevalidationRequired else RC_RejectedEvidenceStale,
                            e_effective e,
                            log_rule ER_TopologyEvidence (int (ev_index evidence)) 0 (e_log e))
                  else Inr (degrade RC_DegradedStaleTopology
                         (e\<lparr> e_log := log_rule ER_TopologyEvidence (int (ev_index evidence)) 1
                                        (e_log e) \<rparr>)))
            else Inr e)
           (\<lambda>e. fence (b_topology (q_binding q)) (te_generation (c_topology c))
              (\<lambda>g. (RC_RejectedStaleTopologyGeneration, e_effective e,
                    log_generations ER_TopologyEvidence g (te_generation (c_topology c))
                      (e_log e))) e))"

definition lookup_slo :: "TrafficSubject \<Rightarrow> Coordinator \<Rightarrow> Eval \<Rightarrow> SloContract option" where
  "lookup_slo s c e =
     (if e_serving e then map_of (c_slo_contracts c) (sub_request s)
      else case e_transfer e of
             Some t \<Rightarrow> if \<not> is_nil (tr_request t) then map_of (c_slo_contracts c) (tr_request t)
                       else None
           | None \<Rightarrow> None)"

definition check_slo ::
  "TrafficRequest \<Rightarrow> TrafficSubject \<Rightarrow> Coordinator \<Rightarrow> Eval \<Rightarrow> refusal + Eval" where
  "check_slo q s c e0 =
     (let e = e0\<lparr> e_slo := lookup_slo s c e0 \<rparr>
      in if \<not> pr_requires_slo_contract (eval_rule c e) then Inr e
         else (case e_slo e of
                 None \<Rightarrow> Inl (RC_RejectedStaleSloContract, e_effective e,
                              log_rule ER_SloContract 0 0 (e_log e))
               | Some k \<Rightarrow>
                   fence (b_slo_contract (q_binding q)) (slo_generation k)
                     (\<lambda>g. (RC_RejectedStaleSloContract, e_effective e,
                           log_generations ER_SloContract g (slo_generation k) (e_log e))) e))"

definition check_route ::
  "TrafficRequest \<Rightarrow> TrafficSubject \<Rightarrow> Coordinator \<Rightarrow> Eval \<Rightarrow> refusal + Eval" where
  "check_route q s c e =
     (let route_attempt = (if e_serving e then sub_attempt s else tr_attempt (local_transfer e))
      in if pr_requires_current_route (eval_rule c e) \<and> \<not> is_nil route_attempt
         then (case map_of (c_route_decisions c) route_attempt of
                 None \<Rightarrow> Inl (RC_RejectedStaleRouteDecision, e_effective e,
                              log_rule ER_RouteDecision 0 0 (e_log e))
               | Some d \<Rightarrow>
                   fence (b_route_decision (q_binding q)) (rt_generation d)
                     (\<lambda>g. (RC_RejectedStaleRouteDecision, e_effective e,
                           log_generations ER_RouteDecision g (rt_generation d) (e_log e))) e)
         else Inr e)"

definition check_model :: "TrafficRequest \<Rightarrow> Coordinator \<Rightarrow> Eval \<Rightarrow> refusal + Eval" where
  "check_model q c e =
     (case e_attempt e of
        Some a \<Rightarrow>
          if pr_requires_model_generation (eval_rule c e) \<and> e_serving e
          then (if a_model_hash a = 0
                then Inl (RC_RejectedStaleModelGeneration, e_effective e,
                          log_rule ER_ModelGeneration 0 0 (e_log e))
                else (case require_model_generation (a_model_hash a) c of
                        Inl code \<Rightarrow> Inl (registry_refusal RC_RejectedStaleModelGeneration code,
                                        e_effective e, e_log e)
                      | Inr g \<Rightarrow>
                          if a_model_generation a \<noteq> g
                          then Inl (RC_RejectedStaleModelGeneration, e_effective e,
                                    log_generations ER_ModelGeneration (a_model_generation a) g
                                      (e_log e))
                          else fence (b_model_generation (q_binding q)) (a_model_generation a)
                                 (\<lambda>_. (RC_RejectedStaleModelGeneration, e_effective e, e_log e)) e))
          else Inr e
      | None \<Rightarrow> Inr e)"

definition effective_deadline :: "i64 \<Rightarrow> TrafficRequest \<Rightarrow> Eval \<Rightarrow> Instant" where
  "effective_deadline now q e =
     (let d1 = (if \<not> instant_is_set (q_deadline q) \<and> q_deadline_after_nanos q > 0
                then instant_from_now now
                       (i64_of_u64 (if q_deadline_after_nanos q > 3600000000000 then 3600000000000
                                    else q_deadline_after_nanos q))
                else q_deadline q)
      in case e_slo e of
           Some k \<Rightarrow>
             if \<not> instant_is_set d1 \<and> slo_tail_latency_budget_nanos k > 0 \<and>
                r_registered_at_nanos (e_record e) > 0
             then instant_at (i64_add (r_registered_at_nanos (e_record e))
                                (i64_of_u64 (slo_tail_latency_budget_nanos k)))
             else d1
         | None \<Rightarrow> d1)"

definition check_deadline ::
  "i64 \<Rightarrow> TrafficRequest \<Rightarrow> Coordinator \<Rightarrow> Eval \<Rightarrow> refusal + Eval" where
  "check_deadline now q c e0 =
     (let e = e0\<lparr> e_deadline := effective_deadline now q e0 \<rparr>
      in if instant_is_set (e_deadline e) \<and> instant_expired_at (e_deadline e) now
         then Inl (RC_RejectedDeadlineExpired, e_effective e,
                   log_rule ER_Deadline (e_deadline e) now (e_log e))
         else if pr_requires_deadline (eval_rule c e) \<and> \<not> instant_is_set (e_deadline e)
         then Inr (degrade RC_DegradedMissingSloContract
                (e\<lparr> e_log := log_rule ER_Deadline 0 1 (e_log e) \<rparr>))
         else Inr e)"

definition request_subject :: "TrafficRequest \<Rightarrow> TrafficSubject" where
  "request_subject q = (case q_subject q of Some s \<Rightarrow> s | None \<Rightarrow> TrafficSubject_init)"

definition evaluate_checks :: "i64 \<Rightarrow> TrafficRequest \<Rightarrow> Coordinator \<Rightarrow> refusal + Eval" where
  "evaluate_checks now q c =
     (let s = request_subject q in
      and_then (check_binding q c (Eval_init c)) (\<lambda>e.
      and_then (resolve_subject q s c e) (\<lambda>e.
      and_then (classify q c e) (\<lambda>e.
      and_then (check_enabled c e) (\<lambda>e.
      and_then (check_topology now q c e) (\<lambda>e.
      and_then (check_slo q s c e) (\<lambda>e.
      and_then (check_route q s c e) (\<lambda>e.
      and_then (check_model q c e) (\<lambda>e.
      check_deadline now q c e)))))))))"

section \<open>Capacity, deferral and treatment\<close>

fun ph_index :: "PriorityHint \<Rightarrow> nat" where
  "ph_index PH_None = 0"
| "ph_index PH_LatencyCritical = 1"
| "ph_index PH_Interactive = 2"
| "ph_index PH_Batch = 3"
| "ph_index PH_Background = 4"
| "ph_index PH_Count = 5"

definition defer_reason :: "TrafficRequest \<Rightarrow> Coordinator \<Rightarrow> Eval \<Rightarrow> ReasonCode" where
  "defer_reason q c e =
     (let rule = eval_rule c e;
          congested = (e_evidence e = EV_Current \<and> c_topology_present c \<and>
                       te_congestion_signalled (c_topology c))
      in if pr_yields_to_latency rule
         then (if congested \<and> p_congestion_yields_bulk (c_policy c) then RC_DeferredCongestion
               else if streaming_pressure c then RC_DeferredBulkYield
               else if p_bulk_in_flight_cap_bytes (c_policy c) > 0 \<and> q_payload_bytes q > 0 \<and>
                       c_bulk_in_flight_bytes c + q_payload_bytes q >
                         p_bulk_in_flight_cap_bytes (c_policy c)
               then RC_DeferredBulkCapacity
               else RC_Unknown)
         else if congested \<and> te_queue_depth (c_topology c) \<ge> p_congestion_queue_depth (c_policy c) \<and>
                 pr_reserved_weight rule = 0
         then RC_DeferredCongestion
         else RC_Unknown)"

definition defer_exhausted ::
  "TrafficSubject \<Rightarrow> i64 \<Rightarrow> u32 \<Rightarrow> Eval \<Rightarrow> Coordinator \<Rightarrow> (i64 \<times> bool) option" where
  "defer_exhausted s now count e c =
     (let rule = eval_rule c e in
      if \<not> pr_starvation_protected rule then None
      else (let first = (case map_of (c_defers c) (defer_key s (e_effective e)) of
                           Some d \<Rightarrow> dr_first_defer_nanos d
                         | None \<Rightarrow> now);
                count_exhausted = (pr_max_defer_count rule > 0 \<and> count \<ge> pr_max_defer_count rule);
                time_exhausted = (pr_max_defer_horizon_nanos rule > 0 \<and> now > first \<and>
                                  u64_of_i64 (now - first) \<ge> pr_max_defer_horizon_nanos rule)
            in Some (first, count_exhausted \<or> time_exhausted)))"

definition deferred_decision ::
  "i64 \<Rightarrow> u32 \<Rightarrow> ReasonCode \<Rightarrow> TrafficRequest \<Rightarrow> TrafficSubject \<Rightarrow> Eval \<Rightarrow> Coordinator \<Rightarrow>
   Decision \<times> Coordinator" where
  "deferred_decision now count reason q s e c =
     (let rule = eval_rule c e in
      case build_decision DO_Deferred reason (e_effective e) (e_log e) q s c of
        (d, c1) \<Rightarrow>
          (d\<lparr> d_defer_hint_nanos := p_defer_hint_nanos (c_policy c1),
              d_treatment := (d_treatment d)
                \<lparr> tt_traffic_class := e_effective e, tt_priority := pr_priority rule,
                  tt_pacing := pr_pacing rule, tt_integrity := pr_integrity rule,
                  tt_isolation := pr_isolation rule,
                  tt_hold_until := instant_from_now now
                    (i64_of_u64 (p_defer_hint_nanos (c_policy c1))),
                  tt_defer_count := count \<rparr> \<rparr>, c1))"

definition assign_treatment ::
  "TrafficRequest \<Rightarrow> ClassPolicyRule \<Rightarrow> Eval \<Rightarrow> TrafficTreatment \<times> Eval" where
  "assign_treatment q rule e =
     (let t1 = TrafficTreatment_init
            \<lparr> tt_traffic_class := e_effective e, tt_priority := pr_priority rule,
              tt_pacing := pr_pacing rule, tt_integrity := pr_integrity rule,
              tt_isolation := pr_isolation rule, tt_reserved_weight := pr_reserved_weight rule,
              tt_max_burst_bytes := pr_max_burst_bytes rule,
              tt_rate_limit_bytes_per_sec := pr_rate_limit_bytes_per_sec rule \<rparr>;
          t2 = (case e_transfer e of
                  Some t \<Rightarrow> t1\<lparr> tt_integrity :=
                                 max_integrity (pr_integrity rule) (tr_required_integrity t) \<rparr>
                | None \<Rightarrow> t1);
          t3 = (if e_degraded e \<and> e_degrade_reason e = RC_DegradedMissingSloContract
                then t2\<lparr> tt_pacing := PA_BestEffort, tt_reserved_weight := 0 \<rparr> else t2);
          lowered = (q_priority_hint q = PH_Background \<and>
                     pc_index (tt_priority t3) < pc_index PC_Background);
          t4 = (if lowered then t3\<lparr> tt_priority := PC_Background \<rparr> else t3);
          e1 = (if lowered \<and> \<not> e_degraded e then degrade RC_DegradedPriorityLowered e else e);
          e2 = (if lowered
                then e1\<lparr> e_log := log_rule ER_PolicyRule (int (ph_index PH_Background)) 1 (e_log e1) \<rparr>
                else e1);
          t5 = (if e_degraded e2 \<and> e_degrade_reason e2 = RC_AdmittedConservative
                then t4\<lparr> tt_pacing := PA_BestEffort, tt_reserved_weight := 0,
                         tt_isolation := ID_Background \<rparr> else t4)
      in (t5, e2))"

definition admit_decision ::
  "bool \<Rightarrow> TrafficRequest \<Rightarrow> TrafficSubject \<Rightarrow> Eval \<Rightarrow> Coordinator \<Rightarrow> Decision \<times> Coordinator" where
  "admit_decision admitted_by_guard q s e c =
     (case assign_treatment q (eval_rule c e) e of
        (treatment, e1) \<Rightarrow>
          let outcome = (if admitted_by_guard then DO_Allowed
                         else if e_degraded e1 then DO_Degraded else DO_Allowed);
              reason = (if admitted_by_guard then RC_AdmittedStarvationGuard
                        else if e_degraded e1 then e_degrade_reason e1 else RC_Admitted)
          in (case build_decision outcome reason (e_effective e1) (e_log e1) q s c of
                (d, c1) \<Rightarrow> (d\<lparr> d_treatment := treatment \<rparr>, c1)))"

definition evaluate_capacity ::
  "i64 \<Rightarrow> TrafficRequest \<Rightarrow> TrafficSubject \<Rightarrow> Eval \<Rightarrow> Coordinator \<Rightarrow> Decision \<times> Coordinator" where
  "evaluate_capacity now q s e c =
     (let reason = defer_reason q c e in
      if reason = RC_Unknown
      then admit_decision False q s e (clear_defer s (e_effective e) c)
      else (case note_defer s (e_effective e) now c of
        (count, c1) \<Rightarrow>
          let e1 = e\<lparr> e_log := log_rule ER_DeferState (int (unat count)) (int (rc_value reason))
                                (e_log e) \<rparr>
          in (case defer_exhausted s now count e1 c1 of
                Some (first, True) \<Rightarrow>
                  admit_decision True q s
                    (e1\<lparr> e_log := log_rule ER_StarvationGuard (int (unat count)) (now - first)
                                    (e_log e1) \<rparr>)
                    (clear_defer s (e_effective e1) c1)
              | _ \<Rightarrow> deferred_decision now count reason q s e1 c1)))"

definition evaluate :: "i64 \<Rightarrow> TrafficRequest \<Rightarrow> Coordinator \<Rightarrow> Decision \<times> Coordinator" where
  "evaluate now q c =
     (case evaluate_checks now q c of
        Inl (reason, traffic, log) \<Rightarrow>
          build_decision DO_Rejected reason traffic log q (request_subject q) c
      | Inr e \<Rightarrow> evaluate_capacity now q (request_subject q) e c)"

end
