(* ===== verification/Flows.thy ===== *)
theory Flows
  imports Evaluate
begin

text \<open>
  Decision validation, flows and transfers of the coordinator, the operations it forwards to
  the ledger, and its inspection surface (\<open>src/coordinator.cpp\<close>).
\<close>

unbundle bit_operations_syntax

section \<open>Decision validation\<close>

definition validate_serving :: "Decision \<Rightarrow> Coordinator \<Rightarrow> StatusCode" where
  "validate_serving d c =
     (case snapshot_request (c_ledger c) (sub_request (d_subject d)) of
        None \<Rightarrow> ST_NotFound
      | Some r \<Rightarrow>
          if r_lifecycle r = RL_Cancelled then ST_Cancelled
          else if r_requires_revalidation r then ST_RevalidationRequired
          else if rl_terminal (r_lifecycle r) then ST_Conflict
          else if \<not> is_current_attempt r (sub_attempt (d_subject d)) then ST_StaleGeneration
          else if \<not> is_unset (r_authority_floor r) \<and>
                  au_sequence (d_authority d) \<le> r_authority_floor r
          then ST_StaleAuthority
          else ST_Ok)"

definition validate_transfer :: "Decision \<Rightarrow> Coordinator \<Rightarrow> StatusCode" where
  "validate_transfer d c =
     (case map_of (c_transfers c) (sub_transfer (d_subject d)) of
        None \<Rightarrow> ST_NotFound
      | Some t \<Rightarrow>
          if ts_terminal (tr_state t) then ST_Conflict
          else (let model = (if tr_model_hash t \<noteq> 0
                             then (case require_model_generation (tr_model_hash t) c of
                                     Inl code \<Rightarrow> code
                                   | Inr g \<Rightarrow> if g \<noteq> tr_model_generation t then ST_StaleGeneration
                                              else ST_Ok)
                             else ST_Ok)
                in if model \<noteq> ST_Ok then model
                   else (case require_state_generation (tr_state_hash t) c of
                           Inl code \<Rightarrow> code
                         | Inr g \<Rightarrow> if g \<noteq> tr_state_generation t then ST_StaleGeneration
                                    else ST_Ok)))"

definition validate_decision :: "Decision \<Rightarrow> Coordinator \<Rightarrow> StatusCode" where
  "validate_decision d c =
     (case validate_authority (d_authority d) (c_epoch c) (c_incarnation c)
             (p_generation (c_policy c)) of
        AV_Current \<Rightarrow>
          if \<not> permits_traffic d then ST_Refused
          else if sub_kind (d_subject d) = SK_Serving then validate_serving d c
          else if sub_kind (d_subject d) = SK_Transfer then validate_transfer d c
          else ST_Ok
      | AV_StaleEpoch \<Rightarrow> ST_StaleEpoch
      | AV_StalePolicy \<Rightarrow> ST_StaleGeneration
      | AV_StaleIncarnation \<Rightarrow> ST_StaleEpoch
      | AV_Absent \<Rightarrow> ST_StaleAuthority
      | AV_Unknown \<Rightarrow> ST_StaleAuthority
      | AV_Count \<Rightarrow> ST_StaleAuthority)"

section \<open>Opening and releasing flows\<close>

definition transfer_flow_mix :: "StateTransferId \<Rightarrow> u64" where
  "transfer_flow_mix t = mix64 (low t XOR (high t + 0xA24BAED4963EE407))"

text \<open>Entering an opened flow in the coordinator's tables: the tail of \<open>open_flow_locked\<close>.\<close>

definition index_flow :: "CoordFlow \<Rightarrow> Coordinator \<Rightarrow> Coordinator" where
  "index_flow f c =
     c\<lparr> c_flows := um_emplace (cf_id f) f (c_flows c),
        c_flows_by_request :=
          (if \<not> is_nil (cf_request f) then (cf_request f, cf_id f) # c_flows_by_request c
           else c_flows_by_request c),
        c_flows_by_transfer :=
          (if \<not> is_nil (cf_transfer f) then (cf_transfer f, cf_id f) # c_flows_by_transfer c
           else c_flows_by_transfer c),
        c_bulk_in_flight_bytes :=
          (if cf_bulk f then c_bulk_in_flight_bytes c + cf_declared_bytes f
           else c_bulk_in_flight_bytes c) \<rparr>"

definition open_flow ::
  "Decision \<Rightarrow> u64 \<Rightarrow> i64 \<Rightarrow> Coordinator \<Rightarrow> FlowId result \<times> Coordinator" where
  "open_flow d declared_bytes now c =
     (let verdict = validate_decision d c in
      if verdict \<noteq> ST_Ok then (Inl verdict, c)
      else if declared_bytes > cl_max_single_payload_bytes (cc_limits (c_config c))
      then (Inl ST_BoundsExceeded, c)
      else (let traffic = tt_traffic_class (d_treatment d);
                bulk = pr_yields_to_latency (policy_rule (c_policy c) traffic);
                s = d_subject d;
                flow = \<lparr> cf_id = nil_id, cf_request = nil_id, cf_attempt = nil_id,
                         cf_transfer = nil_id, cf_traffic = traffic,
                         cf_declared_bytes = declared_bytes, cf_observed_bytes = 0,
                         cf_sequence = au_sequence (d_authority d), cf_bulk = bulk \<rparr>
            in if bulk \<and> p_bulk_in_flight_cap_bytes (c_policy c) > 0 \<and>
                  c_bulk_in_flight_bytes c + declared_bytes > p_bulk_in_flight_cap_bytes (c_policy c)
               then (Inl ST_CapacityExhausted, c)
               else if sub_kind s = SK_Serving
               then (case ledger_open_flow (sub_request s) (sub_attempt s) traffic declared_bytes now
                            (c_ledger c) of
                       (Inl code, l) \<Rightarrow> (Inl code, c\<lparr> c_ledger := l \<rparr>)
                     | (Inr fid, l) \<Rightarrow>
                         (Inr fid,
                          index_flow
                            (flow\<lparr> cf_id := fid, cf_request := sub_request s,
                                   cf_attempt := sub_attempt s \<rparr>)
                            (c\<lparr> c_ledger := l \<rparr>)))
               else (case map_of (c_transfers c) (sub_transfer s) of
                       None \<Rightarrow> (Inl ST_NotFound, c)
                     | Some t \<Rightarrow>
                         if \<not> is_nil (tr_flow t) then (Inr (tr_flow t), c)
                         else (let sequence = c_next_flow_sequence c + 1;
                                   fid = Id128 sequence (transfer_flow_mix (sub_transfer s));
                                   c1 = c\<lparr> c_next_flow_sequence := sequence,
                                           c_transfers := um_put (sub_transfer s)
                                             (t\<lparr> tr_flow := fid \<rparr>) (c_transfers c) \<rparr>
                               in (Inr fid,
                                   index_flow
                                     (flow\<lparr> cf_id := fid, cf_transfer := sub_transfer s \<rparr>) c1)))))"

definition release_flow_record :: "CoordFlow \<Rightarrow> Coordinator \<Rightarrow> Coordinator" where
  "release_flow_record f c =
     (let c1 = (if cf_bulk f
                then c\<lparr> c_bulk_in_flight_bytes :=
                         (if c_bulk_in_flight_bytes c \<ge> cf_declared_bytes f
                          then c_bulk_in_flight_bytes c - cf_declared_bytes f else 0) \<rparr>
                else c);
          c2 = c1\<lparr> c_flows := um_erase (cf_id f) (c_flows c1) \<rparr>;
          c3 = (if \<not> is_nil (cf_request f)
                then c2\<lparr> c_flows_by_request :=
                           remove1 (cf_request f, cf_id f) (c_flows_by_request c2),
                         c_ledger := snd (ledger_release_flow (cf_id f) (c_ledger c2)) \<rparr>
                else c2)
      in if \<not> is_nil (cf_transfer f)
         then (let c4 = c3\<lparr> c_flows_by_transfer :=
                              remove1 (cf_transfer f, cf_id f) (c_flows_by_transfer c3) \<rparr>
               in case map_of (c_transfers c4) (cf_transfer f) of
                    Some t \<Rightarrow>
                      if tr_flow t = cf_id f
                      then c4\<lparr> c_transfers := um_put (cf_transfer f) (t\<lparr> tr_flow := nil_id \<rparr>)
                                                (c_transfers c4) \<rparr>
                      else c4
                  | None \<Rightarrow> c4)
         else c3)"

text \<open>The loop over a vector of victims, shared by the two bulk releases.\<close>

fun release_victims :: "FlowId list \<Rightarrow> Coordinator \<Rightarrow> Coordinator" where
  "release_victims [] c = c"
| "release_victims (fid # rest) c =
     (case map_of (c_flows c) fid of
        None \<Rightarrow> release_victims rest c
      | Some f \<Rightarrow> release_victims rest (release_flow_record f c))"

text \<open>The loop over the transfers a request owns, collecting victims and abandoning.\<close>

fun abandon_owned ::
  "StateTransferId list \<Rightarrow> (StateTransferId, TransferRecord) umap \<Rightarrow> FlowId list \<Rightarrow>
   (StateTransferId, TransferRecord) umap \<times> FlowId list" where
  "abandon_owned [] transfers victims = (transfers, victims)"
| "abandon_owned (tid # rest) transfers victims =
     (case map_of transfers tid of
        None \<Rightarrow> abandon_owned rest transfers victims
      | Some t \<Rightarrow>
          abandon_owned rest
            (if \<not> ts_terminal (tr_state t)
             then um_put tid (t\<lparr> tr_state := TS_Abandoned,
                                 tr_terminal_reason := RC_RejectedRequestTerminal \<rparr>) transfers
             else transfers)
            (if \<not> is_nil (tr_flow t) then victims @ [tr_flow t] else victims))"

definition coord_release_request_flows :: "RequestId \<Rightarrow> Coordinator \<Rightarrow> Coordinator" where
  "coord_release_request_flows rid c =
     (if is_nil rid then c
      else (case abandon_owned (mm_range rid (c_transfers_by_request c)) (c_transfers c)
                   (mm_range rid (c_flows_by_request c)) of
              (transfers, victims) \<Rightarrow> release_victims victims (c\<lparr> c_transfers := transfers \<rparr>)))"

definition release_transfer_flows :: "StateTransferId \<Rightarrow> Coordinator \<Rightarrow> Coordinator" where
  "release_transfer_flows tid c =
     (if is_nil tid then c else release_victims (mm_range tid (c_flows_by_transfer c)) c)"

definition release_flow :: "FlowId \<Rightarrow> Coordinator \<Rightarrow> StatusCode \<times> Coordinator" where
  "release_flow fid c =
     (case map_of (c_flows c) fid of
        None \<Rightarrow> (ST_NotFound, c)
      | Some f \<Rightarrow> (ST_Ok, release_flow_record f c))"

definition record_flow_bytes ::
  "FlowId \<Rightarrow> u64 \<Rightarrow> bool \<Rightarrow> Coordinator \<Rightarrow> StatusCode \<times> Coordinator" where
  "record_flow_bytes fid bytes inbound c =
     (case map_of (c_flows c) fid of
        None \<Rightarrow> (ST_NotFound, c)
      | Some f \<Rightarrow>
          (case checked_add (cf_observed_bytes f) bytes of
             None \<Rightarrow> (ST_BoundsExceeded, c)
           | Some updated \<Rightarrow>
               let c1 = c\<lparr> c_flows := um_put fid (f\<lparr> cf_observed_bytes := updated \<rparr>) (c_flows c) \<rparr>
               in if \<not> is_nil (cf_request f)
                  then (case ledger_record_flow_bytes fid bytes inbound (c_ledger c1) of
                          (status, l) \<Rightarrow> (status, c1\<lparr> c_ledger := l \<rparr>))
                  else (ST_Ok, c1)))"

section \<open>Requests and attempts\<close>

definition with_ledger :: "Coordinator \<Rightarrow> 'a \<times> Ledger \<Rightarrow> 'a \<times> Coordinator" where
  "with_ledger c outcome = (fst outcome, c\<lparr> c_ledger := snd outcome \<rparr>)"

definition register_request :: "RequestId \<Rightarrow> i64 \<Rightarrow> Coordinator \<Rightarrow> generation result \<times> Coordinator" where
  "register_request rid now c = with_ledger c (ledger_register_request rid now (c_ledger c))"

definition register_attempt ::
  "RequestId \<Rightarrow> AttemptId \<Rightarrow> u64 \<Rightarrow> i64 \<Rightarrow> Coordinator \<Rightarrow> generation result \<times> Coordinator" where
  "register_attempt rid attempt model_hash now c =
     (case (if model_hash \<noteq> 0 then require_model_generation model_hash c else Inr 0) of
        Inl code \<Rightarrow> (Inl code, c)
      | Inr model_generation \<Rightarrow>
          with_ledger c
            (ledger_register_attempt rid attempt model_hash model_generation 0 now (c_ledger c)))"

definition revalidate_request ::
  "RequestId \<Rightarrow> AttemptId \<Rightarrow> i64 \<Rightarrow> Coordinator \<Rightarrow> generation result \<times> Coordinator" where
  "revalidate_request rid attempt now c =
     with_ledger c (ledger_revalidate_request rid attempt now (c_ledger c))"

definition advance_stage ::
  "RequestId \<Rightarrow> AttemptId \<Rightarrow> ServingStage \<Rightarrow> i64 \<Rightarrow> Coordinator \<Rightarrow> StatusCode \<times> Coordinator" where
  "advance_stage rid attempt target now c =
     with_ledger c (ledger_advance_stage rid attempt target now (c_ledger c))"

definition cancel_request ::
  "RequestId \<Rightarrow> ReasonCode \<Rightarrow> i64 \<Rightarrow> Coordinator \<Rightarrow> StatusCode \<times> Coordinator" where
  "cancel_request rid reason now c =
     (let sequence = gen_succ (c_authority_sequence c);
          c1 = c\<lparr> c_authority_sequence := sequence \<rparr>
      in (case with_ledger c1 (ledger_cancel_request rid reason sequence now (c_ledger c1)) of
            (status, c2) \<Rightarrow>
              (status, if status = ST_Ok then coord_release_request_flows rid c2 else c2)))"

text \<open>\<open>None\<close> is the dangling read of \<open>RequestLedger::fail_attempt\<close>.\<close>

definition fail_attempt ::
  "RequestId \<Rightarrow> AttemptId \<Rightarrow> ReasonCode \<Rightarrow> i64 \<Rightarrow> Coordinator \<Rightarrow>
   generation result option \<times> Coordinator" where
  "fail_attempt rid attempt reason now c =
     (case with_ledger c (ledger_fail_attempt rid attempt reason now (c_ledger c)) of
        (Some (Inr g), c1) \<Rightarrow> (Some (Inr g), coord_release_request_flows rid c1)
      | (other, c1) \<Rightarrow> (other, c1))"

definition replace_attempt ::
  "RequestId \<Rightarrow> AttemptId \<Rightarrow> AttemptId \<Rightarrow> u64 \<Rightarrow> i64 \<Rightarrow> Coordinator \<Rightarrow>
   generation result \<times> Coordinator" where
  "replace_attempt rid superseded replacement model_hash now c =
     (case (if model_hash \<noteq> 0 then require_model_generation model_hash c else Inr 0) of
        Inl code \<Rightarrow> (Inl code, c)
      | Inr model_generation \<Rightarrow>
          (case with_ledger c
                  (ledger_supersede_attempt rid superseded replacement now (c_ledger c)) of
             (Inl code, c1) \<Rightarrow> (Inl code, c1)
           | (Inr g, c1) \<Rightarrow>
               let c2 = coord_release_request_flows rid c1;
                   c3 = snd (with_ledger c2
                          (set_attempt_model rid replacement model_hash model_generation (c_ledger c2)))
               in (Inr g, c3\<lparr> c_route_decisions := um_erase superseded (c_route_decisions c3) \<rparr>)))"

section \<open>Transfers\<close>

definition register_transfer ::
  "TransferRegistration \<Rightarrow> i64 \<Rightarrow> Coordinator \<Rightarrow> StateTransferId result \<times> Coordinator" where
  "register_transfer g now c =
     (if is_nil (tg_id g) then (Inl ST_InvalidArgument, c)
      else if \<not> is_transfer_class (tg_declared_class g) then (Inl ST_InvalidArgument, c)
      else if tg_payload_bytes g > cl_max_single_payload_bytes (cc_limits (c_config c))
      then (Inl ST_BoundsExceeded, c)
      else if map_of (c_transfers c) (tg_id g) \<noteq> None then (Inl ST_AlreadyExists, c)
      else if length (c_transfers c) \<ge> unat (cl_max_transfer_records (cc_limits (c_config c)))
      then (Inl ST_CapacityExhausted, c)
      else (case require_model_generation (tg_model_hash g) c of
        Inl code \<Rightarrow> (Inl code, c)
      | Inr model \<Rightarrow>
          (case require_state_generation (tg_state_hash g) c of
             Inl code \<Rightarrow> (Inl code, c)
           | Inr state \<Rightarrow>
               if \<not> is_nil (tg_request g) \<and> is_cancelled (c_ledger c) (tg_request g)
               then (Inl ST_Cancelled, c)
               else (let t = TransferRecord_init
                       \<lparr> tr_id := tg_id g, tr_state_hash := tg_state_hash g,
                         tr_model_hash := tg_model_hash g, tr_payload_bytes := tg_payload_bytes g,
                         tr_model_generation := model, tr_state_generation := state,
                         tr_request := tg_request g, tr_attempt := tg_attempt g,
                         tr_declared_class := tg_declared_class g, tr_direction := tg_direction g,
                         tr_required_integrity := tg_required_integrity g,
                         tr_state := TS_Registered, tr_deadline := tg_deadline g,
                         tr_registered_at := instant_at now \<rparr>
                     in (Inr (tr_id t),
                         c\<lparr> c_transfers := um_emplace (tr_id t) t (c_transfers c),
                            c_transfers_by_request :=
                              (if \<not> is_nil (tr_request t)
                               then (tr_request t, tr_id t) # c_transfers_by_request c
                               else c_transfers_by_request c) \<rparr>)))))"

text \<open>Ending a transfer: state and reason written, flows released, the refusal counted.\<close>

definition finish_transfer ::
  "StateTransferId \<Rightarrow> TransferRecord \<Rightarrow> TransferState \<Rightarrow> ReasonCode \<Rightarrow> Coordinator \<Rightarrow> Coordinator" where
  "finish_transfer tid t state reason c =
     release_transfer_flows tid
       (c\<lparr> c_transfers := um_put tid (t\<lparr> tr_state := state, tr_terminal_reason := reason \<rparr>)
                            (c_transfers c) \<rparr>)"

definition count_refused :: "Coordinator \<Rightarrow> Coordinator" where
  "count_refused c = c\<lparr> c_transfers_refused := c_transfers_refused c + 1 \<rparr>"

definition authorize_transfer ::
  "TrafficRequest \<Rightarrow> i64 \<Rightarrow> Coordinator \<Rightarrow> TransferAuthorization result \<times> Coordinator" where
  "authorize_transfer q now c =
     (if q_subject q = None \<or> sub_kind (request_subject q) \<noteq> SK_Transfer
      then (Inl ST_InvalidArgument, c)
      else (let s = request_subject q in
        case evaluate now q c of
          (d, c1) \<Rightarrow>
            let auth = \<lparr> ta_transfer = sub_transfer s,
                         ta_traffic_class = tt_traffic_class (d_treatment d),
                         ta_integrity = tt_integrity (d_treatment d),
                         ta_pacing = tt_pacing (d_treatment d),
                         ta_priority = tt_priority (d_treatment d),
                         ta_authority = d_authority d, ta_reason = d_reason d,
                         ta_authorized = permits_traffic d, ta_flow = nil_id \<rparr>
            in if \<not> ta_authorized auth
               then (Inr auth,
                     count_refused
                       (case map_of (c_transfers c1) (sub_transfer s) of
                          Some t \<Rightarrow> finish_transfer (sub_transfer s) t TS_Refused (d_reason d) c1
                        | None \<Rightarrow> c1))
               else (case map_of (c_transfers c1) (sub_transfer s) of
                 None \<Rightarrow> (Inl ST_NotFound, c1)
               | Some t \<Rightarrow>
                   (case open_flow d (tr_payload_bytes t) now c1 of
                      (Inl code, c2) \<Rightarrow>
                        (Inr (auth\<lparr> ta_authorized := False, ta_reason := RC_RejectedFlowLimit \<rparr>),
                         count_refused
                           (c2\<lparr> c_transfers := um_put (sub_transfer s)
                                  (t\<lparr> tr_state := TS_Refused,
                                      tr_terminal_reason := RC_RejectedFlowLimit \<rparr>)
                                  (c_transfers c2) \<rparr>))
                    | (Inr fid, c2) \<Rightarrow>
                        (Inr (auth\<lparr> ta_flow := fid \<rparr>),
                         c2\<lparr> c_transfers := um_put (sub_transfer s)
                               (t\<lparr> tr_state := TS_Authorized, tr_flow := fid \<rparr>) (c_transfers c2),
                             c_transfers_started := c_transfers_started c2 + 1 \<rparr>)))))"

definition start_transfer ::
  "StateTransferId \<Rightarrow> TransferAuthorization \<Rightarrow> Coordinator \<Rightarrow> StatusCode \<times> Coordinator" where
  "start_transfer tid auth c =
     (case map_of (c_transfers c) tid of
        None \<Rightarrow> (ST_NotFound, c)
      | Some t \<Rightarrow>
          if ta_transfer auth \<noteq> tid then (ST_InvalidArgument, c)
          else if \<not> ta_authorized auth then (ST_NotAuthorized, c)
          else if tr_state t = TS_InProgress then (ST_Ok, c)
          else if tr_state t \<noteq> TS_Authorized then (ST_Conflict, c)
          else (ST_Ok, c\<lparr> c_transfers :=
                  um_put tid (t\<lparr> tr_state := TS_InProgress \<rparr>) (c_transfers c) \<rparr>))"

definition complete_transfer ::
  "StateTransferId \<Rightarrow> u64 \<Rightarrow> Coordinator \<Rightarrow> StatusCode \<times> Coordinator" where
  "complete_transfer tid verified_bytes c =
     (case map_of (c_transfers c) tid of
        None \<Rightarrow> (ST_NotFound, c)
      | Some t \<Rightarrow>
          if tr_state t \<noteq> TS_Authorized \<and> tr_state t \<noteq> TS_InProgress then (ST_Conflict, c)
          else if tr_required_integrity t = IC_ChecksumAndVerify \<and>
                  verified_bytes \<noteq> tr_payload_bytes t
          then (ST_IntegrityMismatch,
                count_refused (finish_transfer tid t TS_Refused RC_RejectedIntegrityUnavailable c))
          else if verified_bytes > tr_payload_bytes t
          then (ST_IntegrityMismatch,
                count_refused (finish_transfer tid t TS_Refused RC_RejectedIntegrityUnavailable c))
          else (let c1 = finish_transfer tid (t\<lparr> tr_verified_bytes := verified_bytes \<rparr>)
                           TS_Completed RC_CommittedCompletion c
                in (ST_Ok, c1\<lparr> c_transfers_completed := c_transfers_completed c1 + 1 \<rparr>)))"

definition abandon_transfer ::
  "StateTransferId \<Rightarrow> ReasonCode \<Rightarrow> Coordinator \<Rightarrow> StatusCode \<times> Coordinator" where
  "abandon_transfer tid reason c =
     (case map_of (c_transfers c) tid of
        None \<Rightarrow> (ST_NotFound, c)
      | Some t \<Rightarrow>
          if tr_state t = TS_Completed then (ST_Conflict, c)
          else (ST_Ok, count_refused (finish_transfer tid t TS_Abandoned reason c)))"

section \<open>Completion publication\<close>

fun trim_completions ::
  "nat \<Rightarrow> RequestId list \<Rightarrow> (RequestId, PublishOutcome) umap \<Rightarrow>
   RequestId list \<times> (RequestId, PublishOutcome) umap" where
  "trim_completions limit [] completions = ([], completions)"
| "trim_completions limit (victim # order) completions =
     (if length (victim # order) > limit
      then trim_completions limit order (um_erase victim completions)
      else (victim # order, completions))"

definition publish_completion ::
  "CompletionPublication \<Rightarrow> i64 \<Rightarrow> Coordinator \<Rightarrow> PublishOutcome result \<times> Coordinator" where
  "publish_completion p now c =
     (case with_ledger c (ledger_publish_completion p now (c_ledger c)) of
        (Inl code, c1) \<Rightarrow> (Inl code, c1)
      | (Inr value, c1) \<Rightarrow>
          if po_disposition value = DI_Committed
          then (let c2 = coord_release_request_flows (cp_request p) c1
                in (case trim_completions (unat (cc_max_retained_completion_records (c_config c2)))
                           (c_completion_order c2 @ [cp_request p])
                           (um_put (cp_request p) value (c_completions c2)) of
                      (order, completions) \<Rightarrow>
                        (Inr value, c2\<lparr> c_completion_order := order,
                                        c_completions := completions \<rparr>)))
          else (Inr (case map_of (c_completions c1) (cp_request p) of
                       Some existing \<Rightarrow>
                         if po_disposition value = DI_DuplicateSuppressed
                         then value\<lparr> po_accounted_bytes_in := po_accounted_bytes_in existing,
                                     po_accounted_bytes_out := po_accounted_bytes_out existing \<rparr>
                         else value
                     | None \<Rightarrow> value), c1))"

section \<open>Inspection\<close>

fun count_transfer_flows :: "(FlowId \<times> CoordFlow) list \<Rightarrow> u32 \<Rightarrow> u32" where
  "count_transfer_flows [] acc = acc"
| "count_transfer_flows (entry # rest) acc =
     count_transfer_flows rest (if is_nil (cf_request (snd entry)) then acc + 1 else acc)"

definition accounting_unlocked_active_flows :: "AccountingSnapshot \<Rightarrow> Coordinator \<Rightarrow> u32" where
  "accounting_unlocked_active_flows snapshot c =
     count_transfer_flows (c_flows c) (ac_active_flows_total snapshot)"

definition status :: "i64 \<Rightarrow> Coordinator \<Rightarrow> CoordinatorStatus" where
  "status now c =
     (let snapshot = l_accounting (c_ledger c)
      in \<lparr> cs_epoch = c_epoch c, cs_incarnation = c_incarnation c,
           cs_policy_generation = p_generation (c_policy c),
           cs_topology_generation = te_generation (c_topology c),
           cs_topology_state = topology_state now c,
           cs_topology_provenance =
             (if c_topology_present c then te_provenance (c_topology c) else EP_Unknown),
           cs_live_requests = ac_live_requests snapshot,
           cs_transfers = size_t (length (c_transfers c)),
           cs_active_flows = accounting_unlocked_active_flows snapshot c,
           cs_authority_sequence = c_authority_sequence c \<rparr>)"

definition add_class_accounting :: "ClassAccounting \<Rightarrow> ClassAccounting \<Rightarrow> ClassAccounting" where
  "add_class_accounting base extra =
     base\<lparr> ca_allowed := ca_allowed base + ca_allowed extra,
           ca_degraded := ca_degraded base + ca_degraded extra,
           ca_deferred := ca_deferred base + ca_deferred extra,
           ca_rejected := ca_rejected base + ca_rejected extra,
           ca_bytes_allowed := ca_bytes_allowed base + ca_bytes_allowed extra,
           ca_bytes_deferred := ca_bytes_deferred base + ca_bytes_deferred extra,
           ca_bytes_rejected := ca_bytes_rejected base + ca_bytes_rejected extra,
           ca_starvation_admissions :=
             ca_starvation_admissions base + ca_starvation_admissions extra \<rparr>"

fun account_transfer_flows ::
  "(FlowId \<times> CoordFlow) list \<Rightarrow> AccountingSnapshot \<Rightarrow> AccountingSnapshot" where
  "account_transfer_flows [] a = a"
| "account_transfer_flows (entry # rest) a =
     (if \<not> is_nil (cf_request (snd entry)) then account_transfer_flows rest a
      else (let index = tc_index (cf_traffic (snd entry));
                a1 = a\<lparr> ac_active_flows_total := ac_active_flows_total a + 1 \<rparr>
            in account_transfer_flows rest
                 (if index < kTrafficClassCount
                  then a1\<lparr> ac_per_class := (ac_per_class a1)
                         [index := ca_active_flows_update (\<lambda>n. n + 1) (ac_per_class a1 ! index)] \<rparr>
                  else a1)))"

definition accounting :: "Coordinator \<Rightarrow> AccountingSnapshot" where
  "accounting c =
     (let a = l_accounting (c_ledger c);
          a1 = a\<lparr> ac_per_class :=
                    map (\<lambda>index. add_class_accounting (ac_per_class a ! index)
                                  (c_transfer_class_accounting c ! index)) [0 ..< kTrafficClassCount] \<rparr>;
          a2 = account_transfer_flows (c_flows c) a1;
          a3 = (if ac_active_flows_total a2 > ac_peak_active_flows_total a2
                then a2\<lparr> ac_peak_active_flows_total := ac_active_flows_total a2 \<rparr> else a2)
      in a3\<lparr> ac_transfers_started := c_transfers_started c,
             ac_transfers_completed := c_transfers_completed c,
             ac_transfers_refused := c_transfers_refused c,
             ac_pending_deferrals := of_nat (length (c_defers c)) \<rparr>)"

text \<open>The checks of one iteration of the loop over \<open>flows_\<close> in \<open>verify_invariants\<close>.\<close>

definition flow_consistent :: "Coordinator \<Rightarrow> CoordFlow \<Rightarrow> bool" where
  "flow_consistent c f =
     (if is_nil (cf_request f) \<and> is_nil (cf_transfer f) then False
      else if \<not> is_nil (cf_request f)
      then (case snapshot_request (c_ledger c) (cf_request f) of
              None \<Rightarrow> False
            | Some r \<Rightarrow> r_lifecycle r \<noteq> RL_Cancelled)
      else (case map_of (c_transfers c) (cf_transfer f) of
              None \<Rightarrow> False
            | Some t \<Rightarrow>
                if ts_terminal (tr_state t) then False
                else if \<not> is_nil (tr_request t)
                then (case snapshot_request (c_ledger c) (tr_request t) of
                        Some r \<Rightarrow> \<not> rl_terminal (r_lifecycle r)
                      | None \<Rightarrow> True)
                else True))"

fun invariant_loop ::
  "(FlowId \<times> CoordFlow) list \<Rightarrow> Coordinator \<Rightarrow> u32 \<Rightarrow> u64 \<Rightarrow> (u32 \<times> u64) option" where
  "invariant_loop [] c serving_flows bulk_bytes = Some (serving_flows, bulk_bytes)"
| "invariant_loop (entry # rest) c serving_flows bulk_bytes =
     (if \<not> flow_consistent c (snd entry) then None
      else invariant_loop rest c
             (if \<not> is_nil (cf_request (snd entry)) then serving_flows + 1 else serving_flows)
             (if cf_bulk (snd entry) then bulk_bytes + cf_declared_bytes (snd entry)
              else bulk_bytes))"

fun count_starvation :: "(u64 \<times> DeferRecord) list \<Rightarrow> u32 \<Rightarrow> u32" where
  "count_starvation [] acc = acc"
| "count_starvation (entry # rest) acc =
     count_starvation rest (if dr_starvation_class (snd entry) then acc + 1 else acc)"

definition verify_invariants :: "Coordinator \<Rightarrow> StatusCode" where
  "verify_invariants c =
     (let closure = verify_closure (c_ledger c) in
      if closure \<noteq> ST_Ok then closure
      else (case invariant_loop (c_flows c) c 0 0 of
        None \<Rightarrow> ST_Internal
      | Some (serving_flows, bulk_bytes) \<Rightarrow>
          if serving_flows \<noteq> ac_active_flows_total (l_accounting (c_ledger c)) then ST_Internal
          else if bulk_bytes \<noteq> c_bulk_in_flight_bytes c then ST_Internal
          else if count_starvation (c_defers c) 0 \<noteq> c_streaming_deferrals c then ST_Internal
          else if length (c_defers c) > unat (cl_max_defer_records (cc_limits (c_config c)))
          then ST_Internal
          else if length (c_flows c) >
                  unat (ll_max_active_flows_total (cl_ledger (cc_limits (c_config c))))
          then ST_Internal
          else ST_Ok))"

definition export_state :: "Coordinator \<Rightarrow> PersistedCoordinatorState" where
  "export_state c =
     \<lparr> ps_format_version = kSnapshotFormatVersion, ps_epoch = c_epoch c,
       ps_previous_incarnation = c_incarnation c, ps_boot_count = c_boot_count c,
       ps_policy = c_policy c, ps_topology_present = c_topology_present c,
       ps_topology = c_topology c,
       ps_models = sort_key ms_model_hash (map snd (c_models c)),
       ps_states = sort_key sg_state_hash (map snd (c_states c)),
       ps_terminal_requests = export_terminal_records (c_ledger c)
         (unat (ll_max_retained_terminal_requests (cl_ledger (cc_limits (c_config c))))),
       ps_interrupted_requests = export_live_records (c_ledger c) \<rparr>"

end
