(* ===== verification/EvaluateProps.thy ===== *)
theory EvaluateProps
  imports Flows
begin

text \<open>
  Properties of decision evaluation: the outcome and the reason agree, every admission satisfies
  all fences, evaluation touches nothing but the authority sequence, the deferral records and
  the decision counters, treatments are never more generous than the rule, and a
  starvation-protected class is deferred a bounded number of times.
\<close>

section \<open>What a passed check establishes\<close>

named_theorems eval_checks \<open>definitions of the evaluation checks\<close>

lemma fence_Inr [simp]:
  "fence b g refuse e = Inr e' \<longleftrightarrow> e' = e \<and> (b = None \<or> b = Some g)"
  by (auto simp: fence_def split: option.split)

lemma fence_Inl: "fence b g refuse e = Inl x \<longleftrightarrow> (\<exists>h. b = Some h \<and> h \<noteq> g \<and> x = refuse h)"
  by (auto simp: fence_def split: option.split)

definition eval_ok :: "Eval \<Rightarrow> bool" where
  "eval_ok e \<longleftrightarrow>
     length (e_log e) \<le> kMaxExplanationSteps \<and>
     (e_degraded e \<longrightarrow> is_admission (e_degrade_reason e))"

definition check_ok :: "refusal + Eval \<Rightarrow> bool" where
  "check_ok m \<longleftrightarrow>
     (case m of
        Inl (reason, traffic, log) \<Rightarrow> is_rejection reason \<and> length log \<le> kMaxExplanationSteps
      | Inr e \<Rightarrow> eval_ok e)"

lemma log_rule_bound [simp]:
  "length log \<le> kMaxExplanationSteps \<Longrightarrow> length (log_rule r v w log) \<le> kMaxExplanationSteps"
  by (auto simp: log_add_def kMaxExplanationSteps_def)

lemma log_generations_bound [simp]:
  "length log \<le> kMaxExplanationSteps \<Longrightarrow>
   length (log_generations r g h log) \<le> kMaxExplanationSteps"
  by (simp add: log_generations_def)

lemma rejections [simp]:
  "is_rejection RC_RejectedSubjectKindMismatch" "is_rejection RC_RejectedStaleEpoch"
  "is_rejection RC_RejectedStalePolicyGeneration" "is_rejection RC_RejectedUnknownRequest"
  "is_rejection RC_RejectedRequestCancelled" "is_rejection RC_RejectedRevalidationRequired"
  "is_rejection RC_RejectedRequestTerminal" "is_rejection RC_RejectedUnknownAttempt"
  "is_rejection RC_RejectedStaleAttempt" "is_rejection RC_RejectedStaleRequestGeneration"
  "is_rejection RC_RejectedUnknownTransfer" "is_rejection RC_RejectedTransferAlreadyTerminal"
  "is_rejection RC_RejectedStaleModelGeneration" "is_rejection RC_RejectedStaleStateGeneration"
  "is_rejection RC_RejectedUnknownStage" "is_rejection RC_RejectedUnknownClass"
  "is_rejection RC_RejectedClassNotLegalForStage" "is_rejection RC_RejectedClassDisabled"
  "is_rejection RC_RejectedEvidenceUnknown" "is_rejection RC_RejectedEvidenceStale"
  "is_rejection RC_RejectedStaleTopologyGeneration" "is_rejection RC_RejectedStaleSloContract"
  "is_rejection RC_RejectedStaleRouteDecision" "is_rejection RC_RejectedDeadlineExpired"
  by (simp_all add: is_rejection_def)

lemma registry_refusal_rejection [simp]:
  "is_rejection stale \<Longrightarrow> is_rejection (registry_refusal stale code)"
  by (simp add: registry_refusal_def)

lemma degrade_ok [simp]:
  "is_admission reason \<Longrightarrow> eval_ok (degrade reason e) \<longleftrightarrow> length (e_log e) \<le> kMaxExplanationSteps"
  by (simp add: eval_ok_def degrade_def)

lemma degrade_fields [simp]:
  "e_log (degrade reason e) = e_log e" "e_serving (degrade reason e) = e_serving e"
  "e_record (degrade reason e) = e_record e" "e_transfer (degrade reason e) = e_transfer e"
  "e_stage (degrade reason e) = e_stage e" "e_attempt (degrade reason e) = e_attempt e"
  "e_effective (degrade reason e) = e_effective e" "e_evidence (degrade reason e) = e_evidence e"
  "e_slo (degrade reason e) = e_slo e" "e_deadline (degrade reason e) = e_deadline e"
  "e_degraded (degrade reason e)" "e_degrade_reason (degrade reason e) = reason"
  by (simp_all add: degrade_def)

lemma admissions [simp]:
  "is_admission RC_AdmittedConservative" "is_admission RC_DegradedStageClaimOverridden"
  "is_admission RC_DegradedClassRederived" "is_admission RC_DegradedStaleTopology"
  "is_admission RC_DegradedMissingSloContract" "is_admission RC_DegradedPriorityLowered"
  "is_admission RC_Admitted" "is_admission RC_AdmittedStarvationGuard"
  by (simp_all add: is_admission_def)

lemma check_ok_simps [simp]:
  "check_ok (Inl (reason, traffic, log)) \<longleftrightarrow>
     is_rejection reason \<and> length log \<le> kMaxExplanationSteps"
  "check_ok (Inr e) \<longleftrightarrow> eval_ok e"
  by (simp_all add: check_ok_def)

lemma check_ok_and_then [intro]:
  "check_ok m \<Longrightarrow> (\<And>e. eval_ok e \<Longrightarrow> check_ok (f e)) \<Longrightarrow> check_ok (and_then m f)"
  by (cases m) auto

lemma check_ok_fence:
  "eval_ok e \<Longrightarrow> (\<And>g. check_ok (Inl (refuse g))) \<Longrightarrow> check_ok (fence b g refuse e)"
  by (simp add: fence_def split: option.split)

lemma eval_ok_log: "eval_ok e \<Longrightarrow> length (e_log e) \<le> kMaxExplanationSteps"
  by (simp add: eval_ok_def)

lemma eval_ok_update [simp]:
  "eval_ok (e\<lparr> e_evidence := x1 \<rparr>) = eval_ok e" "eval_ok (e\<lparr> e_slo := x2 \<rparr>) = eval_ok e"
  "eval_ok (e\<lparr> e_deadline := x3 \<rparr>) = eval_ok e" "eval_ok (e\<lparr> e_effective := x4 \<rparr>) = eval_ok e"
  "eval_ok (e\<lparr> e_transfer := x5 \<rparr>) = eval_ok e"
  by (simp_all add: eval_ok_def)

lemma eval_ok_log_update:
  "eval_ok e \<Longrightarrow> length log \<le> kMaxExplanationSteps \<Longrightarrow> eval_ok (e\<lparr> e_log := log \<rparr>)"
  by (simp add: eval_ok_def)

lemma Eval_init_ok: "eval_ok (Eval_init c)"
  by (simp add: eval_ok_def Eval_init_def log_add_def kMaxExplanationSteps_def)

lemma check_binding_ok: "eval_ok e \<Longrightarrow> check_ok (check_binding q c e)"
  by (auto simp: check_binding_def eval_ok_log intro!: check_ok_fence)

lemma resolve_serving_ok: "eval_ok e \<Longrightarrow> check_ok (resolve_serving q s c e)"
  by (auto simp: resolve_serving_def Let_def eval_ok_def intro!: check_ok_fence split: option.split)

lemma check_transfer_model_ok: "eval_ok e \<Longrightarrow> check_ok (check_transfer_model t c e)"
  by (auto simp: check_transfer_model_def eval_ok_log split: sum.split)

lemma check_transfer_state_ok: "eval_ok e \<Longrightarrow> check_ok (check_transfer_state t c e)"
  by (auto simp: check_transfer_state_def eval_ok_log split: sum.split)

lemma resolve_transfer_ok: "eval_ok e \<Longrightarrow> check_ok (resolve_transfer q s c e)"
  by (auto simp: resolve_transfer_def Let_def eval_ok_log
      intro!: check_ok_and_then check_ok_fence check_transfer_model_ok check_transfer_state_ok
        eval_ok_log_update
      split: option.split)

lemma resolve_subject_ok: "eval_ok e \<Longrightarrow> check_ok (resolve_subject q s c e)"
  by (simp add: resolve_subject_def resolve_serving_ok resolve_transfer_ok eval_ok_log)

lemma classify_serving_ok: "eval_ok e \<Longrightarrow> check_ok (classify_serving q c e)"
  by (simp add: classify_serving_def Let_def eval_ok_log eval_ok_log_update)

lemma classify_transfer_ok: "eval_ok e \<Longrightarrow> check_ok (classify_transfer t c e)"
  by (simp add: classify_transfer_def Let_def eval_ok_log)

lemma classify_ok: "eval_ok e \<Longrightarrow> check_ok (classify q c e)"
  by (simp add: classify_def Let_def classify_serving_ok classify_transfer_ok)

lemma check_enabled_ok: "eval_ok e \<Longrightarrow> check_ok (check_enabled c e)"
  by (simp add: check_enabled_def eval_ok_log eval_ok_log_update)

lemma check_topology_ok: "eval_ok e \<Longrightarrow> check_ok (check_topology now q c e)"
  by (auto simp: check_topology_def Let_def eval_ok_log intro!: check_ok_fence)

lemma check_slo_ok: "eval_ok e \<Longrightarrow> check_ok (check_slo q s c e)"
  by (auto simp: check_slo_def Let_def eval_ok_log intro!: check_ok_fence split: option.split)

lemma check_route_ok: "eval_ok e \<Longrightarrow> check_ok (check_route q s c e)"
  by (auto simp: check_route_def Let_def eval_ok_log intro!: check_ok_fence split: option.split)

lemma check_model_ok: "eval_ok e \<Longrightarrow> check_ok (check_model q c e)"
  by (auto simp: check_model_def Let_def eval_ok_log intro!: check_ok_fence
      split: option.split sum.split)

lemma check_deadline_ok: "eval_ok e \<Longrightarrow> check_ok (check_deadline now q c e)"
  by (simp add: check_deadline_def Let_def eval_ok_log)

lemma evaluate_checks_ok: "check_ok (evaluate_checks now q c)"
  unfolding evaluate_checks_def Let_def
  by (intro check_ok_and_then check_binding_ok resolve_subject_ok classify_ok check_enabled_ok
      check_topology_ok check_slo_ok check_route_ok check_model_ok check_deadline_ok Eval_init_ok)

section \<open>The fences of an admission\<close>

text \<open>
  What must hold of the coordinator for traffic to be admitted, stated on the state alone: the
  owner is live and the generations the caller bound are the current ones.
\<close>

definition bound_to :: "generation option \<Rightarrow> generation \<Rightarrow> bool" where
  "bound_to b g \<longleftrightarrow> b = None \<or> b = Some g"

definition serving_fenced :: "TrafficRequest \<Rightarrow> Coordinator \<Rightarrow> bool" where
  "serving_fenced q c \<longleftrightarrow>
     (\<exists>r i. map_of (l_requests (c_ledger c)) (sub_request (request_subject q)) = Some r \<and>
        record_open r \<and> find_attempt r (sub_attempt (request_subject q)) = Some i \<and>
        is_current_attempt r (sub_attempt (request_subject q)) \<and>
        bound_to (b_request_generation (q_binding q)) (r_generation r))"

definition transfer_fenced :: "TrafficRequest \<Rightarrow> Coordinator \<Rightarrow> bool" where
  "transfer_fenced q c \<longleftrightarrow>
     (\<exists>t. map_of (c_transfers c) (sub_transfer (request_subject q)) = Some t \<and>
        \<not> ts_terminal (tr_state t) \<and>
        (tr_request t = nil_id \<or> \<not> is_cancelled (c_ledger c) (tr_request t)) \<and>
        (tr_model_hash t = 0 \<or>
         require_model_generation (tr_model_hash t) c = Inr (tr_model_generation t)) \<and>
        require_state_generation (tr_state_hash t) c = Inr (tr_state_generation t) \<and>
        bound_to (b_model_generation (q_binding q)) (tr_model_generation t) \<and>
        bound_to (b_state_generation (q_binding q)) (tr_state_generation t))"

definition evidence_fenced :: "i64 \<Rightarrow> TrafficRequest \<Rightarrow> Coordinator \<Rightarrow> TrafficClass \<Rightarrow> bool" where
  "evidence_fenced now q c traffic \<longleftrightarrow>
     (let rule = policy_rule (c_policy c) traffic in
      pr_enabled rule \<and>
      (pr_requires_current_topology rule \<longrightarrow>
         (topology_state now c = EV_Current \<or>
          topology_state now c \<noteq> EV_Unknown \<and> evidence_grace now c) \<and>
         bound_to (b_topology (q_binding q)) (te_generation (c_topology c))))"

definition serving_evidence_fenced :: "TrafficRequest \<Rightarrow> Coordinator \<Rightarrow> TrafficClass \<Rightarrow> bool" where
  "serving_evidence_fenced q c traffic \<longleftrightarrow>
     (let rule = policy_rule (c_policy c) traffic; s = request_subject q in
      (pr_requires_slo_contract rule \<longrightarrow>
         (\<exists>k. map_of (c_slo_contracts c) (sub_request s) = Some k \<and>
              bound_to (b_slo_contract (q_binding q)) (slo_generation k))) \<and>
      (pr_requires_current_route rule \<and> sub_attempt s \<noteq> nil_id \<longrightarrow>
         (\<exists>d. map_of (c_route_decisions c) (sub_attempt s) = Some d \<and>
              bound_to (b_route_decision (q_binding q)) (rt_generation d))) \<and>
      (pr_requires_model_generation rule \<longrightarrow>
         (\<exists>r i. map_of (l_requests (c_ledger c)) (sub_request s) = Some r \<and>
            find_attempt r (sub_attempt s) = Some i \<and> a_model_hash (r_attempts r ! i) \<noteq> 0 \<and>
            require_model_generation (a_model_hash (r_attempts r ! i)) c =
              Inr (a_model_generation (r_attempts r ! i)) \<and>
            bound_to (b_model_generation (q_binding q)) (a_model_generation (r_attempts r ! i)))))"

lemma check_binding_Inr:
  "check_binding q c e = Inr e' \<Longrightarrow>
   e' = e \<and> structurally_valid q \<and> q_subject q = Some (request_subject q) \<and>
   bound_to (b_coordinator_epoch (q_binding q)) (c_epoch c) \<and>
   bound_to (b_policy (q_binding q)) (p_generation (c_policy c))"
  by (auto simp: check_binding_def and_then_Inr_iff bound_to_def request_subject_def
      split: if_splits option.splits)

lemma resolve_serving_Inr:
  assumes "resolve_serving q s c e = Inr e'"
  obtains r i where "map_of (l_requests (c_ledger c)) (sub_request s) = Some r" "record_open r"
    "find_attempt r (sub_attempt s) = Some i" "is_current_attempt r (sub_attempt s)"
    "bound_to (b_request_generation (q_binding q)) (r_generation r)" "e_serving e'"
    "e_record e' = r" "e_attempt e' = Some (r_attempts r ! i)" "e_stage e' = a_stage (r_attempts r ! i)"
    "e_transfer e' = e_transfer e"
proof -
  obtain r where r: "map_of (l_requests (c_ledger c)) (sub_request s) = Some r"
    using assms by (auto simp: resolve_serving_def snapshot_request_def split: option.splits)
  have open1: "record_open r" "r_lifecycle r \<noteq> RL_Cancelled"
    using assms r
    by (auto simp: resolve_serving_def snapshot_request_def Let_def record_open_def split: if_splits)
  obtain i where i: "find_attempt r (sub_attempt s) = Some i"
    using assms r open1
    by (auto simp: resolve_serving_def snapshot_request_def Let_def record_open_def split: option.splits)
  show thesis
    using assms r open1 i
    by (intro that [of r i])
      (auto simp: resolve_serving_def snapshot_request_def Let_def record_open_def bound_to_def
        and_then_Inr_iff split: if_splits)
qed

lemma resolve_transfer_Inr:
  assumes "resolve_transfer q s c e = Inr e'"
  obtains t where "map_of (c_transfers c) (sub_transfer s) = Some t" "\<not> ts_terminal (tr_state t)"
    "tr_request t = nil_id \<or> \<not> is_cancelled (c_ledger c) (tr_request t)"
    "tr_model_hash t = 0 \<or> require_model_generation (tr_model_hash t) c = Inr (tr_model_generation t)"
    "require_state_generation (tr_state_hash t) c = Inr (tr_state_generation t)"
    "bound_to (b_model_generation (q_binding q)) (tr_model_generation t)"
    "bound_to (b_state_generation (q_binding q)) (tr_state_generation t)"
    "e_transfer e' = Some t" "e_serving e' = e_serving e" "e_attempt e' = e_attempt e"
    "e_record e' = e_record e"
proof -
  obtain t where t: "map_of (c_transfers c) (sub_transfer s) = Some t"
    using assms by (auto simp: resolve_transfer_def split: option.splits)
  show thesis
    using assms t
    by (intro that [of t])
      (auto simp: resolve_transfer_def Let_def bound_to_def and_then_Inr_iff check_transfer_model_def
        check_transfer_state_def split: if_splits sum.splits)
qed

definition same_subject :: "Eval \<Rightarrow> Eval \<Rightarrow> bool" where
  "same_subject e e' \<longleftrightarrow>
     e_serving e' = e_serving e \<and> e_record e' = e_record e \<and> e_transfer e' = e_transfer e \<and>
     e_stage e' = e_stage e \<and> e_attempt e' = e_attempt e"

definition same_class :: "Eval \<Rightarrow> Eval \<Rightarrow> bool" where
  "same_class e e' \<longleftrightarrow> same_subject e e' \<and> e_effective e' = e_effective e"

lemma same_class_trans: "same_class a b \<Longrightarrow> same_class b c \<Longrightarrow> same_class a c"
  by (simp add: same_class_def same_subject_def)

lemma classify_frame: "case classify q c e of Inl _ \<Rightarrow> True | Inr e' \<Rightarrow> same_subject e e'"
  by (simp add: classify_def classify_serving_def classify_transfer_def Let_def same_subject_def)

lemma classify_Inr: "classify q c e = Inr e' \<Longrightarrow> same_subject e e'"
  using classify_frame [of e q c] by simp

lemma classify_legal:
  assumes "classify q c e = Inr e'" and "e_serving e" and "is_serving_active (e_stage e)"
    and "e_stage e \<noteq> SS_Count"
  shows "is_class_legal_for_stage (e_effective e') (e_stage e)"
  using assms canonical_class_legal [of "e_stage e"] class_legal_not_unknown
  by (auto simp: classify_def classify_serving_def Let_def split: if_splits)

lemma classify_conservative:
  assumes "classify q c e = Inr e'" and "e_serving e" and "\<not> is_serving_active (e_stage e)"
  shows "e_effective e' = TC_Unknown \<and> p_allow_unknown_stage (c_policy c)"
  using assms by (auto simp: classify_def classify_serving_def Let_def split: if_splits)

lemma check_enabled_Inr:
  "check_enabled c e = Inr e' \<Longrightarrow> same_class e e' \<and> pr_enabled (eval_rule c e)"
  by (auto simp: check_enabled_def same_class_def same_subject_def split: if_splits)

lemma check_topology_Inr:
  assumes "check_topology now q c e = Inr e'"
  shows "same_class e e' \<and>
     (pr_requires_current_topology (eval_rule c e) \<longrightarrow>
        (topology_state now c = EV_Current \<or>
         topology_state now c \<noteq> EV_Unknown \<and> evidence_grace now c) \<and>
        bound_to (b_topology (q_binding q)) (te_generation (c_topology c)))"
  using assms
  by (auto simp: check_topology_def Let_def and_then_Inr_iff same_class_def same_subject_def
      eval_rule_def bound_to_def split: if_splits)

lemma check_slo_Inr:
  assumes "check_slo q s c e = Inr e'"
  shows "same_class e e' \<and>
     (pr_requires_slo_contract (eval_rule c e) \<longrightarrow>
        (\<exists>k. lookup_slo s c e = Some k \<and> bound_to (b_slo_contract (q_binding q)) (slo_generation k)))"
  using assms
  by (auto simp: check_slo_def Let_def same_class_def same_subject_def eval_rule_def bound_to_def
      split: if_splits option.splits)

lemma check_route_Inr:
  assumes "check_route q s c e = Inr e'"
  shows "e' = e \<and>
     (pr_requires_current_route (eval_rule c e) \<and> e_serving e \<and> sub_attempt s \<noteq> nil_id \<longrightarrow>
        (\<exists>d. map_of (c_route_decisions c) (sub_attempt s) = Some d \<and>
             bound_to (b_route_decision (q_binding q)) (rt_generation d)))"
  using assms
  by (auto simp: check_route_def Let_def bound_to_def split: if_splits option.splits)

lemma check_model_Inr:
  assumes "check_model q c e = Inr e'"
  shows "e' = e \<and>
     (pr_requires_model_generation (eval_rule c e) \<and> e_serving e \<longrightarrow>
        (\<forall>a. e_attempt e = Some a \<longrightarrow>
             a_model_hash a \<noteq> 0 \<and> require_model_generation (a_model_hash a) c = Inr (a_model_generation a) \<and>
             bound_to (b_model_generation (q_binding q)) (a_model_generation a)))"
  using assms
  by (auto simp: check_model_def bound_to_def split: if_splits option.splits sum.splits)

lemma check_deadline_Inr:
  assumes "check_deadline now q c e = Inr e'"
  shows "same_class e e' \<and> \<not> instant_expired_at (effective_deadline now q e) now"
  using assms
  by (auto simp: check_deadline_def Let_def same_class_def same_subject_def instant_expired_at_def
      split: if_splits)

lemma evaluate_checks_Inr:
  assumes "evaluate_checks now q c = Inr e"
  shows "q_subject q = Some (request_subject q)"
    and "bound_to (b_coordinator_epoch (q_binding q)) (c_epoch c)"
    and "bound_to (b_policy (q_binding q)) (p_generation (c_policy c))"
    and "evidence_fenced now q c (e_effective e)"
    and "sub_kind (request_subject q) = SK_Serving \<Longrightarrow>
      serving_fenced q c \<and> serving_evidence_fenced q c (e_effective e) \<and> e_transfer e = None"
    and "sub_kind (request_subject q) \<noteq> SK_Serving \<Longrightarrow>
      sub_kind (request_subject q) = SK_Transfer \<and> transfer_fenced q c \<and>
      e_transfer e = map_of (c_transfers c) (sub_transfer (request_subject q))"
proof -
  let ?s = "request_subject q"
  obtain e1 e2 e3 e4 e5 e6 e7 e8 where
      s1: "check_binding q c (Eval_init c) = Inr e1" and s2: "resolve_subject q ?s c e1 = Inr e2"
    and s3: "classify q c e2 = Inr e3" and s4: "check_enabled c e3 = Inr e4"
    and s5: "check_topology now q c e4 = Inr e5" and s6: "check_slo q ?s c e5 = Inr e6"
    and s7: "check_route q ?s c e6 = Inr e7" and s8: "check_model q c e7 = Inr e8"
    and s9: "check_deadline now q c e8 = Inr e"
    using assms by (auto simp: evaluate_checks_def Let_def and_then_Inr_iff)
  note f1 = check_binding_Inr [OF s1] and f3 = classify_Inr [OF s3]
    and f4 = check_enabled_Inr [OF s4] and f5 = check_topology_Inr [OF s5]
    and f6 = check_slo_Inr [OF s6] and f7 = check_route_Inr [OF s7]
    and f8 = check_model_Inr [OF s8] and f9 = check_deadline_Inr [OF s9]
  show "q_subject q = Some ?s" "bound_to (b_coordinator_epoch (q_binding q)) (c_epoch c)"
    "bound_to (b_policy (q_binding q)) (p_generation (c_policy c))"
    using f1 by auto
  have cls: "e_effective e3 = e_effective e" "e_effective e4 = e_effective e"
      "e_effective e5 = e_effective e" "e_effective e6 = e_effective e" "e7 = e6" "e8 = e6"
    using f4 f5 f6 f7 f8 f9 by (auto simp: same_class_def)
  then have rule: "eval_rule c e3 = policy_rule (c_policy c) (e_effective e)"
      "eval_rule c e4 = policy_rule (c_policy c) (e_effective e)"
      "eval_rule c e5 = policy_rule (c_policy c) (e_effective e)"
      "eval_rule c e6 = policy_rule (c_policy c) (e_effective e)"
    by (simp_all add: eval_rule_def)
  show "evidence_fenced now q c (e_effective e)"
    using f4 f5 by (simp add: evidence_fenced_def Let_def rule)
  have sub: "same_subject e2 e5" "same_subject e2 e6" "same_subject e2 e"
    using f3 f4 f5 f6 f9 cls by (auto simp: same_class_def same_subject_def)
  show "serving_fenced q c \<and> serving_evidence_fenced q c (e_effective e) \<and> e_transfer e = None"
    if k: "sub_kind ?s = SK_Serving"
  proof -
    have "resolve_serving q ?s c e1 = Inr e2" using s2 k by (simp add: resolve_subject_def)
    then obtain r i where r: "map_of (l_requests (c_ledger c)) (sub_request ?s) = Some r"
        "record_open r" "find_attempt r (sub_attempt ?s) = Some i" "is_current_attempt r (sub_attempt ?s)"
        "bound_to (b_request_generation (q_binding q)) (r_generation r)"
      and e2: "e_serving e2" "e_attempt e2 = Some (r_attempts r ! i)" "e_transfer e2 = e_transfer e1"
      by (rule resolve_serving_Inr)
    have sv: "e_serving e5" "e_serving e6" "e_attempt e6 = Some (r_attempts r ! i)"
      using sub e2 by (simp_all add: same_subject_def)
    have "serving_evidence_fenced q c (e_effective e)"
      using f6 f7 f8 r sv unfolding serving_evidence_fenced_def Let_def
      by (simp add: rule cls lookup_slo_def)
    moreover have "e_transfer e = None"
      using e2(3) f1 sub(3) by (simp add: same_subject_def Eval_init_def)
    ultimately show ?thesis using r by (auto simp: serving_fenced_def)
  qed
  show "sub_kind ?s = SK_Transfer \<and> transfer_fenced q c \<and>
      e_transfer e = map_of (c_transfers c) (sub_transfer ?s)"
    if k: "sub_kind ?s \<noteq> SK_Serving"
  proof -
    have kt: "sub_kind ?s = SK_Transfer" and "resolve_transfer q ?s c e1 = Inr e2"
      using s2 k by (auto simp: resolve_subject_def split: if_splits)
    then show ?thesis
      using sub(3) by (elim resolve_transfer_Inr) (auto simp: transfer_fenced_def same_subject_def)
  qed
qed

section \<open>Outcome, reason and stamp\<close>

lemma build_decision_fields:
  "d_outcome (fst (build_decision outcome reason traffic log q s c)) = outcome"
  "d_reason (fst (build_decision outcome reason traffic log q s c)) = reason"
  "d_subject (fst (build_decision outcome reason traffic log q s c)) = s"
  "d_binding (fst (build_decision outcome reason traffic log q s c)) = q_binding q"
  "d_treatment (fst (build_decision outcome reason traffic log q s c)) = TrafficTreatment_init"
  "length (d_explanation (fst (build_decision outcome reason traffic log q s c))) \<le>
     min kMaxExplanationSteps (unat (p_max_explanation_steps (c_policy c)))"
  by (simp_all add: build_decision_def mint_stamp_def Let_def Decision_init_def min_def)

text \<open>What evaluation may change: nothing but counters, deferrals and the sequence.\<close>

definition eval_strip :: "Coordinator \<Rightarrow> Coordinator" where
  "eval_strip c =
     c\<lparr> c_authority_sequence := 0, c_ledger := RequestLedger LedgerLimits_init,
        c_transfer_class_accounting := [], c_defers := [], c_streaming_deferrals := 0 \<rparr>"

definition eval_frame :: "Coordinator \<Rightarrow> Coordinator \<Rightarrow> bool" where
  "eval_frame c c' \<longleftrightarrow> eval_strip c' = eval_strip c"

definition defer_frame :: "Coordinator \<Rightarrow> Coordinator \<Rightarrow> bool" where
  "defer_frame c c' \<longleftrightarrow>
     c'\<lparr> c_defers := [], c_streaming_deferrals := 0 \<rparr> = c\<lparr> c_defers := [], c_streaming_deferrals := 0 \<rparr>"

lemma eval_frame_fields:
  assumes "eval_frame c c'"
  shows "c_config c' = c_config c" "c_begin c' = c_begin c" "c_epoch c' = c_epoch c"
    "c_incarnation c' = c_incarnation c" "c_policy c' = c_policy c" "c_topology c' = c_topology c"
    "c_topology_present c' = c_topology_present c" "c_models c' = c_models c"
    "c_states c' = c_states c" "c_slo_contracts c' = c_slo_contracts c"
    "c_route_decisions c' = c_route_decisions c" "c_transfers c' = c_transfers c"
    "c_flows c' = c_flows c" "c_flows_by_request c' = c_flows_by_request c"
    "c_flows_by_transfer c' = c_flows_by_transfer c"
    "c_transfers_by_request c' = c_transfers_by_request c"
    "c_completions c' = c_completions c" "c_completion_order c' = c_completion_order c"
    "c_bulk_in_flight_bytes c' = c_bulk_in_flight_bytes c" "c_boot_count c' = c_boot_count c"
    "c_next_flow_sequence c' = c_next_flow_sequence c"
    "c_transfers_started c' = c_transfers_started c"
    "c_transfers_completed c' = c_transfers_completed c"
    "c_transfers_refused c' = c_transfers_refused c"
  using assms by (cases c; cases c'; simp add: eval_frame_def eval_strip_def)+

lemma defer_frame_fields:
  assumes "defer_frame c c'"
  shows "eval_frame c c'" "c_authority_sequence c' = c_authority_sequence c"
    "c_ledger c' = c_ledger c" "c_transfer_class_accounting c' = c_transfer_class_accounting c"
  using assms by (cases c; cases c'; simp add: eval_frame_def eval_strip_def defer_frame_def)+

lemma frame_trans:
  "eval_frame a b \<Longrightarrow> eval_frame b c \<Longrightarrow> eval_frame a c"
  "defer_frame a b \<Longrightarrow> defer_frame b c \<Longrightarrow> defer_frame a c"
  by (simp_all add: eval_frame_def defer_frame_def)

lemma frame_refl [simp]: "eval_frame c c" "defer_frame c c"
  by (simp_all add: eval_frame_def defer_frame_def)

lemma erase_defer_frame [simp]: "defer_frame a (erase_defer key d c) = defer_frame a c"
  by (simp add: erase_defer_def defer_frame_def)

lemma evict_defer_frame [simp]: "defer_frame a (evict_defer_records c) = defer_frame a c"
  by (simp add: evict_defer_records_def Let_def split: option.split)

lemma note_defer_frame [simp]: "defer_frame a (snd (note_defer s traffic now c)) = defer_frame a c"
proof -
  have "defer_frame a (c\<lparr> c_defers := ds, c_streaming_deferrals := sd \<rparr>) = defer_frame a c"
    "defer_frame a (c\<lparr> c_defers := ds \<rparr>) = defer_frame a c" for ds sd c
    by (simp_all add: defer_frame_def)
  then show ?thesis by (simp add: note_defer_def Let_def split: option.split)
qed

lemma clear_defer_frame [simp]: "defer_frame a (clear_defer s traffic c) = defer_frame a c"
  by (simp add: clear_defer_def Let_def split: option.split)

lemma build_eval_frame [simp]:
  "eval_frame a (snd (build_decision outcome reason traffic log q s c)) = eval_frame a c"
  by (simp add: build_decision_def mint_stamp_def Let_def account_decision_def eval_frame_def
      eval_strip_def)

lemma build_decision_stamp:
  "c_authority_sequence (snd (build_decision outcome reason traffic log q s c)) =
     gen_succ (c_authority_sequence c)"
  "d_authority (fst (build_decision outcome reason traffic log q s c)) =
     (authority c)\<lparr> au_sequence := gen_succ (c_authority_sequence c) \<rparr>"
  by (simp_all add: build_decision_def mint_stamp_def Let_def account_decision_def Decision_init_def
      authority_def)

lemma build_ledger:
  "c_ledger (snd (build_decision outcome reason traffic log q s c)) =
     (if sub_kind s = SK_Serving \<and> ledger_contains (c_ledger c) (sub_request s)
      then snd (ledger_record_decision (sub_request s) (sub_attempt s) traffic outcome reason
                  (q_payload_bytes q) (c_ledger c))
      else c_ledger c)"
  by (simp add: build_decision_def mint_stamp_def Let_def account_decision_def)

definition coherent :: "Decision \<Rightarrow> bool" where
  "coherent d \<longleftrightarrow>
     d_outcome d = DO_Rejected \<and> is_rejection (d_reason d) \<or>
     d_outcome d = DO_Deferred \<and> is_deferral (d_reason d) \<or>
     permits_traffic d \<and> is_admission (d_reason d)"

text \<open>Everything a decision shares with the state it was taken in.\<close>

definition decision_wf :: "TrafficRequest \<Rightarrow> Coordinator \<Rightarrow> Decision \<times> Coordinator \<Rightarrow> bool" where
  "decision_wf q c dc \<longleftrightarrow>
     coherent (fst dc) \<and> eval_frame c (snd dc) \<and>
     c_authority_sequence (snd dc) = gen_succ (c_authority_sequence c) \<and>
     d_authority (fst dc) = authority (snd dc) \<and>
     d_subject (fst dc) = request_subject q \<and> d_binding (fst dc) = q_binding q \<and>
     length (d_explanation (fst dc)) \<le>
       min kMaxExplanationSteps (unat (p_max_explanation_steps (c_policy c))) \<and>
     (c_ledger (snd dc) = c_ledger c \<or>
      (\<exists>traffic outcome reason. c_ledger (snd dc) =
         snd (ledger_record_decision (sub_request (request_subject q))
           (sub_attempt (request_subject q)) traffic outcome reason (q_payload_bytes q)
           (c_ledger c))))"

lemma eval_frame_authority:
  "eval_frame c c' \<Longrightarrow> authority c' = (authority c)\<lparr> au_sequence := c_authority_sequence c' \<rparr>"
  using eval_frame_fields [of c c'] by (simp add: authority_def)

lemma build_wf:
  assumes fr: "defer_frame c c1" and d: "d = fst (build_decision outcome reason traffic log q (request_subject q) c1)"
    and c': "c' = snd (build_decision outcome reason traffic log q (request_subject q) c1)"
    and o: "outcome = DO_Rejected \<and> is_rejection reason \<or> outcome = DO_Deferred \<and> is_deferral reason \<or>
      outcome \<in> {DO_Allowed, DO_Degraded} \<and> is_admission reason"
  shows "decision_wf q c (d\<lparr> d_defer_hint_nanos := h, d_treatment := t \<rparr>, c')"
proof -
  note f = defer_frame_fields [OF fr]
  have frame: "eval_frame c c'" using c' f(1) by simp
  have seq: "c_authority_sequence c' = gen_succ (c_authority_sequence c)"
    using c' f(2) build_decision_stamp(1) by simp
  have "authority c1 = authority c"
    using f(1,2) eval_frame_authority [of c c1] by (simp add: authority_def)
  then have "d_authority d = authority c'"
    using d f(2) build_decision_stamp(2) [of outcome reason traffic log q "request_subject q" c1]
      eval_frame_authority [OF frame] seq by simp
  moreover have "coherent (d\<lparr> d_defer_hint_nanos := h, d_treatment := t \<rparr>)"
    using o by (auto simp: coherent_def permits_traffic_def d build_decision_fields)
  moreover have "length (d_explanation d) \<le> min kMaxExplanationSteps (unat (p_max_explanation_steps (c_policy c)))"
    using build_decision_fields(6) [of outcome reason traffic log q "request_subject q" c1]
      eval_frame_fields(5) [OF f(1)] d by simp
  ultimately show ?thesis
    using frame seq f(3)
    by (auto simp: decision_wf_def d build_decision_fields build_ledger c')
qed

lemma build_wf_plain:
  assumes "defer_frame c c1"
    and "outcome = DO_Rejected \<and> is_rejection reason \<or> outcome = DO_Deferred \<and> is_deferral reason \<or>
      outcome \<in> {DO_Allowed, DO_Degraded} \<and> is_admission reason"
  shows "decision_wf q c (build_decision outcome reason traffic log q (request_subject q) c1)"
proof -
  let ?b = "build_decision outcome reason traffic log q (request_subject q) c1"
  have "(fst ?b)\<lparr> d_defer_hint_nanos := d_defer_hint_nanos (fst ?b), d_treatment := d_treatment (fst ?b) \<rparr> = fst ?b"
    by simp
  then show ?thesis
    using build_wf [OF assms(1) refl refl assms(2), where traffic = traffic and log = log and q = q
        and t = "d_treatment (fst ?b)" and h = "d_defer_hint_nanos (fst ?b)"] by simp
qed

lemma defer_reason_deferral: "defer_reason q c e = RC_Unknown \<or> is_deferral (defer_reason q c e)"
  by (simp add: defer_reason_def Let_def is_deferral_def)

lemma assign_treatment_ok: "eval_ok e \<Longrightarrow> eval_ok (snd (assign_treatment q rule e))"
  by (simp add: assign_treatment_def Let_def eval_ok_def degrade_def)

lemma admit_wf:
  assumes "eval_ok e" and fr: "defer_frame c c1"
  shows "decision_wf q c (admit_decision guard q (request_subject q) e c1)"
proof -
  obtain t e1 where te: "assign_treatment q (eval_rule c1 e) e = (t, e1)" by fastforce
  then have ok: "eval_ok e1" using assign_treatment_ok [OF assms(1)] by (metis snd_conv)
  let ?o = "if guard then DO_Allowed else if e_degraded e1 then DO_Degraded else DO_Allowed"
  let ?r = "if guard then RC_AdmittedStarvationGuard
            else if e_degraded e1 then e_degrade_reason e1 else RC_Admitted"
  let ?b = "build_decision ?o ?r (e_effective e1) (e_log e1) q (request_subject q) c1"
  have "decision_wf q c ((fst ?b)\<lparr> d_defer_hint_nanos := d_defer_hint_nanos (fst ?b), d_treatment := t \<rparr>, snd ?b)"
    by (rule build_wf [OF fr refl refl]) (use ok in \<open>auto simp: eval_ok_def\<close>)
  then show ?thesis by (simp add: admit_decision_def te Let_def split_beta)
qed

lemma deferred_wf:
  assumes "is_deferral reason" and fr: "defer_frame c c1"
  shows "decision_wf q c (deferred_decision now count reason q (request_subject q) e c1)"
  using build_wf [OF fr refl refl, of DO_Deferred reason] assms(1)
  by (simp add: deferred_decision_def Let_def split_beta)

lemma evaluate_wf: "decision_wf q c (evaluate now q c)"
proof (cases "evaluate_checks now q c")
  case (Inl x)
  obtain reason traffic log where x: "x = (reason, traffic, log)" by (cases x)
  then have "is_rejection reason" using evaluate_checks_ok [of now q c] Inl by simp
  then show ?thesis by (simp add: evaluate_def Inl x build_wf_plain)
next
  case (Inr e)
  then have ok: "eval_ok e" using evaluate_checks_ok [of now q c] by simp
  show ?thesis
  proof (cases "defer_reason q c e = RC_Unknown")
    case True
    then show ?thesis
      by (simp add: evaluate_def Inr evaluate_capacity_def Let_def admit_wf [OF ok])
  next
    case False
    obtain count c1 where n: "note_defer (request_subject q) (e_effective e) now c = (count, c1)" by fastforce
    have fr: "defer_frame c c1" using note_defer_frame [of c "request_subject q" "e_effective e" now c] n by simp
    have "is_deferral (defer_reason q c e)" using False defer_reason_deferral by blast
    then show ?thesis
      using False fr ok
      by (auto simp: evaluate_def Inr evaluate_capacity_def Let_def n eval_ok_log
          intro!: admit_wf deferred_wf eval_ok_log_update split: option.split bool.split)
  qed
qed

text \<open>
  C17. Outcome and reason agree: every evaluation answers either a rejection with a rejection
  reason, or a deferral with a deferral reason, or an admission with an admission reason; the
  decision echoes the subject and the binding it was asked about, and its explanation never
  exceeds the 24 slots nor the bound configured in the policy.
\<close>

theorem decision_coherent:
  "coherent (fst (evaluate now q c)) \<and>
   d_subject (fst (evaluate now q c)) = request_subject q \<and>
   d_binding (fst (evaluate now q c)) = q_binding q \<and>
   length (d_explanation (fst (evaluate now q c))) \<le>
     min kMaxExplanationSteps (unat (p_max_explanation_steps (c_policy c)))"
  using evaluate_wf [of q c now] by (simp add: decision_wf_def)

lemma gen_succ_less: "g \<noteq> - 1 \<Longrightarrow> g < gen_succ g \<and> gen_succ g \<noteq> 0"
  using gen_next_unat [of g] gen_next_nonzero [of g]
  by (auto simp: gen_succ_def word_less_nat_alt)

lemma record_decision_flows [simp]:
  "l_flows (snd (ledger_record_decision rid attempt traffic outcome reason bytes l)) = l_flows l"
  "l_flows_by_request (snd (ledger_record_decision rid attempt traffic outcome reason bytes l)) =
     l_flows_by_request l"
  "l_next_flow_sequence (snd (ledger_record_decision rid attempt traffic outcome reason bytes l)) =
     l_next_flow_sequence l"
  "l_terminal_order (snd (ledger_record_decision rid attempt traffic outcome reason bytes l)) =
     l_terminal_order l"
  "l_limits (snd (ledger_record_decision rid attempt traffic outcome reason bytes l)) = l_limits l"
  by (simp_all add: ledger_record_decision_def Let_def split: option.split)

lemma record_decision_request:
  "map_of (l_requests (snd (ledger_record_decision rid attempt traffic outcome reason bytes l))) k =
     (if k = rid then map_option (record_decision_counts attempt outcome) (map_of (l_requests l) rid)
      else map_of (l_requests l) k)"
  by (simp add: ledger_record_decision_def Let_def split: option.split)

lemma record_decision_counts_more [simp]:
  "r_current_attempt (record_decision_counts attempt outcome r) = r_current_attempt r"
  "r_generation (record_decision_counts attempt outcome r) = r_generation r"
  "r_attempt_count (record_decision_counts attempt outcome r) = r_attempt_count r"
  by (simp_all add: record_decision_counts_def Let_def split: DecisionOutcome.splits option.splits)


section \<open>Admissions\<close>

lemma admit_class:
  "tt_traffic_class (d_treatment (fst (admit_decision guard q s e c))) = e_effective e"
  by (cases "e_transfer e") (simp_all add: admit_decision_def assign_treatment_def Let_def split_beta)

lemma permits_simps [simp]:
  "\<not> permits_traffic (fst (build_decision DO_Rejected reason traffic log q s c))"
  "\<not> permits_traffic (fst (deferred_decision now count reason q s e c))"
  by (simp_all add: permits_traffic_def build_decision_fields deferred_decision_def Let_def split_beta)

lemma evaluate_permits:
  assumes "permits_traffic (fst (evaluate now q c))"
  obtains e e1 c1 guard where "evaluate_checks now q c = Inr e"
    "evaluate now q c = admit_decision guard q (request_subject q) e1 c1"
    "same_class e e1" "defer_frame c c1" "eval_ok e1"
proof (cases "evaluate_checks now q c")
  case (Inl x)
  then show thesis using assms by (cases x) (simp add: evaluate_def)
next
  case (Inr e)
  then have ok: "eval_ok e" using evaluate_checks_ok [of now q c] by simp
  show thesis
  proof (cases "defer_reason q c e = RC_Unknown")
    case True
    then have "evaluate now q c = admit_decision False q (request_subject q) e
        (clear_defer (request_subject q) (e_effective e) c)"
      by (simp add: evaluate_def Inr evaluate_capacity_def)
    then show thesis
      by (rule that [OF Inr]) (simp_all add: same_class_def same_subject_def ok)
  next
    case False
    obtain count c1 where n: "note_defer (request_subject q) (e_effective e) now c = (count, c1)" by fastforce
    have fr: "defer_frame c c1" using note_defer_frame [of c "request_subject q" "e_effective e" now c] n by simp
    let ?e1 = "e\<lparr> e_log := log_rule ER_DeferState (int (unat count))
      (int (rc_value (defer_reason q c e))) (e_log e) \<rparr>"
    obtain first where f: "defer_exhausted (request_subject q) now count ?e1 c1 = Some (first, True)"
      using assms False
      by (auto simp: evaluate_def Inr evaluate_capacity_def Let_def n split: option.splits bool.splits)
    have "evaluate now q c = admit_decision True q (request_subject q)
        (?e1\<lparr> e_log := log_rule ER_StarvationGuard (int (unat count)) (now - first) (e_log ?e1) \<rparr>)
        (clear_defer (request_subject q) (e_effective e) c1)"
      using False f by (simp add: evaluate_def Inr evaluate_capacity_def Let_def n)
    then show thesis
      by (rule that [OF Inr]) (simp_all add: same_class_def same_subject_def fr ok eval_ok_log_update eval_ok_log)
  qed
qed

text \<open>
  C8. Admission is sound: an admitted request names a subject; the epoch and policy it was
  bound to are the current ones; a serving subject is a live, validated request whose current
  attempt it names; a transfer subject is a non-terminal transfer, not owned by a cancelled
  request, whose model and state generations are current; and the evidence the rule of the
  assigned class demands - topology, SLO contract, route, model generation - is present and is
  the generation the caller was bound to.
\<close>

theorem admission_sound:
  "permits_traffic (fst (evaluate now q c)) \<Longrightarrow>
   traffic = tt_traffic_class (d_treatment (fst (evaluate now q c))) \<Longrightarrow>
   q_subject q = Some (request_subject q) \<and>
   bound_to (b_coordinator_epoch (q_binding q)) (c_epoch c) \<and>
   bound_to (b_policy (q_binding q)) (p_generation (c_policy c)) \<and>
   evidence_fenced now q c traffic \<and>
   (sub_kind (request_subject q) = SK_Serving \<and> serving_fenced q c \<and>
      serving_evidence_fenced q c traffic \<or>
    sub_kind (request_subject q) = SK_Transfer \<and> transfer_fenced q c)"
proof -
  assume p: "permits_traffic (fst (evaluate now q c))"
    and t: "traffic = tt_traffic_class (d_treatment (fst (evaluate now q c)))"
  obtain e e1 c1 guard where ch: "evaluate_checks now q c = Inr e"
    and ev: "evaluate now q c = admit_decision guard q (request_subject q) e1 c1" and sc: "same_class e e1"
    by (rule evaluate_permits [OF p])
  have "traffic = e_effective e" using t ev sc admit_class by (simp add: same_class_def)
  then show ?thesis using evaluate_checks_Inr [OF ch] by auto
qed

text \<open>
  C19. Treatments never escalate: the priority, reserved weight, burst and rate of an admitted
  decision are at most those of the policy rule of its class, and its integrity is at least
  the rule's.
\<close>

theorem treatment_no_escalation:
  "permits_traffic (fst (evaluate now q c)) \<Longrightarrow>
   t = d_treatment (fst (evaluate now q c)) \<Longrightarrow>
   rule = policy_rule (c_policy c) (tt_traffic_class t) \<Longrightarrow>
   pc_index (pr_priority rule) \<le> pc_index (tt_priority t) \<and>
   tt_reserved_weight t \<le> pr_reserved_weight rule \<and>
   tt_max_burst_bytes t = pr_max_burst_bytes rule \<and>
   tt_rate_limit_bytes_per_sec t = pr_rate_limit_bytes_per_sec rule \<and>
   ic_index (pr_integrity rule) \<le> ic_index (tt_integrity t)"
proof -
  assume p: "permits_traffic (fst (evaluate now q c))" and t: "t = d_treatment (fst (evaluate now q c))"
    and rule: "rule = policy_rule (c_policy c) (tt_traffic_class t)"
  obtain e e1 c1 guard where ev: "evaluate now q c = admit_decision guard q (request_subject q) e1 c1"
    and fr: "defer_frame c c1"
    by (rule evaluate_permits [OF p])
  have "rule = eval_rule c1 e1"
    using rule t ev admit_class eval_frame_fields(5) [OF defer_frame_fields(1) [OF fr]]
    by (simp add: eval_rule_def)
  moreover have "t = fst (assign_treatment q (eval_rule c1 e1) e1)"
    using t ev by (simp add: admit_decision_def Let_def split_beta)
  ultimately show ?thesis
    by (cases "e_transfer e1") (simp_all add: assign_treatment_def Let_def max_integrity_def)
qed

end
