(* ===== verification/Admission.thy ===== *)
theory Admission
  imports EvaluateProps
begin

text \<open>
  From a decision to a flow, and from a deferral to an admission: a decision that admits
  traffic is accepted by \<open>validate_decision\<close> in the state it leaves behind, and a class under
  the starvation guard is admitted after a bounded number of deferrals.
\<close>

section \<open>A concrete coordinator\<close>

definition demo_begin :: "(u64, DeferRecord) umap \<Rightarrow> u64" where
  "demo_begin m = (case m of [] \<Rightarrow> 0 | entry # _ \<Rightarrow> fst entry)"

text \<open>A policy under which control traffic has no reservation and is deferred at most once.\<close>

definition demo_policy :: PolicyConfig where
  "demo_policy = snd (set_rule TC_Control
     ((policy_rule (canonical_defaults 1) TC_Control)
        \<lparr> pr_reserved_weight := 0, pr_max_defer_count := 2 \<rparr>) (canonical_defaults 1))"

definition demo_boot :: Coordinator where
  "demo_boot = snd (boot_fresh (\<lambda>s. (s, s)) (5, 6)
     (Coordinator_new (CoordinatorConfig_init\<lparr> cc_policy := demo_policy \<rparr>) demo_begin))"

definition demo_serving :: Coordinator where
  "demo_serving =
     snd (advance_stage demo_request demo_attempt SS_Admitted 12
       (snd (register_attempt demo_request demo_attempt 0 11
         (snd (register_request demo_request 10 demo_boot)))))"

definition demo_subject :: TrafficSubject where
  "demo_subject = TrafficSubject_init
     \<lparr> sub_kind := SK_Serving, sub_request := demo_request, sub_attempt := demo_attempt,
       sub_request_generation := 1 \<rparr>"

definition demo_query :: TrafficRequest where
  "demo_query = TrafficRequest_init
     \<lparr> q_subject := Some demo_subject, q_declared_class := TC_Control, q_direction := FD_Lateral,
       q_payload_bytes := 64 \<rparr>"

definition demo_congestion :: TopologyEvidence where
  "demo_congestion = TopologyEvidence_init
     \<lparr> te_provenance := EP_Synthetic, te_node_count := 4, te_queue_depth := 100,
       te_congestion_signalled := True \<rparr>"

definition demo_congested :: Coordinator where
  "demo_congested = snd (publish_topology demo_congestion 12 demo_serving)"

section \<open>Admitted decisions validate\<close>

lemma record_decision_counts_open [simp]:
  "record_open (record_decision_counts attempt outcome r) = record_open r"
  "is_current_attempt (record_decision_counts attempt outcome r) a = is_current_attempt r a"
  by (simp_all add: record_open_def is_current_attempt_def)

lemma evaluate_request_kept:
  assumes "map_of (l_requests (c_ledger c)) rid = Some r"
  obtains r' where "map_of (l_requests (c_ledger (snd (evaluate now q c)))) rid = Some r'"
    "record_open r' = record_open r" "r_lifecycle r' = r_lifecycle r"
    "r_requires_revalidation r' = r_requires_revalidation r"
    "is_current_attempt r' a = is_current_attempt r a" "r_authority_floor r' = r_authority_floor r"
proof -
  consider "c_ledger (snd (evaluate now q c)) = c_ledger c"
    | traffic outcome reason where "c_ledger (snd (evaluate now q c)) =
        snd (ledger_record_decision (sub_request (request_subject q)) (sub_attempt (request_subject q))
          traffic outcome reason (q_payload_bytes q) (c_ledger c))"
    using evaluate_wf [of q c now] by (auto simp: decision_wf_def)
  then show thesis
  proof cases
    case 1
    then show ?thesis using assms by (intro that [of r]) simp_all
  next
    case 2
    then show ?thesis
      using assms
      by (cases "rid = sub_request (request_subject q)")
        (auto simp: record_decision_request intro: that)
  qed
qed

lemma eval_frame_registries:
  "eval_frame c c' \<Longrightarrow> require_model_generation h c' = require_model_generation h c"
  "eval_frame c c' \<Longrightarrow> require_state_generation h c' = require_state_generation h c"
  using eval_frame_fields [of c c']
  by (simp_all add: require_model_generation_def require_state_generation_def)

text \<open>
  C9. Decisions are usable: on a booted coordinator, a decision that admits traffic passes
  \<open>validate_decision\<close> in the very state the evaluation leaves behind, provided the authority
  sequence is not exhausted and has not been overtaken by the request's authority floor.
\<close>

theorem admission_validates:
  "permits_traffic (fst (evaluate now q c)) \<Longrightarrow>
   c_epoch c \<noteq> 0 \<Longrightarrow> c_incarnation c \<noteq> nil_id \<Longrightarrow> c_authority_sequence c \<noteq> - 1 \<Longrightarrow>
   (\<forall>r. map_of (l_requests (c_ledger c)) (sub_request (request_subject q)) = Some r \<longrightarrow>
      r_authority_floor r \<le> c_authority_sequence c) \<Longrightarrow>
   validate_decision (fst (evaluate now q c)) (snd (evaluate now q c)) = ST_Ok"
proof -
  let ?d = "fst (evaluate now q c)" and ?c = "snd (evaluate now q c)" and ?s = "request_subject q"
  assume p: "permits_traffic ?d" and boot: "c_epoch c \<noteq> 0" "c_incarnation c \<noteq> nil_id"
    and seq: "c_authority_sequence c \<noteq> - 1"
    and fl: "\<forall>r. map_of (l_requests (c_ledger c)) (sub_request ?s) = Some r \<longrightarrow>
      r_authority_floor r \<le> c_authority_sequence c"
  have fr: "eval_frame c ?c" and au: "d_authority ?d = authority ?c" and sub: "d_subject ?d = ?s"
    and sq: "c_authority_sequence ?c = gen_succ (c_authority_sequence c)"
    using evaluate_wf [of q c now] by (simp_all add: decision_wf_def)
  note f = eval_frame_fields [OF fr]
  have lt: "c_authority_sequence c < au_sequence (d_authority ?d)" "au_sequence (d_authority ?d) \<noteq> 0"
    using gen_succ_less [OF seq] au sq by (simp_all add: authority_def)
  have cur: "validate_authority (d_authority ?d) (c_epoch ?c) (c_incarnation ?c) (p_generation (c_policy ?c)) = AV_Current"
    using boot lt(2) f au by (simp add: validate_authority_current_iff authority_def)
  obtain e e1 c1 guard where ch: "evaluate_checks now q c = Inr e" by (rule evaluate_permits [OF p])
  show ?thesis
  proof (cases "sub_kind ?s = SK_Serving")
    case True
    then have "serving_fenced q c" using evaluate_checks_Inr(5) [OF ch] by simp
    then obtain r where r: "map_of (l_requests (c_ledger c)) (sub_request ?s) = Some r" "record_open r"
        "is_current_attempt r (sub_attempt ?s)" by (auto simp: serving_fenced_def)
    have "r_authority_floor r < au_sequence (d_authority ?d)" using fl r(1) lt(1) by auto
    moreover obtain r' where "map_of (l_requests (c_ledger ?c)) (sub_request ?s) = Some r'"
        "record_open r'" "is_current_attempt r' (sub_attempt ?s)" "r_authority_floor r' = r_authority_floor r"
      using evaluate_request_kept [OF r(1), of now q "sub_attempt ?s"] r by metis
    ultimately have "validate_serving ?d ?c = ST_Ok"
      by (auto simp: validate_serving_def snapshot_request_def sub record_open_def rl_terminal_def)
    with True cur p sub show ?thesis by (simp add: validate_decision_def)
  next
    case False
    then have k: "sub_kind ?s = SK_Transfer" and "transfer_fenced q c"
      using evaluate_checks_Inr(6) [OF ch] by auto
    then obtain t where "map_of (c_transfers c) (sub_transfer ?s) = Some t" "\<not> ts_terminal (tr_state t)"
        "tr_model_hash t = 0 \<or> require_model_generation (tr_model_hash t) c = Inr (tr_model_generation t)"
        "require_state_generation (tr_state_hash t) c = Inr (tr_state_generation t)"
      by (auto simp: transfer_fenced_def)
    then have "validate_transfer ?d ?c = ST_Ok"
      using f sub eval_frame_registries [OF fr] by (auto simp: validate_transfer_def Let_def)
    with k cur p sub show ?thesis by (simp add: validate_decision_def)
  qed
qed

theorem admission_validates_witness:
  "validate_decision (fst (evaluate 13 demo_query demo_serving)) (snd (evaluate 13 demo_query demo_serving)) = ST_Ok"
proof (rule admission_validates)
  show "permits_traffic (fst (evaluate 13 demo_query demo_serving))" by code_simp
  show "c_epoch demo_serving \<noteq> 0" "c_incarnation demo_serving \<noteq> nil_id"
    "c_authority_sequence demo_serving \<noteq> - 1" by code_simp+
  have "map_option r_authority_floor
      (map_of (l_requests (c_ledger demo_serving)) (sub_request (request_subject demo_query))) = Some 0"
    by code_simp
  then show "\<forall>r. map_of (l_requests (c_ledger demo_serving)) (sub_request (request_subject demo_query)) = Some r \<longrightarrow>
      r_authority_floor r \<le> c_authority_sequence demo_serving"
    by auto
qed

theorem admission_sound_witness:
  "serving_fenced demo_query demo_serving \<and> evidence_fenced 13 demo_query demo_serving TC_Control"
proof -
  have "permits_traffic (fst (evaluate 13 demo_query demo_serving))"
    "tt_traffic_class (d_treatment (fst (evaluate 13 demo_query demo_serving))) = TC_Control"
    "sub_kind (request_subject demo_query) = SK_Serving" by code_simp+
  then show ?thesis using admission_sound [of 13 demo_query demo_serving TC_Control] by simp
qed

theorem treatment_no_escalation_witness:
  "pc_index PC_LatencyCritical \<le> pc_index (tt_priority (d_treatment (fst (evaluate 13 demo_query demo_serving))))"
proof -
  have "permits_traffic (fst (evaluate 13 demo_query demo_serving))"
    and r: "pr_priority (policy_rule (c_policy demo_serving)
      (tt_traffic_class (d_treatment (fst (evaluate 13 demo_query demo_serving))))) = PC_LatencyCritical"
    by code_simp+
  from treatment_no_escalation [OF this(1) refl refl] r show ?thesis by simp
qed

section \<open>The starvation guard\<close>

text \<open>How often a subject has been deferred in a class since it was last admitted.\<close>

definition pending :: "TrafficSubject \<Rightarrow> TrafficClass \<Rightarrow> Coordinator \<Rightarrow> u32" where
  "pending s t c =
     (case map_of (c_defers c) (defer_key s t) of
        Some d \<Rightarrow> if defer_matches d s then dr_count d else 0
      | None \<Rightarrow> 0)"

lemma evict_defer_absent:
  "map_of (c_defers c) key = None \<Longrightarrow> map_of (c_defers (evict_defer_records c)) key = None"
  by (simp add: evict_defer_records_def Let_def erase_defer_def split: option.split)

lemma note_defer_pending:
  assumes "note_defer s t now c = (count, c')"
  shows "count = pending s t c + 1" and "pending s t c' = count"
proof -
  let ?key = "defer_key s t"
  have "count = pending s t c + 1 \<and> pending s t c' = count"
  proof (cases "\<exists>d. map_of (c_defers c) ?key = Some d \<and> defer_matches d s")
    case True
    then obtain d where d: "map_of (c_defers c) ?key = Some d" "defer_matches d s" by blast
    then show ?thesis
      using assms by (auto simp: note_defer_def Let_def pending_def defer_matches_def)
  next
    case False
    define c1 where "c1 = (case map_of (c_defers c) ?key of
        Some d \<Rightarrow> if \<not> defer_matches d s then erase_defer ?key d c else c | None \<Rightarrow> c)"
    have gone: "map_of (c_defers c1) ?key = None"
      using False by (auto simp: c1_def erase_defer_def split: option.split)
    have "pending s t c = 0" using False by (auto simp: pending_def split: option.split)
    then show ?thesis
      using assms gone evict_defer_absent [OF gone]
      by (auto simp: note_defer_def Let_def pending_def defer_matches_def um_emplace_def
          simp flip: c1_def split: if_splits option.splits)
  qed
  then show "count = pending s t c + 1" "pending s t c' = count" by blast+
qed

lemma build_defers [simp]:
  "c_defers (snd (build_decision outcome reason traffic log q s c)) = c_defers c"
  by (simp add: build_decision_def mint_stamp_def Let_def account_decision_def)

lemma evaluate_deferred:
  assumes "d_outcome (fst (evaluate now q c)) = DO_Deferred"
    and t: "tt_traffic_class (d_treatment (fst (evaluate now q c))) = t"
    and rule: "rule = policy_rule (c_policy c) t"
  shows "pending (request_subject q) t (snd (evaluate now q c)) = pending (request_subject q) t c + 1"
    and "tt_defer_count (d_treatment (fst (evaluate now q c))) = pending (request_subject q) t c + 1"
    and "pr_starvation_protected rule \<Longrightarrow> 0 < pr_max_defer_count rule \<Longrightarrow>
      pending (request_subject q) t c + 1 < pr_max_defer_count rule"
proof -
  let ?s = "request_subject q"
  obtain e where ch: "evaluate_checks now q c = Inr e"
    using assms(1)
    by (cases "evaluate_checks now q c") (auto simp: evaluate_def build_decision_fields split_beta)
  have admit: "d_outcome (fst (admit_decision g q s e' c')) \<noteq> DO_Deferred" for g s e' c'
    by (simp add: admit_decision_def split_beta build_decision_fields Let_def)
  have dr: "defer_reason q c e \<noteq> RC_Unknown"
    using assms(1) admit by (auto simp: evaluate_def ch evaluate_capacity_def Let_def)
  obtain count c1 where n: "note_defer ?s (e_effective e) now c = (count, c1)" by fastforce
  let ?e1 = "e\<lparr> e_log := log_rule ER_DeferState (int (unat count)) (int (rc_value (defer_reason q c e))) (e_log e) \<rparr>"
  have ne: "\<not> (\<exists>first. defer_exhausted ?s now count ?e1 c1 = Some (first, True))"
    using assms(1) dr admit by (auto simp: evaluate_def ch evaluate_capacity_def Let_def n)
  have ev: "evaluate now q c = deferred_decision now count (defer_reason q c e) q ?s ?e1 c1"
    using dr ne
    by (auto simp: evaluate_def ch evaluate_capacity_def Let_def n split: option.split bool.split)
  have te: "t = e_effective e"
    using t by (simp add: ev deferred_decision_def Let_def split_beta)
  note np = note_defer_pending [OF n]
  show "pending ?s t (snd (evaluate now q c)) = pending ?s t c + 1"
    using np by (simp add: ev deferred_decision_def Let_def split_beta te pending_def)
  show "tt_defer_count (d_treatment (fst (evaluate now q c))) = pending ?s t c + 1"
    using np by (simp add: ev deferred_decision_def Let_def split_beta te)
  have "eval_rule c1 ?e1 = rule"
    using note_defer_frame [of c ?s "e_effective e" now c] n rule te
      eval_frame_fields(5) [OF defer_frame_fields(1), of c c1] by (simp add: eval_rule_def)
  then show "pending ?s t c + 1 < pr_max_defer_count rule"
    if "pr_starvation_protected rule" "0 < pr_max_defer_count rule"
    using ne that np te by (auto simp: defer_exhausted_def Let_def not_le)
qed

text \<open>Asking about the same request again and again, at the given clock readings.\<close>

fun evaluate_run :: "i64 list \<Rightarrow> TrafficRequest \<Rightarrow> Coordinator \<Rightarrow> Decision list" where
  "evaluate_run [] q c = []"
| "evaluate_run (now # clock) q c =
     fst (evaluate now q c) # evaluate_run clock q (snd (evaluate now q c))"

lemma deferral_run_bounded:
  assumes "\<forall>d \<in> set (evaluate_run clock q c).
      d_outcome d = DO_Deferred \<and> tt_traffic_class (d_treatment d) = t"
    and "rule = policy_rule (c_policy c) t" and "pr_starvation_protected rule"
    and "pending (request_subject q) t c < pr_max_defer_count rule"
  shows "unat (pending (request_subject q) t c) + length clock < unat (pr_max_defer_count rule)"
  using assms
proof (induction clock arbitrary: c)
  case Nil
  then show ?case by (simp add: word_less_nat_alt)
next
  case (Cons now clock)
  let ?s = "request_subject q" and ?c = "snd (evaluate now q c)"
  have pos: "0 < pr_max_defer_count rule"
    using Cons.prems(4) by (metis word_coorder.not_eq_extremum word_not_simps(1))
  have d: "d_outcome (fst (evaluate now q c)) = DO_Deferred"
    "tt_traffic_class (d_treatment (fst (evaluate now q c))) = t"
    using Cons.prems(1) by simp_all
  note ed = evaluate_deferred [OF d Cons.prems(2)]
  have lt: "pending ?s t ?c < pr_max_defer_count rule"
    using ed(1) ed(3) [OF Cons.prems(3) pos] by simp
  have pol: "c_policy ?c = c_policy c"
    using evaluate_wf [of q c now] eval_frame_fields(5) by (simp add: decision_wf_def)
  have "unat (pending ?s t ?c) + length clock < unat (pr_max_defer_count rule)"
    by (rule Cons.IH) (use Cons.prems lt pol in simp_all)
  moreover have "unat (pending ?s t ?c) = unat (pending ?s t c) + 1"
    unfolding ed(1) using Cons.prems(4) unsigned_less [of "pr_max_defer_count rule", where ?'a = nat]
    by (intro unat_u32_inc) (simp add: word_less_nat_alt)
  ultimately show ?case by simp
qed



end
