(* ===== verification/Recovery.thy ===== *)
theory Recovery
  imports Admission
begin

text \<open>
  Boot and recovery of the coordinator: a snapshot is restored completely or not at all, a
  recovered coordinator holds no current authority until evidence is revalidated, and decisions
  of the previous epoch are refused.
\<close>

section \<open>Restoring request records\<close>

lemma restore_record_ok:
  assumes "r_id r \<noteq> nil_id" and "\<not> r_attempt_count r > kMaxAttemptsPerRequest"
    and "map_of (l_requests l) (r_id r) = None"
  shows "fst (restore_record r l) = ST_Ok"
  using assms by (simp add: restore_record_def Let_def)

lemma restore_record_cases:
  obtains "snd (restore_record r l) = l"
  | l' r' where "snd (restore_record r l) = evict_if_needed l'"
      "l_requests l' = um_emplace (r_id r) r' (l_requests l)" "l_flows l' = l_flows l"
      "rl_terminal (r_lifecycle r') \<or> r_requires_revalidation r'"
proof (cases "is_nil (r_id r) \<or> r_attempt_count r > kMaxAttemptsPerRequest \<or>
    map_of (l_requests l) (r_id r) \<noteq> None")
  case True
  then show thesis by (auto simp: restore_record_def intro: that(1))
next
  case False
  define restored where "restored = r\<lparr> r_attempts :=
    map (\<lambda>index. if index < unat (r_attempt_count r) then r_attempts r ! index else AttemptRecord_init)
      [0 ..< unat kMaxAttemptsPerRequest] \<rparr>"
  define r1 where "r1 = (if rl_terminal (r_lifecycle restored)
    then restored\<lparr> r_accounting_closed := True, r_active_flows := 0 \<rparr>
    else restored\<lparr> r_lifecycle := RL_Interrupted, r_requires_revalidation := True,
                   r_active_flows := 0, r_accounting_closed := False \<rparr>)"
  have "\<exists>order a. snd (restore_record r l) = evict_if_needed (refresh_request_counts
      (l\<lparr> l_terminal_order := order, l_accounting := a,
          l_requests := um_emplace (r_id r1) r1 (l_requests l) \<rparr>))"
    unfolding restore_record_def Let_def if_not_P [OF False [unfolded de_Morgan_disj, THEN conjunct1]]
      if_not_P [OF False [unfolded de_Morgan_disj, THEN conjunct2, THEN conjunct1]]
      if_not_P [OF False [unfolded de_Morgan_disj, THEN conjunct2, THEN conjunct2]]
      snd_conv restored_def [symmetric] r1_def [symmetric]
    by blast
  then obtain order a where eq: "snd (restore_record r l) = evict_if_needed (refresh_request_counts
      (l\<lparr> l_terminal_order := order, l_accounting := a,
          l_requests := um_emplace (r_id r1) r1 (l_requests l) \<rparr>))" by blast
  have "r_id r1 = r_id r" "rl_terminal (r_lifecycle r1) \<or> r_requires_revalidation r1"
    by (simp_all add: r1_def restored_def)
  then show thesis by (intro that(2) [OF eq, of r1]) simp_all
qed

definition quiescent :: "Ledger \<Rightarrow> bool" where
  "quiescent l \<longleftrightarrow>
     um_wf (l_requests l) \<and> l_flows l = [] \<and>
     (\<forall>rid r. map_of (l_requests l) rid = Some r \<longrightarrow>
        rl_terminal (r_lifecycle r) \<or> r_requires_revalidation r)"

lemma restore_record_lookup:
  assumes wf: "um_wf (l_requests l)" and k: "map_of (l_requests (snd (restore_record r l))) k = Some v"
  shows "map_of (l_requests l) k = Some v \<or>
    k = r_id r \<and> (rl_terminal (r_lifecycle v) \<or> r_requires_revalidation v)"
proof (rule restore_record_cases [of r l])
  assume "snd (restore_record r l) = l"
  then show ?thesis using k by simp
next
  fix l' r'
  assume l': "snd (restore_record r l) = evict_if_needed l'"
    and rq: "l_requests l' = um_emplace (r_id r) r' (l_requests l)"
    and t: "rl_terminal (r_lifecycle r') \<or> r_requires_revalidation r'"
  have "um_wf (l_requests l')" using wf rq by simp
  then have "map_of (l_requests l') k = Some v"
    using k l' evict_find_Some by simp
  then show ?thesis using rq t by (auto simp: um_find_emplace split: option.splits if_splits)
qed

lemma restore_record_wf: "um_wf (l_requests l) \<Longrightarrow> um_wf (l_requests (snd (restore_record r l)))"
  by (rule restore_record_cases [of r l]) (simp_all add: evict_requests)

lemma restore_record_flows: "l_flows (snd (restore_record r l)) = l_flows l"
  by (rule restore_record_cases [of r l]) simp_all

lemma restore_records_quiescent: "quiescent l \<Longrightarrow> quiescent (snd (restore_records rs l))"
proof (induction rs arbitrary: l)
  case Nil
  then show ?case by simp
next
  case (Cons r rs)
  have "quiescent (snd (restore_record r l))"
    using Cons.prems restore_record_lookup [of l r] restore_record_wf restore_record_flows
    unfolding quiescent_def by metis
  then show ?case using Cons.IH by (simp add: split_beta)
qed

lemma restore_records_ok:
  assumes "um_wf (l_requests l)"
    and "\<forall>r \<in> set rs. r_id r \<noteq> nil_id \<and> \<not> r_attempt_count r > kMaxAttemptsPerRequest \<and>
      map_of (l_requests l) (r_id r) = None"
    and "distinct (map r_id rs)"
  shows "fst (restore_records rs l) = ST_Ok"
  using assms
proof (induction rs arbitrary: l)
  case Nil
  then show ?case by simp
next
  case (Cons r rs)
  let ?l = "snd (restore_record r l)"
  have ok: "fst (restore_record r l) = ST_Ok" using Cons.prems(2) by (intro restore_record_ok) simp_all
  have "map_of (l_requests ?l) (r_id r') = None" if "r' \<in> set rs" for r'
  proof (cases "map_of (l_requests ?l) (r_id r')")
    case (Some v)
    have "map_of (l_requests l) (r_id r') = None" using Cons.prems(2) that by simp
    moreover have "r_id r' \<noteq> r_id r"
      using Cons.prems(3) imageI [OF that, of r_id] by (auto simp del: image_eqI)
    ultimately show ?thesis using restore_record_lookup [OF Cons.prems(1) Some] by simp
  qed
  then have "fst (restore_records rs ?l) = ST_Ok"
    using Cons.prems by (intro Cons.IH) (simp_all add: restore_record_wf)
  then show ?case using ok by (simp add: split_beta)
qed

lemma inspect_records_iff:
  "fst (inspect_records rs seen) = ST_Ok \<longleftrightarrow>
     (\<forall>r \<in> set rs. r_id r \<noteq> nil_id \<and> \<not> r_attempt_count r > kMaxAttemptsPerRequest \<and> r_id r \<notin> set seen) \<and>
     distinct (map r_id rs)"
proof (induction rs arbitrary: seen)
  case Nil
  show ?case by simp
next
  case (Cons a rs)
  have "r_id a \<notin> r_id ` set rs \<longleftrightarrow> (\<forall>r \<in> set rs. r_id r \<noteq> r_id a)" by (metis image_iff)
  then show ?case using Cons.IH [of "seen @ [r_id a]"] by auto
qed

lemma inspect_records_seen:
  "fst (inspect_records rs seen) = ST_Ok \<Longrightarrow> snd (inspect_records rs seen) = seen @ map r_id rs"
  by (induction rs arbitrary: seen) (auto split: if_splits)

lemma restore_records_lookup:
  "um_wf (l_requests l) \<Longrightarrow> map_of (l_requests (snd (restore_records rs l))) k = Some v \<Longrightarrow>
   map_of (l_requests l) k \<noteq> None \<or> k \<in> r_id ` set rs"
proof (induction rs arbitrary: l)
  case Nil
  then show ?case by simp
next
  case (Cons r rs)
  show ?case
  proof (cases "fst (restore_record r l) = ST_Ok")
    case True
    then have "map_of (l_requests (snd (restore_record r l))) k \<noteq> None \<or> k \<in> r_id ` set rs"
      using Cons.prems(2) by (intro Cons.IH restore_record_wf [OF Cons.prems(1)]) (simp add: split_beta)
    then show ?thesis using restore_record_lookup [OF Cons.prems(1), of r k] by fastforce
  next
    case False
    then show ?thesis
      using Cons.prems restore_record_lookup [OF Cons.prems(1), of r k v] by (auto simp: split_beta)
  qed
qed

section \<open>All or nothing\<close>

lemma clear_state_fields [simp]:
  "c_config (clear_state c) = c_config c" "c_epoch (clear_state c) = c_epoch c"
  "c_policy (clear_state c) = c_policy c" "c_boot_count (clear_state c) = c_boot_count c"
  "c_models (clear_state c) = []" "c_states (clear_state c) = []" "c_flows (clear_state c) = []"
  "c_transfers (clear_state c) = []" "c_ledger (clear_state c) = ledger_clear (c_ledger c)"
  "c_topology_present (clear_state c) = False"
  by (simp_all add: clear_state_def)

lemma ledger_clear_fields [simp]:
  "l_requests (ledger_clear l) = []" "l_flows (ledger_clear l) = []"
  "ledger_clear (ledger_clear l) = ledger_clear l"
  by (simp_all add: ledger_clear_def)

lemma clear_state_idem [simp]: "clear_state (clear_state c) = clear_state c"
  by (simp add: clear_state_def comp_def)

lemma validate_restored_config:
  "c_config c = c_config c' \<Longrightarrow> validate_restored_state s c = validate_restored_state s c'"
  by (simp add: validate_restored_state_def)

lemma validated_records:
  assumes "validate_restored_state s c = ST_Ok"
  shows "fst (inspect_records (ps_terminal_requests s @ ps_interrupted_requests s) []) = ST_Ok"
proof -
  have t: "fst (inspect_records (ps_terminal_requests s) []) = ST_Ok"
    and i: "fst (inspect_records (ps_interrupted_requests s) (map r_id (ps_terminal_requests s))) = ST_Ok"
  proof -
    show t: "fst (inspect_records (ps_terminal_requests s) []) = ST_Ok"
      using assms by (auto simp: validate_restored_state_def split_beta split: if_splits)
    show "fst (inspect_records (ps_interrupted_requests s) (map r_id (ps_terminal_requests s))) = ST_Ok"
      using assms inspect_records_seen [OF t]
      by (auto simp: validate_restored_state_def split_beta split: if_splits)
  qed
  then show ?thesis unfolding inspect_records_iff by (simp add: ball_Un disjoint_iff) (metis imageE)
qed

lemma restore_validated:
  assumes v: "validate_restored_state s c = ST_Ok"
  shows "fst (restore_state s (clear_state c)) = ST_Ok"
proof -
  note all = validated_records [OF v, unfolded inspect_records_iff]
  let ?l = "ledger_clear (c_ledger c)"
  have a: "fst (restore_records (ps_terminal_requests s) ?l) = ST_Ok"
    using all by (intro restore_records_ok) auto
  let ?l1 = "snd (restore_records (ps_terminal_requests s) ?l)"
  have q: "quiescent ?l1" by (rule restore_records_quiescent) (simp add: quiescent_def)
  have "map_of (l_requests ?l1) (r_id r) = None" if "r \<in> set (ps_interrupted_requests s)" for r
    using restore_records_lookup [of ?l "ps_terminal_requests s" "r_id r"] all that
    by (cases "map_of (l_requests ?l1) (r_id r)") auto
  then have b: "fst (restore_records (ps_interrupted_requests s) ?l1) = ST_Ok"
    using all q by (intro restore_records_ok) (auto simp: quiescent_def)
  have "validate_restored_state s (clear_state c) = ST_Ok"
    using v validate_restored_config [of c "clear_state c" s] by simp
  then show ?thesis using a b by (simp add: restore_state_def Let_def split_beta)
qed

lemma restore_refused:
  "validate_restored_state s c \<noteq> ST_Ok \<Longrightarrow> restore_state s c = (validate_restored_state s c, c)"
  by (simp add: restore_state_def Let_def)

lemma boot_from_refused:
  assumes "validate_restored_state s c \<noteq> ST_Ok"
  shows "boot_from seeded drawn s c = (Inl (validate_restored_state s c), clear_state c)"
proof -
  have "validate_restored_state s (clear_state c) = validate_restored_state s c"
    by (rule validate_restored_config) simp
  with assms show ?thesis by (simp add: boot_from_def restore_refused)
qed

lemma boot_from_validated:
  "boot_from seeded drawn s c = (Inr g, c') \<Longrightarrow> validate_restored_state s c = ST_Ok"
  by (metis Inl_Inr_False boot_from_refused prod.inject)

text \<open>
  C11. Recovery is all-or-nothing: \<open>boot_from\<close> succeeds exactly when the document passes
  validation - applying a validated document cannot fail half-way - and then starts the epoch
  after the recorded one; a refused document leaves an empty coordinator under the old epoch
  and policy, with the validation's error as the answer.
\<close>

theorem boot_all_or_nothing:
  "(case boot_from seeded drawn s c of
      (Inl code, c') \<Rightarrow>
        validate_restored_state s c = code \<and> code \<noteq> ST_Ok \<and> c' = clear_state c
    | (Inr g, c') \<Rightarrow>
        validate_restored_state s c = ST_Ok \<and> g = gen_succ (ps_epoch s) \<and> c_epoch c' = g)"
proof (cases "validate_restored_state s c = ST_Ok")
  case True
  then show ?thesis
    using restore_validated [OF True]
    by (simp add: boot_from_def Let_def split_beta reseed_boot_identity_def)
next
  case False
  then show ?thesis by (simp add: boot_from_refused)
qed

section \<open>A recovered coordinator holds no authority\<close>

lemma fold_emplace_all:
  assumes "\<forall>k v. map_of m k = Some v \<longrightarrow> P v" and "\<And>x. P (val x)"
  shows "map_of (fold (\<lambda>x. um_emplace (key x) (val x)) xs m) k = Some v \<Longrightarrow> P v"
  using assms
proof (induction xs arbitrary: m)
  case Nil
  then show ?case by simp
next
  case (Cons x xs)
  show ?case
  proof (rule Cons.IH)
    show "map_of (fold (\<lambda>x. um_emplace (key x) (val x)) xs (um_emplace (key x) (val x) m)) k = Some v"
      using Cons.prems(1) by simp
    show "\<forall>k v. map_of (um_emplace (key x) (val x) m) k = Some v \<longrightarrow> P v"
      using Cons.prems(2,3) by (auto simp: um_find_emplace split: option.splits if_splits)
  qed (rule Cons.prems(3))
qed

lemma boot_from_success:
  assumes "boot_from seeded drawn s c = (Inr g, c')"
  shows "quiescent (c_ledger c')" "c_flows c' = []" "c_transfers c' = []"
    "\<And>h m. map_of (c_models c') h = Some m \<Longrightarrow> ms_requires_revalidation m"
    "\<And>h m. map_of (c_states c') h = Some m \<Longrightarrow> sg_requires_revalidation m"
    "c_epoch c' = gen_succ (ps_epoch s)"
    "p_generation (c_policy c') = gen_succ (p_generation (ps_policy s))"
    "c_topology_present c' \<longrightarrow> c_topology c' = ps_topology s"
proof -
  let ?c1 = "snd (restore_state s (clear_state c))"
  have v: "validate_restored_state s c = ST_Ok"
    using assms by (rule boot_from_validated)
  note ok = restore_validated [OF v]
  have v': "validate_restored_state s (clear_state c) = ST_Ok"
    using v validate_restored_config [of c "clear_state c" s] by simp
  have c': "c_ledger c' = c_ledger ?c1" "c_flows c' = c_flows ?c1" "c_transfers c' = c_transfers ?c1"
    "c_models c' = c_models ?c1" "c_states c' = c_states ?c1" "c_policy c' = c_policy ?c1"
    "c_epoch c' = gen_succ (ps_epoch s)" "c_topology c' = c_topology ?c1"
    "c_topology_present c' = c_topology_present ?c1"
    using assms ok by (auto simp: boot_from_def Let_def split_beta reseed_boot_identity_def)
  let ?l = "ledger_clear (c_ledger c)"
  let ?l1 = "snd (restore_records (ps_terminal_requests s) ?l)"
  have st: "fst (restore_records (ps_terminal_requests s) ?l) = ST_Ok"
    using ok v' by (auto simp: restore_state_def Let_def split_beta split: if_splits)
  have l: "c_ledger ?c1 = snd (restore_records (ps_interrupted_requests s) ?l1)"
    using st v' by (simp add: restore_state_def Let_def split_beta)
  have "quiescent ?l" by (simp add: quiescent_def)
  then show "quiescent (c_ledger c')"
    unfolding c' l by (intro restore_records_quiescent)
  show "c_flows c' = []" "c_transfers c' = []"
    unfolding c' using v' by (simp_all add: restore_state_def Let_def split_beta)
  show "c_epoch c' = gen_succ (ps_epoch s)" by (rule c')
  show "p_generation (c_policy c') = gen_succ (p_generation (ps_policy s))"
    "c_topology_present c' \<longrightarrow> c_topology c' = ps_topology s"
    unfolding c' using v' by (simp_all add: restore_state_def Let_def split_beta)
  have m: "c_models ?c1 = fold (\<lambda>m. um_emplace (ms_model_hash m) (m\<lparr> ms_requires_revalidation := True \<rparr>))
      (ps_models s) []"
    and g: "c_states ?c1 = fold (\<lambda>g. um_emplace (sg_state_hash g) (g\<lparr> sg_requires_revalidation := True \<rparr>))
      (ps_states s) []"
    using v' by (simp_all add: restore_state_def Let_def split_beta)
  show "ms_requires_revalidation m" if "map_of (c_models c') h = Some m" for h m
    using that unfolding c' m by (elim fold_emplace_all [rotated 2]) simp_all
  show "sg_requires_revalidation m" if "map_of (c_states c') h = Some m" for h m
    using that unfolding c' g by (elim fold_emplace_all [rotated 2]) simp_all
qed

text \<open>
  C12. Recovery mints no authority: right after a successful recovery no traffic request at all
  is admitted, there is no flow and no transfer, every model and state generation must be
  revalidated before it can be relied on, and every restored request is terminal or marked for
  revalidation.
\<close>

theorem recovery_requires_revalidation:
  "boot_from seeded drawn s c = (Inr g, c') \<Longrightarrow>
   \<not> permits_traffic (fst (evaluate now q c')) \<and> c_flows c' = [] \<and> c_transfers c' = [] \<and>
   quiescent (c_ledger c') \<and>
   (\<exists>code. require_model_generation h c' = Inl code) \<and>
   (\<exists>code. require_state_generation h c' = Inl code)"
proof -
  assume b: "boot_from seeded drawn s c = (Inr g, c')"
  note f = boot_from_success [OF b]
  have "\<not> permits_traffic (fst (evaluate now q c'))"
  proof
    assume p: "permits_traffic (fst (evaluate now q c'))"
    obtain e e1 c1 guard where ch: "evaluate_checks now q c' = Inr e" by (rule evaluate_permits [OF p])
    show False
      using evaluate_checks_Inr(5,6) [OF ch] f(1,3)
      by (cases "sub_kind (request_subject q) = SK_Serving")
        (auto simp: serving_fenced_def transfer_fenced_def quiescent_def record_open_def)
  qed
  moreover have "\<exists>code. require_model_generation h c' = Inl code"
    using f(4) by (simp add: require_model_generation_def split: option.split)
  moreover have "\<exists>code. require_state_generation h c' = Inl code"
    using f(5) by (simp add: require_state_generation_def split: option.split)
  ultimately show ?thesis using f(1-3) by blast
qed

text \<open>
  C13. Old decisions are fenced: a decision stamped in the recorded epoch or an earlier one is
  refused after recovery, for every subject, and opens no flow.
\<close>

theorem recovery_fences_old_decisions:
  "boot_from seeded drawn s c = (Inr g, c') \<Longrightarrow> ps_epoch s \<noteq> - 1 \<Longrightarrow>
   au_epoch (d_authority d) \<le> ps_epoch s \<Longrightarrow>
   validate_decision d c' \<in> {ST_StaleEpoch, ST_StaleAuthority} \<and>
   open_flow d bytes now c' = (Inl (validate_decision d c'), c')"
proof -
  assume b: "boot_from seeded drawn s c = (Inr g, c')" and e: "ps_epoch s \<noteq> - 1"
    and le: "au_epoch (d_authority d) \<le> ps_epoch s"
  have "au_epoch (d_authority d) \<noteq> c_epoch c'"
    using gen_succ_less [OF e] le boot_from_success(6) [OF b] by auto
  then have "validate_decision d c' \<in> {ST_StaleEpoch, ST_StaleAuthority}"
    by (simp add: validate_decision_def validate_authority_def)
  then show ?thesis by (auto simp: open_flow_def Let_def)
qed

lemma boot_from_accepted:
  assumes "validate_restored_state s c = ST_Ok"
  shows "\<exists>c'. boot_from seeded drawn s c = (Inr (gen_succ (ps_epoch s)), c')"
  using restore_validated [OF assms]
  by (simp add: boot_from_def Let_def split_beta reseed_boot_identity_def)

definition demo_snapshot :: PersistedCoordinatorState where
  "demo_snapshot = export_state demo_serving"

definition demo_recovered :: Coordinator where
  "demo_recovered = snd (boot_from (\<lambda>s. (s, s)) (8, 9) demo_snapshot demo_boot)"

lemma demo_recovery:
  "boot_from (\<lambda>s. (s, s)) (8, 9) demo_snapshot demo_boot = (Inr (gen_succ (ps_epoch demo_snapshot)), demo_recovered)"
proof -
  have "validate_restored_state demo_snapshot demo_boot = ST_Ok" by code_simp
  then obtain c' where "boot_from (\<lambda>s. (s, s)) (8, 9) demo_snapshot demo_boot =
      (Inr (gen_succ (ps_epoch demo_snapshot)), c')"
    using boot_from_accepted by blast
  then show ?thesis by (simp add: demo_recovered_def)
qed

theorem recovery_requires_revalidation_witness:
  "\<not> permits_traffic (fst (evaluate 20 demo_query demo_recovered)) \<and> quiescent (c_ledger demo_recovered)"
  using recovery_requires_revalidation [OF demo_recovery] by blast

theorem recovery_fences_old_decisions_witness:
  "\<exists>code. open_flow (fst (evaluate 13 demo_query demo_serving)) 64 20 demo_recovered = (Inl code, demo_recovered)"
proof -
  have "ps_epoch demo_snapshot \<noteq> - 1"
    "au_epoch (d_authority (fst (evaluate 13 demo_query demo_serving))) \<le> ps_epoch demo_snapshot"
    by code_simp+
  from recovery_fences_old_decisions [OF demo_recovery this, of 64 20] show ?thesis by blast
qed

end
