(* ===== verification/Registry.thy ===== *)
theory Registry
  imports Recovery
begin

text \<open>
  The generation registries of the coordinator: models and session states are two instances of
  one contract, a compare-and-set counter per key that refuses to move or to be read while a
  restored value awaits revalidation.
\<close>

locale generation_registry =
  fixes cell :: "'s \<Rightarrow> u64 \<Rightarrow> (generation \<times> bool) option"
    and advance :: "u64 \<Rightarrow> generation option \<Rightarrow> 's \<Rightarrow> generation result \<times> 's"
    and revalidate :: "u64 \<Rightarrow> 's \<Rightarrow> generation result \<times> 's"
    and require :: "u64 \<Rightarrow> 's \<Rightarrow> generation result"
  assumes advance_error: "advance h expected s = (Inl code, t) \<Longrightarrow> t = s"
    and advance_moves: "advance h expected s = (Inr g, t) \<Longrightarrow>
      cell t = (cell s)(h \<mapsto> (g, False)) \<and>
      g = (case cell s h of None \<Rightarrow> 1 | Some (old, _) \<Rightarrow> gen_next old)"
    and advance_guard: "advance h expected s = (Inr g, t) \<Longrightarrow>
      (case cell s h of
         None \<Rightarrow> expected = None
       | Some (old, flagged) \<Rightarrow> \<not> flagged \<and> (expected = None \<or> expected = Some old))"
    and advance_flagged: "cell s h = Some (old, True) \<Longrightarrow> h \<noteq> 0 \<Longrightarrow>
      advance h expected s = (Inl ST_RevalidationRequired, s)"
    and advance_mismatch: "cell s h = Some (old, False) \<Longrightarrow> h \<noteq> 0 \<Longrightarrow> expected = Some other \<Longrightarrow>
      other \<noteq> old \<Longrightarrow> advance h expected s = (Inl ST_Conflict, s)"
    and advance_nil: "advance h expected s = (Inr g, t) \<Longrightarrow> h \<noteq> 0"
    and revalidate_moves: "revalidate h s =
      (case cell s h of None \<Rightarrow> (Inl ST_NotFound, s) | Some (g, _) \<Rightarrow> (Inr g, snd (revalidate h s)))"
    and revalidate_cell: "cell s h = Some (g, flagged) \<Longrightarrow>
      cell (snd (revalidate h s)) = (cell s)(h \<mapsto> (g, False))"
    and require_reads: "require h s =
      (case cell s h of
         None \<Rightarrow> Inl ST_NotFound
       | Some (g, flagged) \<Rightarrow> if flagged then Inl ST_RevalidationRequired else Inr g)"
begin

text \<open>A successful advance is immediately readable, and other keys are untouched.\<close>

lemma advance_require:
  "advance h expected s = (Inr g, t) \<Longrightarrow>
   require h t = Inr g \<and> (k \<noteq> h \<longrightarrow> require k t = require k s)"
  using advance_moves [of h expected s g t] by (simp add: require_reads)

text \<open>Of two callers that expect the same generation only the first succeeds.\<close>

lemma compare_and_set:
  assumes "advance h (Some old) s = (Inr g, t)"
  shows "require h s = Inr old \<and> g = gen_next old \<and> advance h (Some old) t = (Inl ST_Conflict, t)"
proof -
  obtain flagged where c: "cell s h = Some (old, flagged)" "\<not> flagged"
    using advance_guard [OF assms] by (auto split: option.splits)
  have g: "g = gen_next old" "cell t h = Some (g, False)"
    using advance_moves [OF assms] c by auto
  have "gen_next old \<noteq> old" by (simp add: gen_next_def)
  then have "advance h (Some old) t = (Inl ST_Conflict, t)"
    using advance_mismatch [OF g(2) advance_nil [OF assms] refl] g(1) by auto
  then show ?thesis using c g by (simp add: require_reads)
qed

text \<open>A flagged value is neither readable nor movable, and revalidation keeps its number.\<close>

lemma flagged_blocks:
  "cell s h = Some (g, True) \<Longrightarrow> h \<noteq> 0 \<Longrightarrow>
   require h s = Inl ST_RevalidationRequired \<and>
   advance h expected s = (Inl ST_RevalidationRequired, s) \<and>
   fst (revalidate h s) = Inr g \<and> require h (snd (revalidate h s)) = Inr g"
  using advance_flagged [of s h g expected] revalidate_moves [of h s] revalidate_cell [of s h g True]
  by (simp add: require_reads) (metis fst_conv)

end

section \<open>Models and states\<close>

definition model_cell :: "Coordinator \<Rightarrow> u64 \<Rightarrow> (generation \<times> bool) option" where
  "model_cell c h = map_option (\<lambda>m. (ms_generation m, ms_requires_revalidation m)) (map_of (c_models c) h)"

definition state_cell :: "Coordinator \<Rightarrow> u64 \<Rightarrow> (generation \<times> bool) option" where
  "state_cell c h = map_option (\<lambda>g. (sg_generation g, sg_requires_revalidation g)) (map_of (c_states c) h)"

lemma set_model_generation_cases:
  "set_model_generation h expected c =
     (case (if h = 0 then Some ST_InvalidArgument
            else case model_cell c h of
                   None \<Rightarrow> if expected \<noteq> None then Some ST_Conflict
                          else if length (c_models c) \<ge> unat (cl_max_model_records (cc_limits (c_config c)))
                          then Some ST_CapacityExhausted else None
                 | Some (g, flagged) \<Rightarrow> if flagged then Some ST_RevalidationRequired
                     else if expected \<noteq> None \<and> expected \<noteq> Some g then Some ST_Conflict else None) of
        Some code \<Rightarrow> (Inl code, c)
      | None \<Rightarrow>
          let g = (case model_cell c h of None \<Rightarrow> 1 | Some (g, _) \<Rightarrow> gen_next g)
          in (Inr g, c\<lparr> c_models := um_put h \<lparr> ms_model_hash = h, ms_generation = g,
                 ms_requires_revalidation = False \<rparr> (c_models c) \<rparr>))"
  by (cases "map_of (c_models c) h") (simp_all add: set_model_generation_def model_cell_def Let_def)

lemma advance_state_generation_cases:
  "advance_state_generation h expected c =
     (case (if h = 0 then Some ST_InvalidArgument
            else case state_cell c h of
                   None \<Rightarrow> if expected \<noteq> None then Some ST_Conflict
                          else if length (c_states c) \<ge> unat (cl_max_state_records (cc_limits (c_config c)))
                          then Some ST_CapacityExhausted else None
                 | Some (g, flagged) \<Rightarrow> if flagged then Some ST_RevalidationRequired
                     else if expected \<noteq> None \<and> expected \<noteq> Some g then Some ST_Conflict else None) of
        Some code \<Rightarrow> (Inl code, c)
      | None \<Rightarrow>
          let g = (case state_cell c h of None \<Rightarrow> 1 | Some (g, _) \<Rightarrow> gen_next g)
          in (Inr g, c\<lparr> c_states := um_put h \<lparr> sg_state_hash = h, sg_generation = g,
                 sg_requires_revalidation = False \<rparr> (c_states c) \<rparr>))"
  by (cases "map_of (c_states c) h") (simp_all add: advance_state_generation_def state_cell_def Let_def)

lemma model_cell_put [simp]:
  "model_cell (c\<lparr> c_models := um_put h m (c_models c) \<rparr>) =
     (model_cell c)(h \<mapsto> (ms_generation m, ms_requires_revalidation m))"
  by (auto simp: model_cell_def)

lemma state_cell_put [simp]:
  "state_cell (c\<lparr> c_states := um_put h m (c_states c) \<rparr>) =
     (state_cell c)(h \<mapsto> (sg_generation m, sg_requires_revalidation m))"
  by (auto simp: state_cell_def)

interpretation models: generation_registry model_cell set_model_generation
  revalidate_model_generation require_model_generation
  by unfold_locales
    (auto simp: set_model_generation_cases revalidate_model_generation_def require_model_generation_def
      Let_def split: option.splits if_splits, auto simp: model_cell_def)

interpretation states: generation_registry state_cell advance_state_generation
  revalidate_state_generation require_state_generation
  by unfold_locales
    (auto simp: advance_state_generation_cases revalidate_state_generation_def require_state_generation_def
      Let_def split: option.splits if_splits, auto simp: state_cell_def)

text \<open>
  C16. Generations move by compare-and-set: when an advance of a model or state generation
  that names the expected current value succeeds, that value was current, the new one is its
  successor and is readable, and repeating the same call - a second writer with the same
  expectation - answers a conflict and changes nothing.
\<close>

theorem generation_compare_and_set:
  "(set_model_generation h (Some old) c = (Inr g, c1) \<longrightarrow>
      require_model_generation h c = Inr old \<and> g = gen_next old \<and>
      require_model_generation h c1 = Inr g \<and>
      set_model_generation h (Some old) c1 = (Inl ST_Conflict, c1)) \<and>
   (advance_state_generation h (Some old) c = (Inr g, c2) \<longrightarrow>
      require_state_generation h c = Inr old \<and> g = gen_next old \<and>
      require_state_generation h c2 = Inr g \<and>
      advance_state_generation h (Some old) c2 = (Inl ST_Conflict, c2))"
  using models.compare_and_set [of h old c g c1] models.advance_require [of h "Some old" c g c1]
    states.compare_and_set [of h old c g c2] states.advance_require [of h "Some old" c g c2]
  by blast

definition demo_model :: Coordinator where
  "demo_model = snd (set_model_generation 5 None demo_boot)"

theorem generation_compare_and_set_witness:
  "require_model_generation 5 (snd (set_model_generation 5 (Some 1) demo_model)) = Inr 2 \<and>
   set_model_generation 5 (Some 1) (snd (set_model_generation 5 (Some 1) demo_model)) =
     (Inl ST_Conflict, snd (set_model_generation 5 (Some 1) demo_model))"
proof -
  have "fst (set_model_generation 5 (Some 1) demo_model) = Inr 2" by code_simp
  then have "set_model_generation 5 (Some 1) demo_model = (Inr 2, snd (set_model_generation 5 (Some 1) demo_model))"
    by (metis prod.collapse)
  then show ?thesis
    using generation_compare_and_set [of 5 1 demo_model 2 "snd (set_model_generation 5 (Some 1) demo_model)"]
    by blast
qed

text \<open>
  C15. Advancing a generation fences the transfers bound to it: once the session state (or the
  model) a registered transfer was bound to has moved on, no evaluation admits that transfer
  and no decision about it, however it was obtained, validates or opens a flow.
\<close>

theorem generation_advance_fences_transfers:
  "map_of (c_transfers c) tid = Some t \<Longrightarrow>
   (require_state_generation (tr_state_hash t) c = Inr (tr_state_generation t) \<and>
      advance_state_generation (tr_state_hash t) expected c = (Inr g, c') \<or>
    tr_model_hash t \<noteq> 0 \<and> require_model_generation (tr_model_hash t) c = Inr (tr_model_generation t) \<and>
      set_model_generation (tr_model_hash t) expected c = (Inr g, c')) \<Longrightarrow>
   sub_kind (request_subject q) = SK_Transfer \<Longrightarrow> sub_transfer (request_subject q) = tid \<Longrightarrow>
   sub_kind (d_subject d) = SK_Transfer \<Longrightarrow> sub_transfer (d_subject d) = tid \<Longrightarrow>
   \<not> permits_traffic (fst (evaluate now q c')) \<and> validate_decision d c' \<noteq> ST_Ok \<and>
   open_flow d bytes now c' = (Inl (validate_decision d c'), c')"
proof -
  assume t: "map_of (c_transfers c) tid = Some t"
    and moved: "require_state_generation (tr_state_hash t) c = Inr (tr_state_generation t) \<and>
        advance_state_generation (tr_state_hash t) expected c = (Inr g, c') \<or>
      tr_model_hash t \<noteq> 0 \<and> require_model_generation (tr_model_hash t) c = Inr (tr_model_generation t) \<and>
        set_model_generation (tr_model_hash t) expected c = (Inr g, c')"
    and q: "sub_kind (request_subject q) = SK_Transfer" "sub_transfer (request_subject q) = tid"
    and d: "sub_kind (d_subject d) = SK_Transfer" "sub_transfer (d_subject d) = tid"
  have next_neq: "gen_next x \<noteq> x" for x by (simp add: gen_next_def)
  have t': "map_of (c_transfers c') tid = Some t"
    using moved t by (auto simp: advance_state_generation_cases set_model_generation_cases Let_def
        split: option.splits if_splits)
  have stale: "require_state_generation (tr_state_hash t) c' \<noteq> Inr (tr_state_generation t) \<or>
      tr_model_hash t \<noteq> 0 \<and> require_model_generation (tr_model_hash t) c' \<noteq> Inr (tr_model_generation t)"
    using moved
  proof
    assume m: "require_state_generation (tr_state_hash t) c = Inr (tr_state_generation t) \<and>
        advance_state_generation (tr_state_hash t) expected c = (Inr g, c')"
    then have "g = gen_next (tr_state_generation t)"
      using states.advance_moves [of "tr_state_hash t" expected c g c'] states.require_reads [of "tr_state_hash t" c]
      by (auto split: option.splits if_splits)
    then show ?thesis using m states.advance_require [of "tr_state_hash t" expected c g c'] next_neq by auto
  next
    assume m: "tr_model_hash t \<noteq> 0 \<and> require_model_generation (tr_model_hash t) c = Inr (tr_model_generation t) \<and>
        set_model_generation (tr_model_hash t) expected c = (Inr g, c')"
    then have "g = gen_next (tr_model_generation t)"
      using models.advance_moves [of "tr_model_hash t" expected c g c'] models.require_reads [of "tr_model_hash t" c]
      by (auto split: option.splits if_splits)
    then show ?thesis using m models.advance_require [of "tr_model_hash t" expected c g c'] next_neq by auto
  qed
  have "\<not> transfer_fenced q c'" using stale q t' by (auto simp: transfer_fenced_def)
  then have "\<not> permits_traffic (fst (evaluate now q c'))"
    using evaluate_checks_Inr(6) [of now q c'] q(1) by (metis SubjectKind.distinct(7) evaluate_permits)
  moreover have nt: "validate_transfer d c' \<noteq> ST_Ok"
    using stale d(2) t' models.require_reads states.require_reads
    by (auto simp: validate_transfer_def Let_def split: sum.split option.splits if_splits)
  then have "validate_decision d c' \<noteq> ST_Ok"
    using d(1) by (auto simp: validate_decision_def split: AuthorityVerdict.split)
  ultimately show ?thesis by (simp add: open_flow_def)
qed

definition demo_transfer_id :: StateTransferId where
  "demo_transfer_id = Id128 3 4"

definition demo_registration :: TransferRegistration where
  "demo_registration =
     \<lparr> tg_id = demo_transfer_id, tg_state_hash = 6, tg_model_hash = 5, tg_payload_bytes = 4096,
       tg_declared_class = TC_ModelTransfer, tg_direction = FD_Lateral,
       tg_required_integrity = IC_ChecksumAndVerify, tg_request = nil_id, tg_attempt = nil_id,
       tg_deadline = instant_unset \<rparr>"

definition demo_registered_transfer :: Coordinator where
  "demo_registered_transfer = snd (register_transfer demo_registration 20
     (snd (publish_topology (demo_congestion\<lparr> te_congestion_signalled := False \<rparr>) 12
       (snd (advance_state_generation 6 None demo_model)))))"

definition demo_transfer_subject :: TrafficSubject where
  "demo_transfer_subject = TrafficSubject_init\<lparr> sub_kind := SK_Transfer, sub_transfer := demo_transfer_id \<rparr>"

definition demo_transfer_query :: TrafficRequest where
  "demo_transfer_query = TrafficRequest_init
     \<lparr> q_subject := Some demo_transfer_subject, q_declared_class := TC_ModelTransfer,
       q_direction := FD_Lateral, q_payload_bytes := 4096 \<rparr>"

theorem generation_advance_fences_transfers_witness:
  "permits_traffic (fst (evaluate 21 demo_transfer_query demo_registered_transfer)) \<and>
   \<not> permits_traffic (fst (evaluate 21 demo_transfer_query
       (snd (advance_state_generation 6 (Some 1) demo_registered_transfer))))"
proof -
  let ?c = demo_registered_transfer
  obtain t where t: "map_of (c_transfers ?c) demo_transfer_id = Some t"
    "tr_state_hash t = 6" "tr_state_generation t = 1"
  proof -
    have "map_option (\<lambda>t. (tr_state_hash t, tr_state_generation t))
        (map_of (c_transfers ?c) demo_transfer_id) = Some (6, 1)" by code_simp
    then show thesis using that by auto
  qed
  have "require_state_generation 6 ?c = Inr 1" by code_simp
  moreover have "fst (advance_state_generation 6 (Some 1) ?c) = Inr 2" by code_simp
  then have "advance_state_generation 6 (Some 1) ?c = (Inr 2, snd (advance_state_generation 6 (Some 1) ?c))"
    by (metis prod.collapse)
  moreover have "sub_kind (request_subject demo_transfer_query) = SK_Transfer"
    "sub_transfer (request_subject demo_transfer_query) = demo_transfer_id"
    "sub_kind (d_subject (Decision_init\<lparr> d_subject := demo_transfer_subject \<rparr>)) = SK_Transfer"
    "sub_transfer (d_subject (Decision_init\<lparr> d_subject := demo_transfer_subject \<rparr>)) = demo_transfer_id"
    by code_simp+
  ultimately have "\<not> permits_traffic (fst (evaluate 21 demo_transfer_query
      (snd (advance_state_generation 6 (Some 1) ?c))))"
    using generation_advance_fences_transfers [OF t(1), of "Some 1" 2 "snd (advance_state_generation 6 (Some 1) ?c)"
        demo_transfer_query "Decision_init\<lparr> d_subject := demo_transfer_subject \<rparr>"] t(2,3) by simp
  moreover have "permits_traffic (fst (evaluate 21 demo_transfer_query ?c))" by code_simp
  ultimately show ?thesis by blast
qed

end
