(* ===== verification/Codec.thy ===== *)
theory Codec
  imports Status "HOL-Library.State_Monad" "HOL-Library.Sublist"
begin

unbundle bit_operations_syntax

text \<open>
  The bounded binary encoding (\<open>include/itf/codec.hpp\<close>, \<open>src/codec.cpp\<close>): little-endian loads
  and stores, the UTF-8 and label checks, the \<open>Writer\<close> with its ceiling and sticky failure, and
  the \<open>Reader\<close> with its cursor, bounds and sticky failure. A method is a computation of the state
  monad over the object. A \<open>std::string\<close> is its list of bytes; \<open>std::size_t\<close> values are naturals,
  since every one of them is the length of a buffer in memory or a configured limit.

  The second half is the calculus the message theories use: \<open>writes\<close> and \<open>reads\<close> say which bytes
  a computation appends or consumes, \<open>transmits\<close> pairs them, \<open>sane\<close> collects what holds of a
  decoder on arbitrary input, and the locale \<open>codec\<close> is the contract of an encoder and decoder pair.
\<close>

named_theorems transmits_field \<open>the value of a field arrives\<close>
named_theorems transmission \<open>an encoder and its decoder, one field at a time\<close>
named_theorems size_rules \<open>how many bytes an encoder writes\<close>
named_theorems sane_rules \<open>decoder steps stay inside the input\<close>
named_theorems reads_rules \<open>decoder steps that consume nothing\<close>
named_theorems guarded_rules \<open>decoders that report a failed reader\<close>

section \<open>Little-endian integers\<close>

definition store_u16 :: "u16 \<Rightarrow> u8 list" where
  "store_u16 value = [ucast (value AND 0xFF), ucast (drop_bit 8 value AND 0xFF)]"

definition store_u32 :: "u32 \<Rightarrow> u8 list" where
  "store_u32 value = map (\<lambda>index. ucast (drop_bit (index * 8) value AND 0xFF)) [0..<4]"

definition store_u64 :: "u64 \<Rightarrow> u8 list" where
  "store_u64 value = map (\<lambda>index. ucast (drop_bit (index * 8) value AND 0xFF)) [0..<8]"

definition load_u16 :: "u8 list \<Rightarrow> u16" where
  "load_u16 bytes = ucast (bytes ! 0) OR push_bit 8 (ucast (bytes ! 1))"

definition load_u32 :: "u8 list \<Rightarrow> u32" where
  "load_u32 bytes = fold (\<lambda>index value. value OR push_bit (index * 8) (ucast (bytes ! index))) [0..<4] 0"

definition load_u64 :: "u8 list \<Rightarrow> u64" where
  "load_u64 bytes = fold (\<lambda>index value. value OR push_bit (index * 8) (ucast (bytes ! index))) [0..<8] 0"

section \<open>Text checks\<close>

definition kMaxFieldStringBytes :: nat where "kMaxFieldStringBytes = 4096"

definition kMaxFramePayloadBytes :: nat where "kMaxFramePayloadBytes = 4 * 1024 * 1024"

definition kMaxSnapshotPayloadBytes :: nat where "kMaxSnapshotPayloadBytes = 32 * 1024 * 1024"

definition kMaxCollectionEntries :: nat where "kMaxCollectionEntries = 65536"

text \<open>The number of continuation bytes and the payload bits a lead byte announces.\<close>

definition utf8_lead :: "u8 \<Rightarrow> (nat \<times> u32) option" where
  "utf8_lead lead =
     (if lead AND 0xE0 = 0xC0 then Some (1, ucast (lead AND 0x1F))
      else if lead AND 0xF0 = 0xE0 then Some (2, ucast (lead AND 0x0F))
      else if lead AND 0xF8 = 0xF0 then Some (3, ucast (lead AND 0x07))
      else None)"

fun utf8_continue :: "u8 list \<Rightarrow> u32 \<Rightarrow> u32 option" where
  "utf8_continue [] code_point = Some code_point"
| "utf8_continue (continuation # rest) code_point =
     (if continuation AND 0xC0 \<noteq> 0x80 then None
      else utf8_continue rest (push_bit 6 code_point OR ucast (continuation AND 0x3F)))"

text \<open>The loop; its argument is the part of the text from \<open>index\<close> on.\<close>

function is_valid_utf8 :: "u8 list \<Rightarrow> bool" where
  "is_valid_utf8 [] = True"
| "is_valid_utf8 (lead # rest) =
     (if lead < 0x80 then is_valid_utf8 rest
      else case utf8_lead lead of
        None \<Rightarrow> False
      | Some (extra, code_point) \<Rightarrow>
          if extra \<ge> length (lead # rest) then False
          else case utf8_continue (take extra rest) code_point of
            None \<Rightarrow> False
          | Some code_point \<Rightarrow>
              if extra = 1 \<and> code_point < 0x80 then False
              else if extra = 2 \<and> code_point < 0x800 then False
              else if extra = 3 \<and> code_point < 0x10000 then False
              else if code_point \<ge> 0xD800 \<and> code_point \<le> 0xDFFF then False
              else if code_point > 0x10FFFF then False
              else is_valid_utf8 (drop extra rest))"
  by pat_completeness auto
termination
  by (relation "measure length") auto

definition is_safe_label :: "u8 list \<Rightarrow> bool" where
  "is_safe_label txt \<longleftrightarrow>
     \<not> (txt = [] \<or> length txt > 128) \<and>
     list_all (\<lambda>value.
       (48 \<le> value \<and> value \<le> 57) \<or> (97 \<le> value \<and> value \<le> 122) \<or> (65 \<le> value \<and> value \<le> 90) \<or>
       value = 46 \<or> value = 95 \<or> value = 45 \<or> value = 58) txt"

section \<open>The writer\<close>

record Writer =
  wr_buffer :: "u8 list"
  wr_limit :: nat
  wr_fail :: StatusCode

definition Writer_new :: "nat \<Rightarrow> Writer" where
  "Writer_new limit = \<lparr> wr_buffer = [], wr_limit = limit, wr_fail = ST_Ok \<rparr>"

definition Writer_fail :: "StatusCode \<Rightarrow> (Writer, unit) state" where
  "Writer_fail code = State (\<lambda>w. ((), if wr_fail w = ST_Ok then w\<lparr>wr_fail := code\<rparr> else w))"

definition reserve_field :: "nat \<Rightarrow> (Writer, bool) state" where
  "reserve_field count = do {
     w \<leftarrow> State_Monad.get;
     if wr_fail w \<noteq> ST_Ok then State_Monad.return False
     else if count > wr_limit w \<or> length (wr_buffer w) > wr_limit w - count
     then do { Writer_fail ST_BoundsExceeded; State_Monad.return False }
     else State_Monad.return True }"

definition Writer_append :: "u8 list \<Rightarrow> (Writer, unit) state" where
  "Writer_append bytes = State (\<lambda>w. ((), w\<lparr>wr_buffer := wr_buffer w @ bytes\<rparr>))"

definition Writer_raw :: "u8 list \<Rightarrow> (Writer, unit) state" where
  "Writer_raw bytes = do {
     room \<leftarrow> reserve_field (length bytes);
     if \<not> room then State_Monad.return () else Writer_append bytes }"

definition Writer_u8 :: "u8 \<Rightarrow> (Writer, unit) state" where
  "Writer_u8 value = do {
     room \<leftarrow> reserve_field 1;
     if \<not> room then State_Monad.return () else Writer_append [value] }"

definition Writer_u16 :: "u16 \<Rightarrow> (Writer, unit) state" where
  "Writer_u16 value = do {
     room \<leftarrow> reserve_field 2;
     if \<not> room then State_Monad.return () else Writer_append (store_u16 value) }"

definition Writer_u32 :: "u32 \<Rightarrow> (Writer, unit) state" where
  "Writer_u32 value = do {
     room \<leftarrow> reserve_field 4;
     if \<not> room then State_Monad.return () else Writer_append (store_u32 value) }"

definition Writer_u64 :: "u64 \<Rightarrow> (Writer, unit) state" where
  "Writer_u64 value = do {
     room \<leftarrow> reserve_field 8;
     if \<not> room then State_Monad.return () else Writer_append (store_u64 value) }"

definition Writer_i64 :: "i64 \<Rightarrow> (Writer, unit) state" where
  "Writer_i64 value = Writer_u64 (u64_of_i64 value)"

definition Writer_boolean :: "bool \<Rightarrow> (Writer, unit) state" where
  "Writer_boolean value = Writer_u8 (if value then 1 else 0)"

definition Writer_bytes_field :: "u8 list \<Rightarrow> (Writer, unit) state" where
  "Writer_bytes_field bytes =
     (if length bytes > kMaxFramePayloadBytes then Writer_fail ST_BoundsExceeded
      else do { Writer_u32 (of_nat (length bytes)); Writer_raw bytes })"

definition Writer_string_field :: "u8 list \<Rightarrow> (Writer, unit) state" where
  "Writer_string_field txt =
     (if length txt > kMaxFieldStringBytes then Writer_fail ST_BoundsExceeded
      else if \<not> is_valid_utf8 txt then Writer_fail ST_MalformedInput
      else Writer_bytes_field txt)"

definition Writer_id :: "id128 \<Rightarrow> (Writer, unit) state" where
  "Writer_id value = do { Writer_u64 (high value); Writer_u64 (low value) }"

definition Writer_generation :: "generation \<Rightarrow> (Writer, unit) state" where
  "Writer_generation value = Writer_u64 value"

text \<open>
  An enumeration is given by the list of its enumerators in declaration order; the underlying
  value of an enumerator is its position.
\<close>

definition enum_value :: "'e list \<Rightarrow> 'e \<Rightarrow> nat" where
  "enum_value enumerators value = length (takeWhile (\<lambda>e. e \<noteq> value) enumerators)"

definition Writer_enumeration :: "'e list \<Rightarrow> 'e \<Rightarrow> (Writer, unit) state" where
  "Writer_enumeration enumerators value = Writer_u16 (of_nat (enum_value enumerators value))"

definition Writer_ok :: "Writer \<Rightarrow> bool" where
  "Writer_ok w \<longleftrightarrow> wr_fail w = ST_Ok"

section \<open>The reader\<close>

record Reader =
  rd_data :: "u8 list"
  rd_offset :: nat
  rd_limit :: nat
  rd_fail :: StatusCode

definition Reader_new :: "u8 list \<Rightarrow> nat \<Rightarrow> Reader" where
  "Reader_new data limit =
     \<lparr> rd_data = data, rd_offset = 0, rd_limit = limit,
       rd_fail = (if length data > limit then ST_BoundsExceeded else ST_Ok) \<rparr>"

definition Reader_ok :: "(Reader, bool) state" where
  "Reader_ok = State (\<lambda>r. (rd_fail r = ST_Ok, r))"

definition Reader_fail_code :: "(Reader, StatusCode) state" where
  "Reader_fail_code = State (\<lambda>r. (rd_fail r, r))"

definition Reader_fail :: "StatusCode \<Rightarrow> (Reader, unit) state" where
  "Reader_fail code = State (\<lambda>r. ((), if rd_fail r = ST_Ok then r\<lparr>rd_fail := code\<rparr> else r))"

definition Reader_require :: "nat \<Rightarrow> (Reader, bool) state" where
  "Reader_require count = do {
     r \<leftarrow> State_Monad.get;
     if rd_fail r \<noteq> ST_Ok then State_Monad.return False
     else if count > length (rd_data r) \<or> rd_offset r > length (rd_data r) - count
     then do { Reader_fail ST_MalformedInput; State_Monad.return False }
     else State_Monad.return True }"

text \<open>The \<open>count\<close> bytes at the cursor, which moves past them.\<close>

definition Reader_consume :: "nat \<Rightarrow> (Reader, u8 list) state" where
  "Reader_consume count =
     State (\<lambda>r. (take count (drop (rd_offset r) (rd_data r)), r\<lparr>rd_offset := rd_offset r + count\<rparr>))"

definition Reader_u8 :: "(Reader, u8) state" where
  "Reader_u8 = do {
     available \<leftarrow> Reader_require 1;
     if \<not> available then State_Monad.return 0
     else do { bytes \<leftarrow> Reader_consume 1; State_Monad.return (bytes ! 0) } }"

definition Reader_u16 :: "(Reader, u16) state" where
  "Reader_u16 = do {
     available \<leftarrow> Reader_require 2;
     if \<not> available then State_Monad.return 0
     else do { bytes \<leftarrow> Reader_consume 2; State_Monad.return (load_u16 bytes) } }"

definition Reader_u32 :: "(Reader, u32) state" where
  "Reader_u32 = do {
     available \<leftarrow> Reader_require 4;
     if \<not> available then State_Monad.return 0
     else do { bytes \<leftarrow> Reader_consume 4; State_Monad.return (load_u32 bytes) } }"

definition Reader_u64 :: "(Reader, u64) state" where
  "Reader_u64 = do {
     available \<leftarrow> Reader_require 8;
     if \<not> available then State_Monad.return 0
     else do { bytes \<leftarrow> Reader_consume 8; State_Monad.return (load_u64 bytes) } }"

definition Reader_i64 :: "(Reader, i64) state" where
  "Reader_i64 = do { value \<leftarrow> Reader_u64; State_Monad.return (i64_of_u64 value) }"

definition Reader_boolean :: "(Reader, bool) state" where
  "Reader_boolean = do {
     value \<leftarrow> Reader_u8;
     ok \<leftarrow> Reader_ok;
     if \<not> ok then State_Monad.return False
     else if value > 1 then do { Reader_fail ST_MalformedInput; State_Monad.return False }
     else State_Monad.return (value = 1) }"

definition Reader_count :: "nat \<Rightarrow> (Reader, u32) state" where
  "Reader_count max_entries = do {
     value \<leftarrow> Reader_u32;
     ok \<leftarrow> Reader_ok;
     if \<not> ok then State_Monad.return 0
     else if unat value > max_entries
     then do { Reader_fail ST_BoundsExceeded; State_Monad.return 0 }
     else State_Monad.return value }"

definition Reader_raw :: "nat \<Rightarrow> (Reader, u8 list) state" where
  "Reader_raw count = do {
     available \<leftarrow> Reader_require count;
     if \<not> available then State_Monad.return []
     else do {
       r \<leftarrow> State_Monad.get;
       if count > rd_limit r
       then do { Reader_fail ST_BoundsExceeded; State_Monad.return [] }
       else Reader_consume count } }"

definition Reader_bytes_field :: "(Reader, u8 list) state" where
  "Reader_bytes_field = do {
     len \<leftarrow> Reader_u32;
     ok \<leftarrow> Reader_ok;
     if \<not> ok then State_Monad.return [] else Reader_raw (unat len) }"

definition Reader_string_field :: "(Reader, u8 list) state" where
  "Reader_string_field = do {
     bytes \<leftarrow> Reader_bytes_field;
     ok \<leftarrow> Reader_ok;
     if \<not> ok then State_Monad.return []
     else if length bytes > kMaxFieldStringBytes
     then do { Reader_fail ST_BoundsExceeded; State_Monad.return [] }
     else if \<not> is_valid_utf8 bytes
     then do { Reader_fail ST_MalformedInput; State_Monad.return [] }
     else State_Monad.return bytes }"

definition Reader_enumeration :: "'e list \<Rightarrow> 'e \<Rightarrow> (Reader, 'e) state" where
  "Reader_enumeration enumerators max_exclusive = do {
     raw_value \<leftarrow> Reader_u16;
     ok \<leftarrow> Reader_ok;
     if \<not> ok then State_Monad.return (enumerators ! 0)
     else if raw_value \<ge> of_nat (enum_value enumerators max_exclusive)
     then do { Reader_fail ST_MalformedInput; State_Monad.return (enumerators ! 0) }
     else State_Monad.return (enumerators ! unat raw_value) }"

definition Reader_id :: "(Reader, id128) state" where
  "Reader_id = do {
     high \<leftarrow> Reader_u64;
     low \<leftarrow> Reader_u64;
     ok \<leftarrow> Reader_ok;
     if \<not> ok then State_Monad.return nil_id
     else do {
       (if high = 0 \<and> low = 0 then Reader_fail ST_MalformedInput else State_Monad.return ());
       State_Monad.return (Id128 high low) } }"

definition Reader_generation :: "(Reader, generation) state" where
  "Reader_generation = do {
     value \<leftarrow> Reader_u64;
     ok \<leftarrow> Reader_ok;
     if \<not> ok then State_Monad.return 0
     else do {
       (if value = 0 then Reader_fail ST_MalformedInput else State_Monad.return ());
       State_Monad.return value } }"

definition Reader_finish :: "Reader \<Rightarrow> StatusCode" where
  "Reader_finish r =
     (if rd_fail r \<noteq> ST_Ok then rd_fail r
      else if rd_offset r \<noteq> length (rd_data r) then ST_TrailingGarbage
      else ST_Ok)"

text \<open>
  The two early returns every decoder uses: \<open>if (!reader.ok()) return failure(reader.fail_code())\<close>,
  and the propagation of a nested decoder's failure.
\<close>

definition or_fail :: "(Reader, 'a result) state \<Rightarrow> (Reader, 'a result) state" where
  "or_fail rest = do {
     ok \<leftarrow> Reader_ok;
     if ok then rest
     else do { code \<leftarrow> Reader_fail_code; State_Monad.return (Inl code) } }"

definition propagate :: "(Reader, 'a result) state \<Rightarrow> ('a \<Rightarrow> (Reader, 'b result) state) \<Rightarrow> (Reader, 'b result) state" where
  "propagate decode rest = do {
     value \<leftarrow> decode;
     (case value of Inl code \<Rightarrow> State_Monad.return (Inl code) | Inr x \<Rightarrow> rest x) }"

definition failure :: "StatusCode \<Rightarrow> (Reader, 'a result) state" where
  "failure code = State_Monad.return (Inl code)"

definition success :: "'a \<Rightarrow> (Reader, 'a result) state" where
  "success x = State_Monad.return (Inr x)"

text \<open>A counted loop that appends one decoded element per turn and stops at the first failure.\<close>

fun decode_loop :: "nat \<Rightarrow> (Reader, 'a result) state \<Rightarrow> (Reader, 'a list result) state" where
  "decode_loop 0 decode = success []"
| "decode_loop (Suc n) decode =
     propagate decode (\<lambda>x. propagate (decode_loop n decode) (\<lambda>xs. success (x # xs)))"

fun encode_each :: "('a \<Rightarrow> (Writer, unit) state) \<Rightarrow> 'a list \<Rightarrow> (Writer, unit) state" where
  "encode_each encode [] = State_Monad.return ()"
| "encode_each encode (x # xs) = do { encode x; encode_each encode xs }"

section \<open>A calculus for encoders and decoders\<close>

definition writes :: "(Writer, unit) state \<Rightarrow> u8 list \<Rightarrow> bool" where
  "writes f bs \<longleftrightarrow> (\<forall>w.
     (wr_fail w \<noteq> ST_Ok \<longrightarrow> run_state f w = ((), w)) \<and>
     (wr_fail w = ST_Ok \<and> length (wr_buffer w) + length bs \<le> wr_limit w \<longrightarrow>
        run_state f w = ((), w\<lparr>wr_buffer := wr_buffer w @ bs\<rparr>)) \<and>
     (wr_fail w = ST_Ok \<and> length (wr_buffer w) \<le> wr_limit w \<and>
      \<not> length (wr_buffer w) + length bs \<le> wr_limit w \<longrightarrow>
        wr_fail (snd (run_state f w)) = ST_BoundsExceeded) \<and>
     wr_limit (snd (run_state f w)) = wr_limit w \<and>
     (length (wr_buffer w) \<le> wr_limit w \<longrightarrow>
        length (wr_buffer (snd (run_state f w))) \<le> wr_limit w))"

definition reads :: "(Reader, 'a) state \<Rightarrow> u8 list \<Rightarrow> 'a \<Rightarrow> bool" where
  "reads m bs x \<longleftrightarrow> (\<forall>r.
     rd_fail r = ST_Ok \<and> length (rd_data r) \<le> rd_limit r \<and> rd_offset r \<le> length (rd_data r) \<and>
     prefix bs (drop (rd_offset r) (rd_data r)) \<longrightarrow>
       run_state m r = (x, r\<lparr>rd_offset := rd_offset r + length bs\<rparr>))"

definition transmits :: "(Writer, unit) state \<Rightarrow> (Reader, 'a) state \<Rightarrow> 'a \<Rightarrow> bool" where
  "transmits f m x \<longleftrightarrow> (\<exists>bs. writes f bs \<and> reads m bs x)"

text \<open>
  What holds of a decoder on arbitrary input: the input and the limit stay, the cursor moves
  forward inside the input, a failed reader is inert, and a successful run does not depend on
  the bytes after its final position.
\<close>

definition sane :: "(Reader, 'a) state \<Rightarrow> bool" where
  "sane m \<longleftrightarrow> (\<forall>r x r'.
     rd_offset r \<le> length (rd_data r) \<longrightarrow> run_state m r = (x, r') \<longrightarrow>
       rd_data r' = rd_data r \<and> rd_limit r' = rd_limit r \<and>
       rd_offset r \<le> rd_offset r' \<and> rd_offset r' \<le> length (rd_data r) \<and>
       (rd_fail r \<noteq> ST_Ok \<longrightarrow> r' = r) \<and>
       (rd_fail r' = ST_Ok \<longrightarrow>
          (\<forall>ext. run_state m (r\<lparr>rd_data := rd_data r @ ext\<rparr>) = (x, r'\<lparr>rd_data := rd_data r @ ext\<rparr>))))"

text \<open>A decoder that answers with the reader's failure whenever the reader has failed.\<close>

definition guarded :: "(Reader, 'a result) state \<Rightarrow> bool" where
  "guarded m \<longleftrightarrow> (\<forall>r x r'.
     run_state m r = (x, r') \<longrightarrow> rd_fail r' \<noteq> ST_Ok \<longrightarrow> x = Inl (rd_fail r'))"

subsection \<open>Sequencing\<close>

lemma writes_bind:
  assumes f: "writes f a" and g: "writes g b"
  shows "writes (State_Monad.bind f (\<lambda>_. g)) (a @ b)"
proof -
  have "(wr_fail w \<noteq> ST_Ok \<longrightarrow> run_state (State_Monad.bind f (\<lambda>_. g)) w = ((), w)) \<and>
     (wr_fail w = ST_Ok \<and> length (wr_buffer w) + length (a @ b) \<le> wr_limit w \<longrightarrow>
        run_state (State_Monad.bind f (\<lambda>_. g)) w = ((), w\<lparr>wr_buffer := wr_buffer w @ a @ b\<rparr>)) \<and>
     (wr_fail w = ST_Ok \<and> length (wr_buffer w) \<le> wr_limit w \<and>
      \<not> length (wr_buffer w) + length (a @ b) \<le> wr_limit w \<longrightarrow>
        wr_fail (snd (run_state (State_Monad.bind f (\<lambda>_. g)) w)) = ST_BoundsExceeded)" for w
  proof -
    obtain w' where run: "run_state f w = ((), w')"
      by (cases "run_state f w") auto
    note F = f [unfolded writes_def, rule_format, of w, unfolded run]
    note G = g [unfolded writes_def, rule_format, of w']
    have step: "run_state (State_Monad.bind f (\<lambda>_. g)) w = run_state g w'"
      by (simp add: run)
    show ?thesis
      unfolding step
    proof (intro conjI impI; (elim conjE)?)
      assume "wr_fail w \<noteq> ST_Ok"
      with F G show "run_state g w' = ((), w)" by simp
    next
      assume "wr_fail w = ST_Ok" and "length (wr_buffer w) + length (a @ b) \<le> wr_limit w"
      with F G show "run_state g w' = ((), w\<lparr>wr_buffer := wr_buffer w @ a @ b\<rparr>)" by simp
    next
      assume ok: "wr_fail w = ST_Ok" "length (wr_buffer w) \<le> wr_limit w" and full: "\<not> length (wr_buffer w) + length (a @ b) \<le> wr_limit w"
      show "wr_fail (snd (run_state g w')) = ST_BoundsExceeded"
      proof (cases "length (wr_buffer w) + length a \<le> wr_limit w")
        case True
        with F G ok full show ?thesis by simp
      next
        case False
        with F ok have "wr_fail w' = ST_BoundsExceeded" by simp
        with G show ?thesis by simp
      qed
    qed
  qed
  moreover have "wr_limit (snd (run_state (State_Monad.bind f (\<lambda>_. g)) w)) = wr_limit w \<and>
     (length (wr_buffer w) \<le> wr_limit w \<longrightarrow>
        length (wr_buffer (snd (run_state (State_Monad.bind f (\<lambda>_. g)) w))) \<le> wr_limit w)" for w
  proof -
    obtain w' where run: "run_state f w = ((), w')"
      by (cases "run_state f w") auto
    show ?thesis
      using f [unfolded writes_def, rule_format, of w] g [unfolded writes_def, rule_format, of w']
      by (simp add: run)
  qed
  ultimately show ?thesis
    unfolding writes_def by blast
qed

lemma reads_bind: "reads m a x \<Longrightarrow> reads (k x) b y \<Longrightarrow> reads (State_Monad.bind m k) (a @ b) y"
proof (unfold reads_def, intro allI impI, elim conjE)
  fix r :: Reader
  assume m: "\<forall>r. rd_fail r = ST_Ok \<and> length (rd_data r) \<le> rd_limit r \<and> rd_offset r \<le> length (rd_data r) \<and>
      prefix a (drop (rd_offset r) (rd_data r)) \<longrightarrow> run_state m r = (x, r\<lparr>rd_offset := rd_offset r + length a\<rparr>)"
    and k: "\<forall>r. rd_fail r = ST_Ok \<and> length (rd_data r) \<le> rd_limit r \<and> rd_offset r \<le> length (rd_data r) \<and>
      prefix b (drop (rd_offset r) (rd_data r)) \<longrightarrow> run_state (k x) r = (y, r\<lparr>rd_offset := rd_offset r + length b\<rparr>)"
    and r: "rd_fail r = ST_Ok" "length (rd_data r) \<le> rd_limit r" "rd_offset r \<le> length (rd_data r)"
      "prefix (a @ b) (drop (rd_offset r) (rd_data r))"
  from r(4) obtain c where c: "drop (rd_offset r) (rd_data r) = a @ b @ c"
    by (auto simp: prefix_def)
  then have len: "rd_offset r + length a \<le> length (rd_data r)"
    using r(3) by (metis add_le_cancel_left le_add1 length_append length_drop le_add_diff_inverse)
  have "drop (rd_offset r + length a) (rd_data r) = b @ c"
    using c by (metis add.commute append_eq_conv_conj drop_drop)
  with m k r c len show "run_state (State_Monad.bind m k) r = (y, r\<lparr>rd_offset := rd_offset r + length (a @ b)\<rparr>)"
    by (simp add: add.assoc)
qed

lemma writes_return [simp]: "writes (State_Monad.return ()) []"
  by (simp add: writes_def)

lemma reads_return: "reads (State_Monad.return x) [] x"
  by (simp add: reads_def)

lemma transmits_bind:
  "transmits f m x \<Longrightarrow> transmits g (k x) y \<Longrightarrow>
   transmits (State_Monad.bind f (\<lambda>_. g)) (State_Monad.bind m k) y"
  unfolding transmits_def by (elim exE conjE, rule exI, rule conjI, rule writes_bind, assumption+, rule reads_bind)

lemma transmits_last:
  assumes "transmits f m x" and "reads (k x) [] y"
  shows "transmits f (State_Monad.bind m k) y"
proof -
  obtain bs where "writes f bs" and "reads m bs x"
    using assms(1) by (auto simp: transmits_def)
  moreover have "reads (State_Monad.bind m k) (bs @ []) y"
    using \<open>reads m bs x\<close> assms(2) by (rule reads_bind)
  ultimately show ?thesis
    by (auto simp: transmits_def)
qed

lemma transmits_nothing: "reads m [] x \<Longrightarrow> transmits (State_Monad.return ()) m x"
  unfolding transmits_def using writes_return by blast

lemma sane_bind [sane_rules]:
  assumes m: "sane m" and k: "\<And>v. sane (k v)"
  shows "sane (State_Monad.bind m k)"
  unfolding sane_def
proof (intro allI impI)
  fix r y r''
  assume r: "rd_offset r \<le> length (rd_data r)" and run: "run_state (State_Monad.bind m k) r = (y, r'')"
  obtain x r' where one: "run_state m r = (x, r')"
    by (cases "run_state m r")
  then have two: "run_state (k x) r' = (y, r'')"
    using run by simp
  have M: "rd_data r' = rd_data r" "rd_limit r' = rd_limit r" "rd_offset r \<le> rd_offset r'"
    "rd_offset r' \<le> length (rd_data r)" "rd_fail r \<noteq> ST_Ok \<longrightarrow> r' = r"
    "rd_fail r' = ST_Ok \<longrightarrow>
       (\<forall>ext. run_state m (r\<lparr>rd_data := rd_data r @ ext\<rparr>) = (x, r'\<lparr>rd_data := rd_data r @ ext\<rparr>))"
    using m r one unfolding sane_def by blast+
  then have r': "rd_offset r' \<le> length (rd_data r')"
    by simp
  have K: "rd_data r'' = rd_data r'" "rd_limit r'' = rd_limit r'" "rd_offset r' \<le> rd_offset r''"
    "rd_offset r'' \<le> length (rd_data r')" "rd_fail r' \<noteq> ST_Ok \<longrightarrow> r'' = r'"
    "rd_fail r'' = ST_Ok \<longrightarrow>
       (\<forall>ext. run_state (k x) (r'\<lparr>rd_data := rd_data r' @ ext\<rparr>) = (y, r''\<lparr>rd_data := rd_data r' @ ext\<rparr>))"
    using k [of x] r' two unfolding sane_def by blast+
  have ext: "run_state (State_Monad.bind m k) (r\<lparr>rd_data := rd_data r @ ext\<rparr>) = (y, r''\<lparr>rd_data := rd_data r @ ext\<rparr>)"
    if "rd_fail r'' = ST_Ok" for ext
  proof -
    have "rd_fail r' = ST_Ok"
      using K(5) that by (cases "rd_fail r' = ST_Ok") auto
    then have "run_state m (r\<lparr>rd_data := rd_data r @ ext\<rparr>) = (x, r'\<lparr>rd_data := rd_data r @ ext\<rparr>)"
      using M(6) by blast
    moreover have "run_state (k x) (r'\<lparr>rd_data := rd_data r @ ext\<rparr>) = (y, r''\<lparr>rd_data := rd_data r @ ext\<rparr>)"
      using K(6) that unfolding M(1) by blast
    ultimately show ?thesis by simp
  qed
  show "rd_data r'' = rd_data r \<and> rd_limit r'' = rd_limit r \<and> rd_offset r \<le> rd_offset r'' \<and>
     rd_offset r'' \<le> length (rd_data r) \<and> (rd_fail r \<noteq> ST_Ok \<longrightarrow> r'' = r) \<and>
     (rd_fail r'' = ST_Ok \<longrightarrow> (\<forall>ext. run_state (State_Monad.bind m k) (r\<lparr>rd_data := rd_data r @ ext\<rparr>) =
        (y, r''\<lparr>rd_data := rd_data r @ ext\<rparr>)))"
    using M(1-5) K(1-5) ext by (intro conjI impI allI) auto
qed

lemma sane_return [sane_rules]: "sane (State_Monad.return x)"
  by (simp add: sane_def)

lemma sane_if [sane_rules]: "sane m \<Longrightarrow> sane n \<Longrightarrow> sane (if c then m else n)"
  by simp

lemma sane_ok [sane_rules]: "sane Reader_ok"
  by (auto simp: sane_def Reader_ok_def)

lemma sane_fail_code [sane_rules]: "sane Reader_fail_code"
  by (auto simp: sane_def Reader_fail_code_def)

lemma sane_fail [sane_rules]: "c \<noteq> ST_Ok \<Longrightarrow> sane (Reader_fail c)"
  by (auto simp: sane_def Reader_fail_def)

lemma sane_case_sum [sane_rules]:
  "(\<And>a. sane (f a)) \<Longrightarrow> (\<And>b. sane (g b)) \<Longrightarrow> sane (case x of Inl a \<Rightarrow> f a | Inr b \<Rightarrow> g b)"
  by (cases x) simp_all

lemma sane_or_fail [sane_rules]: "sane m \<Longrightarrow> sane (or_fail m)"
  unfolding or_fail_def by (intro sane_rules)

lemma sane_success [sane_rules]: "sane (success x)"
  unfolding success_def by (rule sane_return)

lemma sane_failure [sane_rules]: "sane (failure c)"
  unfolding failure_def by (rule sane_return)

lemma sane_propagate [sane_rules]: "sane m \<Longrightarrow> (\<And>x. sane (k x)) \<Longrightarrow> sane (propagate m k)"
  unfolding propagate_def by (intro sane_rules)

text \<open>Starting from a good reader, a decoder need only report the failures it causes.\<close>

definition reports :: "(Reader, 'a result) state \<Rightarrow> bool" where
  "reports m \<longleftrightarrow> (\<forall>r x r'. rd_fail r = ST_Ok \<longrightarrow>
     run_state m r = (x, r') \<longrightarrow> rd_fail r' \<noteq> ST_Ok \<longrightarrow> x = Inl (rd_fail r'))"

lemma guarded_bind [guarded_rules]: "(\<And>v. guarded (k v)) \<Longrightarrow> guarded (State_Monad.bind m k)"
  by (auto simp: guarded_def split: prod.splits)

lemma guarded_or_fail [guarded_rules]: "reports m \<Longrightarrow> guarded (or_fail m)"
  by (auto simp: reports_def guarded_def or_fail_def Reader_ok_def Reader_fail_code_def split: if_splits)

lemma propagate_reports:
  assumes k: "\<And>x. reports (k x)" and one: "run_state m r = (v, q)"
    and v: "rd_fail q \<noteq> ST_Ok \<Longrightarrow> v = Inl (rd_fail q)"
    and run: "run_state (propagate m k) r = (x, r')" and failed: "rd_fail r' \<noteq> ST_Ok"
  shows "x = Inl (rd_fail r')"
proof (cases v)
  case (Inl e)
  with run one v failed show ?thesis by (simp add: propagate_def)
next
  case (Inr y)
  with run one have "run_state (k y) q = (x, r')" by (simp add: propagate_def)
  with k [of y] v Inr failed show ?thesis unfolding reports_def by blast
qed

lemma guarded_propagate [guarded_rules]:
  assumes "guarded m" and "\<And>x. reports (k x)"
  shows "guarded (propagate m k)"
  unfolding guarded_def
proof (intro allI impI)
  fix r x r' assume run: "run_state (propagate m k) r = (x, r')" "rd_fail r' \<noteq> ST_Ok"
  obtain v q where one: "run_state m r = (v, q)"
    by (cases "run_state m r")
  then have "rd_fail q \<noteq> ST_Ok \<Longrightarrow> v = Inl (rd_fail q)"
    using assms(1) by (simp add: guarded_def)
  from propagate_reports [OF assms(2) one this run] show "x = Inl (rd_fail r')" .
qed

lemma reports_propagate [guarded_rules]:
  assumes "reports m" and "\<And>x. reports (k x)"
  shows "reports (propagate m k)"
  unfolding reports_def
proof (intro allI impI)
  fix r x r' assume ok: "rd_fail r = ST_Ok" and run: "run_state (propagate m k) r = (x, r')" "rd_fail r' \<noteq> ST_Ok"
  obtain v q where one: "run_state m r = (v, q)"
    by (cases "run_state m r")
  then have "rd_fail q \<noteq> ST_Ok \<Longrightarrow> v = Inl (rd_fail q)"
    using assms(1) ok by (simp add: reports_def)
  from propagate_reports [OF assms(2) one this run] show "x = Inl (rd_fail r')" .
qed

lemma reports_guarded: "guarded m \<Longrightarrow> reports m"
  by (auto simp: guarded_def reports_def)

lemma reports_success [guarded_rules]: "reports (success x)"
  by (auto simp: reports_def success_def)

lemma reports_failure [guarded_rules]: "reports (failure c)"
  by (auto simp: reports_def failure_def)

lemma reports_if [guarded_rules]: "reports m \<Longrightarrow> reports n \<Longrightarrow> reports (if c then m else n)"
  by simp

lemma reports_bind [guarded_rules]: "(\<And>v. guarded (k v)) \<Longrightarrow> reports (State_Monad.bind m k)"
  by (intro reports_guarded guarded_rules)

lemma reports_or_fail [guarded_rules]: "reports m \<Longrightarrow> reports (or_fail m)"
  by (rule reports_guarded, rule guarded_or_fail)

subsection \<open>Integers\<close>

lemma byte_of_bit:
  fixes v :: "'a::len word"
  assumes "8 \<le> LENGTH('a)"
  shows "bit (push_bit k (ucast (ucast (drop_bit k v AND 0xFF) :: u8)) :: 'a word) n
    \<longleftrightarrow> k \<le> n \<and> n < k + 8 \<and> bit v n"
proof -
  have ff: "(0xFF :: 'a word) = mask 8"
    by (simp add: mask_eq_exp_minus_1)
  show ?thesis
    unfolding ff using assms by (auto simp: bit_simps dest: bit_imp_le_length)
qed

lemma load_store_u16 [simp]: "load_u16 (store_u16 v) = v"
proof (rule bit_word_eqI)
  fix n assume "n < LENGTH(16)"
  then show "bit (load_u16 (store_u16 v)) n = bit v n"
    using byte_of_bit [of 0 v n] byte_of_bit [of 8 v n]
    by (auto simp: load_u16_def store_u16_def bit_or_iff)
qed

lemma load_store_u32 [simp]: "load_u32 (store_u32 v) = v"
proof (rule bit_word_eqI)
  fix n assume n: "n < LENGTH(32)"
  have seq: "[0..<4] = [0, 1, 2, 3 :: nat]"
    by (simp add: upt_rec)
  have "bit (load_u32 (store_u32 v)) n \<longleftrightarrow>
    (\<exists>k \<in> {0, 8, 16, 24}. bit (push_bit k (ucast (ucast (drop_bit k v AND 0xFF) :: u8)) :: u32) n)"
    by (simp add: load_u32_def store_u32_def seq bit_or_iff)
  also have "\<dots> \<longleftrightarrow> bit v n"
    using n by (simp only: byte_of_bit [where 'a = 32, simplified]) auto
  finally show "bit (load_u32 (store_u32 v)) n = bit v n" .
qed

lemma load_store_u64 [simp]: "load_u64 (store_u64 v) = v"
proof (rule bit_word_eqI)
  fix n assume n: "n < LENGTH(64)"
  have seq: "[0..<8] = [0, 1, 2, 3, 4, 5, 6, 7 :: nat]"
    by (simp add: upt_rec)
  have "bit (load_u64 (store_u64 v)) n \<longleftrightarrow>
    (\<exists>k \<in> {0, 8, 16, 24, 32, 40, 48, 56}. bit (push_bit k (ucast (ucast (drop_bit k v AND 0xFF) :: u8)) :: u64) n)"
    by (simp add: load_u64_def store_u64_def seq bit_or_iff)
  also have "\<dots> \<longleftrightarrow> bit v n"
    using n by (simp only: byte_of_bit [where 'a = 64, simplified]) auto
  finally show "bit (load_u64 (store_u64 v)) n = bit v n" .
qed

lemma length_store [simp]:
  "length (store_u16 v) = 2" "length (store_u32 w) = 4" "length (store_u64 x) = 8"
  by (simp_all add: store_u16_def store_u32_def store_u64_def)

lemma i64_of_u64_of_i64: "i64_min \<le> x \<Longrightarrow> x \<le> i64_max \<Longrightarrow> i64_of_u64 (u64_of_i64 x) = x"
  by (simp add: i64_of_u64_def u64_of_i64_def i64_min_def i64_max_def signed_of_int signed_take_bit_int_eq_self)

subsection \<open>Primitive fields\<close>

lemma writes_field:
  assumes "n = length bs"
  shows "writes (State_Monad.bind (reserve_field n)
    (\<lambda>room. if \<not> room then State_Monad.return () else Writer_append bs)) bs"
  unfolding writes_def assms
  by (intro allI) (auto simp: reserve_field_def Writer_fail_def Writer_append_def)

lemma fetch_run:
  "run_state (State_Monad.bind (Reader_require n) (\<lambda>available. if \<not> available then State_Monad.return d
      else State_Monad.bind (Reader_consume n) (\<lambda>bytes. State_Monad.return (f bytes)))) r =
   (if rd_fail r \<noteq> ST_Ok then (d, r)
    else if n > length (rd_data r) \<or> rd_offset r > length (rd_data r) - n then (d, r\<lparr>rd_fail := ST_MalformedInput\<rparr>)
    else (f (take n (drop (rd_offset r) (rd_data r))), r\<lparr>rd_offset := rd_offset r + n\<rparr>))"
  by (simp add: Reader_require_def Reader_fail_def Reader_consume_def)

lemma reads_fetch:
  assumes "n = length bs"
  shows "reads (State_Monad.bind (Reader_require n) (\<lambda>available. if \<not> available then State_Monad.return d
      else State_Monad.bind (Reader_consume n) (\<lambda>bytes. State_Monad.return (f bytes)))) bs (f bs)"
  unfolding reads_def fetch_run
proof (intro allI impI, elim conjE)
  fix r :: Reader
  assume r: "rd_fail r = ST_Ok" "rd_offset r \<le> length (rd_data r)" "prefix bs (drop (rd_offset r) (rd_data r))"
  then obtain c where c: "drop (rd_offset r) (rd_data r) = bs @ c"
    by (auto simp: prefix_def)
  then have "length (rd_data r) - rd_offset r = n + length c"
    using assms by (metis length_append length_drop)
  then have "\<not> n > length (rd_data r)" and "\<not> rd_offset r > length (rd_data r) - n"
    using r(2) by linarith+
  with r c assms show "(if rd_fail r \<noteq> ST_Ok then (d, r)
    else if n > length (rd_data r) \<or> rd_offset r > length (rd_data r) - n then (d, r\<lparr>rd_fail := ST_MalformedInput\<rparr>)
    else (f (take n (drop (rd_offset r) (rd_data r))), r\<lparr>rd_offset := rd_offset r + n\<rparr>)) =
    (f bs, r\<lparr>rd_offset := rd_offset r + length bs\<rparr>)"
    by simp
qed

lemma sane_fetch:
  "sane (State_Monad.bind (Reader_require n) (\<lambda>available. if \<not> available then State_Monad.return d
      else State_Monad.bind (Reader_consume n) (\<lambda>bytes. State_Monad.return (f bytes))))"
  unfolding sane_def fetch_run by (auto split: if_splits)

lemma transmits_u8 [transmits_field]: "transmits (Writer_u8 v) Reader_u8 v"
  unfolding transmits_def Writer_u8_def Reader_u8_def
  using writes_field [of 1 "[v]"] reads_fetch [of 1 "[v]" 0 "\<lambda>bytes. bytes ! 0"] by fastforce

lemma transmits_u16 [transmits_field]: "transmits (Writer_u16 v) Reader_u16 v"
  unfolding transmits_def Writer_u16_def Reader_u16_def
  using writes_field [of 2 "store_u16 v"] reads_fetch [of 2 "store_u16 v" 0 load_u16] by fastforce

lemma transmits_u32 [transmits_field]: "transmits (Writer_u32 v) Reader_u32 v"
  unfolding transmits_def Writer_u32_def Reader_u32_def
  using writes_field [of 4 "store_u32 v"] reads_fetch [of 4 "store_u32 v" 0 load_u32] by fastforce

lemma transmits_u64 [transmits_field]: "transmits (Writer_u64 v) Reader_u64 v"
  unfolding transmits_def Writer_u64_def Reader_u64_def
  using writes_field [of 8 "store_u64 v"] reads_fetch [of 8 "store_u64 v" 0 load_u64] by fastforce

lemma sane_integers [sane_rules]: "sane Reader_u8" "sane Reader_u16" "sane Reader_u32" "sane Reader_u64"
  unfolding Reader_u8_def Reader_u16_def Reader_u32_def Reader_u64_def by (rule sane_fetch)+

definition in_i64 :: "i64 \<Rightarrow> bool" where
  "in_i64 v \<longleftrightarrow> i64_min \<le> v \<and> v \<le> i64_max"

lemma transmits_i64 [transmits_field]: "in_i64 v \<Longrightarrow> transmits (Writer_i64 v) Reader_i64 v"
  unfolding Writer_i64_def Reader_i64_def in_i64_def
  by (rule transmits_last [OF transmits_u64]) (simp add: i64_of_u64_of_i64 reads_return)

lemma sane_i64 [sane_rules]: "sane Reader_i64"
  unfolding Reader_i64_def by (intro sane_rules)

lemma reads_ok: "reads (k True) bs y \<Longrightarrow> reads (State_Monad.bind Reader_ok k) bs y"
  by (simp add: reads_def Reader_ok_def)

lemma transmits_mono: "(\<And>bs. reads m bs x \<Longrightarrow> reads n bs y) \<Longrightarrow> transmits f m x \<Longrightarrow> transmits f n y"
  by (auto simp: transmits_def)

lemma transmits_ok: "transmits f (k True) y \<Longrightarrow> transmits f (State_Monad.bind Reader_ok k) y"
  by (rule transmits_mono [OF reads_ok])

lemma reads_if:
  "(c \<Longrightarrow> reads m bs y) \<Longrightarrow> (\<not> c \<Longrightarrow> reads n bs y) \<Longrightarrow> reads (if c then m else n) bs y"
  by simp

lemma reads_or_fail [reads_rules]: "reads m bs y \<Longrightarrow> reads (or_fail m) bs y"
  unfolding or_fail_def by (rule reads_ok) simp

lemma transmits_or_fail [transmission]: "transmits f m y \<Longrightarrow> transmits f (or_fail m) y"
  by (rule transmits_mono [OF reads_or_fail])

lemma reads_success [reads_rules]: "x = y \<Longrightarrow> reads (success x) [] (Inr y)"
  unfolding success_def by (simp add: reads_return)

lemma transmits_propagate:
  assumes "transmits f m (Inr x)" and "transmits g (k x) y"
  shows "transmits (State_Monad.bind f (\<lambda>_. g)) (propagate m k) y"
  unfolding propagate_def by (rule transmits_bind [OF assms(1)]) (simp add: assms(2))

lemma transmits_propagate_last:
  assumes "transmits f m (Inr x)" and "reads (k x) [] y"
  shows "transmits f (propagate m k) y"
  unfolding propagate_def by (rule transmits_last [OF assms(1)]) (simp add: assms(2))

lemma transmits_boolean [transmits_field]: "transmits (Writer_boolean v) Reader_boolean v"
  unfolding Writer_boolean_def Reader_boolean_def
  by (rule transmits_last [OF transmits_u8], rule reads_ok) (simp add: reads_return)

lemma sane_boolean [sane_rules]: "sane Reader_boolean"
  unfolding Reader_boolean_def by (intro sane_rules) simp

lemma transmits_count [transmits_field]:
  "unat v \<le> n \<Longrightarrow> transmits (Writer_u32 v) (Reader_count n) v"
  unfolding Reader_count_def
  by (rule transmits_last [OF transmits_u32], rule reads_ok) (simp add: reads_return)

lemma sane_count [sane_rules]: "sane (Reader_count n)"
  unfolding Reader_count_def by (intro sane_rules) simp

lemma transmits_id [transmits_field]: "v \<noteq> nil_id \<Longrightarrow> transmits (Writer_id v) Reader_id v"
  unfolding Writer_id_def Reader_id_def
  by (rule transmits_bind [OF transmits_u64], rule transmits_last [OF transmits_u64], rule reads_ok)
    (cases v, auto simp: nil_id_def intro: reads_return)

lemma sane_id [sane_rules]: "sane Reader_id"
  unfolding Reader_id_def by (intro sane_rules) simp

lemma transmits_generation [transmits_field]:
  "v \<noteq> 0 \<Longrightarrow> transmits (Writer_generation v) Reader_generation v"
  unfolding Writer_generation_def Reader_generation_def
  by (rule transmits_last [OF transmits_u64], rule reads_ok) (simp add: reads_return)

lemma sane_generation [sane_rules]: "sane Reader_generation"
  unfolding Reader_generation_def by (intro sane_rules) simp

lemma raw_run:
  "run_state (Reader_raw n) r =
   (if rd_fail r \<noteq> ST_Ok then ([], r)
    else if n > length (rd_data r) \<or> rd_offset r > length (rd_data r) - n then ([], r\<lparr>rd_fail := ST_MalformedInput\<rparr>)
    else if n > rd_limit r then ([], r\<lparr>rd_fail := ST_BoundsExceeded\<rparr>)
    else (take n (drop (rd_offset r) (rd_data r)), r\<lparr>rd_offset := rd_offset r + n\<rparr>))"
  by (simp add: Reader_raw_def Reader_require_def Reader_fail_def Reader_consume_def)

lemma sane_raw [sane_rules]: "sane (Reader_raw n)"
  unfolding sane_def raw_run by (auto split: if_splits)

lemma transmits_raw [transmits_field]: "n = length bs \<Longrightarrow> transmits (Writer_raw bs) (Reader_raw n) bs"
proof -
  assume n: "n = length bs"
  have "reads (Reader_raw n) bs bs"
    unfolding reads_def
  proof (intro allI impI, elim conjE)
    fix r :: Reader
    assume r: "rd_fail r = ST_Ok" "length (rd_data r) \<le> rd_limit r" "rd_offset r \<le> length (rd_data r)"
      "prefix bs (drop (rd_offset r) (rd_data r))"
    then have fetched: "run_state (State_Monad.bind (Reader_require n) (\<lambda>available. if \<not> available
        then State_Monad.return [] else State_Monad.bind (Reader_consume n) (\<lambda>bytes. State_Monad.return bytes))) r =
        (bs, r\<lparr>rd_offset := rd_offset r + length bs\<rparr>)"
      using reads_fetch [OF n, of "[]" "\<lambda>bytes. bytes"] unfolding reads_def by blast
    from r(4) have "length bs \<le> length (rd_data r)"
      using prefix_length_le [OF r(4)] by simp
    with fetched r(1,2) n show "run_state (Reader_raw n) r = (bs, r\<lparr>rd_offset := rd_offset r + length bs\<rparr>)"
      unfolding fetch_run raw_run by (simp split: if_splits)
  qed
  then show ?thesis
    unfolding transmits_def Writer_raw_def using writes_field [of "length bs" bs] by blast
qed

lemma transmits_bytes_field [transmits_field]:
  assumes "length bs \<le> kMaxFramePayloadBytes"
  shows "transmits (Writer_bytes_field bs) Reader_bytes_field bs"
proof -
  have "unat (of_nat (length bs) :: u32) = length bs"
    using assms by (simp add: kMaxFramePayloadBytes_def unsigned_of_nat take_bit_nat_eq_self)
  then have raw: "transmits (Writer_raw bs) (Reader_raw (unat (of_nat (length bs) :: u32))) bs"
    by (intro transmits_raw)
  show ?thesis
    unfolding Writer_bytes_field_def Reader_bytes_field_def
    using assms raw by (simp add: transmits_bind [OF transmits_u32] transmits_ok)
qed

lemma sane_bytes_field [sane_rules]: "sane Reader_bytes_field"
  unfolding Reader_bytes_field_def by (intro sane_rules)

lemma transmits_string_field [transmits_field]:
  assumes "length bs \<le> kMaxFieldStringBytes \<and> is_valid_utf8 bs"
  shows "transmits (Writer_string_field bs) Reader_string_field bs"
proof -
  have "length bs \<le> kMaxFramePayloadBytes"
    using assms by (simp add: kMaxFieldStringBytes_def kMaxFramePayloadBytes_def)
  then have "transmits (Writer_bytes_field bs) Reader_string_field bs"
    unfolding Reader_string_field_def
    by - (rule transmits_last [OF transmits_bytes_field], assumption, rule reads_ok,
      use assms in \<open>simp add: reads_return\<close>)
  with assms show ?thesis
    by (simp add: Writer_string_field_def)
qed

lemma sane_string_field [sane_rules]: "sane Reader_string_field"
  unfolding Reader_string_field_def by (intro sane_rules) simp_all

subsection \<open>Enumerations\<close>

text \<open>
  The contract of an enumeration: the listed enumerators are all the values of the type, each
  once, and the last one is the \<open>Count\<close> sentinel the decoder refuses.
\<close>

locale enumeration =
  fixes enumerators :: "'e list" and count :: 'e
  assumes distinct: "distinct enumerators"
    and complete: "v \<in> set enumerators"
    and sentinel: "last enumerators = count"
    and small: "length enumerators \<le> 65535"
begin

lemma enum_value_nth: "n < length enumerators \<Longrightarrow> enum_value enumerators (enumerators ! n) = n"
  unfolding enum_value_def using distinct
  by (subst takeWhile_eq_take_P_nth [of n]) (auto simp: nth_eq_iff_index_eq)

lemma nth_enum_value: "enumerators ! enum_value enumerators v = v" "enum_value enumerators v < length enumerators"
proof -
  obtain n where "n < length enumerators" and "enumerators ! n = v"
    using complete [of v] by (auto simp: in_set_conv_nth)
  then show "enumerators ! enum_value enumerators v = v" "enum_value enumerators v < length enumerators"
    using enum_value_nth [of n] by auto
qed

lemma enum_value_count: "enum_value enumerators count = length enumerators - 1"
proof -
  have "enumerators \<noteq> []"
    using complete by auto
  then show ?thesis
    using enum_value_nth [of "length enumerators - 1"] sentinel by (simp add: last_conv_nth)
qed

lemma enum_value_less: "v \<noteq> count \<Longrightarrow> enum_value enumerators v < enum_value enumerators count"
  using nth_enum_value [of v] nth_enum_value [of count] unfolding enum_value_count
  by (metis One_nat_def Suc_pred less_antisym less_nat_zero_code not_gr_zero)

lemma word_enum_value: "unat (of_nat (enum_value enumerators v) :: u16) = enum_value enumerators v"
  using nth_enum_value(2) [of v] small by (simp add: unsigned_of_nat take_bit_nat_eq_self)

lemma transmits_enumeration:
  assumes "v \<noteq> count"
  shows "transmits (Writer_enumeration enumerators v) (Reader_enumeration enumerators count) v"
proof -
  have "\<not> (of_nat (enum_value enumerators v) :: u16) \<ge> of_nat (enum_value enumerators count)"
    using enum_value_less [OF assms] by (simp add: word_le_nat_alt word_enum_value)
  then show ?thesis
    unfolding Writer_enumeration_def Reader_enumeration_def
    by - (rule transmits_last [OF transmits_u16], rule reads_ok,
      simp add: word_enum_value nth_enum_value reads_return)
qed

end

lemma sane_enumeration [sane_rules]: "sane (Reader_enumeration es c)"
  unfolding Reader_enumeration_def by (intro sane_rules) simp

subsection \<open>Counted sequences\<close>

lemma transmits_each:
  assumes "\<And>x. x \<in> set xs \<Longrightarrow> transmits (enc x) dec (Inr x)" and "n = length xs"
  shows "transmits (encode_each enc xs) (decode_loop n dec) (Inr xs)"
  using assms
proof (induction xs arbitrary: n)
  case Nil
  then show ?case by (simp add: transmits_nothing reads_success)
next
  case (Cons x xs)
  have "transmits (encode_each enc xs) (propagate (decode_loop (length xs) dec) (\<lambda>xs. success (x # xs))) (Inr (x # xs))"
    using Cons by (intro transmits_propagate_last [where x = xs]) (simp_all add: reads_success)
  moreover have "transmits (enc x) dec (Inr x)" and "n = Suc (length xs)"
    using Cons.prems by simp_all
  ultimately show ?case
    unfolding encode_each.simps by (simp only: decode_loop.simps) (rule transmits_propagate)
qed

lemma sane_loop [sane_rules]: "sane dec \<Longrightarrow> sane (decode_loop n dec)"
  by (induction n) (auto intro!: sane_rules)

lemma reports_loop [guarded_rules]: "guarded dec \<Longrightarrow> reports (decode_loop n dec)"
proof (induction n)
  case 0
  then show ?case by (simp add: reports_success)
next
  case (Suc n)
  then show ?case
    by (auto intro!: reports_propagate reports_success intro: reports_guarded)
qed

text \<open>A loop without a check per element.\<close>

fun read_each :: "nat \<Rightarrow> (Reader, 'a) state \<Rightarrow> (Reader, 'a list) state" where
  "read_each 0 m = State_Monad.return []"
| "read_each (Suc n) m = do { x \<leftarrow> m; xs \<leftarrow> read_each n m; State_Monad.return (x # xs) }"

lemma transmits_read_each:
  assumes "\<And>x. x \<in> set xs \<Longrightarrow> transmits (enc x) m x" and "n = length xs"
  shows "transmits (encode_each enc xs) (read_each n m) xs"
  using assms
proof (induction xs arbitrary: n)
  case Nil
  then show ?case by (simp add: transmits_nothing reads_return)
next
  case (Cons x xs)
  have "transmits (encode_each enc xs) (State_Monad.bind (read_each (length xs) m) (\<lambda>xs. State_Monad.return (x # xs))) (x # xs)"
    using Cons by (intro transmits_last [where x = xs]) (simp_all add: reads_return)
  moreover have "transmits (enc x) m x" and "n = Suc (length xs)"
    using Cons.prems by simp_all
  ultimately show ?case
    unfolding encode_each.simps by (simp only: read_each.simps) (rule transmits_bind)
qed

lemma sane_read_each [sane_rules]: "sane m \<Longrightarrow> sane (read_each n m)"
  by (induction n) (auto intro!: sane_rules)

subsection \<open>Optional parts\<close>

definition encode_optional :: "('a \<Rightarrow> (Writer, unit) state) \<Rightarrow> 'a option \<Rightarrow> (Writer, unit) state" where
  "encode_optional enc v = (case v of Some x \<Rightarrow> enc x | None \<Rightarrow> State_Monad.return ())"

definition decode_optional :: "bool \<Rightarrow> (Reader, 'a result) state \<Rightarrow> (Reader, 'a option result) state" where
  "decode_optional present dec =
     (if present then propagate dec (\<lambda>x. success (Some x)) else success None)"

lemma transmits_optional:
  assumes "\<And>x. v = Some x \<Longrightarrow> transmits (enc x) dec (Inr x)" and "present \<longleftrightarrow> v \<noteq> None"
  shows "transmits (encode_optional enc v) (decode_optional present dec) (Inr v)"
  using assms
  by (cases v)
    (simp_all add: encode_optional_def decode_optional_def transmits_nothing reads_success
      transmits_propagate_last)

lemma sane_optional [sane_rules]: "sane dec \<Longrightarrow> sane (decode_optional present dec)"
  unfolding decode_optional_def by (intro sane_rules)

lemma reports_optional [guarded_rules]: "guarded dec \<Longrightarrow> reports (decode_optional present dec)"
  unfolding decode_optional_def
  by (rule reports_if [OF reports_propagate reports_success], rule reports_guarded, assumption,
      rule reports_success)

lemma transmits_unless [transmission]: "\<not> c \<Longrightarrow> transmits f m y \<Longrightarrow> transmits f (if c then n else m) y"
  by simp

subsection \<open>One field at a time\<close>

text \<open>
  A field followed by the rest of the document, and a field at the end of it. With these rules
  the statement that a record arrives follows from the text of its encoder and decoder.
\<close>

lemmas transmits_fields [transmission] =
  transmits_field [THEN transmits_bind] transmits_field [THEN transmits_last]
  transmits_each [THEN transmits_propagate] transmits_each [THEN transmits_propagate_last]
  transmits_read_each [THEN transmits_bind]
  transmits_optional [THEN transmits_propagate] transmits_optional [THEN transmits_propagate_last]

lemmas reads_verdict [transmission] = reads_or_fail

lemma reads_accepted [simp]: "x = y \<Longrightarrow> reads (success x) [] (Inr y)"
  by (rule reads_success)

subsection \<open>Sizes\<close>

definition at_most :: "(Writer, unit) state \<Rightarrow> nat \<Rightarrow> bool" where
  "at_most f n \<longleftrightarrow> (\<exists>bs. writes f bs \<and> length bs \<le> n)"

lemma at_most_mono: "at_most f m \<Longrightarrow> m \<le> n \<Longrightarrow> at_most f n"
  by (auto simp: at_most_def)

lemma at_most_bind [size_rules]:
  assumes "at_most f m" and "at_most g n"
  shows "at_most (State_Monad.bind f (\<lambda>_. g)) (m + n)"
proof -
  obtain a b where "writes f a" "length a \<le> m" "writes g b" "length b \<le> n"
    using assms by (auto simp: at_most_def)
  then have "writes (State_Monad.bind f (\<lambda>_. g)) (a @ b)" and "length (a @ b) \<le> m + n"
    by (simp_all add: writes_bind)
  then show ?thesis
    unfolding at_most_def by blast
qed

lemma at_most_return [size_rules]: "at_most (State_Monad.return ()) 0"
  by (auto simp: at_most_def intro: exI [of _ "[]"])

lemma at_most_if [size_rules]: "at_most f m \<Longrightarrow> at_most g n \<Longrightarrow> at_most (if c then f else g) (max m n)"
  by (auto intro: at_most_mono)

lemma at_most_field:
  "n = length bs \<Longrightarrow> at_most (State_Monad.bind (reserve_field n)
    (\<lambda>room. if \<not> room then State_Monad.return () else Writer_append bs)) n"
  unfolding at_most_def using writes_field by blast

lemma at_most_integers [size_rules]:
  "at_most (Writer_u8 a) 1" "at_most (Writer_u16 b) 2" "at_most (Writer_u32 c) 4" "at_most (Writer_u64 d) 8"
  unfolding Writer_u8_def Writer_u16_def Writer_u32_def Writer_u64_def by (rule at_most_field, simp)+

lemma at_most_derived [size_rules]:
  "at_most (Writer_i64 x) 8" "at_most (Writer_boolean y) 1" "at_most (Writer_generation g) 8"
  "at_most (Writer_enumeration es e) 2"
  unfolding Writer_i64_def Writer_boolean_def Writer_generation_def Writer_enumeration_def
  by (rule at_most_integers)+

lemma at_most_id [size_rules]: "at_most (Writer_id i) 16"
  unfolding Writer_id_def by (rule at_most_mono, (rule size_rules)+, simp)

lemma at_most_each [size_rules]: "(\<And>x. at_most (enc x) n) \<Longrightarrow> at_most (encode_each enc xs) (length xs * n)"
  by (induction xs) (simp_all add: at_most_return at_most_bind)

lemma at_most_optional [size_rules]: "(\<And>x. at_most (enc x) n) \<Longrightarrow> at_most (encode_optional enc v) n"
  unfolding encode_optional_def
  by (cases v) (auto intro: at_most_mono [OF at_most_return])

subsection \<open>The contract of an encoder and its decoder\<close>

text \<open>A whole document: decode from the start, then refuse trailing bytes.\<close>

definition decode_complete :: "(Reader, 'a result) state \<Rightarrow> u8 list \<Rightarrow> nat \<Rightarrow> 'a result" where
  "decode_complete dec data limit =
     (let (value, r) = run_state dec (Reader_new data limit) in
      case value of
        Inl code \<Rightarrow> Inl code
      | Inr x \<Rightarrow> if Reader_finish r = ST_Ok then Inr x else Inl (Reader_finish r))"

definition encode_complete :: "('a \<Rightarrow> (Writer, unit) state) \<Rightarrow> 'a \<Rightarrow> nat \<Rightarrow> (u8 list) result" where
  "encode_complete enc x limit =
     (let w = snd (run_state (enc x) (Writer_new limit)) in
      if Writer_ok w then Inr (wr_buffer w) else Inl (wr_fail w))"

lemma encode_writes:
  assumes "writes (enc x) bs" and "encode_complete enc x limit = Inr data"
  shows "data = bs" and "length bs \<le> limit"
  using assms(2) assms(1) [unfolded writes_def, rule_format, of "Writer_new limit"]
  by (auto simp: encode_complete_def Let_def Writer_ok_def Writer_new_def split: if_splits)

lemma encode_fits:
  assumes "at_most (enc x) n" and "n \<le> limit"
  shows "\<exists>data. encode_complete enc x limit = Inr data \<and> length data \<le> n"
proof -
  obtain bs where bs: "writes (enc x) bs" "length bs \<le> n"
    using assms(1) by (auto simp: at_most_def)
  then have "encode_complete enc x limit = Inr bs"
    using assms(2) bs(1) [unfolded writes_def, rule_format, of "Writer_new limit"]
    by (simp add: encode_complete_def Writer_new_def Writer_ok_def)
  with bs(2) show ?thesis by blast
qed

locale codec =
  fixes enc :: "'a \<Rightarrow> (Writer, unit) state"
    and dec :: "(Reader, 'a result) state"
    and sendable :: "'a \<Rightarrow> bool"
  assumes transmits: "sendable x \<Longrightarrow> transmits (enc x) dec (Inr x)"
    and sane: "sane dec"
    and guarded: "guarded dec"
begin

lemma decode_run:
  assumes "sendable x" and "encode_complete enc x limit = Inr data" and "length (data @ ext) \<le> limit'"
  shows "run_state dec (Reader_new (data @ ext) limit') =
    (Inr x, (Reader_new (data @ ext) limit')\<lparr>rd_offset := length data\<rparr>)"
proof -
  obtain bs where w: "writes (enc x) bs" and r: "reads dec bs (Inr x)"
    using transmits [OF assms(1)] by (auto simp: transmits_def)
  have "data = bs"
    using w assms(2) by (rule encode_writes(1))
  then show ?thesis
    using r [unfolded reads_def, rule_format, of "Reader_new (data @ ext) limit'"] assms(3)
    by (simp add: Reader_new_def)
qed

lemma roundtrip:
  assumes "sendable x" and "encode_complete enc x limit = Inr data" and "length data \<le> limit'"
  shows "decode_complete dec data limit' = Inr x"
  using decode_run [OF assms(1,2), of "[]"] assms(3)
  by (simp add: decode_complete_def Reader_finish_def Reader_new_def)

lemma trailing:
  assumes "sendable x" and "encode_complete enc x limit = Inr data" and "length (data @ ext) \<le> limit'" and "ext \<noteq> []"
  shows "decode_complete dec (data @ ext) limit' = Inl ST_TrailingGarbage"
  using decode_run [OF assms(1-3)] assms(3,4)
  by (simp add: decode_complete_def Reader_finish_def Reader_new_def)

lemma failed_reader:
  "run_state dec r = (x, r') \<Longrightarrow> rd_fail r' \<noteq> ST_Ok \<Longrightarrow> x = Inl (rd_fail r')"
  using guarded by (simp add: guarded_def)

lemma truncated:
  assumes x: "sendable x" and enc: "encode_complete enc x limit = Inr data"
    and p: "strict_prefix p data" and limit': "length data \<le> limit'"
  shows "\<exists>code. decode_complete dec p limit' = Inl code"
proof -
  obtain ext where ext: "data = p @ ext" "ext \<noteq> []"
    using p by (auto simp: strict_prefix_def prefix_def)
  let ?r = "Reader_new p limit'"
  have data: "Reader_new data limit' = ?r\<lparr>rd_data := rd_data ?r @ ext\<rparr>"
    using ext limit' by (simp add: Reader_new_def)
  obtain v r' where run: "run_state dec ?r = (v, r')"
    by (cases "run_state dec ?r")
  have "rd_fail r' \<noteq> ST_Ok"
  proof
    assume ok: "rd_fail r' = ST_Ok"
    have "rd_offset r' \<le> length (rd_data ?r)"
      and "run_state dec (?r\<lparr>rd_data := rd_data ?r @ ext\<rparr>) = (v, r'\<lparr>rd_data := rd_data ?r @ ext\<rparr>)"
      using sane [unfolded sane_def, rule_format, OF _ run] ok by (simp_all add: Reader_new_def)
    moreover have "run_state dec (?r\<lparr>rd_data := rd_data ?r @ ext\<rparr>) =
        (Inr x, (Reader_new data limit')\<lparr>rd_offset := length data\<rparr>)"
      using decode_run [OF x enc, of "[]" limit'] limit' data by simp
    ultimately have "r'\<lparr>rd_data := rd_data ?r @ ext\<rparr> = (Reader_new data limit')\<lparr>rd_offset := length data\<rparr>"
      by simp
    then have "rd_offset (r'\<lparr>rd_data := rd_data ?r @ ext\<rparr>) = rd_offset ((Reader_new data limit')\<lparr>rd_offset := length data\<rparr>)"
      by (rule arg_cong)
    then have "rd_offset r' = length data"
      by simp
    with \<open>rd_offset r' \<le> length (rd_data ?r)\<close> ext show False
      by (simp add: Reader_new_def)
  qed
  with failed_reader [OF run] run show ?thesis
    by (simp add: decode_complete_def)
qed

lemma injective:
  assumes "sendable x" and "sendable y"
    and "encode_complete enc x limit = Inr data" and "encode_complete enc y limit = Inr data"
  shows "x = y"
  using roundtrip [OF assms(1,3) order_refl] roundtrip [OF assms(2,4) order_refl] by simp

text \<open>On arbitrary bytes the decoder stays inside its input.\<close>

lemma in_bounds: "rd_offset (snd (run_state dec (Reader_new data limit))) \<le> length data"
proof -
  obtain v r' where run: "run_state dec (Reader_new data limit) = (v, r')"
    by (cases "run_state dec (Reader_new data limit)")
  have "rd_offset (Reader_new data limit) \<le> length (rd_data (Reader_new data limit))"
    by (simp add: Reader_new_def)
  with sane run have "rd_offset r' \<le> length (rd_data (Reader_new data limit))"
    unfolding sane_def by blast
  then show ?thesis
    by (simp add: run) (simp add: Reader_new_def)
qed

end

end
