(* ===== verification/Utf8.thy ===== *)
theory Utf8
  imports Codec
begin

unbundle bit_operations_syntax

text \<open>
  The text check of the codec against its specification: \<open>is_valid_utf8\<close> (\<open>src/codec.cpp\<close>)
  accepts exactly the concatenations of encoded Unicode scalar values.
\<close>

section \<open>The specification\<close>

definition is_scalar :: "nat \<Rightarrow> bool" where
  "is_scalar c \<longleftrightarrow> c \<le> 0x10FFFF \<and> \<not> (0xD800 \<le> c \<and> c \<le> 0xDFFF)"

definition utf8_encode :: "nat \<Rightarrow> u8 list" where
  "utf8_encode c =
     (if c < 0x80 then [of_nat c]
      else if c < 0x800 then [of_nat (0xC0 + c div 64), of_nat (0x80 + c mod 64)]
      else if c < 0x10000 then
        [of_nat (0xE0 + c div 4096), of_nat (0x80 + c div 64 mod 64), of_nat (0x80 + c mod 64)]
      else
        [of_nat (0xF0 + c div 262144), of_nat (0x80 + c div 4096 mod 64),
         of_nat (0x80 + c div 64 mod 64), of_nat (0x80 + c mod 64)])"

section \<open>The byte tests in numbers\<close>

lemma top_bits:
  assumes "drop_bit n (push_bit n c) = c"
  shows "x AND NOT (mask n) = push_bit n c \<longleftrightarrow> drop_bit n x = (c :: u8)"
proof -
  have split: "x AND NOT (mask n) = push_bit n (drop_bit n x)"
    by (rule bit_word_eqI) (auto simp: bit_simps)
  have keep: "drop_bit n (push_bit n (drop_bit n x)) = drop_bit n x"
    by (rule bit_word_eqI) (auto simp: bit_simps dest: bit_imp_le_length)
  show ?thesis
    unfolding split using assms keep by metis
qed

lemma top_bits_div:
  assumes "NOT (mask n) = m" and "push_bit n c = p" and "drop_bit n p = c"
  shows "x AND m = p \<longleftrightarrow> unat (x :: u8) div 2 ^ n = unat c"
proof -
  have "take_bit 8 (unat x) = unat x"
    using unsigned_less [of x] by (simp add: take_bit_nat_eq_self_iff)
  then have "drop_bit n x = c \<longleftrightarrow> unat x div 2 ^ n = unat c"
    unfolding word_unat_eq_iff unsigned_drop_bit_eq by (simp add: drop_bit_eq_div [where 'a = nat])
  with top_bits [of n c x] assms show ?thesis
    by simp
qed

lemma div_eq_range: "0 < d \<Longrightarrow> v div d = q \<longleftrightarrow> q * d \<le> v \<and> v < Suc q * (d :: nat)"
proof -
  assume "0 < d"
  then have "q \<le> v div d \<longleftrightarrow> q * d \<le> v" and "v div d < Suc q \<longleftrightarrow> v < Suc q * d"
    by (rule less_eq_div_iff_mult_less_eq, rule div_less_iff_less_mult)
  then show ?thesis by linarith
qed

lemma lead_tests:
  fixes x :: u8
  shows "x AND 0xE0 = 0xC0 \<longleftrightarrow> 192 \<le> unat x \<and> unat x < 224"
    and "x AND 0xF0 = 0xE0 \<longleftrightarrow> 224 \<le> unat x \<and> unat x < 240"
    and "x AND 0xF8 = 0xF0 \<longleftrightarrow> 240 \<le> unat x \<and> unat x < 248"
    and "x AND 0xC0 = 0x80 \<longleftrightarrow> 128 \<le> unat x \<and> unat x < 192"
proof -
  have "x AND 0xE0 = 0xC0 \<longleftrightarrow> unat x div 2 ^ 5 = unat (6 :: u8)"
    and "x AND 0xF0 = 0xE0 \<longleftrightarrow> unat x div 2 ^ 4 = unat (14 :: u8)"
    and "x AND 0xF8 = 0xF0 \<longleftrightarrow> unat x div 2 ^ 3 = unat (30 :: u8)"
    and "x AND 0xC0 = 0x80 \<longleftrightarrow> unat x div 2 ^ 6 = unat (2 :: u8)"
    by (rule top_bits_div; simp add: mask_eq_exp_minus_1)+
  moreover have "v div 2 ^ 5 = 6 \<longleftrightarrow> 192 \<le> v \<and> v < 224" "v div 2 ^ 4 = 14 \<longleftrightarrow> 224 \<le> v \<and> v < 240"
    "v div 2 ^ 3 = 30 \<longleftrightarrow> 240 \<le> v \<and> v < 248" "v div 2 ^ 6 = 2 \<longleftrightarrow> 128 \<le> v \<and> v < 192" for v :: nat
    by (simp_all add: div_eq_range)
  ultimately show "x AND 0xE0 = 0xC0 \<longleftrightarrow> 192 \<le> unat x \<and> unat x < 224"
    and "x AND 0xF0 = 0xE0 \<longleftrightarrow> 224 \<le> unat x \<and> unat x < 240"
    and "x AND 0xF8 = 0xF0 \<longleftrightarrow> 240 \<le> unat x \<and> unat x < 248"
    and "x AND 0xC0 = 0x80 \<longleftrightarrow> 128 \<le> unat x \<and> unat x < 192"
    by simp_all
qed

lemma low_bits:
  fixes x :: u8
  shows "unat (x AND 0x1F) = unat x mod 32" "unat (x AND 0x0F) = unat x mod 16"
    "unat (x AND 0x07) = unat x mod 8" "unat (x AND 0x3F) = unat x mod 64"
proof -
  have masks: "(0x1F :: u8) = mask 5" "(0x0F :: u8) = mask 4" "(0x07 :: u8) = mask 3" "(0x3F :: u8) = mask 6"
    by (simp_all add: mask_eq_exp_minus_1)
  show "unat (x AND 0x1F) = unat x mod 32" "unat (x AND 0x0F) = unat x mod 16"
    "unat (x AND 0x07) = unat x mod 8" "unat (x AND 0x3F) = unat x mod 64"
    unfolding masks
    by (simp_all add: take_bit_eq_mask [symmetric] unsigned_take_bit_eq take_bit_eq_mod unat_mod)
qed

lemma push_continuation:
  "push_bit 6 (of_nat c :: u32) OR ucast (x AND 0x3F) = of_nat (c * 64 + unat (x :: u8) mod 64)"
proof -
  have mask: "(0x3F :: u8) = mask 6"
    by (simp add: mask_eq_exp_minus_1)
  have "push_bit 6 (of_nat c :: u32) OR ucast (x AND 0x3F) = push_bit 6 (of_nat c) + ucast (x AND 0x3F)"
    unfolding mask by (rule disjunctive_add [symmetric]) (auto simp: bit_simps)
  also have "\<dots> = of_nat (c * 64 + unat x mod 64)"
  proof -
    have "(ucast (x AND 0x3F) :: u32) = of_nat (unat (x AND 0x3F))"
      by simp
    then show ?thesis
      unfolding low_bits by (simp add: push_bit_eq_mult)
  qed
  finally show ?thesis .
qed

section \<open>The loop, one sequence at a time\<close>

fun continue_nat :: "u8 list \<Rightarrow> nat \<Rightarrow> nat option" where
  "continue_nat [] c = Some c"
| "continue_nat (b # rest) c =
     (if 128 \<le> unat b \<and> unat b < 192 then continue_nat rest (c * 64 + unat b mod 64) else None)"

lemma utf8_continue_nat: "utf8_continue bs (of_nat c) = map_option of_nat (continue_nat bs c)"
proof (induction bs arbitrary: c)
  case Nil
  then show ?case by simp
next
  case (Cons b bs)
  show ?case
    unfolding utf8_continue.simps continue_nat.simps push_continuation lead_tests Cons.IH by auto
qed

lemma ucast_low: "(ucast (x :: u8) :: u32) = of_nat (unat x)"
  by simp

lemma lead_nat:
  "utf8_lead x =
     (if 192 \<le> unat x \<and> unat x < 224 then Some (1, of_nat (unat x mod 32))
      else if 224 \<le> unat x \<and> unat x < 240 then Some (2, of_nat (unat x mod 16))
      else if 240 \<le> unat x \<and> unat x < 248 then Some (3, of_nat (unat x mod 8))
      else None)"
  unfolding utf8_lead_def lead_tests ucast_low low_bits ..

lemma byte_less_80: "(x :: u8) < 0x80 \<longleftrightarrow> unat x < 128"
  by (simp add: word_less_nat_alt)

lemma unat_code: "c < 4294967296 \<Longrightarrow> unat (of_nat c :: u32) = c"
  by (simp add: unsigned_of_nat take_bit_nat_eq_self)

lemma code_compare:
  assumes "c < 4294967296"
  shows "(of_nat c :: u32) < 0x80 \<longleftrightarrow> c < 0x80" "(of_nat c :: u32) < 0x800 \<longleftrightarrow> c < 0x800"
    "(of_nat c :: u32) < 0x10000 \<longleftrightarrow> c < 0x10000" "(of_nat c :: u32) \<ge> 0xD800 \<longleftrightarrow> c \<ge> 0xD800"
    "(of_nat c :: u32) \<le> 0xDFFF \<longleftrightarrow> c \<le> 0xDFFF" "(of_nat c :: u32) > 0x10FFFF \<longleftrightarrow> c > 0x10FFFF"
  by (simp_all add: word_less_nat_alt word_le_nat_alt unat_code [OF assms])

declare is_valid_utf8.simps(2) [simp del]

lemma valid_one: "unat x < 128 \<Longrightarrow> is_valid_utf8 (x # tail) = is_valid_utf8 tail"
  by (simp add: byte_less_80 is_valid_utf8.simps(2))

lemma continue_bound: "continue_nat ys a = Some c \<Longrightarrow> c < (a + 1) * 64 ^ length ys"
proof (induction ys arbitrary: a)
  case Nil
  then show ?case by simp
next
  case (Cons y ys)
  then have "c < (a * 64 + unat y mod 64 + 1) * 64 ^ length ys"
    by (auto split: if_splits)
  also have "\<dots> \<le> ((a + 1) * 64) * 64 ^ length ys"
    using mod_less_divisor [of 64 "unat y"] by (intro mult_right_mono) auto
  finally show ?case by (simp add: algebra_simps)
qed

definition shortest :: "nat \<Rightarrow> nat \<Rightarrow> bool" where
  "shortest n c \<longleftrightarrow> \<not> (n = 1 \<and> c < 0x80) \<and> \<not> (n = 2 \<and> c < 0x800) \<and> \<not> (n = 3 \<and> c < 0x10000)"

lemma valid_step:
  assumes lead: "utf8_lead x = Some (n, of_nat a)" "\<not> unat x < 128" and len: "length ys = n"
    and a: "a < 32" and n: "n \<le> 3"
  shows "is_valid_utf8 (x # ys @ tail) \<longleftrightarrow>
    (case continue_nat ys a of None \<Rightarrow> False | Some c \<Rightarrow> shortest n c \<and> is_scalar c \<and> is_valid_utf8 tail)"
proof (cases "continue_nat ys a")
  case None
  then show ?thesis
    using lead len by (simp add: is_valid_utf8.simps(2) byte_less_80 utf8_continue_nat)
next
  case (Some c)
  have "c < (a + 1) * 64 ^ n"
    using continue_bound [OF Some] len by simp
  also have "\<dots> \<le> 32 * 64 ^ 3"
    using a n by (intro mult_mono power_increasing) auto
  finally have c: "c < 4294967296"
    by simp
  show ?thesis
    using lead len Some
    by (simp add: is_valid_utf8.simps(2) byte_less_80 utf8_continue_nat code_compare [OF c] shortest_def is_scalar_def)
qed

lemma div_chain: "(c :: nat) div 4096 = c div 64 div 64" "c div 262144 = c div 64 div 64 div 64"
  by (simp_all add: div_mult2_eq [symmetric])

lemma mod_in_range: "q * d \<le> v \<Longrightarrow> v < Suc q * d \<Longrightarrow> v = q * d + v mod (d :: nat)"
  using div_eq_range [of d v q] div_mult_mod_eq [of v d] by (cases "d = 0") auto

lemma lead_mod:
  "192 \<le> v \<Longrightarrow> v < 224 \<Longrightarrow> v = 192 + v mod (32 :: nat)"
  "224 \<le> v \<Longrightarrow> v < 240 \<Longrightarrow> v = 224 + v mod (16 :: nat)"
  "240 \<le> v \<Longrightarrow> v < 248 \<Longrightarrow> v = 240 + v mod (8 :: nat)"
  "128 \<le> v \<Longrightarrow> v < 192 \<Longrightarrow> v = 128 + v mod (64 :: nat)"
  using mod_in_range [of 6 32 v] mod_in_range [of 14 16 v] mod_in_range [of 30 8 v] mod_in_range [of 2 64 v]
  by simp_all

lemma digits_64:
  "(a * 64 + b mod 64) div 64 = (a :: nat)" "(a * 64 + b mod 64) mod 64 = b mod 64"
  by simp_all

lemma byte_unat: "k < 256 \<Longrightarrow> unat (of_nat k :: u8) = k"
  by (simp add: unsigned_of_nat take_bit_nat_eq_self)

lemma byte_eq: "unat x = k \<Longrightarrow> (of_nat k :: u8) = x"
  by auto

lemma lead_of_nat:
  "a < 32 \<Longrightarrow> utf8_lead (of_nat (192 + a)) = Some (1, of_nat a)"
  "a < 16 \<Longrightarrow> utf8_lead (of_nat (224 + a)) = Some (2, of_nat a)"
  "a < 8 \<Longrightarrow> utf8_lead (of_nat (240 + a)) = Some (3, of_nat a)"
proof -
  have "(192 + a) mod 32 = a" if "a < 32"
    using that mod_mult_self3 [of 6 32 a] by simp
  then show "a < 32 \<Longrightarrow> utf8_lead (of_nat (192 + a)) = Some (1, of_nat a)"
    unfolding lead_nat by (simp add: byte_unat del: of_nat_add)
  have "(224 + a) mod 16 = a" if "a < 16"
    using that mod_mult_self3 [of 14 16 a] by simp
  then show "a < 16 \<Longrightarrow> utf8_lead (of_nat (224 + a)) = Some (2, of_nat a)"
    unfolding lead_nat by (simp add: byte_unat del: of_nat_add)
  have "(240 + a) mod 8 = a" if "a < 8"
    using that mod_mult_self3 [of 30 8 a] by simp
  then show "a < 8 \<Longrightarrow> utf8_lead (of_nat (240 + a)) = Some (3, of_nat a)"
    unfolding lead_nat by (simp add: byte_unat del: of_nat_add)
qed

lemma continue_of_nat:
  "b < 64 \<Longrightarrow> continue_nat (of_nat (128 + b) # ys) a = continue_nat ys (a * 64 + b)"
proof -
  assume "b < 64"
  moreover from this have "(128 + b) mod 64 = b"
    using mod_mult_self3 [of 2 64 b] by simp
  ultimately show ?thesis
    by (simp add: byte_unat del: of_nat_add)
qed

lemma valid_step_Some:
  "utf8_lead x = Some (n, of_nat a) \<Longrightarrow> continue_nat ys a = Some c \<Longrightarrow> 128 \<le> unat x \<Longrightarrow> length ys = n \<Longrightarrow>
   a < 32 \<Longrightarrow> n \<le> 3 \<Longrightarrow> shortest n c \<Longrightarrow> is_scalar c \<Longrightarrow>
   is_valid_utf8 ((x # ys) @ tail) = is_valid_utf8 tail"
  by (simp add: valid_step)

lemma valid_encode:
  assumes "is_scalar c"
  shows "is_valid_utf8 (utf8_encode c @ tail) = is_valid_utf8 tail"
proof -
  have m: "n mod 64 < 64" for n :: nat
    by simp
  consider "c < 0x80" | "0x80 \<le> c" "c < 0x800" | "0x800 \<le> c" "c < 0x10000" | "0x10000 \<le> c"
    by linarith
  then show ?thesis
  proof cases
    case 1
    then show ?thesis
      by (simp add: utf8_encode_def valid_one byte_unat)
  next
    case 2
    then have a: "c div 64 < 32" by simp
    have "c div 64 * 64 + c mod 64 = c" by (rule div_mult_mod_eq)
    then have "continue_nat [of_nat (128 + c mod 64)] (c div 64) = Some c"
      by (simp only: continue_of_nat [OF m] continue_nat.simps(1))
    then have "is_valid_utf8 ((of_nat (192 + c div 64) # [of_nat (128 + c mod 64)]) @ tail) = is_valid_utf8 tail"
      by (rule valid_step_Some [OF lead_of_nat(1) [OF a]])
        (use 2 assms a byte_unat [of "192 + c div 64"] in \<open>simp_all add: shortest_def del: of_nat_add\<close>)
    with 2 show ?thesis
      by (simp add: utf8_encode_def del: of_nat_add)
  next
    case 3
    then have a: "c div 4096 < 16" by simp
    have "(c div 4096 * 64 + c div 64 mod 64) * 64 + c mod 64 = c"
      unfolding div_chain by (simp only: div_mult_mod_eq)
    then have "continue_nat [of_nat (128 + c div 64 mod 64), of_nat (128 + c mod 64)] (c div 4096) = Some c"
      by (simp only: continue_of_nat [OF m] continue_nat.simps(1))
    then have "is_valid_utf8 ((of_nat (224 + c div 4096) #
        [of_nat (128 + c div 64 mod 64), of_nat (128 + c mod 64)]) @ tail) = is_valid_utf8 tail"
      by (rule valid_step_Some [OF lead_of_nat(2) [OF a]])
        (use 3 assms a byte_unat [of "224 + c div 4096"] in \<open>simp_all add: shortest_def del: of_nat_add\<close>)
    with 3 show ?thesis
      by (simp add: utf8_encode_def del: of_nat_add)
  next
    case 4
    then have a: "c div 262144 < 8"
      using assms by (simp add: is_scalar_def)
    have "((c div 262144 * 64 + c div 4096 mod 64) * 64 + c div 64 mod 64) * 64 + c mod 64 = c"
      unfolding div_chain by (simp only: div_mult_mod_eq)
    then have "continue_nat [of_nat (128 + c div 4096 mod 64), of_nat (128 + c div 64 mod 64),
        of_nat (128 + c mod 64)] (c div 262144) = Some c"
      by (simp only: continue_of_nat [OF m] continue_nat.simps(1))
    then have "is_valid_utf8 ((of_nat (240 + c div 262144) # [of_nat (128 + c div 4096 mod 64),
        of_nat (128 + c div 64 mod 64), of_nat (128 + c mod 64)]) @ tail) = is_valid_utf8 tail"
      by (rule valid_step_Some [OF lead_of_nat(3) [OF a]])
        (use 4 assms a byte_unat [of "240 + c div 262144"] in \<open>simp_all add: shortest_def del: of_nat_add\<close>)
    with 4 show ?thesis
      by (simp add: utf8_encode_def del: of_nat_add)
  qed
qed

lemma valid_length:
  assumes "utf8_lead x = Some (n, p)" and "\<not> unat x < 128" and "is_valid_utf8 (x # rest)"
  shows "n \<le> length rest"
  using assms by (simp add: is_valid_utf8.simps(2) byte_less_80 split: if_splits)

lemma valid_sequence:
  assumes valid: "is_valid_utf8 (x # rest)" and lead: "utf8_lead x = Some (n, of_nat a)" "\<not> unat x < 128"
    and a: "a < 32" and n: "n \<le> 3"
  obtains ys tail c where "rest = ys @ tail" and "length ys = n" and "continue_nat ys a = Some c"
    and "shortest n c" and "is_scalar c" and "is_valid_utf8 tail"
proof -
  let ?ys = "take n rest"
  have len: "length ?ys = n"
    using valid_length [OF lead valid] by simp
  have "rest = ?ys @ drop n rest"
    by simp
  with valid have "is_valid_utf8 (x # ?ys @ drop n rest)"
    by simp
  then obtain c where "continue_nat ?ys a = Some c" and "shortest n c" and "is_scalar c" and "is_valid_utf8 (drop n rest)"
    unfolding valid_step [OF lead len a n] by (auto split: option.splits)
  with len show ?thesis
    by (intro that [of ?ys "drop n rest" c]) simp_all
qed

lemma continuation_byte:
  "128 \<le> unat (y :: u8) \<Longrightarrow> unat y < 192 \<Longrightarrow> (of_nat (128 + unat y mod 64) :: u8) = y"
  by (rule byte_eq, rule lead_mod(4))

lemma valid_head:
  assumes "is_valid_utf8 (x # rest)"
  shows "\<exists>c tail. is_scalar c \<and> x # rest = utf8_encode c @ tail \<and> is_valid_utf8 tail"
proof -
  have "unat x < 128 \<or> utf8_lead x \<noteq> None"
    using assms by (auto simp: is_valid_utf8.simps(2) byte_less_80 split: if_splits option.splits)
  then consider "unat x < 128" | "192 \<le> unat x" "unat x < 224" | "224 \<le> unat x" "unat x < 240"
    | "240 \<le> unat x" "unat x < 248"
    by (auto simp: lead_nat split: if_splits)
  then show ?thesis
  proof cases
    case 1
    then have "x # rest = utf8_encode (unat x) @ rest" and "is_scalar (unat x)"
      by (simp_all add: utf8_encode_def is_scalar_def)
    with 1 assms valid_one show ?thesis by blast
  next
    case 2
    then have "utf8_lead x = Some (1, of_nat (unat x mod 32))" and "\<not> unat x < 128"
      by (simp_all add: lead_nat)
    with assms obtain ys tail c where c: "rest = ys @ tail" "length ys = 1"
      "continue_nat ys (unat x mod 32) = Some c" "shortest 1 c" "is_scalar c" "is_valid_utf8 tail"
      by (rule valid_sequence) simp_all
    then obtain y where y: "ys = [y]" "128 \<le> unat y" "unat y < 192" "c = unat x mod 32 * 64 + unat y mod 64"
      by (auto simp: length_Suc_conv split: if_splits)
    have digits: "c div 64 = unat x mod 32" "c mod 64 = unat y mod 64"
      unfolding y(4) digits_64 by (rule refl)+
    then have "c < 0x800" "unat x = 192 + c div 64" "c mod 64 = unat y mod 64"
      using lead_mod(1) [OF 2] div_less_iff_less_mult [of 64 c 32] by simp_all
    have x_byte: "(of_nat (192 + c div 64) :: u8) = x"
      by (rule byte_eq) fact
    have y_byte: "(of_nat (128 + c mod 64) :: u8) = y"
      using continuation_byte [OF y(2,3)] unfolding digits .
    have "utf8_encode c = [x, y]"
      using c(4) \<open>c < 0x800\<close> unfolding utf8_encode_def y_byte x_byte shortest_def by simp
    then have "x # rest = utf8_encode c @ tail"
      using c(1) y(1) by simp
    with c(5,6) show ?thesis by blast
  next
    case 3
    then have "utf8_lead x = Some (2, of_nat (unat x mod 16))" and "\<not> unat x < 128"
      by (simp_all add: lead_nat)
    with assms obtain ys tail c where c: "rest = ys @ tail" "length ys = 2"
      "continue_nat ys (unat x mod 16) = Some c" "shortest 2 c" "is_scalar c" "is_valid_utf8 tail"
      by (rule valid_sequence) (simp_all add: less_trans [OF mod_less_divisor])
    then obtain y z where y: "ys = [y, z]" "128 \<le> unat y" "unat y < 192" "128 \<le> unat z" "unat z < 192"
      "c = (unat x mod 16 * 64 + unat y mod 64) * 64 + unat z mod 64"
      by (auto simp: length_Suc_conv numeral_2_eq_2 split: if_splits)
    have digits: "c div 4096 = unat x mod 16" "c div 64 mod 64 = unat y mod 64" "c mod 64 = unat z mod 64"
      unfolding div_chain y(6) digits_64 by (rule refl)+
    then have "c < 0x10000" "unat x = 224 + c div 4096"
      using lead_mod(2) [OF 3] div_less_iff_less_mult [of 4096 c 16] by simp_all
    have x_byte: "(of_nat (224 + c div 4096) :: u8) = x"
      by (rule byte_eq) fact
    have y_byte: "(of_nat (128 + c div 64 mod 64) :: u8) = y"
      using continuation_byte [OF y(2,3)] unfolding digits .
    have z_byte: "(of_nat (128 + c mod 64) :: u8) = z"
      using continuation_byte [OF y(4,5)] unfolding digits .
    have "utf8_encode c = [x, y, z]"
      using c(4) \<open>c < 0x10000\<close> unfolding utf8_encode_def y_byte z_byte x_byte shortest_def by simp
    then have "x # rest = utf8_encode c @ tail"
      using c(1) y(1) by simp
    with c(5,6) show ?thesis by blast
  next
    case 4
    then have "utf8_lead x = Some (3, of_nat (unat x mod 8))" and "\<not> unat x < 128"
      by (simp_all add: lead_nat)
    with assms obtain ys tail c where c: "rest = ys @ tail" "length ys = 3"
      "continue_nat ys (unat x mod 8) = Some c" "shortest 3 c" "is_scalar c" "is_valid_utf8 tail"
      by (rule valid_sequence) (simp_all add: less_trans [OF mod_less_divisor])
    then obtain y z w where y: "ys = [y, z, w]" "128 \<le> unat y" "unat y < 192" "128 \<le> unat z" "unat z < 192"
      "128 \<le> unat w" "unat w < 192"
      "c = ((unat x mod 8 * 64 + unat y mod 64) * 64 + unat z mod 64) * 64 + unat w mod 64"
      by (auto simp: length_Suc_conv numeral_3_eq_3 split: if_splits)
    have digits: "c div 262144 = unat x mod 8" "c div 4096 mod 64 = unat y mod 64"
      "c div 64 mod 64 = unat z mod 64" "c mod 64 = unat w mod 64"
      unfolding div_chain y(8) digits_64 by (rule refl)+
    then have "unat x = 240 + c div 262144"
      using lead_mod(3) [OF 4] by simp
    have x_byte: "(of_nat (240 + c div 262144) :: u8) = x"
      by (rule byte_eq) fact
    have y_byte: "(of_nat (128 + c div 4096 mod 64) :: u8) = y"
      using continuation_byte [OF y(2,3)] unfolding digits .
    have z_byte: "(of_nat (128 + c div 64 mod 64) :: u8) = z"
      using continuation_byte [OF y(4,5)] unfolding digits .
    have w_byte: "(of_nat (128 + c mod 64) :: u8) = w"
      using continuation_byte [OF y(6,7)] unfolding digits .
    have "utf8_encode c = [x, y, z, w]"
      using c(4) unfolding utf8_encode_def y_byte z_byte w_byte x_byte shortest_def by simp
    then have "x # rest = utf8_encode c @ tail"
      using c(1) y(1) by simp
    with c(5,6) show ?thesis by blast
  qed
qed

section \<open>Properties\<close>

text \<open>
  C30. The text check accepts a byte string exactly when it is the concatenation of the UTF-8
  encodings of some sequence of Unicode scalar values: no overlong form, surrogate, truncated
  sequence or code point above U+10FFFF passes, and nothing well formed is refused.\<close>

theorem utf8_check_exact:
  "is_valid_utf8 bs \<longleftrightarrow> (\<exists>cs. (\<forall>c \<in> set cs. is_scalar c) \<and> bs = concat (map utf8_encode cs))"
proof
  assume "is_valid_utf8 bs"
  then show "\<exists>cs. (\<forall>c \<in> set cs. is_scalar c) \<and> bs = concat (map utf8_encode cs)"
  proof (induction bs rule: length_induct)
    case (1 bs)
    show ?case
    proof (cases bs)
      case Nil
      then show ?thesis by (intro exI [of _ "[]"]) simp
    next
      case (Cons x rest)
      with 1 obtain c tail where c: "is_scalar c" "bs = utf8_encode c @ tail" "is_valid_utf8 tail"
        using valid_head by blast
      have "length tail < length bs"
        unfolding c(2) by (simp add: utf8_encode_def)
      with 1 c obtain cs where "\<forall>c \<in> set cs. is_scalar c" "tail = concat (map utf8_encode cs)"
        by blast
      with c show ?thesis
        by (intro exI [of _ "c # cs"]) simp
    qed
  qed
next
  assume "\<exists>cs. (\<forall>c \<in> set cs. is_scalar c) \<and> bs = concat (map utf8_encode cs)"
  then obtain cs where "\<forall>c \<in> set cs. is_scalar c" and "bs = concat (map utf8_encode cs)"
    by blast
  then show "is_valid_utf8 bs"
    by (induction cs arbitrary: bs) (simp_all add: valid_encode)
qed

text \<open>The theorem at the text \<open>A\<close>, U+00E9, U+20AC, U+1F600.\<close>

theorem utf8_check_exact_witness:
  "is_valid_utf8 [0x41, 0xC3, 0xA9, 0xE2, 0x82, 0xAC, 0xF0, 0x9F, 0x98, 0x80]
   \<and> \<not> is_valid_utf8 [0xC0, 0x80]"
proof -
  have "concat (map utf8_encode [0x41, 0xE9, 0x20AC, 0x1F600]) =
    [0x41, 0xC3, 0xA9, 0xE2, 0x82, 0xAC, 0xF0, 0x9F, 0x98, 0x80]"
    by (simp add: utf8_encode_def)
  moreover have "\<forall>c \<in> set [0x41, 0xE9, 0x20AC, 0x1F600]. is_scalar c"
    by (simp add: is_scalar_def)
  ultimately have "is_valid_utf8 [0x41, 0xC3, 0xA9, 0xE2, 0x82, 0xAC, 0xF0, 0x9F, 0x98, 0x80]"
    unfolding utf8_check_exact by metis
  moreover have "\<not> is_valid_utf8 [0xC0, 0x80]"
    by code_simp
  ultimately show ?thesis ..
qed

end
