(* ===== verification/Serialize.thy ===== *)
theory Serialize
  imports Codec Coordinator
begin

text \<open>
  The canonical encodings of the domain records (\<open>include/itf/serialize.hpp\<close>,
  \<open>src/serialize.cpp\<close>, and the policy document of \<open>src/policy.cpp\<close>), one encoder and one decoder
  per record, fields in the order of the source. A decoder that needs the reader to be good ends
  in \<open>or_fail\<close> before it inspects the values.
\<close>

section \<open>Enumerators\<close>

definition TrafficClass_values :: "TrafficClass list" where
  "TrafficClass_values = traffic_classes @ [TC_Count]"

definition ServingStage_values :: "ServingStage list" where
  "ServingStage_values = serving_stages @ [SS_Count]"

definition FlowDirection_values :: "FlowDirection list" where
  "FlowDirection_values = [FD_Unknown, FD_Ingress, FD_Egress, FD_Lateral, FD_Count]"

definition PriorityHint_values :: "PriorityHint list" where
  "PriorityHint_values =
     [PH_None, PH_LatencyCritical, PH_Interactive, PH_Batch, PH_Background, PH_Count]"

definition SubjectKind_values :: "SubjectKind list" where
  "SubjectKind_values = [SK_Unknown, SK_Serving, SK_Transfer, SK_Count]"

definition PriorityClass_values :: "PriorityClass list" where
  "PriorityClass_values =
     [PC_Unknown, PC_LatencyCritical, PC_Interactive, PC_Standard, PC_Background, PC_Bulk, PC_Count]"

definition PacingClass_values :: "PacingClass list" where
  "PacingClass_values = [PA_Unknown, PA_Immediate, PA_Paced, PA_RateLimited, PA_BestEffort, PA_Count]"

definition IntegrityClass_values :: "IntegrityClass list" where
  "IntegrityClass_values = [IC_Unknown, IC_None, IC_Checksum, IC_ChecksumAndVerify, IC_Count]"

definition IsolationDomain_values :: "IsolationDomain list" where
  "IsolationDomain_values =
     [ID_Unknown, ID_LatencyCritical, ID_Interactive, ID_Background, ID_Bulk, ID_Control, ID_Count]"

definition DecisionOutcome_values :: "DecisionOutcome list" where
  "DecisionOutcome_values =
     [DO_Unknown, DO_Allowed, DO_Degraded, DO_Deferred, DO_Rejected, DO_Count]"

definition ReasonCode_values :: "ReasonCode list" where
  "ReasonCode_values =
     [RC_Unknown, RC_Admitted, RC_AdmittedStarvationGuard, RC_AdmittedConservative,
      RC_DegradedStageClaimOverridden, RC_DegradedClassRederived, RC_DegradedStaleTopology,
      RC_DegradedMissingSloContract, RC_DegradedIntegrityRaised, RC_DegradedPriorityLowered,
      RC_DeferredCapacity, RC_DeferredCongestion, RC_DeferredBulkYield, RC_DeferredBulkCapacity,
      RC_DeferredBulkConcurrency, RC_RejectedUnknownRequest, RC_RejectedUnknownAttempt,
      RC_RejectedRequestCancelled, RC_RejectedRequestTerminal, RC_RejectedStaleAttempt,
      RC_RejectedStaleRequestGeneration, RC_RejectedStaleRouteDecision,
      RC_RejectedStaleModelGeneration, RC_RejectedStaleStateGeneration,
      RC_RejectedStaleSloContract, RC_RejectedStaleTopologyGeneration,
      RC_RejectedStalePolicyGeneration, RC_RejectedStaleEpoch, RC_RejectedStaleAuthority,
      RC_RejectedUnknownStage, RC_RejectedUnknownClass, RC_RejectedClassNotLegalForStage,
      RC_RejectedClassDisabled, RC_RejectedSubjectKindMismatch, RC_RejectedUnknownTransfer,
      RC_RejectedEvidenceUnknown, RC_RejectedEvidenceStale, RC_RejectedRevalidationRequired,
      RC_RejectedDeadlineExpired, RC_RejectedCapacityExhausted, RC_RejectedFlowLimit,
      RC_RejectedNotAuthorized, RC_RejectedIntegrityUnavailable, RC_RejectedDuplicateCompletion,
      RC_RejectedTransferAlreadyTerminal, RC_CommittedCompletion, RC_DuplicateCompletionSuppressed,
      RC_AttemptFailed, RC_AttemptSuperseded, RC_Cancelled, RC_Count]"

definition ExplanationRule_values :: "ExplanationRule list" where
  "ExplanationRule_values =
     [ER_Unknown, ER_AuthorityBinding, ER_RequestLookup, ER_StageResolution,
      ER_ClassClassification, ER_PolicyRule, ER_TopologyEvidence, ER_SloContract,
      ER_RouteDecision, ER_ModelGeneration, ER_StateGeneration, ER_Capacity, ER_Congestion,
      ER_BulkIsolation, ER_StarvationGuard, ER_Deadline, ER_DeferState, ER_FlowAccounting,
      ER_TerminalState, ER_TransferBinding, ER_Count]"

definition EvidenceState_values :: "EvidenceState list" where
  "EvidenceState_values = [EV_Unknown, EV_Current, EV_Stale, EV_RevalidationRequired, EV_Count]"

definition EvidenceProvenance_values :: "EvidenceProvenance list" where
  "EvidenceProvenance_values = [EP_Unknown, EP_Synthetic, EP_Measured, EP_Count]"

definition RequestLifecycle_values :: "RequestLifecycle list" where
  "RequestLifecycle_values =
     [RL_Unknown, RL_Registered, RL_Active, RL_Completing, RL_Completed, RL_Cancelled,
      RL_Failed, RL_Interrupted, RL_Count]"

definition AttemptLifecycle_values :: "AttemptLifecycle list" where
  "AttemptLifecycle_values =
     [AL_Unknown, AL_Registered, AL_Active, AL_Draining, AL_Completed, AL_Failed,
      AL_Cancelled, AL_Superseded, AL_Count]"

definition Disposition_values :: "Disposition list" where
  "Disposition_values = [DI_Unknown, DI_Committed, DI_DuplicateSuppressed, DI_Refused, DI_Count]"

text \<open>The status codes have no sentinel; a decoder compares with the last one.\<close>

definition StatusCode_values :: "StatusCode list" where
  "StatusCode_values =
     [ST_Ok, ST_InvalidArgument, ST_OutOfRange, ST_NotFound, ST_AlreadyExists,
      ST_BoundsExceeded, ST_IntegrityMismatch, ST_MalformedInput, ST_TrailingGarbage,
      ST_UnsupportedVersion, ST_Unsupported, ST_StaleGeneration, ST_StaleEpoch,
      ST_StaleAuthority, ST_Cancelled, ST_Conflict, ST_NotAuthorized, ST_CapacityExhausted,
      ST_InvalidTransition, ST_PolicyInvalid, ST_EvidenceUnknown, ST_EvidenceStale,
      ST_RevalidationRequired, ST_ReplayRejected, ST_Closed, ST_ShuttingDown, ST_IoError,
      ST_Internal, ST_DuplicateIgnored, ST_Refused]"

definition status_value :: "StatusCode \<Rightarrow> u16" where
  "status_value code = of_nat (enum_value StatusCode_values code)"

interpretation tc: enumeration TrafficClass_values TC_Count
  by unfold_locales (simp_all add: TrafficClass_values_def traffic_classes_def, case_tac v, simp_all)

interpretation ss: enumeration ServingStage_values SS_Count
  by unfold_locales (simp_all add: ServingStage_values_def serving_stages_def, case_tac v, simp_all)

interpretation fd: enumeration FlowDirection_values FD_Count
  by unfold_locales (simp_all add: FlowDirection_values_def, case_tac v, simp_all)

interpretation ph: enumeration PriorityHint_values PH_Count
  by unfold_locales (simp_all add: PriorityHint_values_def, case_tac v, simp_all)

interpretation sk: enumeration SubjectKind_values SK_Count
  by unfold_locales (simp_all add: SubjectKind_values_def, case_tac v, simp_all)

interpretation pc: enumeration PriorityClass_values PC_Count
  by unfold_locales (simp_all add: PriorityClass_values_def, case_tac v, simp_all)

interpretation pa: enumeration PacingClass_values PA_Count
  by unfold_locales (simp_all add: PacingClass_values_def, case_tac v, simp_all)

interpretation ic: enumeration IntegrityClass_values IC_Count
  by unfold_locales (simp_all add: IntegrityClass_values_def, case_tac v, simp_all)

interpretation iso: enumeration IsolationDomain_values ID_Count
  by unfold_locales (simp_all add: IsolationDomain_values_def, case_tac v, simp_all)

interpretation dout: enumeration DecisionOutcome_values DO_Count
  by unfold_locales (simp_all add: DecisionOutcome_values_def, case_tac v, simp_all)

interpretation rc: enumeration ReasonCode_values RC_Count
  by unfold_locales (simp_all add: ReasonCode_values_def, case_tac v, simp_all)

interpretation er: enumeration ExplanationRule_values ER_Count
  by unfold_locales (simp_all add: ExplanationRule_values_def, case_tac v, simp_all)

interpretation ev: enumeration EvidenceState_values EV_Count
  by unfold_locales (simp_all add: EvidenceState_values_def, case_tac v, simp_all)

interpretation ep: enumeration EvidenceProvenance_values EP_Count
  by unfold_locales (simp_all add: EvidenceProvenance_values_def, case_tac v, simp_all)

interpretation rl: enumeration RequestLifecycle_values RL_Count
  by unfold_locales (simp_all add: RequestLifecycle_values_def, case_tac v, simp_all)

interpretation al: enumeration AttemptLifecycle_values AL_Count
  by unfold_locales (simp_all add: AttemptLifecycle_values_def, case_tac v, simp_all)

interpretation di: enumeration Disposition_values DI_Count
  by unfold_locales (simp_all add: Disposition_values_def, case_tac v, simp_all)

lemmas enumerations_transmit =
  tc.transmits_enumeration ss.transmits_enumeration fd.transmits_enumeration
  ph.transmits_enumeration sk.transmits_enumeration pc.transmits_enumeration
  pa.transmits_enumeration ic.transmits_enumeration iso.transmits_enumeration
  dout.transmits_enumeration rc.transmits_enumeration er.transmits_enumeration
  ev.transmits_enumeration ep.transmits_enumeration rl.transmits_enumeration
  al.transmits_enumeration di.transmits_enumeration

section \<open>Shared field encodings\<close>

definition write_id :: "id128 \<Rightarrow> (Writer, unit) state" where
  "write_id value = do { Writer_u64 (high value); Writer_u64 (low value) }"

definition read_id :: "(Reader, id128) state" where
  "read_id = do {
     high \<leftarrow> Reader_u64;
     low \<leftarrow> Reader_u64;
     ok \<leftarrow> Reader_ok;
     if \<not> ok then State_Monad.return nil_id else State_Monad.return (Id128 high low) }"

definition write_optional_id :: "id128 \<Rightarrow> (Writer, unit) state" where
  "write_optional_id value = do {
     Writer_boolean (\<not> is_nil value);
     if \<not> is_nil value then write_id value else State_Monad.return () }"

definition read_optional_id :: "(Reader, id128) state" where
  "read_optional_id = do {
     present \<leftarrow> Reader_boolean;
     ok \<leftarrow> Reader_ok;
     if \<not> ok then State_Monad.return nil_id
     else if \<not> present then State_Monad.return nil_id
     else read_id }"

definition write_generation :: "generation \<Rightarrow> (Writer, unit) state" where
  "write_generation value = Writer_u64 value"

definition read_generation :: "(Reader, generation) state" where
  "read_generation = Reader_u64"

definition write_optional_generation :: "generation option \<Rightarrow> (Writer, unit) state" where
  "write_optional_generation value =
     (if (case value of Some g \<Rightarrow> is_unset g | None \<Rightarrow> False)
      then do { Writer_boolean True; Writer_u64 0 }
      else do {
        Writer_boolean (value \<noteq> None);
        (case value of Some g \<Rightarrow> Writer_u64 g | None \<Rightarrow> State_Monad.return ()) })"

definition read_optional_generation :: "(Reader, generation option) state" where
  "read_optional_generation = do {
     present \<leftarrow> Reader_boolean;
     ok \<leftarrow> Reader_ok;
     if \<not> ok then State_Monad.return None
     else if \<not> present then State_Monad.return None
     else do {
       value \<leftarrow> Reader_u64;
       ok \<leftarrow> Reader_ok;
       if \<not> ok \<or> value = 0
       then do { Reader_fail ST_MalformedInput; State_Monad.return None }
       else State_Monad.return (Some value) } }"

definition write_instant :: "Instant \<Rightarrow> (Writer, unit) state" where
  "write_instant value = do {
     Writer_boolean (instant_is_set value);
     if instant_is_set value then Writer_i64 value else State_Monad.return () }"

definition read_instant :: "(Reader, Instant) state" where
  "read_instant = do {
     present \<leftarrow> Reader_boolean;
     ok \<leftarrow> Reader_ok;
     if \<not> ok then State_Monad.return instant_unset
     else if \<not> present then State_Monad.return instant_unset
     else do { nanos \<leftarrow> Reader_i64; State_Monad.return (instant_at nanos) } }"

lemma transmits_write_id: "transmits (write_id v) read_id v"
  unfolding write_id_def read_id_def
  by (rule transmits_bind [OF transmits_u64], rule transmits_last [OF transmits_u64], rule reads_ok)
    (simp add: reads_return)

lemma sane_read_id [sane_rules]: "sane read_id"
  unfolding read_id_def by (intro sane_rules)

lemma transmits_write_generation: "transmits (write_generation v) read_generation v"
  unfolding write_generation_def read_generation_def by (rule transmits_u64)

lemma sane_read_generation [sane_rules]: "sane read_generation"
  unfolding read_generation_def by (rule sane_integers)

lemma transmits_optional_id: "transmits (write_optional_id v) read_optional_id v"
  unfolding write_optional_id_def read_optional_id_def
  by (rule transmits_bind [OF transmits_boolean], rule transmits_ok)
    (simp add: transmits_write_id transmits_nothing reads_return)

lemma sane_read_optional_id [sane_rules]: "sane read_optional_id"
  unfolding read_optional_id_def by (intro sane_rules)

lemma transmits_optional_generation:
  assumes "v \<noteq> Some 0"
  shows "transmits (write_optional_generation v) read_optional_generation v"
proof (cases v)
  case None
  then show ?thesis
    unfolding write_optional_generation_def read_optional_generation_def
    by (simp, intro transmits_last [OF transmits_boolean] reads_ok) (simp add: reads_return)
next
  case (Some g)
  have "transmits (Writer_u64 g) (State_Monad.bind Reader_u64 (\<lambda>value. State_Monad.bind Reader_ok (\<lambda>ok.
      if \<not> ok \<or> value = 0 then State_Monad.bind (Reader_fail ST_MalformedInput) (\<lambda>_. State_Monad.return None)
      else State_Monad.return (Some value)))) (Some g)"
    by (rule transmits_last [OF transmits_u64], rule reads_ok) (use assms Some in \<open>simp add: reads_return\<close>)
  with Some assms show ?thesis
    unfolding write_optional_generation_def read_optional_generation_def
    by (simp, intro transmits_bind [OF transmits_boolean] transmits_ok) simp
qed

lemma sane_read_optional_generation [sane_rules]: "sane read_optional_generation"
  unfolding read_optional_generation_def by (intro sane_rules) simp

lemma transmits_instant: "in_i64 v \<Longrightarrow> transmits (write_instant v) read_instant v"
proof (cases "instant_is_set v")
  case True
  assume "in_i64 v"
  then have "transmits (Writer_i64 v) (State_Monad.bind Reader_i64 (\<lambda>nanos. State_Monad.return (instant_at nanos))) v"
    by (rule transmits_last [OF transmits_i64]) (simp add: instant_at_def reads_return)
  with True show ?thesis
    unfolding write_instant_def read_instant_def
    by (simp, intro transmits_bind [OF transmits_boolean] transmits_ok) simp
next
  case False
  then show ?thesis
    unfolding write_instant_def read_instant_def
    by (simp, intro transmits_last [OF transmits_boolean] reads_ok)
      (simp add: reads_return instant_is_set_def instant_unset_def)
qed

lemma sane_read_instant [sane_rules]: "sane read_instant"
  unfolding read_instant_def by (intro sane_rules)

lemma unat_of_nat_u32: "n \<le> 65536 \<Longrightarrow> unat (of_nat n :: u32) = n"
  by (simp add: unat_of_nat take_bit_nat_eq_self)

lemma reads_let [transmission]: "x = v \<Longrightarrow> reads (f v) [] (Inr v) \<Longrightarrow> reads (Let x f) [] (Inr v)"
  by simp

lemma reads_returned [simp]: "x = y \<Longrightarrow> reads (State_Monad.return x) [] y"
  by (simp add: reads_return)

lemma at_most_case_option [size_rules]:
  "at_most f m \<Longrightarrow> (\<And>x. at_most (g x) n) \<Longrightarrow> at_most (case v of None \<Rightarrow> f | Some x \<Rightarrow> g x) (max m n)"
  by (cases v) (auto intro: at_most_mono [of _ m] at_most_mono [of _ n])

lemma size_shared_fields [size_rules]:
  "at_most (write_id i) 16" "at_most (write_generation g) 8" "at_most (write_optional_id i) 17"
  "at_most (write_optional_generation og) 9" "at_most (write_instant t) 9"
proof -
  show gen: "at_most (write_generation g) 8" and wid: "at_most (write_id i) 16" for g i
    unfolding write_generation_def write_id_def
    by (rule at_most_integers, rule at_most_mono, (rule size_rules)+, simp)
  show "at_most (write_optional_id i) 17"
    unfolding write_optional_id_def by (rule at_most_mono, (rule size_rules wid)+, simp)
  show "at_most (write_optional_generation og) 9"
    unfolding write_optional_generation_def
    by (rule at_most_mono, (rule size_rules)+, simp)
  show "at_most (write_instant t) 9"
    unfolding write_instant_def by (rule at_most_mono, (rule size_rules)+, simp)
qed

lemmas shared_fields =
  transmits_write_id transmits_write_generation transmits_optional_id transmits_optional_generation
  transmits_instant enumerations_transmit

lemmas shared_fields_transmit [transmission] =
  shared_fields [THEN transmits_bind] shared_fields [THEN transmits_last]

section \<open>Subjects, bindings, treatments and stamps\<close>

definition encode_traffic_subject :: "TrafficSubject \<Rightarrow> (Writer, unit) state" where
  "encode_traffic_subject value = do {
     Writer_enumeration SubjectKind_values (sub_kind value);
     write_id (sub_request value);
     write_id (sub_attempt value);
     write_generation (sub_request_generation value);
     write_id (sub_transfer value) }"

definition decode_traffic_subject :: "(Reader, TrafficSubject result) state" where
  "decode_traffic_subject = do {
     kind \<leftarrow> Reader_enumeration SubjectKind_values SK_Count;
     request \<leftarrow> read_id;
     attempt \<leftarrow> read_id;
     request_generation \<leftarrow> read_generation;
     transfer \<leftarrow> read_id;
     or_fail (let value =
         \<lparr> sub_kind = kind, sub_request = request, sub_attempt = attempt,
           sub_request_generation = request_generation, sub_transfer = transfer \<rparr>
     in if sub_kind value = SK_Serving \<and>
              (is_nil (sub_request value) \<or> is_nil (sub_attempt value) \<or>
               is_unset (sub_request_generation value))
           then failure ST_MalformedInput
           else if sub_kind value = SK_Transfer \<and> is_nil (sub_transfer value)
           then failure ST_MalformedInput
           else success value) }"

definition sendable_traffic_subject :: "TrafficSubject \<Rightarrow> bool" where
  "sendable_traffic_subject value \<longleftrightarrow>
     sub_kind value \<noteq> SK_Count \<and>
     \<not> (sub_kind value = SK_Serving \<and>
       (is_nil (sub_request value) \<or> is_nil (sub_attempt value) \<or> is_unset (sub_request_generation value))) \<and>
     \<not> (sub_kind value = SK_Transfer \<and> is_nil (sub_transfer value))"

lemma transmits_traffic_subject:
  "sendable_traffic_subject v \<Longrightarrow> transmits (encode_traffic_subject v) decode_traffic_subject (Inr v)"
  unfolding encode_traffic_subject_def decode_traffic_subject_def
  by (intro transmission) (auto simp: sendable_traffic_subject_def)

lemma sane_traffic_subject [sane_rules]: "sane decode_traffic_subject"
  unfolding decode_traffic_subject_def Let_def by (intro sane_rules)

lemma guarded_traffic_subject [guarded_rules]: "guarded decode_traffic_subject"
  unfolding decode_traffic_subject_def Let_def by (intro guarded_rules)

lemma size_traffic_subject [size_rules]: "at_most (encode_traffic_subject v) 58"
  unfolding encode_traffic_subject_def by (rule at_most_mono, (rule size_rules)+, simp)

lemmas traffic_subject_part [transmission] =
  transmits_traffic_subject [THEN transmits_propagate] transmits_traffic_subject [THEN transmits_propagate_last]

lemmas traffic_subject_reports [guarded_rules] = guarded_traffic_subject [THEN reports_guarded]

interpretation traffic_subject: codec encode_traffic_subject decode_traffic_subject sendable_traffic_subject
  by unfold_locales (simp_all add: transmits_traffic_subject sane_traffic_subject guarded_traffic_subject)

definition encode_generation_binding :: "GenerationBinding \<Rightarrow> (Writer, unit) state" where
  "encode_generation_binding value = do {
     write_optional_generation (b_request_generation value);
     write_optional_generation (b_model_generation value);
     write_optional_generation (b_state_generation value);
     write_optional_generation (b_route_decision value);
     write_optional_generation (b_slo_contract value);
     write_optional_generation (b_topology value);
     write_optional_generation (b_policy value);
     write_optional_generation (b_coordinator_epoch value) }"

definition decode_generation_binding :: "(Reader, GenerationBinding result) state" where
  "decode_generation_binding = do {
     request_generation \<leftarrow> read_optional_generation;
     model_generation \<leftarrow> read_optional_generation;
     state_generation \<leftarrow> read_optional_generation;
     route_decision \<leftarrow> read_optional_generation;
     slo_contract \<leftarrow> read_optional_generation;
     topology \<leftarrow> read_optional_generation;
     policy \<leftarrow> read_optional_generation;
     coordinator_epoch \<leftarrow> read_optional_generation;
     or_fail (success
         \<lparr> b_request_generation = request_generation, b_model_generation = model_generation,
           b_state_generation = state_generation, b_route_decision = route_decision,
           b_slo_contract = slo_contract, b_topology = topology, b_policy = policy,
           b_coordinator_epoch = coordinator_epoch \<rparr>) }"

definition sendable_generation_binding :: "GenerationBinding \<Rightarrow> bool" where
  "sendable_generation_binding value \<longleftrightarrow>
     b_request_generation value \<noteq> Some 0 \<and>
     b_model_generation value \<noteq> Some 0 \<and>
     b_state_generation value \<noteq> Some 0 \<and>
     b_route_decision value \<noteq> Some 0 \<and>
     b_slo_contract value \<noteq> Some 0 \<and>
     b_topology value \<noteq> Some 0 \<and>
     b_policy value \<noteq> Some 0 \<and>
     b_coordinator_epoch value \<noteq> Some 0"

lemma transmits_generation_binding:
  "sendable_generation_binding v \<Longrightarrow> transmits (encode_generation_binding v) decode_generation_binding (Inr v)"
  unfolding encode_generation_binding_def decode_generation_binding_def
  by (intro transmission) (simp_all add: sendable_generation_binding_def)

lemma sane_generation_binding [sane_rules]: "sane decode_generation_binding"
  unfolding decode_generation_binding_def Let_def by (intro sane_rules)

lemma guarded_generation_binding [guarded_rules]: "guarded decode_generation_binding"
  unfolding decode_generation_binding_def Let_def by (intro guarded_rules)

lemma size_generation_binding [size_rules]: "at_most (encode_generation_binding v) 72"
  unfolding encode_generation_binding_def by (rule at_most_mono, (rule size_rules)+, simp)

lemmas generation_binding_part [transmission] =
  transmits_generation_binding [THEN transmits_propagate] transmits_generation_binding [THEN transmits_propagate_last]

lemmas generation_binding_reports [guarded_rules] = guarded_generation_binding [THEN reports_guarded]

interpretation generation_binding: codec encode_generation_binding decode_generation_binding sendable_generation_binding
  by unfold_locales (simp_all add: transmits_generation_binding sane_generation_binding guarded_generation_binding)

definition encode_traffic_request :: "TrafficRequest \<Rightarrow> (Writer, unit) state" where
  "encode_traffic_request value = do {
     Writer_boolean (q_subject value \<noteq> None);
     encode_optional encode_traffic_subject (q_subject value);
     Writer_enumeration TrafficClass_values (q_declared_class value);
     Writer_enumeration ServingStage_values (q_declared_stage value);
     Writer_enumeration FlowDirection_values (q_direction value);
     Writer_enumeration PriorityHint_values (q_priority_hint value);
     Writer_u64 (q_payload_bytes value);
     Writer_u64 (q_observed_bytes value);
     Writer_u32 (q_token_count value);
     Writer_u32 (q_chunk_index value);
     Writer_u32 (q_total_chunks value);
     Writer_u64 (q_tenant_hash value);
     Writer_u64 (q_model_hash value);
     Writer_u64 (q_adapter_hash value);
     write_instant (q_deadline value);
     Writer_u64 (q_deadline_after_nanos value);
     encode_generation_binding (q_binding value) }"

definition decode_traffic_request :: "(Reader, TrafficRequest result) state" where
  "decode_traffic_request = do {
     has_subject \<leftarrow> Reader_boolean;
     or_fail (do {
       propagate (decode_optional has_subject decode_traffic_subject) (\<lambda>subject. do {
         declared_class \<leftarrow> Reader_enumeration TrafficClass_values TC_Count;
         declared_stage \<leftarrow> Reader_enumeration ServingStage_values SS_Count;
         direction \<leftarrow> Reader_enumeration FlowDirection_values FD_Count;
         priority_hint \<leftarrow> Reader_enumeration PriorityHint_values PH_Count;
         payload_bytes \<leftarrow> Reader_u64;
         observed_bytes \<leftarrow> Reader_u64;
         token_count \<leftarrow> Reader_u32;
         chunk_index \<leftarrow> Reader_u32;
         total_chunks \<leftarrow> Reader_u32;
         tenant_hash \<leftarrow> Reader_u64;
         model_hash \<leftarrow> Reader_u64;
         adapter_hash \<leftarrow> Reader_u64;
         deadline \<leftarrow> read_instant;
         deadline_after_nanos \<leftarrow> Reader_u64;
         propagate decode_generation_binding (\<lambda>binding. do {
           or_fail (let value =
               \<lparr> q_subject = subject, q_declared_class = declared_class,
                 q_declared_stage = declared_stage, q_direction = direction,
                 q_priority_hint = priority_hint, q_payload_bytes = payload_bytes,
                 q_observed_bytes = observed_bytes, q_token_count = token_count,
                 q_chunk_index = chunk_index, q_total_chunks = total_chunks,
                 q_tenant_hash = tenant_hash, q_model_hash = model_hash,
                 q_adapter_hash = adapter_hash, q_deadline = deadline,
                 q_deadline_after_nanos = deadline_after_nanos, q_binding = binding \<rparr>
           in if \<not> structurally_valid value then failure ST_MalformedInput
                 else success value) }) }) }) }"

definition sendable_traffic_request :: "TrafficRequest \<Rightarrow> bool" where
  "sendable_traffic_request value \<longleftrightarrow>
     (\<forall>s. q_subject value = Some s \<longrightarrow> sendable_traffic_subject s) \<and>
     q_declared_class value \<noteq> TC_Count \<and>
     q_declared_stage value \<noteq> SS_Count \<and>
     q_direction value \<noteq> FD_Count \<and>
     q_priority_hint value \<noteq> PH_Count \<and>
     in_i64 (q_deadline value) \<and>
     sendable_generation_binding (q_binding value) \<and>
     structurally_valid value"

lemma transmits_traffic_request:
  "sendable_traffic_request v \<Longrightarrow> transmits (encode_traffic_request v) decode_traffic_request (Inr v)"
  unfolding encode_traffic_request_def decode_traffic_request_def
  by (intro transmission) (simp_all add: sendable_traffic_request_def transmits_traffic_subject)

lemma sane_traffic_request [sane_rules]: "sane decode_traffic_request"
  unfolding decode_traffic_request_def Let_def by (intro sane_rules)

lemma guarded_traffic_request [guarded_rules]: "guarded decode_traffic_request"
  unfolding decode_traffic_request_def Let_def by (intro guarded_rules)

lemma size_traffic_request [size_rules]: "at_most (encode_traffic_request v) 208"
  unfolding encode_traffic_request_def by (rule at_most_mono, (rule size_rules)+, simp)

lemmas traffic_request_part [transmission] =
  transmits_traffic_request [THEN transmits_propagate] transmits_traffic_request [THEN transmits_propagate_last]

lemmas traffic_request_reports [guarded_rules] = guarded_traffic_request [THEN reports_guarded]

interpretation traffic_request: codec encode_traffic_request decode_traffic_request sendable_traffic_request
  by unfold_locales (simp_all add: transmits_traffic_request sane_traffic_request guarded_traffic_request)

definition encode_traffic_treatment :: "TrafficTreatment \<Rightarrow> (Writer, unit) state" where
  "encode_traffic_treatment value = do {
     Writer_enumeration TrafficClass_values (tt_traffic_class value);
     Writer_enumeration PriorityClass_values (tt_priority value);
     Writer_enumeration PacingClass_values (tt_pacing value);
     Writer_enumeration IntegrityClass_values (tt_integrity value);
     Writer_enumeration IsolationDomain_values (tt_isolation value);
     Writer_u32 (tt_reserved_weight value);
     Writer_u64 (tt_max_burst_bytes value);
     Writer_u64 (tt_rate_limit_bytes_per_sec value);
     write_id (tt_flow value);
     write_instant (tt_hold_until value);
     Writer_u32 (tt_defer_count value) }"

definition decode_traffic_treatment :: "(Reader, TrafficTreatment result) state" where
  "decode_traffic_treatment = do {
     traffic_class \<leftarrow> Reader_enumeration TrafficClass_values TC_Count;
     priority \<leftarrow> Reader_enumeration PriorityClass_values PC_Count;
     pacing \<leftarrow> Reader_enumeration PacingClass_values PA_Count;
     integrity \<leftarrow> Reader_enumeration IntegrityClass_values IC_Count;
     isolation \<leftarrow> Reader_enumeration IsolationDomain_values ID_Count;
     reserved_weight \<leftarrow> Reader_u32;
     max_burst_bytes \<leftarrow> Reader_u64;
     rate_limit_bytes_per_sec \<leftarrow> Reader_u64;
     flow \<leftarrow> read_id;
     hold_until \<leftarrow> read_instant;
     defer_count \<leftarrow> Reader_u32;
     or_fail (success
         \<lparr> tt_traffic_class = traffic_class, tt_priority = priority, tt_pacing = pacing,
           tt_integrity = integrity, tt_isolation = isolation,
           tt_reserved_weight = reserved_weight, tt_max_burst_bytes = max_burst_bytes,
           tt_rate_limit_bytes_per_sec = rate_limit_bytes_per_sec, tt_flow = flow,
           tt_hold_until = hold_until, tt_defer_count = defer_count \<rparr>) }"

definition sendable_traffic_treatment :: "TrafficTreatment \<Rightarrow> bool" where
  "sendable_traffic_treatment value \<longleftrightarrow>
     tt_traffic_class value \<noteq> TC_Count \<and>
     tt_priority value \<noteq> PC_Count \<and>
     tt_pacing value \<noteq> PA_Count \<and>
     tt_integrity value \<noteq> IC_Count \<and>
     tt_isolation value \<noteq> ID_Count \<and>
     in_i64 (tt_hold_until value)"

lemma transmits_traffic_treatment:
  "sendable_traffic_treatment v \<Longrightarrow> transmits (encode_traffic_treatment v) decode_traffic_treatment (Inr v)"
  unfolding encode_traffic_treatment_def decode_traffic_treatment_def
  by (intro transmission) (simp_all add: sendable_traffic_treatment_def)

lemma sane_traffic_treatment [sane_rules]: "sane decode_traffic_treatment"
  unfolding decode_traffic_treatment_def Let_def by (intro sane_rules)

lemma guarded_traffic_treatment [guarded_rules]: "guarded decode_traffic_treatment"
  unfolding decode_traffic_treatment_def Let_def by (intro guarded_rules)

lemma size_traffic_treatment [size_rules]: "at_most (encode_traffic_treatment v) 59"
  unfolding encode_traffic_treatment_def by (rule at_most_mono, (rule size_rules)+, simp)

lemmas traffic_treatment_part [transmission] =
  transmits_traffic_treatment [THEN transmits_propagate] transmits_traffic_treatment [THEN transmits_propagate_last]

lemmas traffic_treatment_reports [guarded_rules] = guarded_traffic_treatment [THEN reports_guarded]

interpretation traffic_treatment: codec encode_traffic_treatment decode_traffic_treatment sendable_traffic_treatment
  by unfold_locales (simp_all add: transmits_traffic_treatment sane_traffic_treatment guarded_traffic_treatment)

definition encode_explanation_step :: "ExplanationStep \<Rightarrow> (Writer, unit) state" where
  "encode_explanation_step value = do {
     Writer_enumeration ExplanationRule_values (es_rule value);
     Writer_i64 (es_value value);
     Writer_i64 (es_secondary value) }"

definition decode_explanation_step :: "(Reader, ExplanationStep result) state" where
  "decode_explanation_step = do {
     rule \<leftarrow> Reader_enumeration ExplanationRule_values ER_Count;
     value \<leftarrow> Reader_i64;
     secondary \<leftarrow> Reader_i64;
     or_fail (success
         \<lparr> es_rule = rule, es_value = value, es_secondary = secondary \<rparr>) }"

definition sendable_explanation_step :: "ExplanationStep \<Rightarrow> bool" where
  "sendable_explanation_step value \<longleftrightarrow>
     es_rule value \<noteq> ER_Count \<and>
     in_i64 (es_value value) \<and>
     in_i64 (es_secondary value)"

lemma transmits_explanation_step:
  "sendable_explanation_step v \<Longrightarrow> transmits (encode_explanation_step v) decode_explanation_step (Inr v)"
  unfolding encode_explanation_step_def decode_explanation_step_def
  by (intro transmission) (simp_all add: sendable_explanation_step_def)

lemma sane_explanation_step [sane_rules]: "sane decode_explanation_step"
  unfolding decode_explanation_step_def Let_def by (intro sane_rules)

lemma guarded_explanation_step [guarded_rules]: "guarded decode_explanation_step"
  unfolding decode_explanation_step_def Let_def by (intro guarded_rules)

lemma size_explanation_step [size_rules]: "at_most (encode_explanation_step v) 18"
  unfolding encode_explanation_step_def by (rule at_most_mono, (rule size_rules)+, simp)

interpretation explanation_step: codec encode_explanation_step decode_explanation_step sendable_explanation_step
  by unfold_locales (simp_all add: transmits_explanation_step sane_explanation_step guarded_explanation_step)

definition encode_authority_stamp :: "AuthorityStamp \<Rightarrow> (Writer, unit) state" where
  "encode_authority_stamp value = do {
     write_generation (au_epoch value);
     write_id (au_incarnation value);
     write_generation (au_policy value);
     write_generation (au_sequence value) }"

definition decode_authority_stamp :: "(Reader, AuthorityStamp result) state" where
  "decode_authority_stamp = do {
     epoch \<leftarrow> read_generation;
     incarnation \<leftarrow> read_id;
     policy \<leftarrow> read_generation;
     sequence \<leftarrow> read_generation;
     or_fail (let value =
         \<lparr> au_epoch = epoch, au_incarnation = incarnation, au_policy = policy,
           au_sequence = sequence \<rparr>
     in if \<not> stamp_is_valid value then failure ST_MalformedInput else success value) }"

definition sendable_authority_stamp :: "AuthorityStamp \<Rightarrow> bool" where
  "sendable_authority_stamp value \<longleftrightarrow>
     stamp_is_valid value"

lemma transmits_authority_stamp:
  "sendable_authority_stamp v \<Longrightarrow> transmits (encode_authority_stamp v) decode_authority_stamp (Inr v)"
  unfolding encode_authority_stamp_def decode_authority_stamp_def
  by (intro transmission) (simp_all add: sendable_authority_stamp_def)

lemma sane_authority_stamp [sane_rules]: "sane decode_authority_stamp"
  unfolding decode_authority_stamp_def Let_def by (intro sane_rules)

lemma guarded_authority_stamp [guarded_rules]: "guarded decode_authority_stamp"
  unfolding decode_authority_stamp_def Let_def by (intro guarded_rules)

lemma size_authority_stamp [size_rules]: "at_most (encode_authority_stamp v) 40"
  unfolding encode_authority_stamp_def by (rule at_most_mono, (rule size_rules)+, simp)

lemmas authority_stamp_part [transmission] =
  transmits_authority_stamp [THEN transmits_propagate] transmits_authority_stamp [THEN transmits_propagate_last]

lemmas authority_stamp_reports [guarded_rules] = guarded_authority_stamp [THEN reports_guarded]

interpretation authority_stamp: codec encode_authority_stamp decode_authority_stamp sendable_authority_stamp
  by unfold_locales (simp_all add: transmits_authority_stamp sane_authority_stamp guarded_authority_stamp)

section \<open>Decisions\<close>

definition encode_decision :: "Decision \<Rightarrow> (Writer, unit) state" where
  "encode_decision value = do {
     Writer_enumeration DecisionOutcome_values (d_outcome value);
     Writer_enumeration ReasonCode_values (d_reason value);
     encode_traffic_treatment (d_treatment value);
     Writer_boolean (subject_is_valid (d_subject value));
     encode_optional encode_traffic_subject
       (if subject_is_valid (d_subject value) then Some (d_subject value) else None);
     encode_generation_binding (d_binding value);
     encode_authority_stamp (d_authority value);
     Writer_u64 (d_defer_hint_nanos value);
     Writer_u32 (of_nat (min (length (d_explanation value)) kMaxExplanationSteps));
     encode_each encode_explanation_step (take kMaxExplanationSteps (d_explanation value)) }"

definition decode_decision :: "(Reader, Decision result) state" where
  "decode_decision = do {
     outcome \<leftarrow> Reader_enumeration DecisionOutcome_values DO_Count;
     reason \<leftarrow> Reader_enumeration ReasonCode_values RC_Count;
     propagate decode_traffic_treatment (\<lambda>treatment. do {
       has_subject \<leftarrow> Reader_boolean;
       or_fail (do {
         propagate (decode_optional has_subject decode_traffic_subject) (\<lambda>subject. do {
           propagate decode_generation_binding (\<lambda>binding. do {
             propagate decode_authority_stamp (\<lambda>authority. do {
               defer_hint_nanos \<leftarrow> Reader_u64;
               count \<leftarrow> Reader_count kMaxExplanationSteps;
               or_fail (do {
                 if unat count > kMaxExplanationSteps then failure ST_BoundsExceeded
                 else do {
                   propagate (decode_loop (unat count) decode_explanation_step) (\<lambda>explanation. do {
                     (success
                         \<lparr> d_outcome = outcome, d_reason = reason, d_treatment = treatment,
                           d_subject = (case subject of Some s \<Rightarrow> s | None \<Rightarrow> TrafficSubject_init),
                           d_binding = binding, d_authority = authority,
                           d_defer_hint_nanos = defer_hint_nanos,
                           d_explanation = explanation \<rparr>) }) } }) }) }) }) }) }) }"

definition sendable_decision :: "Decision \<Rightarrow> bool" where
  "sendable_decision value \<longleftrightarrow>
     d_outcome value \<noteq> DO_Count \<and>
     d_reason value \<noteq> RC_Count \<and>
     sendable_traffic_treatment (d_treatment value) \<and>
     (if subject_is_valid (d_subject value) then sendable_traffic_subject (d_subject value)
      else d_subject value = TrafficSubject_init) \<and>
     sendable_generation_binding (d_binding value) \<and>
     sendable_authority_stamp (d_authority value) \<and>
     length (d_explanation value) \<le> kMaxExplanationSteps \<and>
     (\<forall>e \<in> set (d_explanation value). sendable_explanation_step e)"

lemma transmits_decision:
  "sendable_decision v \<Longrightarrow> transmits (encode_decision v) decode_decision (Inr v)"
  unfolding encode_decision_def decode_decision_def
  by (intro transmission) (auto simp: sendable_decision_def 
      transmits_traffic_subject transmits_explanation_step kMaxExplanationSteps_def unat_of_nat_u32
      split: if_splits)

lemma sane_decision [sane_rules]: "sane decode_decision"
  unfolding decode_decision_def Let_def by (intro sane_rules)

lemma guarded_decision [guarded_rules]: "guarded decode_decision"
  unfolding decode_decision_def Let_def by (intro guarded_rules)

interpretation decision: codec encode_decision decode_decision sendable_decision
  by unfold_locales (simp_all add: transmits_decision sane_decision guarded_decision)

section \<open>Accounting\<close>

definition encode_class_accounting :: "ClassAccounting \<Rightarrow> (Writer, unit) state" where
  "encode_class_accounting value = do {
     Writer_u64 (ca_allowed value);
     Writer_u64 (ca_degraded value);
     Writer_u64 (ca_deferred value);
     Writer_u64 (ca_rejected value);
     Writer_u64 (ca_bytes_allowed value);
     Writer_u64 (ca_bytes_deferred value);
     Writer_u64 (ca_bytes_rejected value);
     Writer_u32 (ca_active_flows value);
     Writer_u32 (ca_peak_active_flows value);
     Writer_u32 (ca_starvation_admissions value) }"

definition decode_class_accounting :: "(Reader, ClassAccounting) state" where
  "decode_class_accounting = do {
     allowed \<leftarrow> Reader_u64;
     degraded \<leftarrow> Reader_u64;
     deferred \<leftarrow> Reader_u64;
     rejected \<leftarrow> Reader_u64;
     bytes_allowed \<leftarrow> Reader_u64;
     bytes_deferred \<leftarrow> Reader_u64;
     bytes_rejected \<leftarrow> Reader_u64;
     active_flows \<leftarrow> Reader_u32;
     peak_active_flows \<leftarrow> Reader_u32;
     starvation_admissions \<leftarrow> Reader_u32;
     State_Monad.return
       \<lparr> ca_allowed = allowed, ca_degraded = degraded, ca_deferred = deferred,
         ca_rejected = rejected, ca_bytes_allowed = bytes_allowed,
         ca_bytes_deferred = bytes_deferred, ca_bytes_rejected = bytes_rejected,
         ca_active_flows = active_flows, ca_peak_active_flows = peak_active_flows,
         ca_starvation_admissions = starvation_admissions \<rparr> }"

lemma transmits_class_accounting: "transmits (encode_class_accounting v) decode_class_accounting v"
  unfolding encode_class_accounting_def decode_class_accounting_def
  by (intro transmission) simp

lemma sane_class_accounting [sane_rules]: "sane decode_class_accounting"
  unfolding decode_class_accounting_def by (intro sane_rules)

definition encode_accounting_snapshot :: "AccountingSnapshot \<Rightarrow> (Writer, unit) state" where
  "encode_accounting_snapshot value = do {
     Writer_u16 (of_nat kTrafficClassCount);
     encode_each encode_class_accounting (ac_per_class value);
     Writer_u64 (ac_requests_registered value);
     Writer_u64 (ac_requests_completed value);
     Writer_u64 (ac_requests_cancelled value);
     Writer_u64 (ac_requests_failed value);
     Writer_u64 (ac_requests_interrupted value);
     Writer_u64 (ac_requests_evicted value);
     Writer_u64 (ac_attempts_registered value);
     Writer_u64 (ac_attempts_completed value);
     Writer_u64 (ac_attempts_failed value);
     Writer_u64 (ac_attempts_superseded value);
     Writer_u64 (ac_completions_committed value);
     Writer_u64 (ac_completions_suppressed value);
     Writer_u64 (ac_completions_refused value);
     Writer_u64 (ac_transfers_started value);
     Writer_u64 (ac_transfers_completed value);
     Writer_u64 (ac_transfers_refused value);
     Writer_u32 (ac_active_flows_total value);
     Writer_u32 (ac_peak_active_flows_total value);
     Writer_u32 (ac_pending_deferrals value);
     Writer_u64 (ac_live_requests value);
     Writer_u64 (ac_retained_requests value) }"

definition decode_accounting_snapshot :: "(Reader, AccountingSnapshot result) state" where
  "decode_accounting_snapshot = do {
     class_count \<leftarrow> Reader_u16;
     or_fail (do {
       if class_count \<noteq> of_nat kTrafficClassCount then failure ST_MalformedInput
       else do {
         per_class \<leftarrow> read_each kTrafficClassCount decode_class_accounting;
         requests_registered \<leftarrow> Reader_u64;
         requests_completed \<leftarrow> Reader_u64;
         requests_cancelled \<leftarrow> Reader_u64;
         requests_failed \<leftarrow> Reader_u64;
         requests_interrupted \<leftarrow> Reader_u64;
         requests_evicted \<leftarrow> Reader_u64;
         attempts_registered \<leftarrow> Reader_u64;
         attempts_completed \<leftarrow> Reader_u64;
         attempts_failed \<leftarrow> Reader_u64;
         attempts_superseded \<leftarrow> Reader_u64;
         completions_committed \<leftarrow> Reader_u64;
         completions_suppressed \<leftarrow> Reader_u64;
         completions_refused \<leftarrow> Reader_u64;
         transfers_started \<leftarrow> Reader_u64;
         transfers_completed \<leftarrow> Reader_u64;
         transfers_refused \<leftarrow> Reader_u64;
         active_flows_total \<leftarrow> Reader_u32;
         peak_active_flows_total \<leftarrow> Reader_u32;
         pending_deferrals \<leftarrow> Reader_u32;
         live_requests \<leftarrow> Reader_u64;
         retained_requests \<leftarrow> Reader_u64;
         or_fail (success
             \<lparr> ac_per_class = per_class, ac_requests_registered = requests_registered,
               ac_requests_completed = requests_completed,
               ac_requests_cancelled = requests_cancelled,
               ac_requests_failed = requests_failed,
               ac_requests_interrupted = requests_interrupted,
               ac_requests_evicted = requests_evicted,
               ac_attempts_registered = attempts_registered,
               ac_attempts_completed = attempts_completed,
               ac_attempts_failed = attempts_failed,
               ac_attempts_superseded = attempts_superseded,
               ac_completions_committed = completions_committed,
               ac_completions_suppressed = completions_suppressed,
               ac_completions_refused = completions_refused,
               ac_transfers_started = transfers_started,
               ac_transfers_completed = transfers_completed,
               ac_transfers_refused = transfers_refused,
               ac_active_flows_total = active_flows_total,
               ac_peak_active_flows_total = peak_active_flows_total,
               ac_pending_deferrals = pending_deferrals, ac_live_requests = live_requests,
               ac_retained_requests = retained_requests \<rparr>) } }) }"

definition sendable_accounting_snapshot :: "AccountingSnapshot \<Rightarrow> bool" where
  "sendable_accounting_snapshot value \<longleftrightarrow>
     length (ac_per_class value) = kTrafficClassCount"

lemma transmits_accounting_snapshot:
  "sendable_accounting_snapshot v \<Longrightarrow> transmits (encode_accounting_snapshot v) decode_accounting_snapshot (Inr v)"
  unfolding encode_accounting_snapshot_def decode_accounting_snapshot_def
  by (intro transmission) (simp_all add: sendable_accounting_snapshot_def transmits_class_accounting)

lemma sane_accounting_snapshot [sane_rules]: "sane decode_accounting_snapshot"
  unfolding decode_accounting_snapshot_def Let_def by (intro sane_rules)

lemma guarded_accounting_snapshot [guarded_rules]: "guarded decode_accounting_snapshot"
  unfolding decode_accounting_snapshot_def Let_def by (intro guarded_rules)

interpretation accounting_snapshot: codec encode_accounting_snapshot decode_accounting_snapshot sendable_accounting_snapshot
  by unfold_locales (simp_all add: transmits_accounting_snapshot sane_accounting_snapshot guarded_accounting_snapshot)

section \<open>Ledger records\<close>

definition encode_attempt_record :: "AttemptRecord \<Rightarrow> (Writer, unit) state" where
  "encode_attempt_record value = do {
     write_id (a_id value);
     write_generation (a_generation value);
     Writer_enumeration ServingStage_values (a_stage value);
     Writer_enumeration AttemptLifecycle_values (a_lifecycle value);
     Writer_u64 (a_model_hash value);
     write_generation (a_model_generation value);
     write_generation (a_route_generation value);
     Writer_boolean (a_success_published value);
     Writer_boolean (a_failure_published value);
     Writer_enumeration ReasonCode_values (a_terminal_reason value);
     Writer_u64 (a_bytes_in value);
     Writer_u64 (a_bytes_out value);
     Writer_u32 (a_decisions value);
     Writer_u32 (a_defers value);
     Writer_u32 (a_rejections value);
     Writer_i64 (a_registered_at_nanos value);
     Writer_i64 (a_updated_at_nanos value) }"

definition decode_attempt_record :: "(Reader, AttemptRecord result) state" where
  "decode_attempt_record = do {
     id \<leftarrow> read_id;
     generation \<leftarrow> read_generation;
     stage \<leftarrow> Reader_enumeration ServingStage_values SS_Count;
     lifecycle \<leftarrow> Reader_enumeration AttemptLifecycle_values AL_Count;
     model_hash \<leftarrow> Reader_u64;
     model_generation \<leftarrow> read_generation;
     route_generation \<leftarrow> read_generation;
     success_published \<leftarrow> Reader_boolean;
     failure_published \<leftarrow> Reader_boolean;
     terminal_reason \<leftarrow> Reader_enumeration ReasonCode_values RC_Count;
     bytes_in \<leftarrow> Reader_u64;
     bytes_out \<leftarrow> Reader_u64;
     decisions \<leftarrow> Reader_u32;
     defers \<leftarrow> Reader_u32;
     rejections \<leftarrow> Reader_u32;
     registered_at_nanos \<leftarrow> Reader_i64;
     updated_at_nanos \<leftarrow> Reader_i64;
     or_fail (success
         \<lparr> a_id = id, a_generation = generation, a_stage = stage, a_lifecycle = lifecycle,
           a_model_hash = model_hash, a_model_generation = model_generation,
           a_route_generation = route_generation, a_success_published = success_published,
           a_failure_published = failure_published, a_terminal_reason = terminal_reason,
           a_bytes_in = bytes_in, a_bytes_out = bytes_out, a_decisions = decisions,
           a_defers = defers, a_rejections = rejections,
           a_registered_at_nanos = registered_at_nanos,
           a_updated_at_nanos = updated_at_nanos \<rparr>) }"

definition sendable_attempt_record :: "AttemptRecord \<Rightarrow> bool" where
  "sendable_attempt_record value \<longleftrightarrow>
     a_stage value \<noteq> SS_Count \<and>
     a_lifecycle value \<noteq> AL_Count \<and>
     a_terminal_reason value \<noteq> RC_Count \<and>
     in_i64 (a_registered_at_nanos value) \<and>
     in_i64 (a_updated_at_nanos value)"

lemma transmits_attempt_record:
  "sendable_attempt_record v \<Longrightarrow> transmits (encode_attempt_record v) decode_attempt_record (Inr v)"
  unfolding encode_attempt_record_def decode_attempt_record_def
  by (intro transmission) (simp_all add: sendable_attempt_record_def)

lemma sane_attempt_record [sane_rules]: "sane decode_attempt_record"
  unfolding decode_attempt_record_def Let_def by (intro sane_rules)

lemma guarded_attempt_record [guarded_rules]: "guarded decode_attempt_record"
  unfolding decode_attempt_record_def Let_def by (intro guarded_rules)

lemma size_attempt_record [size_rules]: "at_most (encode_attempt_record v) 100"
  unfolding encode_attempt_record_def by (rule at_most_mono, (rule size_rules)+, simp)

interpretation attempt_record: codec encode_attempt_record decode_attempt_record sendable_attempt_record
  by unfold_locales (simp_all add: transmits_attempt_record sane_attempt_record guarded_attempt_record)

definition encode_request_record :: "RequestRecord \<Rightarrow> (Writer, unit) state" where
  "encode_request_record value = do {
     write_id (r_id value);
     write_generation (r_generation value);
     Writer_enumeration RequestLifecycle_values (r_lifecycle value);
     Writer_enumeration ServingStage_values (r_stage value);
     write_id (r_current_attempt value);
     write_generation (r_current_attempt_generation value);
     Writer_u32 (min (r_attempt_count value) kMaxAttemptsPerRequest);
     encode_each encode_attempt_record
       (take (unat (min (r_attempt_count value) kMaxAttemptsPerRequest)) (r_attempts value));
     Writer_enumeration ReasonCode_values (r_terminal_reason value);
     Writer_i64 (r_registered_at_nanos value);
     Writer_i64 (r_terminal_at_nanos value);
     Writer_boolean (r_requires_revalidation value);
     Writer_boolean (r_accounting_closed value);
     Writer_u64 (r_bytes_in value);
     Writer_u64 (r_bytes_out value);
     Writer_u32 (r_decisions value);
     Writer_u32 (r_defers value);
     Writer_u32 (r_rejections value);
     Writer_u32 (r_active_flows value);
     write_generation (r_authority_floor value) }"

definition decode_request_record :: "(Reader, RequestRecord result) state" where
  "decode_request_record = do {
     id \<leftarrow> read_id;
     generation \<leftarrow> read_generation;
     lifecycle \<leftarrow> Reader_enumeration RequestLifecycle_values RL_Count;
     stage \<leftarrow> Reader_enumeration ServingStage_values SS_Count;
     current_attempt \<leftarrow> read_id;
     current_attempt_generation \<leftarrow> read_generation;
     attempt_count \<leftarrow> Reader_count (unat kMaxAttemptsPerRequest);
     or_fail (do {
       propagate (decode_loop (unat attempt_count) decode_attempt_record) (\<lambda>attempts. do {
         terminal_reason \<leftarrow> Reader_enumeration ReasonCode_values RC_Count;
         registered_at_nanos \<leftarrow> Reader_i64;
         terminal_at_nanos \<leftarrow> Reader_i64;
         requires_revalidation \<leftarrow> Reader_boolean;
         accounting_closed \<leftarrow> Reader_boolean;
         bytes_in \<leftarrow> Reader_u64;
         bytes_out \<leftarrow> Reader_u64;
         decisions \<leftarrow> Reader_u32;
         defers \<leftarrow> Reader_u32;
         rejections \<leftarrow> Reader_u32;
         active_flows \<leftarrow> Reader_u32;
         authority_floor \<leftarrow> read_generation;
         or_fail (let value =
             \<lparr> r_id = id, r_generation = generation, r_lifecycle = lifecycle, r_stage = stage,
               r_current_attempt = current_attempt,
               r_current_attempt_generation = current_attempt_generation,
               r_attempt_count = attempt_count,
               r_attempts = attempts @ drop (length attempts) (r_attempts RequestRecord_init),
               r_terminal_reason = terminal_reason,
               r_registered_at_nanos = registered_at_nanos,
               r_terminal_at_nanos = terminal_at_nanos,
               r_requires_revalidation = requires_revalidation,
               r_accounting_closed = accounting_closed, r_bytes_in = bytes_in,
               r_bytes_out = bytes_out, r_decisions = decisions, r_defers = defers,
               r_rejections = rejections, r_active_flows = active_flows,
               r_authority_floor = authority_floor \<rparr>
         in if is_nil (r_id value) then failure ST_MalformedInput
               else if attempt_count > 0 \<and> is_nil (r_current_attempt value)
               then failure ST_MalformedInput
               else if r_lifecycle value \<noteq> RL_Unknown \<and> attempt_count = 0 \<and>
                       r_lifecycle value \<noteq> RL_Registered
               then failure ST_MalformedInput
               else success value) }) }) }"

definition sendable_request_record :: "RequestRecord \<Rightarrow> bool" where
  "sendable_request_record value \<longleftrightarrow>
     r_lifecycle value \<noteq> RL_Count \<and>
     r_stage value \<noteq> SS_Count \<and>
     r_attempt_count value \<le> kMaxAttemptsPerRequest \<and>
     r_attempts value = take (unat (r_attempt_count value)) (r_attempts value) @
       drop (unat (r_attempt_count value)) (r_attempts RequestRecord_init) \<and>
     length (r_attempts value) = unat kMaxAttemptsPerRequest \<and>
     (\<forall>a \<in> set (take (unat (r_attempt_count value)) (r_attempts value)). sendable_attempt_record a) \<and>
     r_terminal_reason value \<noteq> RC_Count \<and>
     in_i64 (r_registered_at_nanos value) \<and>
     in_i64 (r_terminal_at_nanos value) \<and>
     r_id value \<noteq> nil_id \<and>
     (r_attempt_count value > 0 \<longrightarrow> r_current_attempt value \<noteq> nil_id) \<and>
     (r_attempt_count value = 0 \<longrightarrow> r_lifecycle value \<in> {RL_Unknown, RL_Registered})"

lemma transmits_request_record:
  "sendable_request_record v \<Longrightarrow> transmits (encode_request_record v) decode_request_record (Inr v)"
  unfolding encode_request_record_def decode_request_record_def
  by (intro transmission) (auto simp: sendable_request_record_def transmits_attempt_record
      min_absorb1 word_le_nat_alt [symmetric] word_gt_0)

lemma sane_request_record [sane_rules]: "sane decode_request_record"
  unfolding decode_request_record_def Let_def by (intro sane_rules)

lemma guarded_request_record [guarded_rules]: "guarded decode_request_record"
  unfolding decode_request_record_def Let_def by (intro guarded_rules)

interpretation request_record: codec encode_request_record decode_request_record sendable_request_record
  by unfold_locales (simp_all add: transmits_request_record sane_request_record guarded_request_record)

lemma size_request_record [size_rules]: "at_most (encode_request_record v) 966"
proof (rule at_most_mono)
  show "at_most (encode_request_record v)
      (166 + length (take (unat (min (r_attempt_count v) kMaxAttemptsPerRequest)) (r_attempts v)) * 100)"
    unfolding encode_request_record_def by (rule at_most_mono, (rule size_rules)+, simp)
  have "unat (min (r_attempt_count v) kMaxAttemptsPerRequest) \<le> 8"
    using word_le_nat_alt [of "min (r_attempt_count v) kMaxAttemptsPerRequest" kMaxAttemptsPerRequest]
    by (simp add: kMaxAttemptsPerRequest_def)
  then show "166 + length (take (unat (min (r_attempt_count v) kMaxAttemptsPerRequest)) (r_attempts v)) * 100 \<le> 966"
    by simp
qed

section \<open>Evidence\<close>

definition encode_model_state :: "ModelState \<Rightarrow> (Writer, unit) state" where
  "encode_model_state value = do {
     Writer_u64 (ms_model_hash value);
     write_generation (ms_generation value);
     Writer_boolean (ms_requires_revalidation value) }"

definition decode_model_state :: "(Reader, ModelState result) state" where
  "decode_model_state = do {
     model_hash \<leftarrow> Reader_u64;
     generation \<leftarrow> read_generation;
     requires_revalidation \<leftarrow> Reader_boolean;
     or_fail (let value =
         \<lparr> ms_model_hash = model_hash, ms_generation = generation,
           ms_requires_revalidation = requires_revalidation \<rparr>
     in if \<not> model_is_valid value then failure ST_MalformedInput else success value) }"

definition sendable_model_state :: "ModelState \<Rightarrow> bool" where
  "sendable_model_state value \<longleftrightarrow>
     model_is_valid value"

lemma transmits_model_state:
  "sendable_model_state v \<Longrightarrow> transmits (encode_model_state v) decode_model_state (Inr v)"
  unfolding encode_model_state_def decode_model_state_def
  by (intro transmission) (simp_all add: sendable_model_state_def)

lemma sane_model_state [sane_rules]: "sane decode_model_state"
  unfolding decode_model_state_def Let_def by (intro sane_rules)

lemma guarded_model_state [guarded_rules]: "guarded decode_model_state"
  unfolding decode_model_state_def Let_def by (intro guarded_rules)

lemma size_model_state [size_rules]: "at_most (encode_model_state v) 17"
  unfolding encode_model_state_def by (rule at_most_mono, (rule size_rules)+, simp)

interpretation model_state: codec encode_model_state decode_model_state sendable_model_state
  by unfold_locales (simp_all add: transmits_model_state sane_model_state guarded_model_state)

definition encode_state_generation_record :: "StateGenerationRecord \<Rightarrow> (Writer, unit) state" where
  "encode_state_generation_record value = do {
     Writer_u64 (sg_state_hash value);
     write_generation (sg_generation value);
     Writer_boolean (sg_requires_revalidation value) }"

definition decode_state_generation_record :: "(Reader, StateGenerationRecord result) state" where
  "decode_state_generation_record = do {
     state_hash \<leftarrow> Reader_u64;
     generation \<leftarrow> read_generation;
     requires_revalidation \<leftarrow> Reader_boolean;
     or_fail (let value =
         \<lparr> sg_state_hash = state_hash, sg_generation = generation,
           sg_requires_revalidation = requires_revalidation \<rparr>
     in if \<not> state_is_valid value then failure ST_MalformedInput else success value) }"

definition sendable_state_generation_record :: "StateGenerationRecord \<Rightarrow> bool" where
  "sendable_state_generation_record value \<longleftrightarrow>
     state_is_valid value"

lemma transmits_state_generation_record:
  "sendable_state_generation_record v \<Longrightarrow> transmits (encode_state_generation_record v) decode_state_generation_record (Inr v)"
  unfolding encode_state_generation_record_def decode_state_generation_record_def
  by (intro transmission) (simp_all add: sendable_state_generation_record_def)

lemma sane_state_generation_record [sane_rules]: "sane decode_state_generation_record"
  unfolding decode_state_generation_record_def Let_def by (intro sane_rules)

lemma guarded_state_generation_record [guarded_rules]: "guarded decode_state_generation_record"
  unfolding decode_state_generation_record_def Let_def by (intro guarded_rules)

lemma size_state_generation_record [size_rules]: "at_most (encode_state_generation_record v) 17"
  unfolding encode_state_generation_record_def by (rule at_most_mono, (rule size_rules)+, simp)

interpretation state_generation_record: codec encode_state_generation_record decode_state_generation_record sendable_state_generation_record
  by unfold_locales (simp_all add: transmits_state_generation_record sane_state_generation_record guarded_state_generation_record)

definition encode_topology_evidence :: "TopologyEvidence \<Rightarrow> (Writer, unit) state" where
  "encode_topology_evidence value = do {
     write_generation (te_generation value);
     Writer_enumeration EvidenceProvenance_values (te_provenance value);
     write_id (te_observed_boot value);
     Writer_i64 (te_observed_at_nanos value);
     Writer_u64 (te_max_age_nanos value);
     Writer_u32 (te_node_count value);
     Writer_u32 (te_accelerator_count value);
     Writer_u32 (te_link_count value);
     Writer_u64 (te_fabric_bytes_per_sec value);
     Writer_u32 (te_queue_depth value);
     Writer_boolean (te_congestion_signalled value);
     Writer_boolean (te_disaggregated value) }"

definition decode_topology_evidence :: "bool \<Rightarrow> (Reader, TopologyEvidence result) state" where
  "decode_topology_evidence validate = do {
     generation \<leftarrow> read_generation;
     provenance \<leftarrow> Reader_enumeration EvidenceProvenance_values EP_Count;
     observed_boot \<leftarrow> read_id;
     observed_at_nanos \<leftarrow> Reader_i64;
     max_age_nanos \<leftarrow> Reader_u64;
     node_count \<leftarrow> Reader_u32;
     accelerator_count \<leftarrow> Reader_u32;
     link_count \<leftarrow> Reader_u32;
     fabric_bytes_per_sec \<leftarrow> Reader_u64;
     queue_depth \<leftarrow> Reader_u32;
     congestion_signalled \<leftarrow> Reader_boolean;
     disaggregated \<leftarrow> Reader_boolean;
     or_fail (let value =
         \<lparr> te_generation = generation, te_provenance = provenance,
           te_observed_boot = observed_boot, te_observed_at_nanos = observed_at_nanos,
           te_max_age_nanos = max_age_nanos, te_node_count = node_count,
           te_accelerator_count = accelerator_count, te_link_count = link_count,
           te_fabric_bytes_per_sec = fabric_bytes_per_sec, te_queue_depth = queue_depth,
           te_congestion_signalled = congestion_signalled,
           te_disaggregated = disaggregated \<rparr>
     in if validate \<and> \<not> topology_is_valid value then failure ST_MalformedInput
           else success value) }"

definition sendable_topology_evidence :: "bool \<Rightarrow> TopologyEvidence \<Rightarrow> bool" where
  "sendable_topology_evidence validate value \<longleftrightarrow>
     te_provenance value \<noteq> EP_Count \<and>
     in_i64 (te_observed_at_nanos value) \<and>
     (validate \<longrightarrow> topology_is_valid value)"

lemma transmits_topology_evidence:
  "sendable_topology_evidence validate v \<Longrightarrow> transmits (encode_topology_evidence v) (decode_topology_evidence validate) (Inr v)"
  unfolding encode_topology_evidence_def decode_topology_evidence_def
  by (intro transmission) (auto simp: sendable_topology_evidence_def)

lemma sane_topology_evidence [sane_rules]: "sane (decode_topology_evidence validate)"
  unfolding decode_topology_evidence_def Let_def by (intro sane_rules)

lemma guarded_topology_evidence [guarded_rules]: "guarded (decode_topology_evidence validate)"
  unfolding decode_topology_evidence_def Let_def by (intro guarded_rules)

lemma size_topology_evidence [size_rules]: "at_most (encode_topology_evidence v) 68"
  unfolding encode_topology_evidence_def by (rule at_most_mono, (rule size_rules)+, simp)

lemmas topology_evidence_part [transmission] =
  transmits_topology_evidence [THEN transmits_propagate] transmits_topology_evidence [THEN transmits_propagate_last]

lemmas topology_evidence_reports [guarded_rules] = guarded_topology_evidence [THEN reports_guarded]

interpretation topology_evidence: codec encode_topology_evidence "decode_topology_evidence validate" "sendable_topology_evidence validate" for validate
  by unfold_locales (simp_all add: transmits_topology_evidence sane_topology_evidence guarded_topology_evidence)

definition encode_slo_contract :: "SloContract \<Rightarrow> (Writer, unit) state" where
  "encode_slo_contract value = do {
     write_generation (slo_generation value);
     write_id (slo_request value);
     Writer_u64 (slo_tail_latency_budget_nanos value);
     Writer_u64 (slo_registration_deadline_nanos value);
     Writer_u32 (slo_min_stream_share_per_mille value) }"

definition decode_slo_contract :: "(Reader, SloContract result) state" where
  "decode_slo_contract = do {
     generation \<leftarrow> read_generation;
     request \<leftarrow> read_id;
     tail_latency_budget_nanos \<leftarrow> Reader_u64;
     registration_deadline_nanos \<leftarrow> Reader_u64;
     min_stream_share_per_mille \<leftarrow> Reader_u32;
     or_fail (let value =
         \<lparr> slo_generation = generation, slo_request = request,
           slo_tail_latency_budget_nanos = tail_latency_budget_nanos,
           slo_registration_deadline_nanos = registration_deadline_nanos,
           slo_min_stream_share_per_mille = min_stream_share_per_mille \<rparr>
     in if \<not> slo_is_valid value then failure ST_MalformedInput else success value) }"

definition sendable_slo_contract :: "SloContract \<Rightarrow> bool" where
  "sendable_slo_contract value \<longleftrightarrow>
     slo_is_valid value"

lemma transmits_slo_contract:
  "sendable_slo_contract v \<Longrightarrow> transmits (encode_slo_contract v) decode_slo_contract (Inr v)"
  unfolding encode_slo_contract_def decode_slo_contract_def
  by (intro transmission) (simp_all add: sendable_slo_contract_def)

lemma sane_slo_contract [sane_rules]: "sane decode_slo_contract"
  unfolding decode_slo_contract_def Let_def by (intro sane_rules)

lemma guarded_slo_contract [guarded_rules]: "guarded decode_slo_contract"
  unfolding decode_slo_contract_def Let_def by (intro guarded_rules)

lemma size_slo_contract [size_rules]: "at_most (encode_slo_contract v) 44"
  unfolding encode_slo_contract_def by (rule at_most_mono, (rule size_rules)+, simp)

interpretation slo_contract: codec encode_slo_contract decode_slo_contract sendable_slo_contract
  by unfold_locales (simp_all add: transmits_slo_contract sane_slo_contract guarded_slo_contract)

definition encode_route_decision :: "RouteDecision \<Rightarrow> (Writer, unit) state" where
  "encode_route_decision value = do {
     write_generation (rt_generation value);
     write_id (rt_request value);
     write_id (rt_attempt value);
     Writer_u32 (rt_target_node value);
     Writer_boolean (rt_lateral value);
     Writer_boolean (rt_disaggregated_handoff value) }"

definition decode_route_decision :: "(Reader, RouteDecision result) state" where
  "decode_route_decision = do {
     generation \<leftarrow> read_generation;
     request \<leftarrow> read_id;
     attempt \<leftarrow> read_id;
     target_node \<leftarrow> Reader_u32;
     lateral \<leftarrow> Reader_boolean;
     disaggregated_handoff \<leftarrow> Reader_boolean;
     or_fail (let value =
         \<lparr> rt_generation = generation, rt_request = request, rt_attempt = attempt,
           rt_target_node = target_node, rt_lateral = lateral,
           rt_disaggregated_handoff = disaggregated_handoff \<rparr>
     in if \<not> route_is_valid value then failure ST_MalformedInput else success value) }"

definition sendable_route_decision :: "RouteDecision \<Rightarrow> bool" where
  "sendable_route_decision value \<longleftrightarrow>
     route_is_valid value"

lemma transmits_route_decision:
  "sendable_route_decision v \<Longrightarrow> transmits (encode_route_decision v) decode_route_decision (Inr v)"
  unfolding encode_route_decision_def decode_route_decision_def
  by (intro transmission) (simp_all add: sendable_route_decision_def)

lemma sane_route_decision [sane_rules]: "sane decode_route_decision"
  unfolding decode_route_decision_def Let_def by (intro sane_rules)

lemma guarded_route_decision [guarded_rules]: "guarded decode_route_decision"
  unfolding decode_route_decision_def Let_def by (intro guarded_rules)

lemma size_route_decision [size_rules]: "at_most (encode_route_decision v) 46"
  unfolding encode_route_decision_def by (rule at_most_mono, (rule size_rules)+, simp)

interpretation route_decision: codec encode_route_decision decode_route_decision sendable_route_decision
  by unfold_locales (simp_all add: transmits_route_decision sane_route_decision guarded_route_decision)

section \<open>Transfers, completions and status\<close>

definition encode_transfer_registration :: "TransferRegistration \<Rightarrow> (Writer, unit) state" where
  "encode_transfer_registration value = do {
     write_id (tg_id value);
     Writer_u64 (tg_state_hash value);
     Writer_u64 (tg_model_hash value);
     Writer_u64 (tg_payload_bytes value);
     Writer_enumeration TrafficClass_values (tg_declared_class value);
     Writer_enumeration FlowDirection_values (tg_direction value);
     Writer_enumeration IntegrityClass_values (tg_required_integrity value);
     write_optional_id (tg_request value);
     write_optional_id (tg_attempt value);
     write_instant (tg_deadline value) }"

definition decode_transfer_registration :: "(Reader, TransferRegistration result) state" where
  "decode_transfer_registration = do {
     id \<leftarrow> read_id;
     state_hash \<leftarrow> Reader_u64;
     model_hash \<leftarrow> Reader_u64;
     payload_bytes \<leftarrow> Reader_u64;
     declared_class \<leftarrow> Reader_enumeration TrafficClass_values TC_Count;
     direction \<leftarrow> Reader_enumeration FlowDirection_values FD_Count;
     required_integrity \<leftarrow> Reader_enumeration IntegrityClass_values IC_Count;
     request \<leftarrow> read_optional_id;
     attempt \<leftarrow> read_optional_id;
     deadline \<leftarrow> read_instant;
     or_fail (let value =
         \<lparr> tg_id = id, tg_state_hash = state_hash, tg_model_hash = model_hash,
           tg_payload_bytes = payload_bytes, tg_declared_class = declared_class,
           tg_direction = direction, tg_required_integrity = required_integrity,
           tg_request = request, tg_attempt = attempt, tg_deadline = deadline \<rparr>
     in if is_nil (tg_id value) then failure ST_MalformedInput else success value) }"

definition sendable_transfer_registration :: "TransferRegistration \<Rightarrow> bool" where
  "sendable_transfer_registration value \<longleftrightarrow>
     tg_declared_class value \<noteq> TC_Count \<and>
     tg_direction value \<noteq> FD_Count \<and>
     tg_required_integrity value \<noteq> IC_Count \<and>
     in_i64 (tg_deadline value) \<and>
     tg_id value \<noteq> nil_id"

lemma transmits_transfer_registration:
  "sendable_transfer_registration v \<Longrightarrow> transmits (encode_transfer_registration v) decode_transfer_registration (Inr v)"
  unfolding encode_transfer_registration_def decode_transfer_registration_def
  by (intro transmission) (simp_all add: sendable_transfer_registration_def)

lemma sane_transfer_registration [sane_rules]: "sane decode_transfer_registration"
  unfolding decode_transfer_registration_def Let_def by (intro sane_rules)

lemma guarded_transfer_registration [guarded_rules]: "guarded decode_transfer_registration"
  unfolding decode_transfer_registration_def Let_def by (intro guarded_rules)

lemma size_transfer_registration [size_rules]: "at_most (encode_transfer_registration v) 89"
  unfolding encode_transfer_registration_def by (rule at_most_mono, (rule size_rules)+, simp)

interpretation transfer_registration: codec encode_transfer_registration decode_transfer_registration sendable_transfer_registration
  by unfold_locales (simp_all add: transmits_transfer_registration sane_transfer_registration guarded_transfer_registration)

definition encode_transfer_authorization :: "TransferAuthorization \<Rightarrow> (Writer, unit) state" where
  "encode_transfer_authorization value = do {
     write_id (ta_transfer value);
     Writer_enumeration TrafficClass_values (ta_traffic_class value);
     Writer_enumeration IntegrityClass_values (ta_integrity value);
     Writer_enumeration PacingClass_values (ta_pacing value);
     Writer_enumeration PriorityClass_values (ta_priority value);
     encode_authority_stamp (ta_authority value);
     Writer_enumeration ReasonCode_values (ta_reason value);
     Writer_boolean (ta_authorized value);
     write_id (ta_flow value) }"

definition decode_transfer_authorization :: "(Reader, TransferAuthorization result) state" where
  "decode_transfer_authorization = do {
     transfer \<leftarrow> read_id;
     traffic_class \<leftarrow> Reader_enumeration TrafficClass_values TC_Count;
     integrity \<leftarrow> Reader_enumeration IntegrityClass_values IC_Count;
     pacing \<leftarrow> Reader_enumeration PacingClass_values PA_Count;
     priority \<leftarrow> Reader_enumeration PriorityClass_values PC_Count;
     propagate decode_authority_stamp (\<lambda>authority. do {
       reason \<leftarrow> Reader_enumeration ReasonCode_values RC_Count;
       authorized \<leftarrow> Reader_boolean;
       flow \<leftarrow> read_id;
       or_fail (success
           \<lparr> ta_transfer = transfer, ta_traffic_class = traffic_class,
             ta_integrity = integrity, ta_pacing = pacing, ta_priority = priority,
             ta_authority = authority, ta_reason = reason, ta_authorized = authorized,
             ta_flow = flow \<rparr>) }) }"

definition sendable_transfer_authorization :: "TransferAuthorization \<Rightarrow> bool" where
  "sendable_transfer_authorization value \<longleftrightarrow>
     ta_traffic_class value \<noteq> TC_Count \<and>
     ta_integrity value \<noteq> IC_Count \<and>
     ta_pacing value \<noteq> PA_Count \<and>
     ta_priority value \<noteq> PC_Count \<and>
     sendable_authority_stamp (ta_authority value) \<and>
     ta_reason value \<noteq> RC_Count"

lemma transmits_transfer_authorization:
  "sendable_transfer_authorization v \<Longrightarrow> transmits (encode_transfer_authorization v) decode_transfer_authorization (Inr v)"
  unfolding encode_transfer_authorization_def decode_transfer_authorization_def
  by (intro transmission) (simp_all add: sendable_transfer_authorization_def)

lemma sane_transfer_authorization [sane_rules]: "sane decode_transfer_authorization"
  unfolding decode_transfer_authorization_def Let_def by (intro sane_rules)

lemma guarded_transfer_authorization [guarded_rules]: "guarded decode_transfer_authorization"
  unfolding decode_transfer_authorization_def Let_def by (intro guarded_rules)

lemma size_transfer_authorization [size_rules]: "at_most (encode_transfer_authorization v) 83"
  unfolding encode_transfer_authorization_def by (rule at_most_mono, (rule size_rules)+, simp)

interpretation transfer_authorization: codec encode_transfer_authorization decode_transfer_authorization sendable_transfer_authorization
  by unfold_locales (simp_all add: transmits_transfer_authorization sane_transfer_authorization guarded_transfer_authorization)

definition encode_completion_publication :: "CompletionPublication \<Rightarrow> (Writer, unit) state" where
  "encode_completion_publication value = do {
     write_id (cp_request value);
     write_id (cp_attempt value);
     write_generation (cp_attempt_generation value);
     Writer_boolean (cp_success value);
     Writer_enumeration ReasonCode_values (cp_reason value);
     Writer_u64 (cp_bytes_in value);
     Writer_u64 (cp_bytes_out value) }"

definition decode_completion_publication :: "(Reader, CompletionPublication result) state" where
  "decode_completion_publication = do {
     request \<leftarrow> read_id;
     attempt \<leftarrow> read_id;
     attempt_generation \<leftarrow> read_generation;
     succeeded \<leftarrow> Reader_boolean;
     reason \<leftarrow> Reader_enumeration ReasonCode_values RC_Count;
     bytes_in \<leftarrow> Reader_u64;
     bytes_out \<leftarrow> Reader_u64;
     or_fail (let value =
         \<lparr> cp_request = request, cp_attempt = attempt,
           cp_attempt_generation = attempt_generation, cp_success = succeeded,
           cp_reason = reason, cp_bytes_in = bytes_in, cp_bytes_out = bytes_out \<rparr>
     in if is_nil (cp_request value) \<or> is_nil (cp_attempt value) then failure ST_MalformedInput
           else success value) }"

definition sendable_completion_publication :: "CompletionPublication \<Rightarrow> bool" where
  "sendable_completion_publication value \<longleftrightarrow>
     cp_reason value \<noteq> RC_Count \<and>
     cp_request value \<noteq> nil_id \<and>
     cp_attempt value \<noteq> nil_id"

lemma transmits_completion_publication:
  "sendable_completion_publication v \<Longrightarrow> transmits (encode_completion_publication v) decode_completion_publication (Inr v)"
  unfolding encode_completion_publication_def decode_completion_publication_def
  by (intro transmission) (simp_all add: sendable_completion_publication_def)

lemma sane_completion_publication [sane_rules]: "sane decode_completion_publication"
  unfolding decode_completion_publication_def Let_def by (intro sane_rules)

lemma guarded_completion_publication [guarded_rules]: "guarded decode_completion_publication"
  unfolding decode_completion_publication_def Let_def by (intro guarded_rules)

lemma size_completion_publication [size_rules]: "at_most (encode_completion_publication v) 59"
  unfolding encode_completion_publication_def by (rule at_most_mono, (rule size_rules)+, simp)

interpretation completion_publication: codec encode_completion_publication decode_completion_publication sendable_completion_publication
  by unfold_locales (simp_all add: transmits_completion_publication sane_completion_publication guarded_completion_publication)

text \<open>
  The refusal of a publication is written as the number of the status code; a number past the last
  code fails the reader, and the value read is then discarded by the check at the end.
\<close>

definition status_of_value :: "u16 \<Rightarrow> StatusCode" where
  "status_of_value n =
     (if unat n < length StatusCode_values then StatusCode_values ! unat n else ST_Internal)"

definition read_status :: "(Reader, StatusCode) state" where
  "read_status = do {
     refusal \<leftarrow> Reader_u16;
     if refusal > status_value ST_Refused
     then do { Reader_fail ST_MalformedInput; State_Monad.return (status_of_value refusal) }
     else State_Monad.return (status_of_value refusal) }"

lemma status_of_status_value [simp]: "status_of_value (status_value c) = c"
  by (cases c) (simp_all add: status_of_value_def status_value_def enum_value_def StatusCode_values_def)

lemma status_value_le [simp]: "status_value c \<le> status_value ST_Refused"
  by (cases c) (simp_all add: status_value_def enum_value_def StatusCode_values_def)

lemma transmits_status: "transmits (Writer_u16 (status_value c)) read_status c"
  unfolding read_status_def by (rule transmits_last [OF transmits_u16]) (simp add: status_value_le [THEN leD])

lemma sane_status [sane_rules]: "sane read_status"
  unfolding read_status_def by (intro sane_rules) simp

lemmas transmits_status_field [transmission] = transmits_status [THEN transmits_bind]

definition encode_publish_outcome :: "PublishOutcome \<Rightarrow> (Writer, unit) state" where
  "encode_publish_outcome value = do {
     Writer_enumeration Disposition_values (po_disposition value);
     Writer_u16 (status_value (po_refusal value));
     Writer_enumeration ReasonCode_values (po_reason value);
     Writer_u64 (po_accounted_bytes_in value);
     Writer_u64 (po_accounted_bytes_out value);
     Writer_u32 (po_released_flows value) }"

definition decode_publish_outcome :: "(Reader, PublishOutcome result) state" where
  "decode_publish_outcome = do {
     disposition \<leftarrow> Reader_enumeration Disposition_values DI_Count;
     refusal \<leftarrow> read_status;
     reason \<leftarrow> Reader_enumeration ReasonCode_values RC_Count;
     accounted_bytes_in \<leftarrow> Reader_u64;
     accounted_bytes_out \<leftarrow> Reader_u64;
     released_flows \<leftarrow> Reader_u32;
     or_fail (success
         \<lparr> po_disposition = disposition, po_refusal = refusal, po_reason = reason,
           po_accounted_bytes_in = accounted_bytes_in,
           po_accounted_bytes_out = accounted_bytes_out,
           po_released_flows = released_flows \<rparr>) }"

definition sendable_publish_outcome :: "PublishOutcome \<Rightarrow> bool" where
  "sendable_publish_outcome value \<longleftrightarrow>
     po_disposition value \<noteq> DI_Count \<and>
     po_reason value \<noteq> RC_Count"

lemma transmits_publish_outcome:
  "sendable_publish_outcome v \<Longrightarrow> transmits (encode_publish_outcome v) decode_publish_outcome (Inr v)"
  unfolding encode_publish_outcome_def decode_publish_outcome_def
  by (intro transmission) (simp_all add: sendable_publish_outcome_def)

lemma sane_publish_outcome [sane_rules]: "sane decode_publish_outcome"
  unfolding decode_publish_outcome_def Let_def by (intro sane_rules)

lemma guarded_publish_outcome [guarded_rules]: "guarded decode_publish_outcome"
  unfolding decode_publish_outcome_def Let_def by (intro guarded_rules)

lemma size_publish_outcome [size_rules]: "at_most (encode_publish_outcome v) 26"
  unfolding encode_publish_outcome_def by (rule at_most_mono, (rule size_rules)+, simp)

interpretation publish_outcome: codec encode_publish_outcome decode_publish_outcome sendable_publish_outcome
  by unfold_locales (simp_all add: transmits_publish_outcome sane_publish_outcome guarded_publish_outcome)

definition encode_coordinator_status :: "CoordinatorStatus \<Rightarrow> (Writer, unit) state" where
  "encode_coordinator_status value = do {
     write_generation (cs_epoch value);
     write_id (cs_incarnation value);
     write_generation (cs_policy_generation value);
     write_generation (cs_topology_generation value);
     Writer_enumeration EvidenceState_values (cs_topology_state value);
     Writer_enumeration EvidenceProvenance_values (cs_topology_provenance value);
     Writer_u64 (cs_live_requests value);
     Writer_u64 (cs_transfers value);
     Writer_u32 (cs_active_flows value);
     Writer_u64 (cs_authority_sequence value) }"

definition decode_coordinator_status :: "(Reader, CoordinatorStatus result) state" where
  "decode_coordinator_status = do {
     epoch \<leftarrow> read_generation;
     incarnation \<leftarrow> read_id;
     policy_generation \<leftarrow> read_generation;
     topology_generation \<leftarrow> read_generation;
     topology_state \<leftarrow> Reader_enumeration EvidenceState_values EV_Count;
     topology_provenance \<leftarrow> Reader_enumeration EvidenceProvenance_values EP_Count;
     live_requests \<leftarrow> Reader_u64;
     transfers \<leftarrow> Reader_u64;
     active_flows \<leftarrow> Reader_u32;
     authority_sequence \<leftarrow> Reader_u64;
     or_fail (success
         \<lparr> cs_epoch = epoch, cs_incarnation = incarnation,
           cs_policy_generation = policy_generation,
           cs_topology_generation = topology_generation, cs_topology_state = topology_state,
           cs_topology_provenance = topology_provenance, cs_live_requests = live_requests,
           cs_transfers = transfers, cs_active_flows = active_flows,
           cs_authority_sequence = authority_sequence \<rparr>) }"

definition sendable_coordinator_status :: "CoordinatorStatus \<Rightarrow> bool" where
  "sendable_coordinator_status value \<longleftrightarrow>
     cs_topology_state value \<noteq> EV_Count \<and>
     cs_topology_provenance value \<noteq> EP_Count"

lemma transmits_coordinator_status:
  "sendable_coordinator_status v \<Longrightarrow> transmits (encode_coordinator_status v) decode_coordinator_status (Inr v)"
  unfolding encode_coordinator_status_def decode_coordinator_status_def
  by (intro transmission) (simp_all add: sendable_coordinator_status_def)

lemma sane_coordinator_status [sane_rules]: "sane decode_coordinator_status"
  unfolding decode_coordinator_status_def Let_def by (intro sane_rules)

lemma guarded_coordinator_status [guarded_rules]: "guarded decode_coordinator_status"
  unfolding decode_coordinator_status_def Let_def by (intro guarded_rules)

lemma size_coordinator_status [size_rules]: "at_most (encode_coordinator_status v) 72"
  unfolding encode_coordinator_status_def by (rule at_most_mono, (rule size_rules)+, simp)

interpretation coordinator_status: codec encode_coordinator_status decode_coordinator_status sendable_coordinator_status
  by unfold_locales (simp_all add: transmits_coordinator_status sane_coordinator_status guarded_coordinator_status)

section \<open>The policy document\<close>

definition encode_policy_rule :: "ClassPolicyRule \<Rightarrow> (Writer, unit) state" where
  "encode_policy_rule value = do {
     Writer_boolean (pr_enabled value);
     Writer_enumeration PriorityClass_values (pr_priority value);
     Writer_enumeration PacingClass_values (pr_pacing value);
     Writer_enumeration IntegrityClass_values (pr_integrity value);
     Writer_enumeration IsolationDomain_values (pr_isolation value);
     Writer_u32 (pr_reserved_weight value);
     Writer_u64 (pr_max_burst_bytes value);
     Writer_u64 (pr_rate_limit_bytes_per_sec value);
     Writer_u64 (pr_max_in_flight_bytes value);
     Writer_boolean (pr_requires_current_topology value);
     Writer_boolean (pr_requires_slo_contract value);
     Writer_boolean (pr_requires_current_route value);
     Writer_boolean (pr_requires_model_generation value);
     Writer_boolean (pr_requires_state_generation value);
     Writer_boolean (pr_requires_deadline value);
     Writer_boolean (pr_starvation_protected value);
     Writer_u32 (pr_max_defer_count value);
     Writer_u64 (pr_max_defer_horizon_nanos value);
     Writer_boolean (pr_yields_to_latency value) }"

definition decode_policy_rule :: "(Reader, ClassPolicyRule result) state" where
  "decode_policy_rule = do {
     enabled \<leftarrow> Reader_boolean;
     priority \<leftarrow> Reader_enumeration PriorityClass_values PC_Count;
     pacing \<leftarrow> Reader_enumeration PacingClass_values PA_Count;
     integrity \<leftarrow> Reader_enumeration IntegrityClass_values IC_Count;
     isolation \<leftarrow> Reader_enumeration IsolationDomain_values ID_Count;
     reserved_weight \<leftarrow> Reader_u32;
     max_burst_bytes \<leftarrow> Reader_u64;
     rate_limit_bytes_per_sec \<leftarrow> Reader_u64;
     max_in_flight_bytes \<leftarrow> Reader_u64;
     requires_current_topology \<leftarrow> Reader_boolean;
     requires_slo_contract \<leftarrow> Reader_boolean;
     requires_current_route \<leftarrow> Reader_boolean;
     requires_model_generation \<leftarrow> Reader_boolean;
     requires_state_generation \<leftarrow> Reader_boolean;
     requires_deadline \<leftarrow> Reader_boolean;
     starvation_protected \<leftarrow> Reader_boolean;
     max_defer_count \<leftarrow> Reader_u32;
     max_defer_horizon_nanos \<leftarrow> Reader_u64;
     yields_to_latency \<leftarrow> Reader_boolean;
     or_fail (success
         \<lparr> pr_enabled = enabled, pr_priority = priority, pr_pacing = pacing,
           pr_integrity = integrity, pr_isolation = isolation,
           pr_reserved_weight = reserved_weight, pr_max_burst_bytes = max_burst_bytes,
           pr_rate_limit_bytes_per_sec = rate_limit_bytes_per_sec,
           pr_max_in_flight_bytes = max_in_flight_bytes,
           pr_requires_current_topology = requires_current_topology,
           pr_requires_slo_contract = requires_slo_contract,
           pr_requires_current_route = requires_current_route,
           pr_requires_model_generation = requires_model_generation,
           pr_requires_state_generation = requires_state_generation,
           pr_requires_deadline = requires_deadline,
           pr_starvation_protected = starvation_protected,
           pr_max_defer_count = max_defer_count,
           pr_max_defer_horizon_nanos = max_defer_horizon_nanos,
           pr_yields_to_latency = yields_to_latency \<rparr>) }"

definition sendable_policy_rule :: "ClassPolicyRule \<Rightarrow> bool" where
  "sendable_policy_rule value \<longleftrightarrow>
     pr_priority value \<noteq> PC_Count \<and>
     pr_pacing value \<noteq> PA_Count \<and>
     pr_integrity value \<noteq> IC_Count \<and>
     pr_isolation value \<noteq> ID_Count"

lemma transmits_policy_rule:
  "sendable_policy_rule v \<Longrightarrow> transmits (encode_policy_rule v) decode_policy_rule (Inr v)"
  unfolding encode_policy_rule_def decode_policy_rule_def
  by (intro transmission) (simp_all add: sendable_policy_rule_def)

lemma sane_policy_rule [sane_rules]: "sane decode_policy_rule"
  unfolding decode_policy_rule_def Let_def by (intro sane_rules)

lemma guarded_policy_rule [guarded_rules]: "guarded decode_policy_rule"
  unfolding decode_policy_rule_def Let_def by (intro guarded_rules)

lemma size_policy_rule [size_rules]: "at_most (encode_policy_rule v) 57"
  unfolding encode_policy_rule_def by (rule at_most_mono, (rule size_rules)+, simp)

interpretation policy_rule: codec encode_policy_rule decode_policy_rule sendable_policy_rule
  by unfold_locales (simp_all add: transmits_policy_rule sane_policy_rule guarded_policy_rule)

definition encode_policy :: "PolicyConfig \<Rightarrow> (Writer, unit) state" where
  "encode_policy value = do {
     Writer_generation (p_generation value);
     Writer_boolean (p_allow_unknown_stage value);
     Writer_boolean (p_allow_unknown_traffic_class value);
     Writer_u32 (p_max_explanation_steps value);
     Writer_u64 (p_bulk_in_flight_cap_bytes value);
     Writer_u32 (p_congestion_queue_depth value);
     Writer_boolean (p_congestion_yields_bulk value);
     Writer_u64 (p_defer_hint_nanos value);
     Writer_u64 (p_stale_evidence_grace_nanos value);
     Writer_u16 (of_nat kTrafficClassCount);
     encode_each encode_policy_rule (p_rules value) }"

definition decode_policy :: "(Reader, PolicyConfig result) state" where
  "decode_policy = do {
     generation \<leftarrow> Reader_generation;
     allow_unknown_stage \<leftarrow> Reader_boolean;
     allow_unknown_traffic_class \<leftarrow> Reader_boolean;
     steps \<leftarrow> Reader_u32;
     bulk_in_flight_cap_bytes \<leftarrow> Reader_u64;
     congestion_queue_depth \<leftarrow> Reader_u32;
     congestion_yields_bulk \<leftarrow> Reader_boolean;
     defer_hint_nanos \<leftarrow> Reader_u64;
     stale_evidence_grace_nanos \<leftarrow> Reader_u64;
     rule_count \<leftarrow> Reader_u16;
     or_fail (do {
       if rule_count \<noteq> of_nat kTrafficClassCount then failure ST_MalformedInput
       else do {
         propagate (decode_loop kTrafficClassCount decode_policy_rule) (\<lambda>rules. do {
           (let value =
               \<lparr> p_generation = generation, p_rules = rules,
                 p_allow_unknown_stage = allow_unknown_stage,
                 p_allow_unknown_traffic_class = allow_unknown_traffic_class,
                 p_max_explanation_steps = (if steps = 0 \<or> steps > kMaxExplanationHardLimit then kMaxExplanationHardLimit else steps),
                 p_bulk_in_flight_cap_bytes = bulk_in_flight_cap_bytes,
                 p_congestion_queue_depth = congestion_queue_depth,
                 p_congestion_yields_bulk = congestion_yields_bulk,
                 p_defer_hint_nanos = defer_hint_nanos,
                 p_stale_evidence_grace_nanos = stale_evidence_grace_nanos \<rparr>
           in if policy_validate value \<noteq> PV_Valid then failure ST_PolicyInvalid
                 else success value) }) } }) }"

definition sendable_policy :: "PolicyConfig \<Rightarrow> bool" where
  "sendable_policy value \<longleftrightarrow>
     p_generation value \<noteq> 0 \<and>
     p_max_explanation_steps value \<noteq> 0 \<and> p_max_explanation_steps value \<le> kMaxExplanationHardLimit \<and>
     length (p_rules value) = kTrafficClassCount \<and>
     (\<forall>rule \<in> set (p_rules value). sendable_policy_rule rule) \<and>
     policy_validate value = PV_Valid"

lemma transmits_policy:
  "sendable_policy v \<Longrightarrow> transmits (encode_policy v) decode_policy (Inr v)"
  unfolding encode_policy_def decode_policy_def
  by (intro transmission) (auto simp: sendable_policy_def transmits_policy_rule not_less)

lemma sane_policy [sane_rules]: "sane decode_policy"
  unfolding decode_policy_def Let_def by (intro sane_rules)

lemma guarded_policy [guarded_rules]: "guarded decode_policy"
  unfolding decode_policy_def Let_def by (intro guarded_rules)

lemmas policy_part [transmission] =
  transmits_policy [THEN transmits_propagate] transmits_policy [THEN transmits_propagate_last]

lemmas policy_reports [guarded_rules] = guarded_policy [THEN reports_guarded]

interpretation policy: codec encode_policy decode_policy sendable_policy
  by unfold_locales (simp_all add: transmits_policy sane_policy guarded_policy)

lemma size_policy: "length (p_rules v) = kTrafficClassCount \<Longrightarrow> at_most (encode_policy v) 729"
  unfolding encode_policy_def
  by (rule at_most_mono, (rule size_rules)+, simp add: kTrafficClassCount_def)

section \<open>Instants\<close>

definition encode_instant :: "Instant \<Rightarrow> (Writer, unit) state" where
  "encode_instant value = write_instant value"

definition decode_instant :: "(Reader, Instant result) state" where
  "decode_instant = do { value \<leftarrow> read_instant; success value }"

end
