(* ===== verification/Crc32c.thy ===== *)
theory Crc32c
  imports Prelude
begin

unbundle bit_operations_syntax

text \<open>
  CRC-32C (\<open>include/itf/crc32c.hpp\<close>, \<open>src/crc32c.cpp\<close>): the table built at compile time, the
  table-driven update and the one-shot computation. The table-driven code is shown equal to the
  serial shift register that defines the checksum, and the register to detect every error burst
  of at most 32 bits.
\<close>

section \<open>The code\<close>

definition kReflectedPolynomial :: u32 where
  "kReflectedPolynomial = 0x82F63B78"

definition crc_bit :: "u32 \<Rightarrow> u32" where
  "crc_bit crc =
     (if crc AND 1 \<noteq> 0 then drop_bit 1 crc XOR kReflectedPolynomial else drop_bit 1 crc)"

fun crc_bits :: "nat \<Rightarrow> u32 \<Rightarrow> u32" where
  "crc_bits 0 crc = crc"
| "crc_bits (Suc n) crc = crc_bits n (crc_bit crc)"

definition make_table :: "u32 list" where
  "make_table = map (\<lambda>index. crc_bits 8 (of_nat index)) [0..<256]"

definition crc_update_byte :: "u8 \<Rightarrow> u32 \<Rightarrow> u32" where
  "crc_update_byte byte state =
     make_table ! unat ((state XOR ucast byte) AND 0xFF) XOR drop_bit 8 state"

fun crc_update :: "u8 list \<Rightarrow> u32 \<Rightarrow> u32" where
  "crc_update [] state = state"
| "crc_update (byte # data) state = crc_update data (crc_update_byte byte state)"

definition crc_value :: "u32 \<Rightarrow> u32" where
  "crc_value state = state XOR 0xFFFFFFFF"

definition crc_compute :: "u8 list \<Rightarrow> u32" where
  "crc_compute data = crc_value (crc_update data 0xFFFFFFFF)"

section \<open>The reference\<close>

text \<open>
  The defining shift register: one message bit at a time, least significant bit of each byte
  first; the polynomial is added whenever the bit shifted out differs from the message bit.
\<close>

definition lfsr_step :: "bool \<Rightarrow> u32 \<Rightarrow> u32" where
  "lfsr_step b state =
     (if bit state 0 \<noteq> b then drop_bit 1 state XOR kReflectedPolynomial else drop_bit 1 state)"

definition lfsr :: "bool list \<Rightarrow> u32 \<Rightarrow> u32" where
  "lfsr bs state = fold lfsr_step bs state"

definition byte_bits :: "u8 \<Rightarrow> bool list" where
  "byte_bits b = map (bit b) [0..<8]"

definition message_bits :: "u8 list \<Rightarrow> bool list" where
  "message_bits data = concat (map byte_bits data)"

definition crc_reference :: "u8 list \<Rightarrow> u32" where
  "crc_reference data = NOT (lfsr (message_bits data) (NOT 0))"

section \<open>The shift register is linear and injective\<close>

lemma and_one_neq_zero: "(x :: u32) AND 1 \<noteq> 0 \<longleftrightarrow> bit x 0"
  by (simp add: and_one_eq mod_2_eq_odd bit_0)

lemma crc_bit_alt: "crc_bit x = drop_bit 1 x XOR (if bit x 0 then kReflectedPolynomial else 0)"
  by (simp add: crc_bit_def and_one_neq_zero)

lemma crc_bit_xor: "crc_bit (x XOR y) = crc_bit x XOR crc_bit y"
  unfolding crc_bit_alt by (auto intro!: bit_word_eqI simp: bit_simps)

lemma crc_bits_xor: "crc_bits n (x XOR y) = crc_bits n x XOR crc_bits n y"
  by (induction n arbitrary: x y) (simp_all add: crc_bit_xor)

lemma crc_bits_last: "crc_bits (Suc n) x = crc_bit (crc_bits n x)"
  by (induction n arbitrary: x) simp_all

lemma lfsr_step_crc_bit: "lfsr_step b state = crc_bit (state XOR of_bool b)"
proof -
  have shift: "drop_bit 1 (state XOR of_bool b) = drop_bit 1 state"
    by (rule bit_word_eqI) (simp add: bit_simps)
  have low: "bit (state XOR of_bool b) 0 \<longleftrightarrow> bit state 0 \<noteq> b"
    by (simp add: bit_simps)
  show ?thesis
    unfolding lfsr_step_def crc_bit_def and_one_neq_zero low shift ..
qed

lemma crc_bit_inject: "crc_bit x = crc_bit y \<Longrightarrow> x = y"
proof (rule bit_word_eqI)
  fix n assume eq: "crc_bit x = crc_bit y" and n: "n < LENGTH(32)"
  have top: "bit (crc_bit z) 31 \<longleftrightarrow> bit z 0" for z
    unfolding crc_bit_alt by (auto simp: bit_simps kReflectedPolynomial_def dest: bit_imp_le_length)
  have low: "bit x 0 \<longleftrightarrow> bit y 0"
    using top [of x] top [of y] eq by simp
  have "crc_bit x XOR (if bit x 0 then kReflectedPolynomial else 0) = drop_bit 1 x"
    and "crc_bit y XOR (if bit y 0 then kReflectedPolynomial else 0) = drop_bit 1 y"
    unfolding crc_bit_alt by (simp_all add: xor.assoc)
  with eq low have shifted: "drop_bit 1 x = drop_bit 1 y"
    by simp
  show "bit x n \<longleftrightarrow> bit y n"
  proof (cases n)
    case 0
    with low show ?thesis by simp
  next
    case (Suc m)
    have "bit (drop_bit 1 x) m \<longleftrightarrow> bit (drop_bit 1 y) m"
      using shifted by simp
    with Suc show ?thesis by (simp add: bit_drop_bit_eq)
  qed
qed

lemma crc_bits_inject: "crc_bits n x = crc_bits n y \<Longrightarrow> x = y"
  by (induction n arbitrary: x y) (auto dest: crc_bit_inject)

lemma lfsr_append: "lfsr (bs @ cs) s = lfsr cs (lfsr bs s)"
  by (simp add: lfsr_def)

lemma lfsr_inject: "lfsr bs x = lfsr bs y \<Longrightarrow> x = y"
proof (induction bs arbitrary: x y)
  case Nil
  then show ?case by (simp add: lfsr_def)
next
  case (Cons b bs)
  then have "crc_bit (x XOR of_bool b) = crc_bit (y XOR of_bool b)"
    by (simp add: lfsr_def lfsr_step_crc_bit)
  then have "x XOR of_bool b = y XOR of_bool b"
    by (rule crc_bit_inject)
  then have "(x XOR of_bool b) XOR of_bool b = (y XOR of_bool b) XOR of_bool b"
    by simp
  then show ?case
    by (simp add: xor.assoc)
qed

section \<open>The table-driven code computes the reference\<close>

lemma drop_push: "k \<le> Suc n \<Longrightarrow> drop_bit k (push_bit k (drop_bit (Suc n) w)) = drop_bit (Suc n) (w :: u32)"
  by (rule bit_word_eqI)
    (auto simp only: bit_drop_bit_eq bit_push_bit_iff comp_def, auto dest: bit_imp_le_length)

lemma low_push: "bit (push_bit 1 (x :: u32)) 0 = False"
  by (simp only: bit_push_bit_iff) simp

lemma crc_bits_lfsr:
  "crc_bits n (state XOR w) = lfsr (map (bit w) [0..<n]) state XOR drop_bit n w"
proof (induction n)
  case 0
  then show ?case by (simp add: lfsr_def)
next
  case (Suc n)
  let ?L = "lfsr (map (bit w) [0..<n]) state"
  have split: "drop_bit n w = of_bool (bit w n) XOR push_bit 1 (drop_bit (Suc n) w)"
  proof (rule bit_word_eqI)
    fix m assume "m < LENGTH(32)"
    then show "bit (drop_bit n w) m = bit (of_bool (bit w n) XOR push_bit 1 (drop_bit (Suc n) w)) m"
      by (cases m) (auto simp only: bit_xor_iff bit_of_bool_iff bit_push_bit_iff bit_drop_bit_eq, auto)
  qed
  have shift: "crc_bit (push_bit 1 (drop_bit (Suc n) w)) = drop_bit (Suc n) w"
    unfolding crc_bit_alt low_push if_False xor.right_neutral by (rule drop_push) simp
  have "crc_bits (Suc n) (state XOR w) = crc_bit (?L XOR drop_bit n w)"
    unfolding crc_bits_last Suc ..
  also have "\<dots> = crc_bit (?L XOR of_bool (bit w n)) XOR drop_bit (Suc n) w"
    unfolding split crc_bit_xor shift by (simp only: xor.assoc)
  also have "crc_bit (?L XOR of_bool (bit w n)) = lfsr (map (bit w) [0..<Suc n]) state"
    by (simp add: lfsr_def lfsr_step_crc_bit)
  finally show ?case .
qed

lemma crc_bits_shift: "crc_bits 8 (push_bit 8 (drop_bit 8 x)) = drop_bit 8 x"
proof -
  have zeros: "map (bit (push_bit 8 (drop_bit 8 x))) [0..<8] = replicate 8 False"
    by (rule nth_equalityI) (simp_all add: bit_simps)
  have zero: "lfsr (replicate n False) 0 = 0" for n
    by (induction n) (simp_all add: lfsr_def lfsr_step_def)
  have "drop_bit 8 (push_bit 8 (drop_bit 8 x)) = drop_bit 8 x"
    by (rule bit_word_eqI) (auto simp: bit_simps dest: bit_imp_le_length)
  with crc_bits_lfsr [of 8 0 "push_bit 8 (drop_bit 8 x)"] show ?thesis
    by (simp only: zeros zero xor.left_neutral)
qed

lemma crc_update_byte_bits: "crc_update_byte byte state = crc_bits 8 (state XOR ucast byte)"
proof -
  let ?x = "state XOR ucast byte :: u32"
  have small: "unat (?x AND 0xFF) < 256"
    using word_and_le1 [of ?x "0xFF"] by (simp add: word_le_nat_alt)
  have looked: "make_table ! unat (?x AND 0xFF) = crc_bits 8 (?x AND 0xFF)"
    using small by (simp add: make_table_def)
  have mask: "(0xFF :: u32) = mask 8"
    by (simp add: mask_eq_exp_minus_1)
  have high: "drop_bit 8 state = drop_bit 8 ?x"
    by (rule bit_word_eqI) (auto simp: bit_simps dest: bit_imp_le_length)
  have parts: "?x = (?x AND 0xFF) XOR push_bit 8 (drop_bit 8 ?x)"
    unfolding mask by (rule bit_word_eqI) (auto simp: bit_simps)
  have "crc_update_byte byte state = crc_bits 8 (?x AND 0xFF) XOR crc_bits 8 (push_bit 8 (drop_bit 8 ?x))"
    unfolding crc_update_byte_def looked high crc_bits_shift ..
  also have "\<dots> = crc_bits 8 ?x"
    unfolding crc_bits_xor [symmetric] using parts by (rule arg_cong [where f = "crc_bits 8", OF sym])
  finally show ?thesis .
qed

lemma crc_update_byte_lfsr: "crc_update_byte byte state = lfsr (byte_bits byte) state"
proof -
  have bits: "map (bit (ucast byte :: u32)) [0..<8] = byte_bits byte"
    by (simp add: byte_bits_def bit_simps)
  have "drop_bit 8 (ucast byte :: u32) = 0"
    by (rule bit_word_eqI) (auto simp: bit_simps dest: bit_imp_le_length)
  then show ?thesis
    unfolding crc_update_byte_bits crc_bits_lfsr bits by simp
qed

lemma crc_update_lfsr: "crc_update data state = lfsr (message_bits data) state"
  by (induction data arbitrary: state)
    (simp_all add: crc_update_byte_lfsr message_bits_def lfsr_append, simp add: lfsr_def)

lemma crc_compute_lfsr: "crc_compute data = NOT (lfsr (message_bits data) (NOT 0))"
proof -
  have ones: "(0xFFFFFFFF :: u32) = NOT 0"
    by simp
  show ?thesis
    unfolding crc_compute_def crc_value_def crc_update_lfsr ones
    by (rule bit_word_eqI) (simp add: bit_simps)
qed

section \<open>Burst errors\<close>

lemma lfsr_short_inject:
  assumes "length bs = length cs" and "length bs \<le> 32" and "lfsr bs s = lfsr cs s"
  shows "bs = cs"
proof -
  define word_of where "word_of xs = (horner_sum of_bool 2 xs :: u32)" for xs
  have word_bit: "bit (word_of xs) n \<longleftrightarrow> n < length xs \<and> xs ! n" if "length xs \<le> 32" for xs n
    using that by (auto simp: word_of_def bit_horner_sum_bit_word_iff)
  have run: "lfsr xs s = crc_bits (length xs) (s XOR word_of xs)" if "length xs \<le> 32" for xs
  proof -
    have "map (bit (word_of xs)) [0..<length xs] = xs"
      by (rule nth_equalityI) (simp_all add: word_bit [OF that])
    moreover have "drop_bit (length xs) (word_of xs) = 0"
      by (rule bit_word_eqI) (simp add: bit_drop_bit_eq word_bit [OF that])
    ultimately show ?thesis
      unfolding crc_bits_lfsr by simp
  qed
  have "crc_bits (length bs) (s XOR word_of bs) = crc_bits (length bs) (s XOR word_of cs)"
    using assms run [of bs] run [of cs] by simp
  then have "s XOR word_of bs = s XOR word_of cs"
    by (rule crc_bits_inject)
  then have "s XOR (s XOR word_of bs) = s XOR (s XOR word_of cs)"
    by simp
  then have same: "word_of bs = word_of cs"
    by (simp flip: xor.assoc)
  show ?thesis
  proof (rule nth_equalityI)
    fix n assume "n < length bs"
    with assms same word_bit [of bs n] word_bit [of cs n] show "bs ! n = cs ! n"
      by simp
  qed (use assms in simp)
qed

lemma crc_burst:
  assumes "message_bits m = pre @ a @ post" and "message_bits m' = pre @ b @ post"
    and "length a = length b" and "length a \<le> 32" and "crc_compute m = crc_compute m'"
  shows "a = b"
proof -
  have "lfsr (message_bits m) (NOT 0) = lfsr (message_bits m') (NOT 0)"
    using assms(5) unfolding crc_compute_lfsr by simp
  then have "lfsr post (lfsr a (lfsr pre (NOT 0))) = lfsr post (lfsr b (lfsr pre (NOT 0)))"
    unfolding assms(1,2) lfsr_append .
  then have "lfsr a (lfsr pre (NOT 0)) = lfsr b (lfsr pre (NOT 0))"
    by (rule lfsr_inject)
  with assms(3,4) show ?thesis
    by (rule lfsr_short_inject)
qed

lemma length_byte_bits [simp]: "length (byte_bits b) = 8"
  by (simp add: byte_bits_def)

lemma byte_bits_inject: "byte_bits a = byte_bits b \<Longrightarrow> a = b"
  by (rule bit_word_eqI) (auto simp: byte_bits_def list_eq_iff_nth_eq)

lemma length_message_bits [simp]: "length (message_bits data) = 8 * length data"
  by (induction data) (simp_all add: message_bits_def)

lemma message_bits_append [simp]: "message_bits (a @ b) = message_bits a @ message_bits b"
  by (simp add: message_bits_def)

lemma message_bits_inject: "length a = length b \<Longrightarrow> message_bits a = message_bits b \<Longrightarrow> a = b"
proof (induction a b rule: list_induct2)
  case Nil
  then show ?case by simp
next
  case (Cons x a y b)
  then have "byte_bits x = byte_bits y" and "message_bits a = message_bits b"
    by (simp_all add: message_bits_def)
  with Cons.IH show ?case
    by (simp add: byte_bits_inject)
qed

text \<open>In bytes: two messages that differ within four consecutive bytes have different checksums.\<close>

lemma crc_window:
  assumes "length a = length b" and "length a \<le> 4"
    and "crc_compute (pre @ a @ post) = crc_compute (pre @ b @ post)"
  shows "a = b"
proof -
  have "message_bits a = message_bits b"
  proof (rule crc_burst)
    show "message_bits (pre @ a @ post) = message_bits pre @ message_bits a @ message_bits post"
      and "message_bits (pre @ b @ post) = message_bits pre @ message_bits b @ message_bits post"
      by simp_all
  qed (use assms in simp_all)
  with assms(1) show ?thesis
    by (rule message_bits_inject)
qed

section \<open>Properties\<close>

text \<open>
  C29. The table-driven checksum of the code equals the serial shift-register definition of
  CRC-32C on every input.\<close>

theorem crc_table_equals_reference: "crc_compute data = crc_reference data"
  by (simp add: crc_reference_def crc_compute_lfsr)

text \<open>
  C28. The checksum detects every burst error: two messages of any length whose bits differ only
  inside a window of at most 32 consecutive bits, and do differ there, have different checksums.\<close>

theorem crc_detects_bursts:
  assumes "message_bits m = pre @ a @ post" and "message_bits m' = pre @ b @ post"
    and "length a = length b" and "length a \<le> 32" and "a \<noteq> b"
  shows "crc_compute m \<noteq> crc_compute m'"
  using crc_burst [OF assms(1-4)] assms(5) by blast

theorem crc_detects_bursts_witness:
  "message_bits [1, 2] = [] @ [True] @ map (bit (1 :: u8)) [1..<8] @ byte_bits 2
   \<and> crc_compute [1, 2] \<noteq> crc_compute [0, 2]"
proof -
  have one: "message_bits [1, 2] = [] @ [True] @ map (bit (1 :: u8)) [1..<8] @ byte_bits 2"
    by code_simp
  have zero: "message_bits [0, 2] = [] @ [False] @ map (bit (1 :: u8)) [1..<8] @ byte_bits 2"
    by code_simp
  show ?thesis
    using crc_detects_bursts [OF one zero] one by simp
qed

end
