(* ===== verification/Wire.thy ===== *)
theory Wire
  imports Codec Crc32c
begin

unbundle bit_operations_syntax

text \<open>
  Frames (\<open>include/itf/wire.hpp\<close>, \<open>src/wire.cpp\<close>): message types, the request to response table
  and the fixed 40-byte header with its two checksums. A C++ enumeration with a fixed underlying
  type can hold every value of that type, and \<open>decode_header\<close> casts the wire value before it is
  checked, so a message type is a 16-bit word with named values.
\<close>

section \<open>Message types\<close>

type_synonym MessageType = u16

abbreviation MT_Invalid :: MessageType where "MT_Invalid \<equiv> 0"
abbreviation MT_HelloRequest :: MessageType where "MT_HelloRequest \<equiv> 1"
abbreviation MT_HelloResponse :: MessageType where "MT_HelloResponse \<equiv> 2"
abbreviation MT_ErrorResponse :: MessageType where "MT_ErrorResponse \<equiv> 3"
abbreviation MT_AckResponse :: MessageType where "MT_AckResponse \<equiv> 4"
abbreviation MT_RegisterRequestResponse :: MessageType where "MT_RegisterRequestResponse \<equiv> 5"
abbreviation MT_RegisterAttemptResponse :: MessageType where "MT_RegisterAttemptResponse \<equiv> 6"
abbreviation MT_RegisterTransferResponse :: MessageType where "MT_RegisterTransferResponse \<equiv> 7"
abbreviation MT_RegisterRequest :: MessageType where "MT_RegisterRequest \<equiv> 10"
abbreviation MT_RegisterAttempt :: MessageType where "MT_RegisterAttempt \<equiv> 11"
abbreviation MT_StageUpdate :: MessageType where "MT_StageUpdate \<equiv> 12"
abbreviation MT_CancelRequest :: MessageType where "MT_CancelRequest \<equiv> 13"
abbreviation MT_FailAttempt :: MessageType where "MT_FailAttempt \<equiv> 14"
abbreviation MT_ReplaceAttempt :: MessageType where "MT_ReplaceAttempt \<equiv> 15"
abbreviation MT_EvaluateTraffic :: MessageType where "MT_EvaluateTraffic \<equiv> 20"
abbreviation MT_DecisionResponse :: MessageType where "MT_DecisionResponse \<equiv> 21"
abbreviation MT_OpenFlow :: MessageType where "MT_OpenFlow \<equiv> 22"
abbreviation MT_OpenFlowResponse :: MessageType where "MT_OpenFlowResponse \<equiv> 23"
abbreviation MT_RegisterTransfer :: MessageType where "MT_RegisterTransfer \<equiv> 30"
abbreviation MT_AuthorizeTransfer :: MessageType where "MT_AuthorizeTransfer \<equiv> 31"
abbreviation MT_TransferDecisionResponse :: MessageType where "MT_TransferDecisionResponse \<equiv> 32"
abbreviation MT_TransferComplete :: MessageType where "MT_TransferComplete \<equiv> 33"
abbreviation MT_CompletionPublish :: MessageType where "MT_CompletionPublish \<equiv> 40"
abbreviation MT_CompletionResponse :: MessageType where "MT_CompletionResponse \<equiv> 41"
abbreviation MT_AccountingQuery :: MessageType where "MT_AccountingQuery \<equiv> 50"
abbreviation MT_AccountingResponse :: MessageType where "MT_AccountingResponse \<equiv> 51"
abbreviation MT_StatusQuery :: MessageType where "MT_StatusQuery \<equiv> 52"
abbreviation MT_StatusResponse :: MessageType where "MT_StatusResponse \<equiv> 53"
abbreviation MT_PolicyQuery :: MessageType where "MT_PolicyQuery \<equiv> 54"
abbreviation MT_PolicyResponse :: MessageType where "MT_PolicyResponse \<equiv> 55"
abbreviation MT_TopologyPublish :: MessageType where "MT_TopologyPublish \<equiv> 60"
abbreviation MT_TopologyResponse :: MessageType where "MT_TopologyResponse \<equiv> 61"
abbreviation MT_PublishSloContract :: MessageType where "MT_PublishSloContract \<equiv> 62"
abbreviation MT_SloContractResponse :: MessageType where "MT_SloContractResponse \<equiv> 63"
abbreviation MT_IssueRouteDecision :: MessageType where "MT_IssueRouteDecision \<equiv> 64"
abbreviation MT_RouteDecisionResponse :: MessageType where "MT_RouteDecisionResponse \<equiv> 65"
abbreviation MT_AdvanceModelGeneration :: MessageType where "MT_AdvanceModelGeneration \<equiv> 66"
abbreviation MT_ModelGenerationResponse :: MessageType where "MT_ModelGenerationResponse \<equiv> 67"
abbreviation MT_Shutdown :: MessageType where "MT_Shutdown \<equiv> 70"
abbreviation MT_ShutdownAck :: MessageType where "MT_ShutdownAck \<equiv> 71"
abbreviation MT_Heartbeat :: MessageType where "MT_Heartbeat \<equiv> 80"
abbreviation MT_HeartbeatAck :: MessageType where "MT_HeartbeatAck \<equiv> 81"
abbreviation MT_DataChunk :: MessageType where "MT_DataChunk \<equiv> 90"
abbreviation MT_DataChunkAck :: MessageType where "MT_DataChunkAck \<equiv> 91"
abbreviation MT_DataComplete :: MessageType where "MT_DataComplete \<equiv> 92"
abbreviation MT_DataCompleteAck :: MessageType where "MT_DataCompleteAck \<equiv> 93"
abbreviation MT_Count :: MessageType where "MT_Count \<equiv> 94"

definition is_known_message_type :: "MessageType \<Rightarrow> bool" where
  "is_known_message_type value \<longleftrightarrow>
     value \<noteq> MT_Invalid \<and> value \<noteq> MT_Count \<and> value < MT_Count"

definition response_table :: "(MessageType \<times> MessageType) list" where
  "response_table =
     [(MT_HelloRequest, MT_HelloResponse),
      (MT_RegisterRequest, MT_RegisterRequestResponse),
      (MT_RegisterAttempt, MT_RegisterAttemptResponse),
      (MT_StageUpdate, MT_AckResponse),
      (MT_CancelRequest, MT_AckResponse),
      (MT_FailAttempt, MT_AckResponse),
      (MT_TransferComplete, MT_AckResponse),
      (MT_ReplaceAttempt, MT_RegisterAttemptResponse),
      (MT_EvaluateTraffic, MT_DecisionResponse),
      (MT_OpenFlow, MT_OpenFlowResponse),
      (MT_RegisterTransfer, MT_RegisterTransferResponse),
      (MT_AuthorizeTransfer, MT_TransferDecisionResponse),
      (MT_CompletionPublish, MT_CompletionResponse),
      (MT_AccountingQuery, MT_AccountingResponse),
      (MT_StatusQuery, MT_StatusResponse),
      (MT_PolicyQuery, MT_PolicyResponse),
      (MT_TopologyPublish, MT_TopologyResponse),
      (MT_PublishSloContract, MT_SloContractResponse),
      (MT_IssueRouteDecision, MT_RouteDecisionResponse),
      (MT_AdvanceModelGeneration, MT_ModelGenerationResponse),
      (MT_Shutdown, MT_ShutdownAck),
      (MT_Heartbeat, MT_HeartbeatAck),
      (MT_DataChunk, MT_DataChunkAck),
      (MT_DataComplete, MT_DataCompleteAck)]"

definition response_type_for :: "MessageType \<Rightarrow> MessageType" where
  "response_type_for request =
     (case map_of response_table request of Some response \<Rightarrow> response | None \<Rightarrow> MT_Invalid)"

section \<open>Frame headers\<close>

definition kWireProtocolVersion :: u16 where "kWireProtocolVersion = 1"

definition kHeaderBytes :: nat where "kHeaderBytes = 40"

definition kAbsoluteMaxPayloadBytes :: u32 where "kAbsoluteMaxPayloadBytes = 4 * 1024 * 1024"

definition kMagic :: "u8 list" where "kMagic = [0x49, 0x54, 0x46, 0x31]"

record FrameHeader =
  fh_protocol_version :: u16
  fh_type :: MessageType
  fh_flags :: u32
  fh_payload_length :: u32
  fh_sequence :: u64
  fh_correlation :: u64
  fh_payload_crc32c :: u32

definition FrameHeader_init :: FrameHeader where
  "FrameHeader_init =
     \<lparr> fh_protocol_version = kWireProtocolVersion, fh_type = MT_Invalid, fh_flags = 0,
       fh_payload_length = 0, fh_sequence = 0, fh_correlation = 0, fh_payload_crc32c = 0 \<rparr>"

text \<open>The 36 bytes the header checksum covers.\<close>

definition header_body :: "FrameHeader \<Rightarrow> u8 list" where
  "header_body h =
     kMagic @ store_u16 (fh_protocol_version h) @ store_u16 (fh_type h) @ store_u32 (fh_flags h) @
     store_u32 (fh_payload_length h) @ store_u64 (fh_sequence h) @ store_u64 (fh_correlation h) @
     store_u32 (fh_payload_crc32c h)"

definition encode_header :: "FrameHeader \<Rightarrow> u8 list \<Rightarrow> u8 list" where
  "encode_header h out =
     (if length out < kHeaderBytes then out
      else header_body h @ store_u32 (crc_compute (header_body h)) @ drop kHeaderBytes out)"

definition decode_header :: "u8 list \<Rightarrow> u32 \<Rightarrow> FrameHeader result" where
  "decode_header header max_payload_bytes =
     (if length header < kHeaderBytes then Inl ST_MalformedInput
      else if take 4 header \<noteq> kMagic then Inl ST_MalformedInput
      else if load_u16 (drop 4 header) \<noteq> kWireProtocolVersion then Inl ST_UnsupportedVersion
      else if \<not> is_known_message_type (load_u16 (drop 6 header)) then Inl ST_MalformedInput
      else (let decoded =
                \<lparr> fh_protocol_version = load_u16 (drop 4 header),
                  fh_type = load_u16 (drop 6 header),
                  fh_flags = load_u32 (drop 8 header),
                  fh_payload_length = load_u32 (drop 12 header),
                  fh_sequence = load_u64 (drop 16 header),
                  fh_correlation = load_u64 (drop 24 header),
                  fh_payload_crc32c = load_u32 (drop 32 header) \<rparr>;
                expected_header_crc = load_u32 (drop 36 header);
                actual_header_crc = crc_compute (take (kHeaderBytes - 4) header)
            in if expected_header_crc \<noteq> actual_header_crc then Inl ST_IntegrityMismatch
               else if fh_payload_length decoded > kAbsoluteMaxPayloadBytes then Inl ST_BoundsExceeded
               else if fh_payload_length decoded > max_payload_bytes then Inl ST_BoundsExceeded
               else if fh_flags decoded \<noteq> 0 then Inl ST_MalformedInput
               else Inr decoded))"

section \<open>Lemmas\<close>

lemma load_append:
  "2 \<le> length bs \<Longrightarrow> load_u16 (bs @ rest) = load_u16 bs"
  "4 \<le> length cs \<Longrightarrow> load_u32 (cs @ rest) = load_u32 cs"
  "8 \<le> length ds \<Longrightarrow> load_u64 (ds @ rest) = load_u64 ds"
proof -
  assume "2 \<le> length bs"
  then have "0 < length bs" and "1 < length bs"
    by linarith+
  then show "load_u16 (bs @ rest) = load_u16 bs"
    unfolding load_u16_def by (simp only: nth_append if_True)
next
  assume "4 \<le> length cs"
  then show "load_u32 (cs @ rest) = load_u32 cs"
    unfolding load_u32_def by (intro fold_cong refl) (simp add: nth_append)
next
  assume "8 \<le> length ds"
  then show "load_u64 (ds @ rest) = load_u64 ds"
    unfolding load_u64_def by (intro fold_cong refl) (simp add: nth_append)
qed

lemma load_store_append:
  "load_u16 (store_u16 v @ rest) = v" "load_u32 (store_u32 w @ rest) = w" "load_u64 (store_u64 x @ rest) = x"
  by (simp_all add: load_append)

lemma length_kMagic [simp]: "length kMagic = 4"
  by (simp add: kMagic_def)

lemma length_header_body [simp]: "length (header_body h) = 36"
  by (simp add: header_body_def)

definition sendable_header :: "FrameHeader \<Rightarrow> u32 \<Rightarrow> bool" where
  "sendable_header h max_payload \<longleftrightarrow>
     fh_protocol_version h = kWireProtocolVersion \<and> is_known_message_type (fh_type h) \<and>
     fh_flags h = 0 \<and> fh_payload_length h \<le> kAbsoluteMaxPayloadBytes \<and>
     fh_payload_length h \<le> max_payload"

lemma drop_known: "n = length bs \<Longrightarrow> drop n (bs @ rest) = rest" "drop 0 rest = rest"
  by simp_all

lemma header_fields:
  fixes h :: FrameHeader and rest :: "u8 list"
  defines "bytes \<equiv> header_body h @ rest"
  shows "take 4 bytes = kMagic" "load_u16 (drop 4 bytes) = fh_protocol_version h"
    "load_u16 (drop 6 bytes) = fh_type h" "load_u32 (drop 8 bytes) = fh_flags h"
    "load_u32 (drop 12 bytes) = fh_payload_length h" "load_u64 (drop 16 bytes) = fh_sequence h"
    "load_u64 (drop 24 bytes) = fh_correlation h" "load_u32 (drop 32 bytes) = fh_payload_crc32c h"
    "drop 36 bytes = rest" "take 36 bytes = header_body h"
proof -
  show "drop 36 bytes = rest" "take 36 bytes = header_body h"
    by (simp_all add: bytes_def)
qed (simp_all add: bytes_def header_body_def load_store_append)

lemma decode_encode_header:
  assumes "sendable_header h max_payload" and "kHeaderBytes \<le> length out"
  shows "decode_header (encode_header h out) max_payload = Inr h"
proof -
  let ?rest = "store_u32 (crc_compute (header_body h)) @ drop kHeaderBytes out"
  have enc: "encode_header h out = header_body h @ ?rest"
    using assms(2) by (simp add: encode_header_def)
  have covered: "kHeaderBytes - 4 = 36"
    by (simp add: kHeaderBytes_def)
  have "\<not> length (header_body h @ ?rest) < kHeaderBytes"
    by (simp add: kHeaderBytes_def)
  then show ?thesis
    using assms(1) unfolding decode_header_def enc covered header_fields load_store_append Let_def
    by (simp add: sendable_header_def not_less)
qed

section \<open>The header checksum covers the whole header\<close>

lemma message_bits_store_u32: "message_bits (store_u32 v) = map (bit v) [0..<32]"
proof -
  have seq: "[0..<4] = [0, 1, 2, 3 :: nat]"
    by (simp add: upt_rec)
  have ff: "(0xFF :: u32) = mask 8"
    by (simp add: mask_eq_exp_minus_1)
  have byte: "byte_bits (ucast (drop_bit k v AND 0xFF)) = map (bit v) [k..<k + 8]" for k
  proof (rule nth_equalityI)
    fix i assume "i < length (byte_bits (ucast (drop_bit k v AND 0xFF)))"
    then show "byte_bits (ucast (drop_bit k v AND 0xFF)) ! i = map (bit v) [k..<k + 8] ! i"
      unfolding ff by (auto simp: byte_bits_def bit_simps dest: bit_imp_le_length)
  qed simp
  have "[0..<32] = [0..<0 + 8] @ [8..<8 + 8] @ [16..<16 + 8] @ [24..<24 + (8 :: nat)]"
    using upt_add_eq_append [of 0 8 24] upt_add_eq_append [of 8 16 16] upt_add_eq_append [of 16 24 8] by simp
  then show ?thesis
    using byte [of 0] byte [of 8] byte [of 16] byte [of 24]
    by (simp add: message_bits_def store_u32_def seq del: upt_rec_numeral)
qed

lemma store_load_u32:
  assumes "length bs = 4"
  shows "store_u32 (load_u32 bs) = bs"
proof -
  have seq: "[0..<4] = [0, 1, 2, 3 :: nat]"
    by (simp add: upt_rec)
  obtain a b c d where bs: "bs = [a, b, c, d]"
    using assms by (auto simp: length_Suc_conv numeral_eq_Suc)
  have ff: "(0xFF :: u32) = mask 8"
    by (simp add: mask_eq_exp_minus_1)
  have load: "load_u32 bs = ucast a OR push_bit 8 (ucast b) OR push_bit 16 (ucast c) OR push_bit 24 (ucast d)"
    by (simp add: bs load_u32_def seq or.assoc)
  have beyond: "8 \<le> m \<Longrightarrow> \<not> bit (x :: u8) m" for x m
    using bit_imp_le_length [of x m] by auto
  show ?thesis
    unfolding load unfolding store_u32_def seq bs ff
    by (auto simp: bit_simps beyond intro!: bit_word_eqI)
qed

text \<open>A checksummed header leaves the register in one fixed state.\<close>

lemma accepted_residue:
  assumes "decode_header header max_payload = Inr h" and "length header = kHeaderBytes"
  shows "lfsr (message_bits header) (NOT 0) = crc_bits 32 (NOT 0)"
proof -
  let ?body = "take 36 header"
  let ?state = "lfsr (message_bits ?body) (NOT 0)"
  have crc: "load_u32 (drop 36 header) = NOT ?state"
    using assms(1) unfolding decode_header_def
    by (auto simp: Let_def crc_compute_lfsr kHeaderBytes_def split: if_splits)
  have "length (drop 36 header) = 4"
    using assms(2) by (simp add: kHeaderBytes_def)
  then have "drop 36 header = store_u32 (NOT ?state)"
    unfolding crc [symmetric] by (rule store_load_u32 [symmetric])
  then have "message_bits header = message_bits ?body @ map (bit (NOT ?state)) [0..<32]"
    by (metis append_take_drop_id message_bits_append message_bits_store_u32)
  then have "lfsr (message_bits header) (NOT 0) = lfsr (map (bit (NOT ?state)) [0..<32]) ?state"
    by (simp add: lfsr_append)
  also have "\<dots> = crc_bits 32 (?state XOR NOT ?state)"
  proof -
    have "drop_bit 32 (NOT ?state) = 0"
      by (rule bit_word_eqI) (auto simp: bit_drop_bit_eq dest: bit_imp_le_length)
    then show ?thesis
      unfolding crc_bits_lfsr by simp
  qed
  also have "?state XOR NOT ?state = NOT 0"
    by (rule bit_word_eqI) (simp add: bit_simps)
  finally show ?thesis .
qed

lemma accepted_burst:
  assumes "decode_header header m = Inr h" "decode_header header' m' = Inr h'"
    and "length header = kHeaderBytes" "length header' = kHeaderBytes"
    and "message_bits header = pre @ a @ post" "message_bits header' = pre @ b @ post"
    and "length a = length b" "length a \<le> 32"
  shows "a = b"
proof -
  have "lfsr (pre @ a @ post) (NOT 0) = lfsr (pre @ b @ post) (NOT 0)"
    using accepted_residue [OF assms(1,3)] accepted_residue [OF assms(2,4)] unfolding assms(5,6) by simp
  then have "lfsr a (lfsr pre (NOT 0)) = lfsr b (lfsr pre (NOT 0))"
    unfolding lfsr_append by (rule lfsr_inject)
  with assms(7,8) show ?thesis
    by (rule lfsr_short_inject)
qed

lemma known_response: "response_type_for t \<noteq> MT_Invalid \<Longrightarrow> is_known_message_type (response_type_for t)"
  by (auto simp: response_type_for_def response_table_def is_known_message_type_def split: option.splits if_splits)

section \<open>The header is a canonical encoding\<close>

lemma store_load_u16: "length bs = 2 \<Longrightarrow> store_u16 (load_u16 bs) = bs"
proof -
  assume "length bs = 2"
  then obtain a b where bs: "bs = [a, b]"
    by (auto simp: length_Suc_conv numeral_eq_Suc)
  have ff: "(0xFF :: u16) = mask 8"
    by (simp add: mask_eq_exp_minus_1)
  have beyond: "8 \<le> m \<Longrightarrow> \<not> bit (x :: u8) m" for x m
    using bit_imp_le_length [of x m] by auto
  show ?thesis
    unfolding store_u16_def load_u16_def bs ff
    by (auto simp: bit_simps beyond intro!: bit_word_eqI)
qed

lemma store_load_u64:
  assumes "length bs = 8"
  shows "store_u64 (load_u64 bs) = bs"
proof -
  have seq: "[0..<8] = [0, 1, 2, 3, 4, 5, 6, 7 :: nat]"
    by (simp add: upt_rec)
  obtain a b c d e f g h where bs: "bs = [a, b, c, d, e, f, g, h]"
    using assms by (auto simp: length_Suc_conv numeral_eq_Suc)
  have ff: "(0xFF :: u64) = mask 8"
    by (simp add: mask_eq_exp_minus_1)
  have load: "load_u64 bs = ucast a OR push_bit 8 (ucast b) OR push_bit 16 (ucast c) OR push_bit 24 (ucast d)
      OR push_bit 32 (ucast e) OR push_bit 40 (ucast f) OR push_bit 48 (ucast g) OR push_bit 56 (ucast h)"
    by (simp add: bs load_u64_def seq or.assoc)
  have beyond: "8 \<le> m \<Longrightarrow> \<not> bit (x :: u8) m" for x m
    using bit_imp_le_length [of x m] by auto
  show ?thesis
    unfolding load unfolding store_u64_def seq bs ff
    by (auto simp: bit_simps beyond intro!: bit_word_eqI)
qed

lemma load_take:
  "2 \<le> length bs \<Longrightarrow> store_u16 (load_u16 bs) = take 2 bs"
  "4 \<le> length bs \<Longrightarrow> store_u32 (load_u32 bs) = take 4 bs"
  "8 \<le> length bs \<Longrightarrow> store_u64 (load_u64 bs) = take 8 bs"
proof -
  show "2 \<le> length bs \<Longrightarrow> store_u16 (load_u16 bs) = take 2 bs"
    using load_append(1) [of "take 2 bs" "drop 2 bs"] store_load_u16 [of "take 2 bs"] by simp
  show "4 \<le> length bs \<Longrightarrow> store_u32 (load_u32 bs) = take 4 bs"
    using load_append(2) [of "take 4 bs" "drop 4 bs"] store_load_u32 [of "take 4 bs"] by simp
  show "8 \<le> length bs \<Longrightarrow> store_u64 (load_u64 bs) = take 8 bs"
    using load_append(3) [of "take 8 bs" "drop 8 bs"] store_load_u64 [of "take 8 bs"] by simp
qed

lemma header_slices:
  assumes "length header = kHeaderBytes"
  shows "take 36 header = take 4 header @ take 2 (drop 4 header) @ take 2 (drop 6 header) @
    take 4 (drop 8 header) @ take 4 (drop 12 header) @ take 8 (drop 16 header) @
    take 8 (drop 24 header) @ take 4 (drop 32 header)"
proof -
  have glue: "take m (drop n header) @ take k (drop (m + n) header) = take (m + k) (drop n header)" for m n k
    by (simp add: take_add drop_drop)
  show ?thesis
    using glue [of 8 24 4] glue [of 8 16 12] glue [of 4 12 20] glue [of 4 8 24] glue [of 2 6 28] glue [of 2 4 30]
      glue [of 4 0 32]
    by simp
qed

lemma decode_header_Inr:
  assumes "decode_header header max_payload = Inr h" and len: "length header = kHeaderBytes"
  shows "sendable_header h max_payload" and "header = encode_header h (replicate kHeaderBytes 0)"
proof -
  have magic: "take 4 header = kMagic"
    and h: "h = \<lparr> fh_protocol_version = load_u16 (drop 4 header), fh_type = load_u16 (drop 6 header),
      fh_flags = load_u32 (drop 8 header), fh_payload_length = load_u32 (drop 12 header),
      fh_sequence = load_u64 (drop 16 header), fh_correlation = load_u64 (drop 24 header),
      fh_payload_crc32c = load_u32 (drop 32 header) \<rparr>"
    and crc: "load_u32 (drop 36 header) = crc_compute (take 36 header)"
    using assms(1) unfolding decode_header_def by (auto simp: Let_def kHeaderBytes_def split: if_splits)
  show "sendable_header h max_payload"
    using assms(1) unfolding decode_header_def sendable_header_def by (auto simp: Let_def split: if_splits)
  have body: "header_body h = take 36 header"
    using len unfolding header_slices [OF len] magic [symmetric] header_body_def h
    by (simp add: load_take kHeaderBytes_def)
  have "drop 36 header = store_u32 (crc_compute (header_body h))"
    using store_load_u32 [of "drop 36 header"] len crc body by (simp add: kHeaderBytes_def)
  then show "header = encode_header h (replicate kHeaderBytes 0)"
    using body append_take_drop_id [of 36 header] by (simp add: encode_header_def)
qed

section \<open>Properties\<close>

text \<open>
  C31. Frame headers are a canonical encoding: a 40-byte header is accepted, with a given meaning
  and payload limit, exactly when it is the encoding of a header of the supported version with a
  known type, no flags and an admissible length.\<close>

theorem frame_header_canonical:
  assumes "length header = kHeaderBytes"
  shows "decode_header header max_payload = Inr h \<longleftrightarrow>
    sendable_header h max_payload \<and> header = encode_header h (replicate kHeaderBytes 0)"
  using decode_header_Inr [OF _ assms] decode_encode_header [of h max_payload "replicate kHeaderBytes 0"]
  by auto

text \<open>A heartbeat header of a fresh session.\<close>

definition demo_header :: FrameHeader where
  "demo_header = FrameHeader_init\<lparr> fh_type := MT_Heartbeat, fh_sequence := 7 \<rparr>"

lemma demo_header_sendable: "sendable_header demo_header 1024"
  by (simp add: sendable_header_def demo_header_def FrameHeader_init_def is_known_message_type_def)

lemma length_demo_header: "length (encode_header demo_header (replicate kHeaderBytes 0)) = kHeaderBytes"
  by (simp add: encode_header_def kHeaderBytes_def)

theorem frame_header_canonical_witness:
  "length (encode_header demo_header (replicate kHeaderBytes 0)) = kHeaderBytes \<and>
   decode_header (encode_header demo_header (replicate kHeaderBytes 0)) 1024 = Inr demo_header"
  using frame_header_canonical [OF length_demo_header, of 1024 demo_header] length_demo_header
    demo_header_sendable by simp

text \<open>
  C32. Corruption of a header is detected: flip any bits inside a window of at most 32 consecutive
  bits of an acceptable header, in the fields or in the stored checksum or across both, and it is
  refused.\<close>

theorem frame_header_corruption_detected:
  assumes "decode_header header max_payload = Inr h" and "length header = kHeaderBytes"
    and "length header' = kHeaderBytes"
    and "message_bits header = pre @ a @ post" and "message_bits header' = pre @ b @ post"
    and "length a = length b" and "length a \<le> 32" and "a \<noteq> b"
  shows "\<exists>code. decode_header header' max_payload = Inl code"
  using accepted_burst [OF assms(1) _ assms(2-7)] assms(8)
  by (cases "decode_header header' max_payload") auto

theorem frame_header_corruption_detected_witness:
  "\<exists>code. decode_header ((encode_header demo_header (replicate kHeaderBytes 0))[0 := 0x48]) 1024 = Inl code"
proof -
  let ?header = "encode_header demo_header (replicate kHeaderBytes 0)"
  have head: "?header = 0x49 # tl ?header"
    by (simp add: encode_header_def header_body_def kMagic_def kHeaderBytes_def)
  have accepted: "decode_header ?header 1024 = Inr demo_header"
    using decode_encode_header [OF demo_header_sendable] by simp
  have other: "?header[0 := 0x48] = 0x48 # tl ?header"
    by (subst head) simp
  have bits: "message_bits ?header = [] @ byte_bits 0x49 @ message_bits (tl ?header)"
    by (subst head) (simp add: message_bits_def)
  have bits': "message_bits (?header[0 := 0x48]) = [] @ byte_bits 0x48 @ message_bits (tl ?header)"
    unfolding other by (simp add: message_bits_def)
  have "byte_bits 0x49 \<noteq> byte_bits 0x48"
    using byte_bits_inject [of "0x49" "0x48"] by auto
  with frame_header_corruption_detected [OF accepted length_demo_header _ bits bits'] length_demo_header
  show ?thesis by simp
qed

text \<open>
  The decoder accepts message types the protocol does not declare: 8, 9 and the other gaps of the
  enumeration lie below \<open>Count\<close>. No request of such a type has a response type.
\<close>

lemma undeclared_type_known: "is_known_message_type 8 \<and> response_type_for 8 = MT_Invalid"
  by (simp add: is_known_message_type_def response_type_for_def response_table_def)

end
