(* ===== verification/Persistence.thy ===== *)
theory Persistence
  imports Serialize Wire Recovery
begin

text \<open>
  Durable state (\<open>include/itf/persistence.hpp\<close>, \<open>src/persistence.cpp\<close>): the snapshot document, the
  framed file and its store. The operating system is a parameter: a function from the ordinal of a
  system call to its reply, so every pattern of short transfers and failures is covered.
\<close>

section \<open>The snapshot document\<close>

definition decode_terminal_record :: "(Reader, RequestRecord result) state" where
  "decode_terminal_record =
     propagate decode_request_record (\<lambda>record.
       if \<not> rl_terminal (r_lifecycle record) then failure ST_MalformedInput
       else if r_active_flows record \<noteq> 0 then failure ST_MalformedInput
       else success record)"

definition sendable_terminal_record :: "RequestRecord \<Rightarrow> bool" where
  "sendable_terminal_record r \<longleftrightarrow>
     sendable_request_record r \<and> rl_terminal (r_lifecycle r) \<and> r_active_flows r = 0"

lemma transmits_terminal_record:
  "sendable_terminal_record v \<Longrightarrow> transmits (encode_request_record v) decode_terminal_record (Inr v)"
  unfolding decode_terminal_record_def
  by (rule transmits_propagate_last [OF transmits_request_record])
    (simp_all add: sendable_terminal_record_def)

lemma sane_terminal_record [sane_rules]: "sane decode_terminal_record"
  unfolding decode_terminal_record_def by (intro sane_rules)

lemma guarded_terminal_record [guarded_rules]: "guarded decode_terminal_record"
  unfolding decode_terminal_record_def by (intro guarded_rules)

definition encode_snapshot :: "PersistedCoordinatorState \<Rightarrow> (Writer, unit) state" where
  "encode_snapshot value = do {
     Writer_u16 (ps_format_version value);
     Writer_generation (ps_epoch value);
     Writer_id (ps_previous_incarnation value);
     Writer_u64 (ps_boot_count value);
     encode_policy (ps_policy value);
     Writer_boolean (ps_topology_present value);
     encode_topology_evidence (ps_topology value);
     Writer_u32 (of_nat (length (ps_models value)));
     encode_each encode_model_state (ps_models value);
     Writer_u32 (of_nat (length (ps_states value)));
     encode_each encode_state_generation_record (ps_states value);
     Writer_u32 (of_nat (length (ps_terminal_requests value)));
     encode_each encode_request_record (ps_terminal_requests value);
     Writer_u32 (of_nat (length (ps_interrupted_requests value)));
     encode_each encode_request_record (ps_interrupted_requests value) }"

definition decode_snapshot :: "(Reader, PersistedCoordinatorState result) state" where
  "decode_snapshot = do {
     format_version \<leftarrow> Reader_u16;
     or_fail (do {
       if format_version \<noteq> kSnapshotFormatVersion then failure ST_UnsupportedVersion
       else do {
         epoch \<leftarrow> Reader_generation;
         previous_incarnation \<leftarrow> Reader_id;
         boot_count \<leftarrow> Reader_u64;
         propagate decode_policy (\<lambda>policy. do {
           topology_present \<leftarrow> Reader_boolean;
           propagate (decode_topology_evidence topology_present) (\<lambda>topology. do {
             model_count \<leftarrow> Reader_count 65536;
             or_fail (do {
               propagate (decode_loop (unat model_count) decode_model_state) (\<lambda>models. do {
                 state_count \<leftarrow> Reader_count 65536;
                 or_fail (do {
                   propagate (decode_loop (unat state_count) decode_state_generation_record) (\<lambda>states. do {
                     terminal_count \<leftarrow> Reader_count 65536;
                     or_fail (do {
                       propagate (decode_loop (unat terminal_count) decode_terminal_record) (\<lambda>terminal_requests. do {
                         interrupted_count \<leftarrow> Reader_count 65536;
                         or_fail (do {
                           propagate (decode_loop (unat interrupted_count) decode_request_record) (\<lambda>interrupted_requests. do {
                             or_fail (success
                                 \<lparr> ps_format_version = format_version, ps_epoch = epoch,
                                   ps_previous_incarnation = previous_incarnation,
                                   ps_boot_count = boot_count, ps_policy = policy,
                                   ps_topology_present = topology_present,
                                   ps_topology = topology, ps_models = models,
                                   ps_states = states,
                                   ps_terminal_requests = terminal_requests,
                                   ps_interrupted_requests = interrupted_requests \<rparr>) }) }) }) }) }) }) }) }) }) }) } }) }"

definition sendable_snapshot :: "PersistedCoordinatorState \<Rightarrow> bool" where
  "sendable_snapshot value \<longleftrightarrow>
     ps_epoch value \<noteq> 0 \<and>
     ps_previous_incarnation value \<noteq> nil_id \<and>
     sendable_policy (ps_policy value) \<and>
     sendable_topology_evidence (ps_topology_present value) (ps_topology value) \<and>
     length (ps_models value) \<le> 65536 \<and>
     (\<forall>x \<in> set (ps_models value). sendable_model_state x) \<and>
     length (ps_states value) \<le> 65536 \<and>
     (\<forall>x \<in> set (ps_states value). sendable_state_generation_record x) \<and>
     length (ps_terminal_requests value) \<le> 65536 \<and>
     (\<forall>x \<in> set (ps_terminal_requests value). sendable_terminal_record x) \<and>
     length (ps_interrupted_requests value) \<le> 65536 \<and>
     (\<forall>x \<in> set (ps_interrupted_requests value). sendable_request_record x) \<and>
     ps_format_version value = kSnapshotFormatVersion"

lemma transmits_snapshot:
  "sendable_snapshot v \<Longrightarrow> transmits (encode_snapshot v) decode_snapshot (Inr v)"
  unfolding encode_snapshot_def decode_snapshot_def
  by (intro transmission) (simp_all add: sendable_snapshot_def transmits_model_state transmits_state_generation_record
      transmits_terminal_record transmits_request_record unat_of_nat_u32)

lemma sane_snapshot [sane_rules]: "sane decode_snapshot"
  unfolding decode_snapshot_def Let_def by (intro sane_rules)

lemma guarded_snapshot [guarded_rules]: "guarded decode_snapshot"
  unfolding decode_snapshot_def Let_def by (intro guarded_rules)

interpretation snapshot: codec encode_snapshot decode_snapshot sendable_snapshot
  by unfold_locales (simp_all add: transmits_snapshot sane_snapshot guarded_snapshot)

section \<open>The store\<close>

text \<open>
  The names and contents of the file system, the number of system calls made, the serial of the
  temporary names, and every file system that existed after a call: what a crash at that moment
  would leave behind.
\<close>

type_synonym Files = "string \<Rightarrow> u8 list option"

type_synonym Replies = "nat \<Rightarrow> int"

record Disk =
  dk_files :: Files
  dk_calls :: nat
  dk_serial :: u64
  dk_history :: "Files list"

definition os_call :: "Replies \<Rightarrow> (int \<Rightarrow> Files \<Rightarrow> Files) \<Rightarrow> Disk \<Rightarrow> int \<times> Disk" where
  "os_call os effect d =
     (let reply = os (dk_calls d); files = effect reply (dk_files d)
      in (reply, d\<lparr> dk_files := files, dk_calls := Suc (dk_calls d),
                     dk_history := dk_history d @ [files] \<rparr>))"

subsection \<open>File handles\<close>

text \<open>A handle is a name while writing, and the bytes not yet read while reading.\<close>

definition open_existing :: "Replies \<Rightarrow> string \<Rightarrow> Disk \<Rightarrow> u8 list result \<times> Disk" where
  "open_existing os path d =
     (case os_call os (\<lambda>_ files. files) d of (fd, d1) \<Rightarrow>
        (case dk_files d path of
           None \<Rightarrow> (Inl ST_NotFound, d1)
         | Some content \<Rightarrow> if fd < 0 then (Inl ST_NotFound, d1) else (Inr content, d1)))"

definition create_truncate :: "Replies \<Rightarrow> string \<Rightarrow> Disk \<Rightarrow> StatusCode \<times> Disk" where
  "create_truncate os path d =
     (case os_call os (\<lambda>fd files. if fd < 0 then files else files(path \<mapsto> [])) d of (fd, d1) \<Rightarrow>
        if fd < 0 then (ST_IoError, d1) else (ST_Ok, d1))"

definition append_file :: "string \<Rightarrow> u8 list \<Rightarrow> Files \<Rightarrow> Files" where
  "append_file path data files =
     files(path := map_option (\<lambda>content. content @ data) (files path))"

text \<open>
  One system call writes a non-empty prefix of the data or fails.
\<close>

function write_all :: "Replies \<Rightarrow> string \<Rightarrow> u8 list \<Rightarrow> Disk \<Rightarrow> StatusCode \<times> Disk" where
  "write_all os path data d =
     (if data = [] then (ST_Ok, d)
      else (case os_call os (\<lambda>n. append_file path (take (nat n) data)) d of (written, d1) \<Rightarrow>
        if written \<le> 0 then (ST_IoError, d1)
        else write_all os path (drop (nat written) data) d1))"
  by pat_completeness auto

termination
  by (relation "measure (\<lambda>(os, path, data, d). length data)") auto

declare write_all.simps [simp del]

text \<open>
  A read of \<open>n > 0\<close> bytes from a file with bytes left returns at least one of them and at most
  \<open>n\<close>, as many as the reply allows; at the end of the file it returns none.
\<close>

definition read_count :: "int \<Rightarrow> nat \<Rightarrow> u8 list \<Rightarrow> nat" where
  "read_count reply n rest = min (max 1 (nat reply)) (min n (length rest))"

function read_exact ::
  "Replies \<Rightarrow> nat \<Rightarrow> u8 list \<Rightarrow> Disk \<Rightarrow> (u8 list \<times> u8 list) result \<times> Disk" where
  "read_exact os n rest d =
     (if n = 0 then (Inr ([], rest), d)
      else (case os_call os (\<lambda>_ files. files) d of (reply, d1) \<Rightarrow>
        if reply < 0 then (Inl ST_IoError, d1)
        else if read_count reply n rest = 0 then (Inl ST_MalformedInput, d1)
        else (let m = read_count reply n rest
              in case read_exact os (n - m) (drop m rest) d1 of
                   (Inl code, d2) \<Rightarrow> (Inl code, d2)
                 | (Inr (bytes, rest'), d2) \<Rightarrow> (Inr (take m rest @ bytes, rest'), d2))))"
  by pat_completeness auto

termination
  by (relation "measure (\<lambda>(os, n, rest, d). n)") auto

declare read_exact.simps [simp del]

definition has_more :: "Replies \<Rightarrow> u8 list \<Rightarrow> Disk \<Rightarrow> bool result \<times> Disk" where
  "has_more os rest d =
     (case os_call os (\<lambda>_ files. files) d of (reply, d1) \<Rightarrow>
        if reply < 0 then (Inl ST_IoError, d1) else (Inr (rest \<noteq> []), d1))"

definition file_sync :: "Replies \<Rightarrow> Disk \<Rightarrow> StatusCode \<times> Disk" where
  "file_sync os d =
     (case os_call os (\<lambda>_ files. files) d of (reply, d1) \<Rightarrow>
        if reply \<noteq> 0 then (ST_IoError, d1) else (ST_Ok, d1))"

definition atomic_replace_file :: "Replies \<Rightarrow> string \<Rightarrow> string \<Rightarrow> Disk \<Rightarrow> StatusCode \<times> Disk" where
  "atomic_replace_file os source target d =
     (case os_call os (\<lambda>reply files.
              if reply \<noteq> 0 then files else (files(target := files source))(source := None)) d of
        (reply, d1) \<Rightarrow> if reply \<noteq> 0 then (ST_IoError, d1) else (ST_Ok, d1))"

definition remove_file :: "Replies \<Rightarrow> string \<Rightarrow> Disk \<Rightarrow> Disk" where
  "remove_file os path d =
     snd (os_call os (\<lambda>reply files. if reply \<noteq> 0 then files else files(path := None)) d)"

subsection \<open>Saving and loading\<close>

record SnapshotStore =
  ss_path :: string
  ss_max_payload_bytes :: u64

definition SnapshotStore_kMagic :: "u8 list" where
  "SnapshotStore_kMagic = [0x49, 0x54, 0x46, 0x53]"

definition SnapshotStore_kHeaderBytes :: nat where
  "SnapshotStore_kHeaderBytes = 24"

fun decimal :: "nat \<Rightarrow> string" where
  "decimal n =
     (if n < 10 then [char_of (48 + n)] else decimal (n div 10) @ [char_of (48 + n mod 10)])"

declare decimal.simps [simp del]

definition temporary_name :: "string \<Rightarrow> u64 \<Rightarrow> u64 \<Rightarrow> string" where
  "temporary_name path pid serial =
     path @ ''.tmp.'' @ decimal (unat pid) @ ''.'' @ decimal (unat serial)"

definition snapshot_header_body :: "u16 \<Rightarrow> u8 list \<Rightarrow> u8 list" where
  "snapshot_header_body flags payload =
     SnapshotStore_kMagic @ store_u16 kSnapshotFormatVersion @ store_u16 flags @
     store_u64 (of_nat (length payload)) @ store_u32 (crc_compute payload)"

definition snapshot_header :: "u16 \<Rightarrow> u8 list \<Rightarrow> u8 list" where
  "snapshot_header flags payload =
     snapshot_header_body flags payload @ store_u32 (crc_compute (snapshot_header_body flags payload))"

definition save_raw :: "Replies \<Rightarrow> u64 \<Rightarrow> SnapshotStore \<Rightarrow> u8 list \<Rightarrow> Disk \<Rightarrow> StatusCode \<times> Disk" where
  "save_raw os pid st payload d =
     (if length payload > unat (ss_max_payload_bytes st) then (ST_BoundsExceeded, d)
      else (let header = snapshot_header 0 payload;
                serial = dk_serial d + 1;
                temporary = temporary_name (ss_path st) pid serial
            in case create_truncate os temporary (d\<lparr> dk_serial := serial \<rparr>) of (created, d1) \<Rightarrow>
               if created \<noteq> ST_Ok then (created, d1)
               else case write_all os temporary header d1 of (header_written, d2) \<Rightarrow>
               if header_written \<noteq> ST_Ok then (header_written, d2)
               else case write_all os temporary payload d2 of (payload_written, d3) \<Rightarrow>
               if payload_written \<noteq> ST_Ok then (payload_written, d3)
               else case file_sync os d3 of (flushed, d4) \<Rightarrow>
               if flushed \<noteq> ST_Ok then (flushed, d4)
               else case atomic_replace_file os temporary (ss_path st) d4 of (replaced, d5) \<Rightarrow>
               if replaced \<noteq> ST_Ok then (replaced, remove_file os temporary d5)
               else (ST_Ok, d5)))"

definition save_snapshot ::
  "Replies \<Rightarrow> u64 \<Rightarrow> SnapshotStore \<Rightarrow> PersistedCoordinatorState \<Rightarrow> Disk \<Rightarrow> StatusCode \<times> Disk" where
  "save_snapshot os pid st s d =
     (case encode_complete encode_snapshot s (unat (ss_max_payload_bytes st)) of
        Inl code \<Rightarrow> (code, d)
      | Inr document \<Rightarrow> save_raw os pid st document d)"

definition load_raw :: "Replies \<Rightarrow> SnapshotStore \<Rightarrow> Disk \<Rightarrow> u8 list result \<times> Disk" where
  "load_raw os st d =
     (case open_existing os (ss_path st) d of
        (Inl code, d1) \<Rightarrow> (Inl code, d1)
      | (Inr content, d1) \<Rightarrow>
     (case read_exact os SnapshotStore_kHeaderBytes content d1 of
        (Inl _, d2) \<Rightarrow> (Inl ST_MalformedInput, d2)
      | (Inr (header, rest), d2) \<Rightarrow>
          if take 4 header \<noteq> SnapshotStore_kMagic then (Inl ST_MalformedInput, d2)
          else if load_u16 (drop 4 header) \<noteq> kSnapshotFormatVersion then (Inl ST_UnsupportedVersion, d2)
          else if load_u32 (drop 20 header) \<noteq> crc_compute (take (SnapshotStore_kHeaderBytes - 4) header)
          then (Inl ST_IntegrityMismatch, d2)
          else if load_u64 (drop 8 header) > ss_max_payload_bytes st then (Inl ST_BoundsExceeded, d2)
          else (case read_exact os (unat (load_u64 (drop 8 header))) rest d2 of
                  (Inl _, d3) \<Rightarrow> (Inl ST_MalformedInput, d3)
                | (Inr (payload, rest'), d3) \<Rightarrow>
               (case has_more os rest' d3 of
                  (Inl code, d4) \<Rightarrow> (Inl code, d4)
                | (Inr remains, d4) \<Rightarrow>
                    if remains then (Inl ST_TrailingGarbage, d4)
                    else if crc_compute payload \<noteq> load_u32 (drop 16 header)
                    then (Inl ST_IntegrityMismatch, d4)
                    else (Inr payload, d4)))))"

definition load_snapshot ::
  "Replies \<Rightarrow> SnapshotStore \<Rightarrow> Disk \<Rightarrow> PersistedCoordinatorState result \<times> Disk" where
  "load_snapshot os st d =
     (case load_raw os st d of
        (Inl code, d1) \<Rightarrow> (Inl code, d1)
      | (Inr bytes, d1) \<Rightarrow>
          (decode_complete decode_snapshot bytes (unat (ss_max_payload_bytes st)), d1))"

definition exists_snapshot :: "Replies \<Rightarrow> SnapshotStore \<Rightarrow> Disk \<Rightarrow> bool \<times> Disk" where
  "exists_snapshot os st d =
     (case open_existing os (ss_path st) d of (opened, d1) \<Rightarrow>
        ((case opened of Inl _ \<Rightarrow> False | Inr _ \<Rightarrow> True), d1))"

definition sync_file :: "Replies \<Rightarrow> string \<Rightarrow> Disk \<Rightarrow> StatusCode \<times> Disk" where
  "sync_file os path d =
     (case open_existing os path d of
        (Inl code, d1) \<Rightarrow> (code, d1)
      | (Inr _, d1) \<Rightarrow> file_sync os d1)"

section \<open>Saving leaves the old snapshot or the new one\<close>

definition touches_only :: "string \<Rightarrow> Disk \<Rightarrow> Disk \<Rightarrow> bool" where
  "touches_only t d d' \<longleftrightarrow>
     (\<exists>hs. dk_history d' = dk_history d @ hs \<and>
        (\<forall>files \<in> set (dk_files d' # hs). \<forall>p. p \<noteq> t \<longrightarrow> files p = dk_files d p))"

lemma touches_only_trans:
  assumes "touches_only t d d1" and "touches_only t d1 d2"
  shows "touches_only t d d2"
proof -
  obtain hs hs' where "dk_history d1 = dk_history d @ hs" and "dk_history d2 = dk_history d1 @ hs'"
    and first: "\<forall>files \<in> set (dk_files d1 # hs). \<forall>p. p \<noteq> t \<longrightarrow> files p = dk_files d p"
    and second: "\<forall>files \<in> set (dk_files d2 # hs'). \<forall>p. p \<noteq> t \<longrightarrow> files p = dk_files d1 p"
    using assms unfolding touches_only_def by blast
  then have "dk_history d2 = dk_history d @ hs @ hs'"
    by simp
  moreover have "\<forall>files \<in> set (dk_files d2 # hs @ hs'). \<forall>p. p \<noteq> t \<longrightarrow> files p = dk_files d p"
    using first second by auto
  ultimately show ?thesis
    unfolding touches_only_def by blast
qed

lemma touches_only_call:
  assumes "os_call os effect d = (r, d')" and "\<And>r p. p \<noteq> t \<Longrightarrow> effect r (dk_files d) p = dk_files d p"
  shows "touches_only t d d'"
  using assms by (auto simp: os_call_def Let_def touches_only_def)

lemma touches_only_create: "create_truncate os t d = (s, d') \<Longrightarrow> touches_only t d d'"
  unfolding create_truncate_def
  by (auto split: prod.splits if_splits intro!: touches_only_call)

lemma touches_only_sync: "file_sync os d = (s, d') \<Longrightarrow> touches_only t d d'"
  unfolding file_sync_def
  by (auto split: prod.splits if_splits intro!: touches_only_call)

lemma touches_only_remove: "touches_only t d (remove_file os t d)"
  unfolding remove_file_def
  by (cases "os_call os (\<lambda>reply files. if reply \<noteq> 0 then files else files(t := None)) d")
    (auto intro!: touches_only_call)

lemma touches_only_refl [simp]: "touches_only t d d"
  by (auto simp: touches_only_def)

lemma write_all_Nil [simp]: "write_all os t [] d = (ST_Ok, d)"
  by (simp add: write_all.simps)

lemma touches_only_write_all: "write_all os t data d = (s, d') \<Longrightarrow> touches_only t d d'"
proof (induction os t data d rule: write_all.induct)
  case (1 os t data d)
  show ?case
  proof (cases "data = []")
    case True
    with 1(2) show ?thesis
      by simp
  next
    case False
    obtain r d1 where call: "os_call os (\<lambda>n. append_file t (take (nat n) data)) d = (r, d1)"
      by fastforce
    then have one: "touches_only t d d1"
      by (rule touches_only_call) (simp add: append_file_def)
    show ?thesis
    proof (cases "r \<le> 0")
      case True
      with one call False 1(2) show ?thesis
        by (simp add: write_all.simps [of os t data])
    next
      case step: False
      with call False 1(2) have "write_all os t (drop (nat r) data) d1 = (s, d')"
        by (simp add: write_all.simps [of os t data])
      from 1(1) [OF False call [symmetric] step this] one show ?thesis
        by (blast intro: touches_only_trans)
    qed
  qed
qed

lemma write_all_content:
  "write_all os t data d = (ST_Ok, d') \<Longrightarrow> dk_files d t = Some c \<Longrightarrow> dk_files d' t = Some (c @ data)"
proof (induction os t data d arbitrary: c rule: write_all.induct)
  case (1 os t data d)
  show ?case
  proof (cases "data = []")
    case True
    with 1(2,3) show ?thesis
      by simp
  next
    case False
    obtain r d1 where call: "os_call os (\<lambda>n. append_file t (take (nat n) data)) d = (r, d1)"
      by fastforce
    with False 1(2) have r: "\<not> r \<le> 0" and rest: "write_all os t (drop (nat r) data) d1 = (ST_Ok, d')"
      by (simp_all add: write_all.simps [of os t data] split: if_splits)
    have "dk_files d1 t = Some (c @ take (nat r) data)"
      using call 1(3) by (auto simp: os_call_def Let_def append_file_def)
    from 1(1) [OF False call [symmetric] r rest this] show ?thesis
      by simp
  qed
qed

lemma temporary_name_differs [simp]: "temporary_name path pid serial \<noteq> path" "path \<noteq> temporary_name path pid serial"
  by (simp_all add: temporary_name_def)

definition snapshot_file :: "u16 \<Rightarrow> u8 list \<Rightarrow> u8 list" where
  "snapshot_file flags payload = snapshot_header flags payload @ payload"

text \<open>
  Everything before the rename happens to the temporary name; if the rename is reached, the
  temporary holds the complete file.
\<close>

definition save_frame :: "SnapshotStore \<Rightarrow> u8 list \<Rightarrow> string \<Rightarrow> Disk \<Rightarrow> StatusCode \<Rightarrow> Disk \<Rightarrow> bool" where
  "save_frame st payload t d s d' \<longleftrightarrow>
     (\<exists>d4. touches_only t d d4 \<and>
        (s \<noteq> ST_Ok \<and> touches_only t d d' \<or>
         s = ST_Ok \<and> dk_files d4 t = Some (snapshot_file 0 payload) \<and>
         dk_files d' = (dk_files d4)(ss_path st := dk_files d4 t, t := None) \<and>
         dk_history d' = dk_history d4 @ [dk_files d']))"

lemma create_truncate_content: "create_truncate os t d = (ST_Ok, d') \<Longrightarrow> dk_files d' t = Some []"
  by (auto simp: create_truncate_def os_call_def Let_def split: if_splits)

lemma touches_only_content: "touches_only t d d' \<Longrightarrow> p \<noteq> t \<Longrightarrow> dk_files d' p = dk_files d p"
  by (auto simp: touches_only_def)

lemma file_sync_files: "file_sync os d = (s, d') \<Longrightarrow> dk_files d' = dk_files d"
  by (auto simp: file_sync_def os_call_def Let_def split: if_splits)

lemma replace_frame:
  assumes "atomic_replace_file os t path d = (s, d')" and "t \<noteq> path"
  shows "if s = ST_Ok then dk_files d' = (dk_files d)(path := dk_files d t, t := None) \<and>
           dk_history d' = dk_history d @ [dk_files d']
         else touches_only t d d'"
  using assms by (auto simp: atomic_replace_file_def os_call_def Let_def touches_only_def split: if_splits)

lemma save_raw_frame:
  assumes "save_raw os pid st payload d = (s, d')"
  shows "save_frame st payload (temporary_name (ss_path st) pid (dk_serial d + 1)) d s d'"
proof (cases "length payload > unat (ss_max_payload_bytes st)")
  case True
  with assms show ?thesis
    by (auto simp: save_raw_def save_frame_def intro: exI [of _ d])
next
  case False
  let ?t = "temporary_name (ss_path st) pid (dk_serial d + 1)"
  let ?d0 = "d\<lparr> dk_serial := dk_serial d + 1 \<rparr>"
  have d0: "touches_only ?t d ?d0"
    by (simp add: touches_only_def)
  have failed: "save_frame st payload ?t d s d'" if "touches_only ?t d d'" "s \<noteq> ST_Ok"
    using that by (auto simp: save_frame_def)
  obtain s1 d1 where c: "create_truncate os ?t ?d0 = (s1, d1)" by fastforce
  have d1: "touches_only ?t d d1"
    using d0 touches_only_create [OF c] by (rule touches_only_trans)
  obtain s2 d2 where w: "write_all os ?t (snapshot_header 0 payload) d1 = (s2, d2)" by fastforce
  have d2: "touches_only ?t d d2"
    using d1 touches_only_write_all [OF w] by (rule touches_only_trans)
  obtain s3 d3 where v: "write_all os ?t payload d2 = (s3, d3)" by fastforce
  have d3: "touches_only ?t d d3"
    using d2 touches_only_write_all [OF v] by (rule touches_only_trans)
  obtain s4 d4 where y: "file_sync os d3 = (s4, d4)" by fastforce
  have d4: "touches_only ?t d d4"
    using d3 touches_only_sync [OF y] by (rule touches_only_trans)
  obtain s5 d5 where r: "atomic_replace_file os ?t (ss_path st) d4 = (s5, d5)" by fastforce
  note run = assms False c w v y r
  show ?thesis
  proof (cases "s1 = ST_Ok \<and> s2 = ST_Ok \<and> s3 = ST_Ok \<and> s4 = ST_Ok")
    case early: False
    then have "touches_only ?t d d' \<and> s \<noteq> ST_Ok"
      using run d1 d2 d3 d4 by (auto simp: save_raw_def Let_def split: if_splits)
    with failed show ?thesis by blast
  next
    case ok: True
    then have "dk_files d1 ?t = Some []"
      using c by (simp add: create_truncate_content)
    then have "dk_files d2 ?t = Some (snapshot_header 0 payload)"
      using w ok by (auto dest: write_all_content)
    then have "dk_files d3 ?t = Some (snapshot_file 0 payload)"
      using v ok by (auto dest: write_all_content simp: snapshot_file_def)
    then have full: "dk_files d4 ?t = Some (snapshot_file 0 payload)"
      by (simp add: file_sync_files [OF y])
    have last: "if s5 = ST_Ok then s = ST_Ok \<and> d' = d5 else s = s5 \<and> d' = remove_file os ?t d5"
      using run ok by (auto simp: save_raw_def Let_def split: if_splits)
    show ?thesis
    proof (cases "s5 = ST_Ok")
      case True
      with last replace_frame [OF r] full d4 show ?thesis
        unfolding save_frame_def by (intro exI [of _ d4]) simp
    next
      case False
      with replace_frame [OF r] have "touches_only ?t d4 d5"
        by simp
      with d4 have "touches_only ?t d (remove_file os ?t d5)"
        by (meson touches_only_trans touches_only_remove)
      with last False failed show ?thesis by simp
    qed
  qed
qed

section \<open>Loading accepts exactly complete files\<close>

lemma os_call_read [simp]:
  "os_call os (\<lambda>_ files. files) d =
     (os (dk_calls d), d\<lparr> dk_calls := Suc (dk_calls d), dk_history := dk_history d @ [dk_files d] \<rparr>)"
  by (simp add: os_call_def)

lemma read_exact_0 [simp]: "read_exact os 0 rest d = (Inr ([], rest), d)"
  by (simp add: read_exact.simps)

lemma read_exact_Inr:
  "read_exact os n rest d = (Inr (bytes, rest'), d') \<Longrightarrow> bytes = take n rest \<and> rest' = drop n rest \<and> n \<le> length rest"
proof (induction os n rest d arbitrary: bytes rest' d' rule: read_exact.induct)
  case (1 os n rest d)
  show ?case
  proof (cases "n = 0")
    case True
    with 1(2) show ?thesis by simp
  next
    case False
    let ?m = "read_count (os (dk_calls d)) n rest"
    obtain bs where ok: "\<not> os (dk_calls d) < 0" "?m \<noteq> 0" and
      rest: "read_exact os (n - ?m) (drop ?m rest)
        (d\<lparr> dk_calls := Suc (dk_calls d), dk_history := dk_history d @ [dk_files d] \<rparr>) = (Inr (bs, rest'), d')"
      and bytes: "bytes = take ?m rest @ bs"
      using False 1(2)
      by (auto simp: read_exact.simps [of os n] Let_def split: if_splits sum.splits prod.splits)
    have "?m \<le> n" and "?m \<le> length rest"
      by (auto simp: read_count_def)
    with 1(1) [OF False _ ok refl, simplified, OF refl rest] bytes show ?thesis
      by (auto simp flip: take_add)
  qed
qed

lemma read_exact_complete:
  "(\<And>k. 0 \<le> os k) \<Longrightarrow> n \<le> length rest \<Longrightarrow> \<exists>d'. read_exact os n rest d = (Inr (take n rest, drop n rest), d')"
proof (induction os n rest d rule: read_exact.induct)
  case (1 os n rest d)
  show ?case
  proof (cases "n = 0")
    case True
    then show ?thesis by simp
  next
    case False
    let ?m = "read_count (os (dk_calls d)) n rest"
    let ?d1 = "d\<lparr> dk_calls := Suc (dk_calls d), dk_history := dk_history d @ [dk_files d] \<rparr>"
    have ok: "\<not> os (dk_calls d) < 0" "?m \<noteq> 0"
      using False 1(2) [of "dk_calls d"] 1(3) by (auto simp: read_count_def)
    have m: "?m \<le> n"
      by (simp add: read_count_def)
    have "n - ?m \<le> length (drop ?m rest)"
      using 1(3) m by simp
    then obtain d' where "read_exact os (n - ?m) (drop ?m rest) ?d1 =
        (Inr (take (n - ?m) (drop ?m rest), drop (n - ?m) (drop ?m rest)), d')"
      using 1(1) [OF False _ ok refl, of ?d1] 1(2) by auto
    with ok False m have "read_exact os n rest d = (Inr (take n rest, drop n rest), d')"
      by (simp add: read_exact.simps [of os n] Let_def flip: take_add)
    then show ?thesis ..
  qed
qed

lemma length_snapshot_header [simp]:
  "length (snapshot_header_body flags payload) = 20" "length (snapshot_header flags payload) = 24"
  by (simp_all add: snapshot_header_def snapshot_header_body_def SnapshotStore_kMagic_def)

lemma snapshot_header_fields:
  "take 4 (snapshot_header flags payload) = SnapshotStore_kMagic"
  "load_u16 (drop 4 (snapshot_header flags payload)) = kSnapshotFormatVersion"
  "load_u64 (drop 8 (snapshot_header flags payload)) = of_nat (length payload)"
  "load_u32 (drop 16 (snapshot_header flags payload)) = crc_compute payload"
  "take 20 (snapshot_header flags payload) = snapshot_header_body flags payload"
  "load_u32 (drop 20 (snapshot_header flags payload)) = crc_compute (snapshot_header_body flags payload)"
proof -
  show "take 20 (snapshot_header flags payload) = snapshot_header_body flags payload"
    "load_u32 (drop 20 (snapshot_header flags payload)) = crc_compute (snapshot_header_body flags payload)"
    by (simp_all add: snapshot_header_def)
qed (simp_all add: snapshot_header_def snapshot_header_body_def SnapshotStore_kMagic_def load_store_append)

lemma snapshot_header_slices:
  assumes "length header = 24"
  shows "header = take 4 header @ take 2 (drop 4 header) @ take 2 (drop 6 header) @
    take 8 (drop 8 header) @ take 4 (drop 16 header) @ drop 20 header"
proof -
  have glue: "take m (drop n header) @ drop (m + n) header = drop n header" for m n
    using append_take_drop_id [of m "drop n header"] by simp
  show ?thesis
    using glue [of 4 16] glue [of 8 8] glue [of 2 6] glue [of 2 4] append_take_drop_id [of 4 header]
    by simp
qed

lemma of_nat_length_u64:
  "length payload \<le> unat (limit :: u64) \<Longrightarrow> unat (of_nat (length payload) :: u64) = length payload"
  using unsigned_less [of limit, where ?'a = nat] by (simp add: unat_of_nat take_bit_nat_eq_self)

text \<open>A header the loader accepts is the header of its payload.\<close>

lemma snapshot_header_unique:
  assumes "length header = 24" and "take 4 header = SnapshotStore_kMagic"
    and "load_u16 (drop 4 header) = kSnapshotFormatVersion"
    and "load_u32 (drop 20 header) = crc_compute (take 20 header)"
    and "unat (load_u64 (drop 8 header)) = length payload"
    and "load_u32 (drop 16 header) = crc_compute payload"
  shows "header = snapshot_header (load_u16 (drop 6 header)) payload"
proof -
  have len: "load_u64 (drop 8 header) = of_nat (length payload)"
    by (simp flip: assms(5))
  have body: "take 20 header = snapshot_header_body (load_u16 (drop 6 header)) payload"
  proof -
    have "take 20 header = take 4 header @ take 2 (drop 4 header) @ take 2 (drop 6 header) @
        take 8 (drop 8 header) @ take 4 (drop 16 header)"
      using assms(1) by (subst snapshot_header_slices [OF assms(1)]) simp
    also have "\<dots> = snapshot_header_body (load_u16 (drop 6 header)) payload"
      using assms(1) unfolding snapshot_header_body_def assms(2) assms(3) [symmetric] len [symmetric]
        assms(6) [symmetric]
      by (simp add: load_take)
    finally show ?thesis .
  qed
  have "drop 20 header = store_u32 (crc_compute (take 20 header))"
    using store_load_u32 [of "drop 20 header"] assms(1,4) by simp
  with body show ?thesis
    unfolding snapshot_header_def using append_take_drop_id [of 20 header] by simp
qed

text \<open>What a file means, without the handle: the reference the loader is compared with.\<close>

definition parse_snapshot_file :: "u64 \<Rightarrow> u8 list option \<Rightarrow> u8 list result" where
  "parse_snapshot_file limit file =
     (case file of
        None \<Rightarrow> Inl ST_NotFound
      | Some bytes \<Rightarrow>
          let header = take 24 bytes; payload = drop 24 bytes; n = load_u64 (drop 8 header)
          in if length bytes < 24 then Inl ST_MalformedInput
             else if take 4 header \<noteq> SnapshotStore_kMagic then Inl ST_MalformedInput
             else if load_u16 (drop 4 header) \<noteq> kSnapshotFormatVersion then Inl ST_UnsupportedVersion
             else if load_u32 (drop 20 header) \<noteq> crc_compute (take 20 header) then Inl ST_IntegrityMismatch
             else if n > limit then Inl ST_BoundsExceeded
             else if length payload < unat n then Inl ST_MalformedInput
             else if length payload > unat n then Inl ST_TrailingGarbage
             else if crc_compute payload \<noteq> load_u32 (drop 16 header) then Inl ST_IntegrityMismatch
             else Inr payload)"

lemma read_exact_fails:
  assumes "length rest < n"
  shows "\<exists>code d'. read_exact os n rest d = (Inl code, d')"
proof (cases "fst (read_exact os n rest d)")
  case (Inl code)
  then show ?thesis by (metis prod.collapse)
next
  case (Inr y)
  then obtain bytes rest' d' where "read_exact os n rest d = (Inr (bytes, rest'), d')"
    by (metis prod.collapse)
  with assms show ?thesis by (auto dest: read_exact_Inr)
qed

lemma load_raw_parses:
  assumes os: "\<And>k. 0 \<le> os k"
  shows "fst (load_raw os st d) = parse_snapshot_file (ss_max_payload_bytes st) (dk_files d (ss_path st))"
proof (cases "dk_files d (ss_path st)")
  case None
  then show ?thesis by (simp add: load_raw_def open_existing_def parse_snapshot_file_def)
next
  case (Some bytes)
  let ?d1 = "d\<lparr> dk_calls := Suc (dk_calls d), dk_history := dk_history d @ [dk_files d] \<rparr>"
  let ?n = "unat (load_u64 (drop 8 (take 24 bytes)))"
  have opened: "open_existing os (ss_path st) d = (Inr bytes, ?d1)"
    using Some os [of "dk_calls d"] by (simp add: open_existing_def)
  show ?thesis
  proof (cases "length bytes < 24")
    case True
    with read_exact_fails [OF True, of os ?d1] opened Some show ?thesis
      by (auto simp: load_raw_def parse_snapshot_file_def SnapshotStore_kHeaderBytes_def Let_def)
  next
    case False
    then obtain d2 where header: "read_exact os 24 bytes ?d1 = (Inr (take 24 bytes, drop 24 bytes), d2)"
      using read_exact_complete [of os 24 bytes ?d1] os by auto
    show ?thesis
    proof (cases "length (drop 24 bytes) < ?n")
      case True
      obtain code d3 where "read_exact os ?n (drop 24 bytes) d2 = (Inl code, d3)"
        using read_exact_fails [OF True] by blast
      with opened header Some False True show ?thesis
        by (simp add: load_raw_def parse_snapshot_file_def SnapshotStore_kHeaderBytes_def Let_def)
    next
      case fits: False
      then obtain d3 where "read_exact os ?n (drop 24 bytes) d2 = (Inr (take ?n (drop 24 bytes), drop ?n (drop 24 bytes)), d3)"
        using read_exact_complete [of os ?n "drop 24 bytes" d2] os by auto
      with opened header Some False fits os [of "dk_calls d3"] show ?thesis
        by (cases "?n < length (drop 24 bytes)")
          (simp_all add: load_raw_def parse_snapshot_file_def SnapshotStore_kHeaderBytes_def Let_def
            has_more_def less_diff_conv)
    qed
  qed
qed

lemma parse_snapshot_file_iff:
  "parse_snapshot_file limit stored = Inr payload \<longleftrightarrow>
     (\<exists>flags. stored = Some (snapshot_file flags payload) \<and> length payload \<le> unat limit)"
proof (intro iffI)
  assume parsed: "parse_snapshot_file limit stored = Inr payload"
  then obtain bytes where stored: "stored = Some bytes"
    by (auto simp: parse_snapshot_file_def split: option.splits)
  let ?header = "take 24 bytes"
  have "length ?header = 24" and "take 4 ?header = SnapshotStore_kMagic"
    and "load_u16 (drop 4 ?header) = kSnapshotFormatVersion"
    and "load_u32 (drop 20 ?header) = crc_compute (take 20 ?header)"
    and n: "unat (load_u64 (drop 8 ?header)) = length payload" "\<not> load_u64 (drop 8 ?header) > limit"
    and "load_u32 (drop 16 ?header) = crc_compute payload" and payload: "drop 24 bytes = payload"
    using parsed unfolding stored parse_snapshot_file_def by (auto simp: Let_def split: if_splits)
  then have "?header = snapshot_header (load_u16 (drop 6 ?header)) payload"
    by (intro snapshot_header_unique)
  moreover have "length payload \<le> unat limit"
    using n by (metis not_less word_le_nat_alt)
  ultimately show "\<exists>flags. stored = Some (snapshot_file flags payload) \<and> length payload \<le> unat limit"
    unfolding stored snapshot_file_def using payload append_take_drop_id [of 24 bytes] by metis
next
  assume "\<exists>flags. stored = Some (snapshot_file flags payload) \<and> length payload \<le> unat limit"
  then obtain flags where stored: "stored = Some (snapshot_file flags payload)" and le: "length payload \<le> unat limit"
    by blast
  have "\<not> (of_nat (length payload) :: u64) > limit"
    using le of_nat_length_u64 [OF le] by (simp add: not_less word_le_nat_alt)
  then show "parse_snapshot_file limit stored = Inr payload"
    by (simp add: stored parse_snapshot_file_def snapshot_file_def Let_def snapshot_header_fields
        of_nat_length_u64 [OF le])
qed

lemma load_raw_iff:
  "(\<And>k. 0 \<le> os k) \<Longrightarrow> fst (load_raw os st d) = Inr payload \<longleftrightarrow>
     (\<exists>flags. dk_files d (ss_path st) = Some (snapshot_file flags payload) \<and>
        length payload \<le> unat (ss_max_payload_bytes st))"
  by (simp add: load_raw_parses parse_snapshot_file_iff)

lemma load_snapshot_parses:
  assumes "\<And>k. 0 \<le> os k"
  shows "fst (load_snapshot os st d) =
    (case parse_snapshot_file (ss_max_payload_bytes st) (dk_files d (ss_path st)) of
       Inl code \<Rightarrow> Inl code
     | Inr bytes \<Rightarrow> decode_complete decode_snapshot bytes (unat (ss_max_payload_bytes st)))"
  using load_raw_parses [where os = os and st = st and d = d, OF assms]
  by (cases "load_raw os st d") (auto simp: load_snapshot_def split: sum.split)

lemma encoded_snapshot_length:
  assumes "sendable_snapshot s" and "encode_complete encode_snapshot s limit = Inr bytes"
  shows "length bytes \<le> limit"
  using snapshot.transmits [OF assms(1)] encode_writes [OF _ assms(2)] by (auto simp: transmits_def)

lemma load_saved_file:
  assumes "sendable_snapshot s" and "\<And>k. 0 \<le> os k"
    and "encode_complete encode_snapshot s (unat (ss_max_payload_bytes st)) = Inr bytes"
    and "dk_files d (ss_path st) = Some (snapshot_file flags bytes)"
  shows "fst (load_snapshot os st d) = Inr s"
proof -
  have "length bytes \<le> unat (ss_max_payload_bytes st)"
    using assms(1,3) by (rule encoded_snapshot_length)
  moreover from this have "parse_snapshot_file (ss_max_payload_bytes st) (dk_files d (ss_path st)) = Inr bytes"
    using assms(4) by (auto simp: parse_snapshot_file_iff)
  ultimately show ?thesis
    using snapshot.roundtrip [OF assms(1,3)] assms(2) by (simp add: load_snapshot_parses)
qed

lemma save_snapshot_cases:
  assumes "save_snapshot os pid st s d = (code, d')"
  obtains (refused) e where "encode_complete encode_snapshot s (unat (ss_max_payload_bytes st)) = Inl e"
      and "code = e" and "d' = d"
    | (raw) bytes where "encode_complete encode_snapshot s (unat (ss_max_payload_bytes st)) = Inr bytes"
      and "save_raw os pid st bytes d = (code, d')"
  using assms by (auto simp: save_snapshot_def split: sum.splits)

lemma encode_error: "encode_complete enc s limit = Inl e \<Longrightarrow> e \<noteq> ST_Ok"
  by (auto simp: encode_complete_def Let_def Writer_ok_def split: if_splits)

text \<open>Every file system seen during a save agrees with the old one or holds the whole new file.\<close>

lemma save_raw_states:
  assumes "save_raw os pid st payload d = (code, d')"
    and "files \<in> set (drop (length (dk_history d)) (dk_history d')) \<union> {dk_files d'}"
  shows "files (ss_path st) = dk_files d (ss_path st) \<or>
      code = ST_Ok \<and> files (ss_path st) = Some (snapshot_file 0 payload)"
    and "p \<noteq> ss_path st \<Longrightarrow> p \<noteq> temporary_name (ss_path st) pid (dk_serial d + 1) \<Longrightarrow> files p = dk_files d p"
proof -
  let ?t = "temporary_name (ss_path st) pid (dk_serial d + 1)"
  from save_raw_frame [OF assms(1)] obtain d4 where d4: "touches_only ?t d d4"
    and last: "code \<noteq> ST_Ok \<and> touches_only ?t d d' \<or>
      code = ST_Ok \<and> dk_files d4 ?t = Some (snapshot_file 0 payload) \<and>
      dk_files d' = (dk_files d4)(ss_path st := dk_files d4 ?t, ?t := None) \<and>
      dk_history d' = dk_history d4 @ [dk_files d']"
    unfolding save_frame_def by blast
  have untouched: "\<forall>p. p \<noteq> ?t \<longrightarrow> files p = dk_files d p"
    if "touches_only ?t d e" "files \<in> set (drop (length (dk_history d)) (dk_history e)) \<union> {dk_files e}" for e files
    using that by (auto simp: touches_only_def)
  have "(\<forall>p. p \<noteq> ?t \<longrightarrow> files p = dk_files d p) \<or> code = ST_Ok \<and> files = dk_files d'"
  proof (cases "code = ST_Ok")
    case True
    with last have "dk_history d' = dk_history d4 @ [dk_files d']" by simp
    moreover have "length (dk_history d) \<le> length (dk_history d4)"
      using d4 by (auto simp: touches_only_def)
    ultimately have "files \<in> set (drop (length (dk_history d)) (dk_history d4)) \<or> files = dk_files d'"
      using assms(2) by auto
    with untouched [OF d4] True show ?thesis by blast
  next
    case False
    with last untouched [of d'] assms(2) show ?thesis by blast
  qed
  then show "files (ss_path st) = dk_files d (ss_path st) \<or>
      code = ST_Ok \<and> files (ss_path st) = Some (snapshot_file 0 payload)"
    and "p \<noteq> ss_path st \<Longrightarrow> p \<noteq> ?t \<Longrightarrow> files p = dk_files d p"
    using last touches_only_content [OF d4] by auto
qed

lemma save_raw_final:
  "save_raw os pid st payload d = (ST_Ok, d') \<Longrightarrow> dk_files d' (ss_path st) = Some (snapshot_file 0 payload)"
  by (drule save_raw_frame) (auto simp: save_frame_def)

lemma size_snapshot:
  assumes "length (p_rules (ps_policy s)) = kTrafficClassCount"
  shows "at_most (encode_snapshot s)
    (848 + length (ps_models s) * 17 + length (ps_states s) * 17 +
     length (ps_terminal_requests s) * 966 + length (ps_interrupted_requests s) * 966)"
  unfolding encode_snapshot_def
  by (rule at_most_mono, (rule size_rules size_policy [OF assms])+, simp)

section \<open>Properties\<close>



text \<open>
  C37. The loader accepts exactly complete files: when reads do not fail, a payload is returned if
  and only if the file is the header of that payload followed by it and nothing else, within the
  size ceiling; truncated, extended and altered files are refused.\<close>

theorem snapshot_file_exact:
  assumes "\<And>k. 0 \<le> os k"
  shows "fst (load_raw os st d) = Inr payload \<longleftrightarrow>
    (\<exists>flags. dk_files d (ss_path st) = Some (snapshot_file flags payload) \<and>
       length payload \<le> unat (ss_max_payload_bytes st))"
  using assms by (rule load_raw_iff)

text \<open>
  The default ceiling is wide enough: with a rule per class and collections within the default
  limits of the coordinator, encoding the snapshot document succeeds.\<close>

theorem snapshot_always_fits:
  assumes "length (p_rules (ps_policy s)) = kTrafficClassCount"
    and "length (ps_models s) \<le> unat (cl_max_model_records CoordinatorLimits_init)"
    and "length (ps_states s) \<le> unat (cl_max_state_records CoordinatorLimits_init)"
    and "length (ps_terminal_requests s) \<le> unat (ll_max_retained_terminal_requests LedgerLimits_init)"
    and "length (ps_interrupted_requests s) \<le> unat (ll_max_live_requests LedgerLimits_init)"
  shows "\<exists>document. encode_complete encode_snapshot s kMaxSnapshotPayloadBytes = Inr document"
proof -
  have "848 + length (ps_models s) * 17 + length (ps_states s) * 17 +
      length (ps_terminal_requests s) * 966 + length (ps_interrupted_requests s) * 966 \<le> kMaxSnapshotPayloadBytes"
    using assms(2-5) by (simp add: CoordinatorLimits_init_def LedgerLimits_init_def kMaxSnapshotPayloadBytes_def)
  from encode_fits [where enc = encode_snapshot, OF size_snapshot [OF assms(1)] this] show ?thesis by blast
qed

subsection \<open>Examples\<close>

text \<open>
  The snapshot of the serving coordinator, an empty disk, and an operating system that takes each
  write in one piece.
\<close>

lemma demo_snapshot_sendable: "sendable_snapshot demo_snapshot"
proof -
  have "length (ps_models demo_snapshot) \<le> 1" "length (ps_states demo_snapshot) \<le> 1"
    "length (ps_terminal_requests demo_snapshot) \<le> 1" "length (ps_interrupted_requests demo_snapshot) \<le> 1"
    by code_simp+
  then have "length (ps_models demo_snapshot) \<le> 65536" "length (ps_states demo_snapshot) \<le> 65536"
    "length (ps_terminal_requests demo_snapshot) \<le> 65536" "length (ps_interrupted_requests demo_snapshot) \<le> 65536"
    by linarith+
  moreover have "ps_epoch demo_snapshot \<noteq> 0 \<and> ps_previous_incarnation demo_snapshot \<noteq> nil_id \<and>
      sendable_policy (ps_policy demo_snapshot) \<and>
      sendable_topology_evidence (ps_topology_present demo_snapshot) (ps_topology demo_snapshot) \<and>
      (\<forall>x \<in> set (ps_models demo_snapshot). sendable_model_state x) \<and>
      (\<forall>x \<in> set (ps_states demo_snapshot). sendable_state_generation_record x) \<and>
      (\<forall>x \<in> set (ps_terminal_requests demo_snapshot). sendable_terminal_record x) \<and>
      (\<forall>x \<in> set (ps_interrupted_requests demo_snapshot). sendable_request_record x) \<and>
      ps_format_version demo_snapshot = kSnapshotFormatVersion"
    by code_simp
  ultimately show ?thesis
    unfolding sendable_snapshot_def by blast
qed

definition demo_os :: Replies where
  "demo_os k = (if k = 1 \<or> k = 2 then 100000 else 0)"

definition demo_disk :: Disk where
  "demo_disk = \<lparr> dk_files = Map.empty, dk_calls = 0, dk_serial = 0, dk_history = [] \<rparr>"

definition demo_store :: SnapshotStore where
  "demo_store = \<lparr> ss_path = ''itf.snapshot'', ss_max_payload_bytes = 65536 \<rparr>"

lemma write_all_once:
  "0 < os (dk_calls d) \<Longrightarrow> length data \<le> nat (os (dk_calls d)) \<Longrightarrow> data \<noteq> [] \<Longrightarrow>
   write_all os t data d = (ST_Ok, snd (os_call os (\<lambda>n. append_file t (take (nat n) data)) d))"
  by (simp add: write_all.simps [of os t data] os_call_def Let_def)

lemma demo_save_raw:
  assumes "payload \<noteq> []" and "length payload \<le> 65536"
  shows "\<exists>d'. save_raw demo_os 1 demo_store payload demo_disk = (ST_Ok, d')"
proof -
  have "snapshot_header 0 payload \<noteq> []"
    using length_snapshot_header(2) [of 0 payload] by fastforce
  then show ?thesis
    using assms
    by (simp add: save_raw_def demo_store_def demo_disk_def Let_def create_truncate_def file_sync_def
        atomic_replace_file_def os_call_def write_all_once demo_os_def)
qed

lemma encoded_snapshot_nonempty:
  assumes "length (p_rules (ps_policy s)) = kTrafficClassCount"
    and "encode_complete encode_snapshot s limit = Inr bytes"
  shows "bytes \<noteq> []"
proof -
  have "\<exists>g n. encode_snapshot s = State_Monad.bind (Writer_u16 (ps_format_version s)) (\<lambda>_. g) \<and> at_most g n"
    unfolding encode_snapshot_def
    by (intro exI conjI, rule refl, (rule size_rules size_policy [OF assms(1)])+)
  then obtain g n where g: "encode_snapshot s = State_Monad.bind (Writer_u16 (ps_format_version s)) (\<lambda>_. g)"
    and "at_most g n"
    by blast
  then obtain bs where "writes g bs"
    by (auto simp: at_most_def)
  moreover have "writes (Writer_u16 v) (store_u16 v)" for v
    unfolding Writer_u16_def by (rule writes_field) simp
  ultimately have "writes (encode_snapshot s) (store_u16 (ps_format_version s) @ bs)"
    unfolding g by (simp add: writes_bind)
  from encode_writes(1) [OF this assms(2)] show ?thesis
    by (simp add: store_u16_def)
qed

lemma small_save:
  assumes "length (p_rules (ps_policy s)) = kTrafficClassCount"
    and "length (ps_models s) \<le> 1" "length (ps_states s) \<le> 1"
    and "length (ps_terminal_requests s) \<le> 1" "length (ps_interrupted_requests s) \<le> 1"
  shows "\<exists>d'. save_snapshot demo_os 1 demo_store s demo_disk = (ST_Ok, d')"
proof -
  obtain bytes where bytes: "encode_complete encode_snapshot s 65536 = Inr bytes" "length bytes \<le> 65536"
    using assms encode_fits [where enc = encode_snapshot, OF size_snapshot, of s 65536] by fastforce
  with encoded_snapshot_nonempty [OF assms(1)] demo_save_raw show ?thesis
    by (simp add: save_snapshot_def demo_store_def)
qed

lemma demo_save: "\<exists>d'. save_snapshot demo_os 1 demo_store demo_snapshot demo_disk = (ST_Ok, d')"
  by (rule small_save) code_simp+


text \<open>A disk that fills up five bytes into the header.\<close>

definition demo_disk_full :: Replies where
  "demo_disk_full k = (if k = 1 then 5 else 0)"

lemma demo_interrupted_save:
  "\<exists>d'. save_snapshot demo_disk_full 1 demo_store demo_snapshot demo_disk = (ST_IoError, d') \<and> dk_history d' \<noteq> []"
proof -
  obtain bytes where bytes: "encode_complete encode_snapshot demo_snapshot 65536 = Inr bytes"
    using demo_save by (auto simp: save_snapshot_def demo_store_def encode_error split: sum.splits)
  have "length bytes \<le> 65536"
    using encoded_snapshot_length [OF demo_snapshot_sendable bytes] .
  moreover have "snapshot_header 0 bytes \<noteq> []" and "drop 5 (snapshot_header 0 bytes) \<noteq> []"
    using length_snapshot_header(2) [of 0 bytes] by fastforce+
  ultimately show ?thesis
    using bytes
    by (simp add: save_snapshot_def save_raw_def demo_store_def demo_disk_def Let_def create_truncate_def
        os_call_def demo_disk_full_def write_all.simps [of _ _ "snapshot_header 0 bytes"]
        write_all.simps [of _ _ "drop 5 (snapshot_header 0 bytes)"] del: drop_eq_Nil2)
qed


theorem snapshot_file_exact_witness:
  "fst (load_raw (\<lambda>_. 3) demo_store (demo_disk\<lparr> dk_files := [''itf.snapshot'' \<mapsto> snapshot_file 0 [1, 2, 3]] \<rparr>)) = Inr [1, 2, 3]"
  using snapshot_file_exact [of "\<lambda>_. 3" demo_store "demo_disk\<lparr> dk_files := [''itf.snapshot'' \<mapsto> snapshot_file 0 [1, 2, 3]] \<rparr>" "[1, 2, 3]"]
  by (auto simp: demo_store_def)

theorem snapshot_always_fits_witness:
  "\<exists>document. encode_complete encode_snapshot demo_snapshot kMaxSnapshotPayloadBytes = Inr document"
proof (rule snapshot_always_fits)
  show "length (p_rules (ps_policy demo_snapshot)) = kTrafficClassCount"
    by code_simp
qed (rule le_trans [of _ 1], code_simp, simp add: CoordinatorLimits_init_def LedgerLimits_init_def)+

section \<open>A snapshot that cannot be loaded\<close>

text \<open>
  A request may be cancelled before its first attempt. Its record is terminal and has no attempt;
  the decoder of request records refuses such a record, so a snapshot that holds one is written
  without complaint and refused on every later load.
\<close>

definition attemptless :: "RequestRecord \<Rightarrow> bool" where
  "attemptless r \<longleftrightarrow>
     r_id r \<noteq> nil_id \<and> r_attempt_count r = 0 \<and> r_lifecycle r \<notin> {RL_Unknown, RL_Registered, RL_Count} \<and>
     r_stage r \<noteq> SS_Count \<and> r_terminal_reason r \<noteq> RC_Count \<and>
     in_i64 (r_registered_at_nanos r) \<and> in_i64 (r_terminal_at_nanos r)"

lemma reads_refused [simp]: "reads (failure c) [] (Inl c)"
  unfolding failure_def by simp

lemma attemptless_record_refused:
  "attemptless r \<Longrightarrow> transmits (encode_request_record r) decode_request_record (Inl ST_MalformedInput)"
  unfolding encode_request_record_def decode_request_record_def
  by (intro transmission) (simp_all add: attemptless_def Let_def)

text \<open>A decoder that stops at an error before the end of what was written.\<close>

definition aborts :: "(Writer, unit) state \<Rightarrow> (Reader, 'a result) state \<Rightarrow> StatusCode \<Rightarrow> bool" where
  "aborts f m e \<longleftrightarrow> (\<exists>bs bs'. writes f (bs @ bs') \<and> reads m bs (Inl e))"

lemma aborts_bind:
  assumes "transmits f m x" and "aborts g (k x) e"
  shows "aborts (State_Monad.bind f (\<lambda>_. g)) (State_Monad.bind m k) e"
proof -
  obtain a b c where "writes f a" "reads m a x" "writes g (b @ c)" "reads (k x) b (Inl e)"
    using assms by (auto simp: aborts_def transmits_def)
  then have "writes (State_Monad.bind f (\<lambda>_. g)) ((a @ b) @ c)" and "reads (State_Monad.bind m k) (a @ b) (Inl e)"
    by (simp_all add: writes_bind reads_bind)
  then show ?thesis
    unfolding aborts_def by blast
qed

lemma aborts_propagate:
  assumes "transmits f m (Inr x)" and "aborts g (k x) e"
  shows "aborts (State_Monad.bind f (\<lambda>_. g)) (propagate m k) e"
  unfolding propagate_def by (rule aborts_bind [OF assms(1)]) (simp add: assms(2))

lemma aborts_or_fail: "aborts f m e \<Longrightarrow> aborts f (or_fail m) e"
  unfolding aborts_def using reads_or_fail by blast

lemma aborts_unless: "\<not> c \<Longrightarrow> aborts f m e \<Longrightarrow> aborts f (if c then n else m) e"
  by simp

lemma reads_propagate_error: "reads m bs (Inl e) \<Longrightarrow> reads (propagate m k) bs (Inl e)"
  unfolding propagate_def
  by (subst append_Nil2 [of bs, symmetric], rule reads_bind, assumption) simp

lemma aborts_here:
  assumes "aborts f m e" and "at_most g n"
  shows "aborts (State_Monad.bind f (\<lambda>_. g)) (propagate m k) e"
proof -
  obtain a b c where "writes f (a @ b)" "reads m a (Inl e)" "writes g c"
    using assms by (auto simp: aborts_def at_most_def)
  then have "writes (State_Monad.bind f (\<lambda>_. g)) (a @ b @ c)" and "reads (propagate m k) a (Inl e)"
    using writes_bind [of f "a @ b" g c] by (simp_all add: reads_propagate_error)
  then show ?thesis
    unfolding aborts_def by blast
qed

lemma transmits_aborts: "transmits f m (Inl e) \<Longrightarrow> aborts f m e"
  unfolding transmits_def aborts_def by (metis append_Nil2)

lemma aborts_complete:
  assumes "aborts (enc x) dec e" and "encode_complete enc x limit = Inr bytes"
  shows "decode_complete dec bytes limit = Inl e"
proof -
  obtain a b where "writes (enc x) (a @ b)" and r: "reads dec a (Inl e)"
    using assms(1) by (auto simp: aborts_def)
  then have "bytes = a @ b" and "length (a @ b) \<le> limit"
    using encode_writes [OF _ assms(2)] by blast+
  then show ?thesis
    using r [unfolded reads_def, rule_format, of "Reader_new bytes limit"]
    by (simp add: decode_complete_def Reader_new_def)
qed

lemma aborts_each:
  assumes "aborts (enc x) dec e" and "\<And>y. at_most (enc y) n"
  shows "aborts (encode_each enc (x # xs)) (decode_loop (Suc k) dec) e"
  unfolding encode_each.simps decode_loop.simps
  using assms(1) at_most_each [of enc n xs, OF assms(2)] by (rule aborts_here)

lemma attemptless_snapshot_aborts:
  assumes ok: "sendable_snapshot (s\<lparr> ps_terminal_requests := [] \<rparr>)"
    and records: "ps_terminal_requests s = r # rest" "attemptless r" "length rest < 65536"
  shows "aborts (encode_snapshot s) decode_snapshot ST_MalformedInput"
proof -
  have header: "ps_epoch s \<noteq> 0" "ps_previous_incarnation s \<noteq> nil_id" "sendable_policy (ps_policy s)"
    "sendable_topology_evidence (ps_topology_present s) (ps_topology s)"
    "ps_format_version s = kSnapshotFormatVersion"
    and models: "length (ps_models s) \<le> 65536" "\<And>x. x \<in> set (ps_models s) \<Longrightarrow> sendable_model_state x"
    and states: "length (ps_states s) \<le> 65536" "\<And>x. x \<in> set (ps_states s) \<Longrightarrow> sendable_state_generation_record x"
    using ok by (simp_all add: sendable_snapshot_def)
  have "transmits (encode_request_record r) decode_terminal_record (Inl ST_MalformedInput)"
    using attemptless_record_refused [OF records(2)] reads_propagate_error
    unfolding decode_terminal_record_def transmits_def by blast
  then have "aborts (encode_each encode_request_record (ps_terminal_requests s))
      (decode_loop (Suc (length rest)) decode_terminal_record) ST_MalformedInput"
    unfolding records(1) by (intro aborts_each transmits_aborts) (assumption, rule size_request_record)
  moreover have count: "unat (of_nat (length (ps_terminal_requests s)) :: u32) = Suc (length rest)"
    using records unat_of_nat_u32 [of "Suc (length rest)"] by simp
  ultimately have terminal: "aborts (encode_each encode_request_record (ps_terminal_requests s))
      (decode_loop (unat (of_nat (length (ps_terminal_requests s)) :: u32)) decode_terminal_record) ST_MalformedInput"
    by simp
  have tail: "at_most (State_Monad.bind (Writer_u32 (of_nat (length (ps_interrupted_requests s))))
      (\<lambda>_. encode_each encode_request_record (ps_interrupted_requests s)))
      (4 + length (ps_interrupted_requests s) * 966)"
    by (rule size_rules)+
  show ?thesis
    unfolding encode_snapshot_def decode_snapshot_def
    by (intro aborts_or_fail aborts_unless aborts_here [OF terminal tail]
        aborts_propagate [OF transmits_each [where dec = decode_model_state]]
        aborts_propagate [OF transmits_each [where dec = decode_state_generation_record]]
        aborts_propagate [OF transmits_policy] aborts_propagate [OF transmits_topology_evidence]
        transmits_field [THEN aborts_bind])
      (use header models states records(3) in \<open>simp_all add: count unat_of_nat_u32 transmits_model_state
        transmits_state_generation_record\<close>)
qed

text \<open>
  C38. A snapshot with a terminal record without attempts is saved and cannot be loaded: after a
  successful save every load whose reads do not fail is refused as malformed.\<close>

theorem attemptless_snapshot_unloadable:
  assumes "sendable_snapshot (s\<lparr> ps_terminal_requests := [] \<rparr>)"
    and "ps_terminal_requests s = r # rest" and "attemptless r" and "length rest < 65536"
    and "save_snapshot os pid st s d = (ST_Ok, d')" and "\<And>k. 0 \<le> os' k"
  shows "fst (load_snapshot os' st d') = Inl ST_MalformedInput"
  using assms(5)
proof (cases rule: save_snapshot_cases)
  case (refused e)
  from encode_error [OF refused(1)] refused(2) show ?thesis by simp
next
  case (raw bytes)
  have "\<not> length bytes > unat (ss_max_payload_bytes st)"
    using raw(2) by (auto simp: save_raw_def)
  then have "parse_snapshot_file (ss_max_payload_bytes st) (dk_files d' (ss_path st)) = Inr bytes"
    using save_raw_final [OF raw(2)] by (auto simp: parse_snapshot_file_iff)
  moreover have "decode_complete decode_snapshot bytes (unat (ss_max_payload_bytes st)) = Inl ST_MalformedInput"
    using attemptless_snapshot_aborts [OF assms(1-4)] raw(1) by (rule aborts_complete)
  ultimately show ?thesis
    by (simp add: load_snapshot_parses [OF assms(6)])
qed

text \<open>A coordinator that registers a request, cancels it, and takes a snapshot.\<close>

definition demo_cancelled :: Coordinator where
  "demo_cancelled =
     snd (cancel_request demo_request RC_RejectedRequestCancelled 11
       (snd (register_request demo_request 10 demo_boot)))"

definition demo_cancelled_snapshot :: PersistedCoordinatorState where
  "demo_cancelled_snapshot = export_state demo_cancelled"

lemma demo_cancelled_sendable: "sendable_snapshot (demo_cancelled_snapshot\<lparr> ps_terminal_requests := [] \<rparr>)"
proof -
  have "ps_models demo_cancelled_snapshot = []" "ps_states demo_cancelled_snapshot = []"
    "ps_interrupted_requests demo_cancelled_snapshot = []"
    "ps_epoch demo_cancelled_snapshot \<noteq> 0" "ps_previous_incarnation demo_cancelled_snapshot \<noteq> nil_id"
    "sendable_policy (ps_policy demo_cancelled_snapshot)"
    "sendable_topology_evidence (ps_topology_present demo_cancelled_snapshot) (ps_topology demo_cancelled_snapshot)"
    "ps_format_version demo_cancelled_snapshot = kSnapshotFormatVersion"
    by code_simp+
  then show ?thesis
    by (simp add: sendable_snapshot_def)
qed

theorem attemptless_snapshot_unloadable_witness:
  "\<exists>d'. save_snapshot demo_os 1 demo_store demo_cancelled_snapshot demo_disk = (ST_Ok, d') \<and>
     fst (load_snapshot (\<lambda>_. 3) demo_store d') = Inl ST_MalformedInput"
proof -
  have "\<exists>d'. save_snapshot demo_os 1 demo_store demo_cancelled_snapshot demo_disk = (ST_Ok, d')"
    by (rule small_save) code_simp+
  then obtain d' where d': "save_snapshot demo_os 1 demo_store demo_cancelled_snapshot demo_disk = (ST_Ok, d')" ..
  have "map attemptless (ps_terminal_requests demo_cancelled_snapshot) = [True]"
    by code_simp
  then obtain r where r: "ps_terminal_requests demo_cancelled_snapshot = [r]" "attemptless r"
    by auto
  from attemptless_snapshot_unloadable [OF demo_cancelled_sendable r _ d', of "\<lambda>_. 3"] d' show ?thesis
    by simp
qed

end
