(* ===== verification/Messages.thy ===== *)
theory Messages
  imports Persistence
begin

text \<open>
  The bodies of the protocol messages (\<open>include/itf/messages.hpp\<close>, \<open>src/messages.cpp\<close>): one record,
  one encoder and one decoder per message, in the order of the source. Strings are lists of bytes.
  Each pair is an instance of \<open>codec\<close>, so every message has the round trip, refuses every proper
  prefix and every extension of an encoding, and reads only inside its input.
\<close>

section \<open>Shared fields\<close>

definition kApiVersion :: u32 where
  "kApiVersion = 1"

definition kMaxChunkBytes :: nat where
  "kMaxChunkBytes = 256 * 1024"

text \<open>
  In this file the optional readers accept the absent value where the required ones of
  \<open>Codec\<close> refuse it.
\<close>

definition wire_read_optional_generation :: "(Reader, generation) state" where
  "wire_read_optional_generation = Reader_u64"

definition wire_read_optional_id :: "(Reader, id128) state" where
  "wire_read_optional_id = do {
     high \<leftarrow> Reader_u64;
     low \<leftarrow> Reader_u64;
     ok \<leftarrow> Reader_ok;
     if \<not> ok then State_Monad.return nil_id else State_Monad.return (Id128 high low) }"

definition TransferState_values :: "TransferState list" where
  "TransferState_values =
     [TS_Unknown, TS_Registered, TS_Authorized, TS_InProgress, TS_Completed, TS_Refused,
      TS_Abandoned, TS_Count]"

interpretation ts: enumeration TransferState_values TS_Count
  by unfold_locales (simp_all add: TransferState_values_def, case_tac v, simp_all)

lemma wire_readers: "wire_read_optional_generation = read_generation" "wire_read_optional_id = read_id"
  by (simp_all add: wire_read_optional_generation_def read_generation_def wire_read_optional_id_def read_id_def)

lemma transmits_wire_fields:
  "transmits (write_generation g) wire_read_optional_generation g"
  "transmits (write_id i) wire_read_optional_id i"
  by (simp_all add: wire_readers transmits_write_generation transmits_write_id)

lemma transmits_required_id: "v \<noteq> nil_id \<Longrightarrow> transmits (write_id v) Reader_id v"
  using transmits_id by (simp add: write_id_def Writer_id_def)

lemma transmits_required_generation: "v \<noteq> 0 \<Longrightarrow> transmits (write_generation v) Reader_generation v"
  using transmits_generation by (simp add: write_generation_def Writer_generation_def)

lemma sane_wire_fields [sane_rules]: "sane wire_read_optional_generation" "sane wire_read_optional_id"
  by (simp_all add: wire_readers sane_read_generation sane_read_id)

lemmas message_fields =
  transmits_wire_fields transmits_required_id transmits_required_generation ts.transmits_enumeration

lemmas message_fields_transmit [transmission] =
  message_fields [THEN transmits_bind] message_fields [THEN transmits_last]

lemmas message_records =
  transmits_decision transmits_transfer_registration transmits_transfer_authorization
  transmits_completion_publication transmits_publish_outcome transmits_accounting_snapshot
  transmits_coordinator_status transmits_slo_contract transmits_route_decision

lemmas message_records_transmit [transmission] =
  message_records [THEN transmits_propagate] message_records [THEN transmits_propagate_last]

lemmas message_records_report [guarded_rules] =
  guarded_decision [THEN reports_guarded] guarded_transfer_registration [THEN reports_guarded]
  guarded_transfer_authorization [THEN reports_guarded] guarded_completion_publication [THEN reports_guarded]
  guarded_publish_outcome [THEN reports_guarded] guarded_accounting_snapshot [THEN reports_guarded]
  guarded_coordinator_status [THEN reports_guarded] guarded_slo_contract [THEN reports_guarded]
  guarded_route_decision [THEN reports_guarded]

section \<open>Session establishment\<close>

record HelloRequest =
  hq_protocol_version :: u16
  hq_client_api_version :: u32
  hq_peer_name :: "u8 list"
  hq_auth_token :: "u8 list"
  hq_client_version :: "u8 list"
  hq_client_boot :: id128
  hq_max_frame_payload :: u32

definition encode_hello_request :: "HelloRequest \<Rightarrow> (Writer, unit) state" where
  "encode_hello_request value = do {
     Writer_u16 (hq_protocol_version value);
     Writer_u32 (hq_client_api_version value);
     Writer_string_field (hq_peer_name value);
     Writer_string_field (hq_auth_token value);
     Writer_string_field (hq_client_version value);
     write_id (hq_client_boot value);
     Writer_u32 (hq_max_frame_payload value) }"

definition decode_hello_request :: "(Reader, HelloRequest result) state" where
  "decode_hello_request = do {
     protocol_version \<leftarrow> Reader_u16;
     client_api_version \<leftarrow> Reader_u32;
     peer_name \<leftarrow> Reader_string_field;
     auth_token \<leftarrow> Reader_string_field;
     client_version \<leftarrow> Reader_string_field;
     client_boot \<leftarrow> Reader_id;
     max_frame_payload \<leftarrow> Reader_u32;
     or_fail (let value =
         \<lparr> hq_protocol_version = protocol_version, hq_client_api_version = client_api_version,
           hq_peer_name = peer_name, hq_auth_token = auth_token,
           hq_client_version = client_version, hq_client_boot = client_boot,
           hq_max_frame_payload = max_frame_payload \<rparr>
     in if hq_protocol_version value \<noteq> kWireProtocolVersion then failure ST_UnsupportedVersion
           else if hq_client_api_version value \<noteq> kApiVersion then failure ST_UnsupportedVersion
           else if \<not> is_safe_label (hq_peer_name value) then failure ST_MalformedInput
           else if length (hq_client_version value) > 128 \<or> \<not> is_valid_utf8 (hq_client_version value)
           then failure ST_MalformedInput
           else if length (hq_auth_token value) > 256 then failure ST_BoundsExceeded
           else if hq_max_frame_payload value > kAbsoluteMaxPayloadBytes then failure ST_BoundsExceeded
           else success value) }"

definition sendable_hello_request :: "HelloRequest \<Rightarrow> bool" where
  "sendable_hello_request value \<longleftrightarrow>
     length (hq_peer_name value) \<le> kMaxFieldStringBytes \<and> is_valid_utf8 (hq_peer_name value) \<and>
     length (hq_auth_token value) \<le> kMaxFieldStringBytes \<and> is_valid_utf8 (hq_auth_token value) \<and>
     length (hq_client_version value) \<le> kMaxFieldStringBytes \<and> is_valid_utf8 (hq_client_version value) \<and>
     hq_client_boot value \<noteq> nil_id \<and>
     hq_protocol_version value = kWireProtocolVersion \<and>
     hq_client_api_version value = kApiVersion \<and>
     is_safe_label (hq_peer_name value) \<and>
     length (hq_client_version value) \<le> 128 \<and>
     length (hq_auth_token value) \<le> 256 \<and>
     hq_max_frame_payload value \<le> kAbsoluteMaxPayloadBytes"

lemma transmits_hello_request:
  "sendable_hello_request v \<Longrightarrow> transmits (encode_hello_request v) decode_hello_request (Inr v)"
  unfolding encode_hello_request_def decode_hello_request_def
  by (intro transmission) (auto simp: sendable_hello_request_def)

lemma sane_hello_request [sane_rules]: "sane decode_hello_request"
  unfolding decode_hello_request_def Let_def by (intro sane_rules)

lemma guarded_hello_request [guarded_rules]: "guarded decode_hello_request"
  unfolding decode_hello_request_def Let_def by (intro guarded_rules)

interpretation hello_request: codec encode_hello_request decode_hello_request sendable_hello_request
  by unfold_locales (simp_all add: transmits_hello_request sane_hello_request guarded_hello_request)

record HelloResponse =
  hs_protocol_version :: u16
  hs_server_api_version :: u32
  hs_session :: id128
  hs_peer :: id128
  hs_coordinator_boot :: id128
  hs_epoch :: generation
  hs_policy_generation :: generation
  hs_topology_generation :: generation
  hs_topology_state :: EvidenceState
  hs_max_frame_payload :: u32
  hs_authority_sequence :: u64
  hs_server_version :: "u8 list"

definition encode_hello_response :: "HelloResponse \<Rightarrow> (Writer, unit) state" where
  "encode_hello_response value = do {
     Writer_u16 (hs_protocol_version value);
     Writer_u32 (hs_server_api_version value);
     write_id (hs_session value);
     write_id (hs_peer value);
     write_id (hs_coordinator_boot value);
     write_generation (hs_epoch value);
     write_generation (hs_policy_generation value);
     write_generation (hs_topology_generation value);
     Writer_enumeration EvidenceState_values (hs_topology_state value);
     Writer_u32 (hs_max_frame_payload value);
     Writer_u64 (hs_authority_sequence value);
     Writer_string_field (hs_server_version value) }"

definition decode_hello_response :: "(Reader, HelloResponse result) state" where
  "decode_hello_response = do {
     protocol_version \<leftarrow> Reader_u16;
     server_api_version \<leftarrow> Reader_u32;
     session \<leftarrow> Reader_id;
     peer \<leftarrow> Reader_id;
     coordinator_boot \<leftarrow> wire_read_optional_id;
     epoch \<leftarrow> wire_read_optional_generation;
     policy_generation \<leftarrow> wire_read_optional_generation;
     topology_generation \<leftarrow> wire_read_optional_generation;
     topology_state \<leftarrow> Reader_enumeration EvidenceState_values EV_Count;
     max_frame_payload \<leftarrow> Reader_u32;
     authority_sequence \<leftarrow> Reader_u64;
     server_version \<leftarrow> Reader_string_field;
     or_fail (let value =
         \<lparr> hs_protocol_version = protocol_version, hs_server_api_version = server_api_version,
           hs_session = session, hs_peer = peer, hs_coordinator_boot = coordinator_boot,
           hs_epoch = epoch, hs_policy_generation = policy_generation,
           hs_topology_generation = topology_generation, hs_topology_state = topology_state,
           hs_max_frame_payload = max_frame_payload,
           hs_authority_sequence = authority_sequence,
           hs_server_version = server_version \<rparr>
     in if hs_protocol_version value \<noteq> kWireProtocolVersion then failure ST_UnsupportedVersion
           else if hs_server_api_version value \<noteq> kApiVersion then failure ST_UnsupportedVersion
           else if hs_max_frame_payload value = 0 \<or> hs_max_frame_payload value > kAbsoluteMaxPayloadBytes
           then failure ST_BoundsExceeded
           else success value) }"

definition sendable_hello_response :: "HelloResponse \<Rightarrow> bool" where
  "sendable_hello_response value \<longleftrightarrow>
     hs_session value \<noteq> nil_id \<and>
     hs_peer value \<noteq> nil_id \<and>
     hs_topology_state value \<noteq> EV_Count \<and>
     length (hs_server_version value) \<le> kMaxFieldStringBytes \<and> is_valid_utf8 (hs_server_version value) \<and>
     hs_protocol_version value = kWireProtocolVersion \<and>
     hs_server_api_version value = kApiVersion \<and>
     hs_max_frame_payload value \<noteq> 0 \<and>
     hs_max_frame_payload value \<le> kAbsoluteMaxPayloadBytes"

lemma transmits_hello_response:
  "sendable_hello_response v \<Longrightarrow> transmits (encode_hello_response v) decode_hello_response (Inr v)"
  unfolding encode_hello_response_def decode_hello_response_def
  by (intro transmission) (auto simp: sendable_hello_response_def)

lemma sane_hello_response [sane_rules]: "sane decode_hello_response"
  unfolding decode_hello_response_def Let_def by (intro sane_rules)

lemma guarded_hello_response [guarded_rules]: "guarded decode_hello_response"
  unfolding decode_hello_response_def Let_def by (intro guarded_rules)

interpretation hello_response: codec encode_hello_response decode_hello_response sendable_hello_response
  by unfold_locales (simp_all add: transmits_hello_response sane_hello_response guarded_hello_response)

record ErrorResponse =
  ee_code :: StatusCode
  ee_offending_type :: MessageType
  ee_detail :: "u8 list"

definition encode_error_response :: "ErrorResponse \<Rightarrow> (Writer, unit) state" where
  "encode_error_response value = do {
     Writer_u16 (status_value (ee_code value));
     Writer_u16 (ee_offending_type value);
     Writer_string_field (ee_detail value) }"

definition decode_error_response :: "(Reader, ErrorResponse result) state" where
  "decode_error_response = do {
     code \<leftarrow> Reader_u16;
     offending \<leftarrow> Reader_u16;
     detail \<leftarrow> Reader_string_field;
     or_fail (let value =
         \<lparr> ee_code = status_of_value code, ee_offending_type = offending,
           ee_detail = detail \<rparr>
     in if code > status_value ST_Refused then failure ST_MalformedInput
           else if offending \<ge> MT_Count then failure ST_MalformedInput
           else success value) }"

definition sendable_error_response :: "ErrorResponse \<Rightarrow> bool" where
  "sendable_error_response value \<longleftrightarrow>
     length (ee_detail value) \<le> kMaxFieldStringBytes \<and> is_valid_utf8 (ee_detail value) \<and>
     ee_offending_type value < MT_Count"

lemma transmits_error_response:
  "sendable_error_response v \<Longrightarrow> transmits (encode_error_response v) decode_error_response (Inr v)"
  unfolding encode_error_response_def decode_error_response_def
  by (intro transmission) (auto simp: sendable_error_response_def status_value_le [THEN leD] dest: leD)

lemma sane_error_response [sane_rules]: "sane decode_error_response"
  unfolding decode_error_response_def Let_def by (intro sane_rules)

lemma guarded_error_response [guarded_rules]: "guarded decode_error_response"
  unfolding decode_error_response_def Let_def by (intro guarded_rules)

interpretation error_response: codec encode_error_response decode_error_response sendable_error_response
  by unfold_locales (simp_all add: transmits_error_response sane_error_response guarded_error_response)

record SimpleAck =
  ak_code :: StatusCode
  ak_detail :: "u8 list"

definition encode_simple_ack :: "SimpleAck \<Rightarrow> (Writer, unit) state" where
  "encode_simple_ack value = do {
     Writer_u16 (status_value (ak_code value));
     Writer_string_field (ak_detail value) }"

definition decode_simple_ack :: "(Reader, SimpleAck result) state" where
  "decode_simple_ack = do {
     code \<leftarrow> Reader_u16;
     detail \<leftarrow> Reader_string_field;
     or_fail (let value =
         \<lparr> ak_code = status_of_value code, ak_detail = detail \<rparr>
     in if code > status_value ST_Refused then failure ST_MalformedInput else success value) }"

definition sendable_simple_ack :: "SimpleAck \<Rightarrow> bool" where
  "sendable_simple_ack value \<longleftrightarrow>
     length (ak_detail value) \<le> kMaxFieldStringBytes \<and> is_valid_utf8 (ak_detail value)"

lemma transmits_simple_ack:
  "sendable_simple_ack v \<Longrightarrow> transmits (encode_simple_ack v) decode_simple_ack (Inr v)"
  unfolding encode_simple_ack_def decode_simple_ack_def
  by (intro transmission) (simp_all add: sendable_simple_ack_def status_value_le [THEN leD])

lemma sane_simple_ack [sane_rules]: "sane decode_simple_ack"
  unfolding decode_simple_ack_def Let_def by (intro sane_rules)

lemma guarded_simple_ack [guarded_rules]: "guarded decode_simple_ack"
  unfolding decode_simple_ack_def Let_def by (intro guarded_rules)

interpretation simple_ack: codec encode_simple_ack decode_simple_ack sendable_simple_ack
  by unfold_locales (simp_all add: transmits_simple_ack sane_simple_ack guarded_simple_ack)

section \<open>Requests and attempts\<close>

record RegisterRequestMessage =
  rrm_request :: id128
  rrm_deadline_after_nanos :: u64

definition encode_register_request_message :: "RegisterRequestMessage \<Rightarrow> (Writer, unit) state" where
  "encode_register_request_message value = do {
     write_id (rrm_request value);
     Writer_u64 (rrm_deadline_after_nanos value) }"

definition decode_register_request_message :: "(Reader, RegisterRequestMessage result) state" where
  "decode_register_request_message = do {
     request \<leftarrow> Reader_id;
     deadline_after_nanos \<leftarrow> Reader_u64;
     or_fail (success
         \<lparr> rrm_request = request, rrm_deadline_after_nanos = deadline_after_nanos \<rparr>) }"

definition sendable_register_request_message :: "RegisterRequestMessage \<Rightarrow> bool" where
  "sendable_register_request_message value \<longleftrightarrow>
     rrm_request value \<noteq> nil_id"

lemma transmits_register_request_message:
  "sendable_register_request_message v \<Longrightarrow> transmits (encode_register_request_message v) decode_register_request_message (Inr v)"
  unfolding encode_register_request_message_def decode_register_request_message_def
  by (intro transmission) (simp_all add: sendable_register_request_message_def)

lemma sane_register_request_message [sane_rules]: "sane decode_register_request_message"
  unfolding decode_register_request_message_def Let_def by (intro sane_rules)

lemma guarded_register_request_message [guarded_rules]: "guarded decode_register_request_message"
  unfolding decode_register_request_message_def Let_def by (intro guarded_rules)

lemma size_register_request_message [size_rules]: "at_most (encode_register_request_message v) 24"
  unfolding encode_register_request_message_def by (rule at_most_mono, (rule size_rules)+, simp)

interpretation register_request_message: codec encode_register_request_message decode_register_request_message sendable_register_request_message
  by unfold_locales (simp_all add: transmits_register_request_message sane_register_request_message guarded_register_request_message)

record RegisterRequestResponse =
  rrr_request :: id128
  rrr_generation :: generation
  rrr_authority :: AuthorityStamp

definition encode_register_request_response :: "RegisterRequestResponse \<Rightarrow> (Writer, unit) state" where
  "encode_register_request_response value = do {
     write_id (rrr_request value);
     write_generation (rrr_generation value);
     encode_authority_stamp (rrr_authority value) }"

definition decode_register_request_response :: "(Reader, RegisterRequestResponse result) state" where
  "decode_register_request_response = do {
     request \<leftarrow> Reader_id;
     generation \<leftarrow> Reader_generation;
     propagate decode_authority_stamp (\<lambda>authority. do {
       or_fail (success
           \<lparr> rrr_request = request, rrr_generation = generation,
             rrr_authority = authority \<rparr>) }) }"

definition sendable_register_request_response :: "RegisterRequestResponse \<Rightarrow> bool" where
  "sendable_register_request_response value \<longleftrightarrow>
     rrr_request value \<noteq> nil_id \<and>
     rrr_generation value \<noteq> 0 \<and>
     sendable_authority_stamp (rrr_authority value)"

lemma transmits_register_request_response:
  "sendable_register_request_response v \<Longrightarrow> transmits (encode_register_request_response v) decode_register_request_response (Inr v)"
  unfolding encode_register_request_response_def decode_register_request_response_def
  by (intro transmission) (simp_all add: sendable_register_request_response_def)

lemma sane_register_request_response [sane_rules]: "sane decode_register_request_response"
  unfolding decode_register_request_response_def Let_def by (intro sane_rules)

lemma guarded_register_request_response [guarded_rules]: "guarded decode_register_request_response"
  unfolding decode_register_request_response_def Let_def by (intro guarded_rules)

lemma size_register_request_response [size_rules]: "at_most (encode_register_request_response v) 64"
  unfolding encode_register_request_response_def by (rule at_most_mono, (rule size_rules)+, simp)

interpretation register_request_response: codec encode_register_request_response decode_register_request_response sendable_register_request_response
  by unfold_locales (simp_all add: transmits_register_request_response sane_register_request_response guarded_register_request_response)

record RegisterAttemptMessage =
  ram_request :: id128
  ram_attempt :: id128
  ram_model_hash :: u64

definition encode_register_attempt_message :: "RegisterAttemptMessage \<Rightarrow> (Writer, unit) state" where
  "encode_register_attempt_message value = do {
     write_id (ram_request value);
     write_id (ram_attempt value);
     Writer_u64 (ram_model_hash value) }"

definition decode_register_attempt_message :: "(Reader, RegisterAttemptMessage result) state" where
  "decode_register_attempt_message = do {
     request \<leftarrow> Reader_id;
     attempt \<leftarrow> Reader_id;
     model_hash \<leftarrow> Reader_u64;
     or_fail (success
         \<lparr> ram_request = request, ram_attempt = attempt, ram_model_hash = model_hash \<rparr>) }"

definition sendable_register_attempt_message :: "RegisterAttemptMessage \<Rightarrow> bool" where
  "sendable_register_attempt_message value \<longleftrightarrow>
     ram_request value \<noteq> nil_id \<and>
     ram_attempt value \<noteq> nil_id"

lemma transmits_register_attempt_message:
  "sendable_register_attempt_message v \<Longrightarrow> transmits (encode_register_attempt_message v) decode_register_attempt_message (Inr v)"
  unfolding encode_register_attempt_message_def decode_register_attempt_message_def
  by (intro transmission) (simp_all add: sendable_register_attempt_message_def)

lemma sane_register_attempt_message [sane_rules]: "sane decode_register_attempt_message"
  unfolding decode_register_attempt_message_def Let_def by (intro sane_rules)

lemma guarded_register_attempt_message [guarded_rules]: "guarded decode_register_attempt_message"
  unfolding decode_register_attempt_message_def Let_def by (intro guarded_rules)

lemma size_register_attempt_message [size_rules]: "at_most (encode_register_attempt_message v) 40"
  unfolding encode_register_attempt_message_def by (rule at_most_mono, (rule size_rules)+, simp)

interpretation register_attempt_message: codec encode_register_attempt_message decode_register_attempt_message sendable_register_attempt_message
  by unfold_locales (simp_all add: transmits_register_attempt_message sane_register_attempt_message guarded_register_attempt_message)

record RegisterAttemptResponse =
  rar_request :: id128
  rar_attempt :: id128
  rar_generation :: generation
  rar_model_generation :: generation
  rar_route_generation :: generation
  rar_slo_generation :: generation
  rar_authority :: AuthorityStamp

definition encode_register_attempt_response :: "RegisterAttemptResponse \<Rightarrow> (Writer, unit) state" where
  "encode_register_attempt_response value = do {
     write_id (rar_request value);
     write_id (rar_attempt value);
     write_generation (rar_generation value);
     write_generation (rar_model_generation value);
     write_generation (rar_route_generation value);
     write_generation (rar_slo_generation value);
     encode_authority_stamp (rar_authority value) }"

definition decode_register_attempt_response :: "(Reader, RegisterAttemptResponse result) state" where
  "decode_register_attempt_response = do {
     request \<leftarrow> Reader_id;
     attempt \<leftarrow> Reader_id;
     generation \<leftarrow> Reader_generation;
     model_generation \<leftarrow> wire_read_optional_generation;
     route_generation \<leftarrow> wire_read_optional_generation;
     slo_generation \<leftarrow> wire_read_optional_generation;
     propagate decode_authority_stamp (\<lambda>authority. do {
       or_fail (success
           \<lparr> rar_request = request, rar_attempt = attempt, rar_generation = generation,
             rar_model_generation = model_generation, rar_route_generation = route_generation,
             rar_slo_generation = slo_generation, rar_authority = authority \<rparr>) }) }"

definition sendable_register_attempt_response :: "RegisterAttemptResponse \<Rightarrow> bool" where
  "sendable_register_attempt_response value \<longleftrightarrow>
     rar_request value \<noteq> nil_id \<and>
     rar_attempt value \<noteq> nil_id \<and>
     rar_generation value \<noteq> 0 \<and>
     sendable_authority_stamp (rar_authority value)"

lemma transmits_register_attempt_response:
  "sendable_register_attempt_response v \<Longrightarrow> transmits (encode_register_attempt_response v) decode_register_attempt_response (Inr v)"
  unfolding encode_register_attempt_response_def decode_register_attempt_response_def
  by (intro transmission) (simp_all add: sendable_register_attempt_response_def)

lemma sane_register_attempt_response [sane_rules]: "sane decode_register_attempt_response"
  unfolding decode_register_attempt_response_def Let_def by (intro sane_rules)

lemma guarded_register_attempt_response [guarded_rules]: "guarded decode_register_attempt_response"
  unfolding decode_register_attempt_response_def Let_def by (intro guarded_rules)

lemma size_register_attempt_response [size_rules]: "at_most (encode_register_attempt_response v) 104"
  unfolding encode_register_attempt_response_def by (rule at_most_mono, (rule size_rules)+, simp)

interpretation register_attempt_response: codec encode_register_attempt_response decode_register_attempt_response sendable_register_attempt_response
  by unfold_locales (simp_all add: transmits_register_attempt_response sane_register_attempt_response guarded_register_attempt_response)

record StageUpdateMessage =
  sum_request :: id128
  sum_attempt :: id128
  sum_stage :: ServingStage

definition encode_stage_update_message :: "StageUpdateMessage \<Rightarrow> (Writer, unit) state" where
  "encode_stage_update_message value = do {
     write_id (sum_request value);
     write_id (sum_attempt value);
     Writer_enumeration ServingStage_values (sum_stage value) }"

definition decode_stage_update_message :: "(Reader, StageUpdateMessage result) state" where
  "decode_stage_update_message = do {
     request \<leftarrow> Reader_id;
     attempt \<leftarrow> Reader_id;
     stage \<leftarrow> Reader_enumeration ServingStage_values SS_Count;
     or_fail (success
         \<lparr> sum_request = request, sum_attempt = attempt, sum_stage = stage \<rparr>) }"

definition sendable_stage_update_message :: "StageUpdateMessage \<Rightarrow> bool" where
  "sendable_stage_update_message value \<longleftrightarrow>
     sum_request value \<noteq> nil_id \<and>
     sum_attempt value \<noteq> nil_id \<and>
     sum_stage value \<noteq> SS_Count"

lemma transmits_stage_update_message:
  "sendable_stage_update_message v \<Longrightarrow> transmits (encode_stage_update_message v) decode_stage_update_message (Inr v)"
  unfolding encode_stage_update_message_def decode_stage_update_message_def
  by (intro transmission) (simp_all add: sendable_stage_update_message_def)

lemma sane_stage_update_message [sane_rules]: "sane decode_stage_update_message"
  unfolding decode_stage_update_message_def Let_def by (intro sane_rules)

lemma guarded_stage_update_message [guarded_rules]: "guarded decode_stage_update_message"
  unfolding decode_stage_update_message_def Let_def by (intro guarded_rules)

lemma size_stage_update_message [size_rules]: "at_most (encode_stage_update_message v) 34"
  unfolding encode_stage_update_message_def by (rule at_most_mono, (rule size_rules)+, simp)

interpretation stage_update_message: codec encode_stage_update_message decode_stage_update_message sendable_stage_update_message
  by unfold_locales (simp_all add: transmits_stage_update_message sane_stage_update_message guarded_stage_update_message)

record CancelRequestMessage =
  crm_request :: id128
  crm_reason :: ReasonCode

definition encode_cancel_request_message :: "CancelRequestMessage \<Rightarrow> (Writer, unit) state" where
  "encode_cancel_request_message value = do {
     write_id (crm_request value);
     Writer_enumeration ReasonCode_values (crm_reason value) }"

definition decode_cancel_request_message :: "(Reader, CancelRequestMessage result) state" where
  "decode_cancel_request_message = do {
     request \<leftarrow> Reader_id;
     reason \<leftarrow> Reader_enumeration ReasonCode_values RC_Count;
     or_fail (success
         \<lparr> crm_request = request, crm_reason = reason \<rparr>) }"

definition sendable_cancel_request_message :: "CancelRequestMessage \<Rightarrow> bool" where
  "sendable_cancel_request_message value \<longleftrightarrow>
     crm_request value \<noteq> nil_id \<and>
     crm_reason value \<noteq> RC_Count"

lemma transmits_cancel_request_message:
  "sendable_cancel_request_message v \<Longrightarrow> transmits (encode_cancel_request_message v) decode_cancel_request_message (Inr v)"
  unfolding encode_cancel_request_message_def decode_cancel_request_message_def
  by (intro transmission) (simp_all add: sendable_cancel_request_message_def)

lemma sane_cancel_request_message [sane_rules]: "sane decode_cancel_request_message"
  unfolding decode_cancel_request_message_def Let_def by (intro sane_rules)

lemma guarded_cancel_request_message [guarded_rules]: "guarded decode_cancel_request_message"
  unfolding decode_cancel_request_message_def Let_def by (intro guarded_rules)

lemma size_cancel_request_message [size_rules]: "at_most (encode_cancel_request_message v) 18"
  unfolding encode_cancel_request_message_def by (rule at_most_mono, (rule size_rules)+, simp)

interpretation cancel_request_message: codec encode_cancel_request_message decode_cancel_request_message sendable_cancel_request_message
  by unfold_locales (simp_all add: transmits_cancel_request_message sane_cancel_request_message guarded_cancel_request_message)

record FailAttemptMessage =
  fam_request :: id128
  fam_attempt :: id128
  fam_reason :: ReasonCode

definition encode_fail_attempt_message :: "FailAttemptMessage \<Rightarrow> (Writer, unit) state" where
  "encode_fail_attempt_message value = do {
     write_id (fam_request value);
     write_id (fam_attempt value);
     Writer_enumeration ReasonCode_values (fam_reason value) }"

definition decode_fail_attempt_message :: "(Reader, FailAttemptMessage result) state" where
  "decode_fail_attempt_message = do {
     request \<leftarrow> Reader_id;
     attempt \<leftarrow> Reader_id;
     reason \<leftarrow> Reader_enumeration ReasonCode_values RC_Count;
     or_fail (success
         \<lparr> fam_request = request, fam_attempt = attempt, fam_reason = reason \<rparr>) }"

definition sendable_fail_attempt_message :: "FailAttemptMessage \<Rightarrow> bool" where
  "sendable_fail_attempt_message value \<longleftrightarrow>
     fam_request value \<noteq> nil_id \<and>
     fam_attempt value \<noteq> nil_id \<and>
     fam_reason value \<noteq> RC_Count"

lemma transmits_fail_attempt_message:
  "sendable_fail_attempt_message v \<Longrightarrow> transmits (encode_fail_attempt_message v) decode_fail_attempt_message (Inr v)"
  unfolding encode_fail_attempt_message_def decode_fail_attempt_message_def
  by (intro transmission) (simp_all add: sendable_fail_attempt_message_def)

lemma sane_fail_attempt_message [sane_rules]: "sane decode_fail_attempt_message"
  unfolding decode_fail_attempt_message_def Let_def by (intro sane_rules)

lemma guarded_fail_attempt_message [guarded_rules]: "guarded decode_fail_attempt_message"
  unfolding decode_fail_attempt_message_def Let_def by (intro guarded_rules)

lemma size_fail_attempt_message [size_rules]: "at_most (encode_fail_attempt_message v) 34"
  unfolding encode_fail_attempt_message_def by (rule at_most_mono, (rule size_rules)+, simp)

interpretation fail_attempt_message: codec encode_fail_attempt_message decode_fail_attempt_message sendable_fail_attempt_message
  by unfold_locales (simp_all add: transmits_fail_attempt_message sane_fail_attempt_message guarded_fail_attempt_message)

record ReplaceAttemptMessage =
  rpm_request :: id128
  rpm_superseded :: id128
  rpm_replacement :: id128
  rpm_model_hash :: u64

definition encode_replace_attempt_message :: "ReplaceAttemptMessage \<Rightarrow> (Writer, unit) state" where
  "encode_replace_attempt_message value = do {
     write_id (rpm_request value);
     write_id (rpm_superseded value);
     write_id (rpm_replacement value);
     Writer_u64 (rpm_model_hash value) }"

definition decode_replace_attempt_message :: "(Reader, ReplaceAttemptMessage result) state" where
  "decode_replace_attempt_message = do {
     request \<leftarrow> Reader_id;
     superseded \<leftarrow> Reader_id;
     replacement \<leftarrow> Reader_id;
     model_hash \<leftarrow> Reader_u64;
     or_fail (success
         \<lparr> rpm_request = request, rpm_superseded = superseded, rpm_replacement = replacement,
           rpm_model_hash = model_hash \<rparr>) }"

definition sendable_replace_attempt_message :: "ReplaceAttemptMessage \<Rightarrow> bool" where
  "sendable_replace_attempt_message value \<longleftrightarrow>
     rpm_request value \<noteq> nil_id \<and>
     rpm_superseded value \<noteq> nil_id \<and>
     rpm_replacement value \<noteq> nil_id"

lemma transmits_replace_attempt_message:
  "sendable_replace_attempt_message v \<Longrightarrow> transmits (encode_replace_attempt_message v) decode_replace_attempt_message (Inr v)"
  unfolding encode_replace_attempt_message_def decode_replace_attempt_message_def
  by (intro transmission) (simp_all add: sendable_replace_attempt_message_def)

lemma sane_replace_attempt_message [sane_rules]: "sane decode_replace_attempt_message"
  unfolding decode_replace_attempt_message_def Let_def by (intro sane_rules)

lemma guarded_replace_attempt_message [guarded_rules]: "guarded decode_replace_attempt_message"
  unfolding decode_replace_attempt_message_def Let_def by (intro guarded_rules)

lemma size_replace_attempt_message [size_rules]: "at_most (encode_replace_attempt_message v) 56"
  unfolding encode_replace_attempt_message_def by (rule at_most_mono, (rule size_rules)+, simp)

interpretation replace_attempt_message: codec encode_replace_attempt_message decode_replace_attempt_message sendable_replace_attempt_message
  by unfold_locales (simp_all add: transmits_replace_attempt_message sane_replace_attempt_message guarded_replace_attempt_message)

section \<open>Decisions and flows\<close>

record EvaluateTrafficMessage =
  etm_request :: TrafficRequest

definition encode_evaluate_traffic_message :: "EvaluateTrafficMessage \<Rightarrow> (Writer, unit) state" where
  "encode_evaluate_traffic_message value = do {
     encode_traffic_request (etm_request value) }"

definition decode_evaluate_traffic_message :: "(Reader, EvaluateTrafficMessage result) state" where
  "decode_evaluate_traffic_message = do {
     propagate decode_traffic_request (\<lambda>request. do {
       or_fail (success
           \<lparr> etm_request = request \<rparr>) }) }"

definition sendable_evaluate_traffic_message :: "EvaluateTrafficMessage \<Rightarrow> bool" where
  "sendable_evaluate_traffic_message value \<longleftrightarrow>
     sendable_traffic_request (etm_request value)"

lemma transmits_evaluate_traffic_message:
  "sendable_evaluate_traffic_message v \<Longrightarrow> transmits (encode_evaluate_traffic_message v) decode_evaluate_traffic_message (Inr v)"
  unfolding encode_evaluate_traffic_message_def decode_evaluate_traffic_message_def
  by (intro transmission) (simp_all add: sendable_evaluate_traffic_message_def)

lemma sane_evaluate_traffic_message [sane_rules]: "sane decode_evaluate_traffic_message"
  unfolding decode_evaluate_traffic_message_def Let_def by (intro sane_rules)

lemma guarded_evaluate_traffic_message [guarded_rules]: "guarded decode_evaluate_traffic_message"
  unfolding decode_evaluate_traffic_message_def Let_def by (intro guarded_rules)

lemma size_evaluate_traffic_message [size_rules]: "at_most (encode_evaluate_traffic_message v) 208"
  unfolding encode_evaluate_traffic_message_def by (rule at_most_mono, (rule size_rules)+, simp)

interpretation evaluate_traffic_message: codec encode_evaluate_traffic_message decode_evaluate_traffic_message sendable_evaluate_traffic_message
  by unfold_locales (simp_all add: transmits_evaluate_traffic_message sane_evaluate_traffic_message guarded_evaluate_traffic_message)

record DecisionResponseMessage =
  drm_decision :: Decision

definition encode_decision_response_message :: "DecisionResponseMessage \<Rightarrow> (Writer, unit) state" where
  "encode_decision_response_message value = do {
     encode_decision (drm_decision value) }"

definition decode_decision_response_message :: "(Reader, DecisionResponseMessage result) state" where
  "decode_decision_response_message = do {
     propagate decode_decision (\<lambda>decision. do {
       or_fail (success
           \<lparr> drm_decision = decision \<rparr>) }) }"

definition sendable_decision_response_message :: "DecisionResponseMessage \<Rightarrow> bool" where
  "sendable_decision_response_message value \<longleftrightarrow>
     sendable_decision (drm_decision value)"

lemma transmits_decision_response_message:
  "sendable_decision_response_message v \<Longrightarrow> transmits (encode_decision_response_message v) decode_decision_response_message (Inr v)"
  unfolding encode_decision_response_message_def decode_decision_response_message_def
  by (intro transmission) (simp_all add: sendable_decision_response_message_def)

lemma sane_decision_response_message [sane_rules]: "sane decode_decision_response_message"
  unfolding decode_decision_response_message_def Let_def by (intro sane_rules)

lemma guarded_decision_response_message [guarded_rules]: "guarded decode_decision_response_message"
  unfolding decode_decision_response_message_def Let_def by (intro guarded_rules)

interpretation decision_response_message: codec encode_decision_response_message decode_decision_response_message sendable_decision_response_message
  by unfold_locales (simp_all add: transmits_decision_response_message sane_decision_response_message guarded_decision_response_message)

record OpenFlowMessage =
  ofm_decision :: Decision
  ofm_declared_bytes :: u64

definition encode_open_flow_message :: "OpenFlowMessage \<Rightarrow> (Writer, unit) state" where
  "encode_open_flow_message value = do {
     encode_decision (ofm_decision value);
     Writer_u64 (ofm_declared_bytes value) }"

definition decode_open_flow_message :: "(Reader, OpenFlowMessage result) state" where
  "decode_open_flow_message = do {
     propagate decode_decision (\<lambda>decision. do {
       declared_bytes \<leftarrow> Reader_u64;
       or_fail (success
           \<lparr> ofm_decision = decision, ofm_declared_bytes = declared_bytes \<rparr>) }) }"

definition sendable_open_flow_message :: "OpenFlowMessage \<Rightarrow> bool" where
  "sendable_open_flow_message value \<longleftrightarrow>
     sendable_decision (ofm_decision value)"

lemma transmits_open_flow_message:
  "sendable_open_flow_message v \<Longrightarrow> transmits (encode_open_flow_message v) decode_open_flow_message (Inr v)"
  unfolding encode_open_flow_message_def decode_open_flow_message_def
  by (intro transmission) (simp_all add: sendable_open_flow_message_def)

lemma sane_open_flow_message [sane_rules]: "sane decode_open_flow_message"
  unfolding decode_open_flow_message_def Let_def by (intro sane_rules)

lemma guarded_open_flow_message [guarded_rules]: "guarded decode_open_flow_message"
  unfolding decode_open_flow_message_def Let_def by (intro guarded_rules)

interpretation open_flow_message: codec encode_open_flow_message decode_open_flow_message sendable_open_flow_message
  by unfold_locales (simp_all add: transmits_open_flow_message sane_open_flow_message guarded_open_flow_message)

record OpenFlowResponse =
  ofr_flow :: FlowId
  ofr_authority :: AuthorityStamp

definition encode_open_flow_response :: "OpenFlowResponse \<Rightarrow> (Writer, unit) state" where
  "encode_open_flow_response value = do {
     Writer_id (ofr_flow value);
     encode_authority_stamp (ofr_authority value) }"

definition decode_open_flow_response :: "(Reader, OpenFlowResponse result) state" where
  "decode_open_flow_response = do {
     flow \<leftarrow> Reader_id;
     propagate decode_authority_stamp (\<lambda>authority. do {
       or_fail (success
           \<lparr> ofr_flow = flow, ofr_authority = authority \<rparr>) }) }"

definition sendable_open_flow_response :: "OpenFlowResponse \<Rightarrow> bool" where
  "sendable_open_flow_response value \<longleftrightarrow>
     ofr_flow value \<noteq> nil_id \<and>
     sendable_authority_stamp (ofr_authority value)"

lemma transmits_open_flow_response:
  "sendable_open_flow_response v \<Longrightarrow> transmits (encode_open_flow_response v) decode_open_flow_response (Inr v)"
  unfolding encode_open_flow_response_def decode_open_flow_response_def
  by (intro transmission) (simp_all add: sendable_open_flow_response_def)

lemma sane_open_flow_response [sane_rules]: "sane decode_open_flow_response"
  unfolding decode_open_flow_response_def Let_def by (intro sane_rules)

lemma guarded_open_flow_response [guarded_rules]: "guarded decode_open_flow_response"
  unfolding decode_open_flow_response_def Let_def by (intro guarded_rules)

lemma size_open_flow_response [size_rules]: "at_most (encode_open_flow_response v) 56"
  unfolding encode_open_flow_response_def by (rule at_most_mono, (rule size_rules)+, simp)

interpretation open_flow_response: codec encode_open_flow_response decode_open_flow_response sendable_open_flow_response
  by unfold_locales (simp_all add: transmits_open_flow_response sane_open_flow_response guarded_open_flow_response)

section \<open>Transfers and completions\<close>

record RegisterTransferMessage =
  rtm_registration :: TransferRegistration

definition encode_register_transfer_message :: "RegisterTransferMessage \<Rightarrow> (Writer, unit) state" where
  "encode_register_transfer_message value = do {
     encode_transfer_registration (rtm_registration value) }"

definition decode_register_transfer_message :: "(Reader, RegisterTransferMessage result) state" where
  "decode_register_transfer_message = do {
     propagate decode_transfer_registration (\<lambda>registration. do {
       or_fail (success
           \<lparr> rtm_registration = registration \<rparr>) }) }"

definition sendable_register_transfer_message :: "RegisterTransferMessage \<Rightarrow> bool" where
  "sendable_register_transfer_message value \<longleftrightarrow>
     sendable_transfer_registration (rtm_registration value)"

lemma transmits_register_transfer_message:
  "sendable_register_transfer_message v \<Longrightarrow> transmits (encode_register_transfer_message v) decode_register_transfer_message (Inr v)"
  unfolding encode_register_transfer_message_def decode_register_transfer_message_def
  by (intro transmission) (simp_all add: sendable_register_transfer_message_def)

lemma sane_register_transfer_message [sane_rules]: "sane decode_register_transfer_message"
  unfolding decode_register_transfer_message_def Let_def by (intro sane_rules)

lemma guarded_register_transfer_message [guarded_rules]: "guarded decode_register_transfer_message"
  unfolding decode_register_transfer_message_def Let_def by (intro guarded_rules)

lemma size_register_transfer_message [size_rules]: "at_most (encode_register_transfer_message v) 89"
  unfolding encode_register_transfer_message_def by (rule at_most_mono, (rule size_rules)+, simp)

interpretation register_transfer_message: codec encode_register_transfer_message decode_register_transfer_message sendable_register_transfer_message
  by unfold_locales (simp_all add: transmits_register_transfer_message sane_register_transfer_message guarded_register_transfer_message)

record RegisterTransferResponse =
  rtr_transfer :: id128
  rtr_model_generation :: generation
  rtr_state_generation :: generation
  rtr_state :: TransferState
  rtr_authority :: AuthorityStamp

definition encode_register_transfer_response :: "RegisterTransferResponse \<Rightarrow> (Writer, unit) state" where
  "encode_register_transfer_response value = do {
     write_id (rtr_transfer value);
     write_generation (rtr_model_generation value);
     write_generation (rtr_state_generation value);
     Writer_enumeration TransferState_values (rtr_state value);
     encode_authority_stamp (rtr_authority value) }"

definition decode_register_transfer_response :: "(Reader, RegisterTransferResponse result) state" where
  "decode_register_transfer_response = do {
     transfer \<leftarrow> Reader_id;
     model_generation \<leftarrow> wire_read_optional_generation;
     state_generation \<leftarrow> wire_read_optional_generation;
     state \<leftarrow> Reader_enumeration TransferState_values TS_Count;
     propagate decode_authority_stamp (\<lambda>authority. do {
       or_fail (success
           \<lparr> rtr_transfer = transfer, rtr_model_generation = model_generation,
             rtr_state_generation = state_generation, rtr_state = state,
             rtr_authority = authority \<rparr>) }) }"

definition sendable_register_transfer_response :: "RegisterTransferResponse \<Rightarrow> bool" where
  "sendable_register_transfer_response value \<longleftrightarrow>
     rtr_transfer value \<noteq> nil_id \<and>
     rtr_state value \<noteq> TS_Count \<and>
     sendable_authority_stamp (rtr_authority value)"

lemma transmits_register_transfer_response:
  "sendable_register_transfer_response v \<Longrightarrow> transmits (encode_register_transfer_response v) decode_register_transfer_response (Inr v)"
  unfolding encode_register_transfer_response_def decode_register_transfer_response_def
  by (intro transmission) (simp_all add: sendable_register_transfer_response_def)

lemma sane_register_transfer_response [sane_rules]: "sane decode_register_transfer_response"
  unfolding decode_register_transfer_response_def Let_def by (intro sane_rules)

lemma guarded_register_transfer_response [guarded_rules]: "guarded decode_register_transfer_response"
  unfolding decode_register_transfer_response_def Let_def by (intro guarded_rules)

lemma size_register_transfer_response [size_rules]: "at_most (encode_register_transfer_response v) 74"
  unfolding encode_register_transfer_response_def by (rule at_most_mono, (rule size_rules)+, simp)

interpretation register_transfer_response: codec encode_register_transfer_response decode_register_transfer_response sendable_register_transfer_response
  by unfold_locales (simp_all add: transmits_register_transfer_response sane_register_transfer_response guarded_register_transfer_response)

record AuthorizeTransferMessage =
  atm_request :: TrafficRequest

definition encode_authorize_transfer_message :: "AuthorizeTransferMessage \<Rightarrow> (Writer, unit) state" where
  "encode_authorize_transfer_message value = do {
     encode_traffic_request (atm_request value) }"

definition decode_authorize_transfer_message :: "(Reader, AuthorizeTransferMessage result) state" where
  "decode_authorize_transfer_message = do {
     propagate decode_traffic_request (\<lambda>request. do {
       or_fail (success
           \<lparr> atm_request = request \<rparr>) }) }"

definition sendable_authorize_transfer_message :: "AuthorizeTransferMessage \<Rightarrow> bool" where
  "sendable_authorize_transfer_message value \<longleftrightarrow>
     sendable_traffic_request (atm_request value)"

lemma transmits_authorize_transfer_message:
  "sendable_authorize_transfer_message v \<Longrightarrow> transmits (encode_authorize_transfer_message v) decode_authorize_transfer_message (Inr v)"
  unfolding encode_authorize_transfer_message_def decode_authorize_transfer_message_def
  by (intro transmission) (simp_all add: sendable_authorize_transfer_message_def)

lemma sane_authorize_transfer_message [sane_rules]: "sane decode_authorize_transfer_message"
  unfolding decode_authorize_transfer_message_def Let_def by (intro sane_rules)

lemma guarded_authorize_transfer_message [guarded_rules]: "guarded decode_authorize_transfer_message"
  unfolding decode_authorize_transfer_message_def Let_def by (intro guarded_rules)

lemma size_authorize_transfer_message [size_rules]: "at_most (encode_authorize_transfer_message v) 208"
  unfolding encode_authorize_transfer_message_def by (rule at_most_mono, (rule size_rules)+, simp)

interpretation authorize_transfer_message: codec encode_authorize_transfer_message decode_authorize_transfer_message sendable_authorize_transfer_message
  by unfold_locales (simp_all add: transmits_authorize_transfer_message sane_authorize_transfer_message guarded_authorize_transfer_message)

record TransferDecisionResponse =
  tdr_authorization :: TransferAuthorization
  tdr_subject :: TrafficSubject
  tdr_binding :: GenerationBinding
  tdr_authority :: AuthorityStamp

definition encode_transfer_decision_response :: "TransferDecisionResponse \<Rightarrow> (Writer, unit) state" where
  "encode_transfer_decision_response value = do {
     encode_transfer_authorization (tdr_authorization value);
     encode_traffic_subject (tdr_subject value);
     encode_generation_binding (tdr_binding value);
     encode_authority_stamp (tdr_authority value) }"

definition decode_transfer_decision_response :: "(Reader, TransferDecisionResponse result) state" where
  "decode_transfer_decision_response = do {
     propagate decode_transfer_authorization (\<lambda>authorization. do {
       propagate decode_traffic_subject (\<lambda>subject. do {
         propagate decode_generation_binding (\<lambda>binding. do {
           propagate decode_authority_stamp (\<lambda>authority. do {
             or_fail (success
                 \<lparr> tdr_authorization = authorization, tdr_subject = subject,
                   tdr_binding = binding, tdr_authority = authority \<rparr>) }) }) }) }) }"

definition sendable_transfer_decision_response :: "TransferDecisionResponse \<Rightarrow> bool" where
  "sendable_transfer_decision_response value \<longleftrightarrow>
     sendable_transfer_authorization (tdr_authorization value) \<and>
     sendable_traffic_subject (tdr_subject value) \<and>
     sendable_generation_binding (tdr_binding value) \<and>
     sendable_authority_stamp (tdr_authority value)"

lemma transmits_transfer_decision_response:
  "sendable_transfer_decision_response v \<Longrightarrow> transmits (encode_transfer_decision_response v) decode_transfer_decision_response (Inr v)"
  unfolding encode_transfer_decision_response_def decode_transfer_decision_response_def
  by (intro transmission) (simp_all add: sendable_transfer_decision_response_def)

lemma sane_transfer_decision_response [sane_rules]: "sane decode_transfer_decision_response"
  unfolding decode_transfer_decision_response_def Let_def by (intro sane_rules)

lemma guarded_transfer_decision_response [guarded_rules]: "guarded decode_transfer_decision_response"
  unfolding decode_transfer_decision_response_def Let_def by (intro guarded_rules)

lemma size_transfer_decision_response [size_rules]: "at_most (encode_transfer_decision_response v) 253"
  unfolding encode_transfer_decision_response_def by (rule at_most_mono, (rule size_rules)+, simp)

interpretation transfer_decision_response: codec encode_transfer_decision_response decode_transfer_decision_response sendable_transfer_decision_response
  by unfold_locales (simp_all add: transmits_transfer_decision_response sane_transfer_decision_response guarded_transfer_decision_response)

record TransferCompleteMessage =
  tcm_transfer :: id128
  tcm_verified_bytes :: u64

definition encode_transfer_complete_message :: "TransferCompleteMessage \<Rightarrow> (Writer, unit) state" where
  "encode_transfer_complete_message value = do {
     write_id (tcm_transfer value);
     Writer_u64 (tcm_verified_bytes value) }"

definition decode_transfer_complete_message :: "(Reader, TransferCompleteMessage result) state" where
  "decode_transfer_complete_message = do {
     transfer \<leftarrow> Reader_id;
     verified_bytes \<leftarrow> Reader_u64;
     or_fail (success
         \<lparr> tcm_transfer = transfer, tcm_verified_bytes = verified_bytes \<rparr>) }"

definition sendable_transfer_complete_message :: "TransferCompleteMessage \<Rightarrow> bool" where
  "sendable_transfer_complete_message value \<longleftrightarrow>
     tcm_transfer value \<noteq> nil_id"

lemma transmits_transfer_complete_message:
  "sendable_transfer_complete_message v \<Longrightarrow> transmits (encode_transfer_complete_message v) decode_transfer_complete_message (Inr v)"
  unfolding encode_transfer_complete_message_def decode_transfer_complete_message_def
  by (intro transmission) (simp_all add: sendable_transfer_complete_message_def)

lemma sane_transfer_complete_message [sane_rules]: "sane decode_transfer_complete_message"
  unfolding decode_transfer_complete_message_def Let_def by (intro sane_rules)

lemma guarded_transfer_complete_message [guarded_rules]: "guarded decode_transfer_complete_message"
  unfolding decode_transfer_complete_message_def Let_def by (intro guarded_rules)

lemma size_transfer_complete_message [size_rules]: "at_most (encode_transfer_complete_message v) 24"
  unfolding encode_transfer_complete_message_def by (rule at_most_mono, (rule size_rules)+, simp)

interpretation transfer_complete_message: codec encode_transfer_complete_message decode_transfer_complete_message sendable_transfer_complete_message
  by unfold_locales (simp_all add: transmits_transfer_complete_message sane_transfer_complete_message guarded_transfer_complete_message)

record CompletionPublishMessage =
  cpm_publication :: CompletionPublication

definition encode_completion_publish_message :: "CompletionPublishMessage \<Rightarrow> (Writer, unit) state" where
  "encode_completion_publish_message value = do {
     encode_completion_publication (cpm_publication value) }"

definition decode_completion_publish_message :: "(Reader, CompletionPublishMessage result) state" where
  "decode_completion_publish_message = do {
     propagate decode_completion_publication (\<lambda>publication. do {
       or_fail (success
           \<lparr> cpm_publication = publication \<rparr>) }) }"

definition sendable_completion_publish_message :: "CompletionPublishMessage \<Rightarrow> bool" where
  "sendable_completion_publish_message value \<longleftrightarrow>
     sendable_completion_publication (cpm_publication value)"

lemma transmits_completion_publish_message:
  "sendable_completion_publish_message v \<Longrightarrow> transmits (encode_completion_publish_message v) decode_completion_publish_message (Inr v)"
  unfolding encode_completion_publish_message_def decode_completion_publish_message_def
  by (intro transmission) (simp_all add: sendable_completion_publish_message_def)

lemma sane_completion_publish_message [sane_rules]: "sane decode_completion_publish_message"
  unfolding decode_completion_publish_message_def Let_def by (intro sane_rules)

lemma guarded_completion_publish_message [guarded_rules]: "guarded decode_completion_publish_message"
  unfolding decode_completion_publish_message_def Let_def by (intro guarded_rules)

lemma size_completion_publish_message [size_rules]: "at_most (encode_completion_publish_message v) 59"
  unfolding encode_completion_publish_message_def by (rule at_most_mono, (rule size_rules)+, simp)

interpretation completion_publish_message: codec encode_completion_publish_message decode_completion_publish_message sendable_completion_publish_message
  by unfold_locales (simp_all add: transmits_completion_publish_message sane_completion_publish_message guarded_completion_publish_message)

record CompletionResponse =
  cor_outcome :: PublishOutcome

definition encode_completion_response :: "CompletionResponse \<Rightarrow> (Writer, unit) state" where
  "encode_completion_response value = do {
     encode_publish_outcome (cor_outcome value) }"

definition decode_completion_response :: "(Reader, CompletionResponse result) state" where
  "decode_completion_response = do {
     propagate decode_publish_outcome (\<lambda>outcome. do {
       or_fail (success
           \<lparr> cor_outcome = outcome \<rparr>) }) }"

definition sendable_completion_response :: "CompletionResponse \<Rightarrow> bool" where
  "sendable_completion_response value \<longleftrightarrow>
     sendable_publish_outcome (cor_outcome value)"

lemma transmits_completion_response:
  "sendable_completion_response v \<Longrightarrow> transmits (encode_completion_response v) decode_completion_response (Inr v)"
  unfolding encode_completion_response_def decode_completion_response_def
  by (intro transmission) (simp_all add: sendable_completion_response_def)

lemma sane_completion_response [sane_rules]: "sane decode_completion_response"
  unfolding decode_completion_response_def Let_def by (intro sane_rules)

lemma guarded_completion_response [guarded_rules]: "guarded decode_completion_response"
  unfolding decode_completion_response_def Let_def by (intro guarded_rules)

lemma size_completion_response [size_rules]: "at_most (encode_completion_response v) 26"
  unfolding encode_completion_response_def by (rule at_most_mono, (rule size_rules)+, simp)

interpretation completion_response: codec encode_completion_response decode_completion_response sendable_completion_response
  by unfold_locales (simp_all add: transmits_completion_response sane_completion_response guarded_completion_response)

section \<open>Queries and evidence\<close>

record AccountingQueryMessage =
  aqm_reserved :: u32

definition encode_accounting_query_message :: "AccountingQueryMessage \<Rightarrow> (Writer, unit) state" where
  "encode_accounting_query_message value = do {
     Writer_u32 (aqm_reserved value) }"

definition decode_accounting_query_message :: "(Reader, AccountingQueryMessage result) state" where
  "decode_accounting_query_message = do {
     reserved \<leftarrow> Reader_u32;
     or_fail (success
         \<lparr> aqm_reserved = reserved \<rparr>) }"

definition sendable_accounting_query_message :: "AccountingQueryMessage \<Rightarrow> bool" where
  "sendable_accounting_query_message value \<longleftrightarrow>
     True"

lemma transmits_accounting_query_message:
  "sendable_accounting_query_message v \<Longrightarrow> transmits (encode_accounting_query_message v) decode_accounting_query_message (Inr v)"
  unfolding encode_accounting_query_message_def decode_accounting_query_message_def
  by (intro transmission) (simp_all add: sendable_accounting_query_message_def)

lemma sane_accounting_query_message [sane_rules]: "sane decode_accounting_query_message"
  unfolding decode_accounting_query_message_def Let_def by (intro sane_rules)

lemma guarded_accounting_query_message [guarded_rules]: "guarded decode_accounting_query_message"
  unfolding decode_accounting_query_message_def Let_def by (intro guarded_rules)

lemma size_accounting_query_message [size_rules]: "at_most (encode_accounting_query_message v) 4"
  unfolding encode_accounting_query_message_def by (rule at_most_mono, (rule size_rules)+, simp)

interpretation accounting_query_message: codec encode_accounting_query_message decode_accounting_query_message sendable_accounting_query_message
  by unfold_locales (simp_all add: transmits_accounting_query_message sane_accounting_query_message guarded_accounting_query_message)

record AccountingResponseMessage =
  acm_snapshot :: AccountingSnapshot

definition encode_accounting_response_message :: "AccountingResponseMessage \<Rightarrow> (Writer, unit) state" where
  "encode_accounting_response_message value = do {
     encode_accounting_snapshot (acm_snapshot value) }"

definition decode_accounting_response_message :: "(Reader, AccountingResponseMessage result) state" where
  "decode_accounting_response_message = do {
     propagate decode_accounting_snapshot (\<lambda>snapshot. do {
       or_fail (success
           \<lparr> acm_snapshot = snapshot \<rparr>) }) }"

definition sendable_accounting_response_message :: "AccountingResponseMessage \<Rightarrow> bool" where
  "sendable_accounting_response_message value \<longleftrightarrow>
     sendable_accounting_snapshot (acm_snapshot value)"

lemma transmits_accounting_response_message:
  "sendable_accounting_response_message v \<Longrightarrow> transmits (encode_accounting_response_message v) decode_accounting_response_message (Inr v)"
  unfolding encode_accounting_response_message_def decode_accounting_response_message_def
  by (intro transmission) (simp_all add: sendable_accounting_response_message_def)

lemma sane_accounting_response_message [sane_rules]: "sane decode_accounting_response_message"
  unfolding decode_accounting_response_message_def Let_def by (intro sane_rules)

lemma guarded_accounting_response_message [guarded_rules]: "guarded decode_accounting_response_message"
  unfolding decode_accounting_response_message_def Let_def by (intro guarded_rules)

interpretation accounting_response_message: codec encode_accounting_response_message decode_accounting_response_message sendable_accounting_response_message
  by unfold_locales (simp_all add: transmits_accounting_response_message sane_accounting_response_message guarded_accounting_response_message)

record StatusQueryMessage =
  sqm_reserved :: u32

definition encode_status_query_message :: "StatusQueryMessage \<Rightarrow> (Writer, unit) state" where
  "encode_status_query_message value = do {
     Writer_u32 (sqm_reserved value) }"

definition decode_status_query_message :: "(Reader, StatusQueryMessage result) state" where
  "decode_status_query_message = do {
     reserved \<leftarrow> Reader_u32;
     or_fail (success
         \<lparr> sqm_reserved = reserved \<rparr>) }"

definition sendable_status_query_message :: "StatusQueryMessage \<Rightarrow> bool" where
  "sendable_status_query_message value \<longleftrightarrow>
     True"

lemma transmits_status_query_message:
  "sendable_status_query_message v \<Longrightarrow> transmits (encode_status_query_message v) decode_status_query_message (Inr v)"
  unfolding encode_status_query_message_def decode_status_query_message_def
  by (intro transmission) (simp_all add: sendable_status_query_message_def)

lemma sane_status_query_message [sane_rules]: "sane decode_status_query_message"
  unfolding decode_status_query_message_def Let_def by (intro sane_rules)

lemma guarded_status_query_message [guarded_rules]: "guarded decode_status_query_message"
  unfolding decode_status_query_message_def Let_def by (intro guarded_rules)

lemma size_status_query_message [size_rules]: "at_most (encode_status_query_message v) 4"
  unfolding encode_status_query_message_def by (rule at_most_mono, (rule size_rules)+, simp)

interpretation status_query_message: codec encode_status_query_message decode_status_query_message sendable_status_query_message
  by unfold_locales (simp_all add: transmits_status_query_message sane_status_query_message guarded_status_query_message)

record StatusResponseMessage =
  srm_status :: CoordinatorStatus

definition encode_status_response_message :: "StatusResponseMessage \<Rightarrow> (Writer, unit) state" where
  "encode_status_response_message value = do {
     encode_coordinator_status (srm_status value) }"

definition decode_status_response_message :: "(Reader, StatusResponseMessage result) state" where
  "decode_status_response_message = do {
     propagate decode_coordinator_status (\<lambda>status. do {
       or_fail (success
           \<lparr> srm_status = status \<rparr>) }) }"

definition sendable_status_response_message :: "StatusResponseMessage \<Rightarrow> bool" where
  "sendable_status_response_message value \<longleftrightarrow>
     sendable_coordinator_status (srm_status value)"

lemma transmits_status_response_message:
  "sendable_status_response_message v \<Longrightarrow> transmits (encode_status_response_message v) decode_status_response_message (Inr v)"
  unfolding encode_status_response_message_def decode_status_response_message_def
  by (intro transmission) (simp_all add: sendable_status_response_message_def)

lemma sane_status_response_message [sane_rules]: "sane decode_status_response_message"
  unfolding decode_status_response_message_def Let_def by (intro sane_rules)

lemma guarded_status_response_message [guarded_rules]: "guarded decode_status_response_message"
  unfolding decode_status_response_message_def Let_def by (intro guarded_rules)

lemma size_status_response_message [size_rules]: "at_most (encode_status_response_message v) 72"
  unfolding encode_status_response_message_def by (rule at_most_mono, (rule size_rules)+, simp)

interpretation status_response_message: codec encode_status_response_message decode_status_response_message sendable_status_response_message
  by unfold_locales (simp_all add: transmits_status_response_message sane_status_response_message guarded_status_response_message)

record PolicyQueryMessage =
  pqm_reserved :: u32

definition encode_policy_query_message :: "PolicyQueryMessage \<Rightarrow> (Writer, unit) state" where
  "encode_policy_query_message value = do {
     Writer_u32 (pqm_reserved value) }"

definition decode_policy_query_message :: "(Reader, PolicyQueryMessage result) state" where
  "decode_policy_query_message = do {
     reserved \<leftarrow> Reader_u32;
     or_fail (success
         \<lparr> pqm_reserved = reserved \<rparr>) }"

definition sendable_policy_query_message :: "PolicyQueryMessage \<Rightarrow> bool" where
  "sendable_policy_query_message value \<longleftrightarrow>
     True"

lemma transmits_policy_query_message:
  "sendable_policy_query_message v \<Longrightarrow> transmits (encode_policy_query_message v) decode_policy_query_message (Inr v)"
  unfolding encode_policy_query_message_def decode_policy_query_message_def
  by (intro transmission) (simp_all add: sendable_policy_query_message_def)

lemma sane_policy_query_message [sane_rules]: "sane decode_policy_query_message"
  unfolding decode_policy_query_message_def Let_def by (intro sane_rules)

lemma guarded_policy_query_message [guarded_rules]: "guarded decode_policy_query_message"
  unfolding decode_policy_query_message_def Let_def by (intro guarded_rules)

lemma size_policy_query_message [size_rules]: "at_most (encode_policy_query_message v) 4"
  unfolding encode_policy_query_message_def by (rule at_most_mono, (rule size_rules)+, simp)

interpretation policy_query_message: codec encode_policy_query_message decode_policy_query_message sendable_policy_query_message
  by unfold_locales (simp_all add: transmits_policy_query_message sane_policy_query_message guarded_policy_query_message)

record PolicyResponseMessage =
  prm_policy :: PolicyConfig

definition encode_policy_response_message :: "PolicyResponseMessage \<Rightarrow> (Writer, unit) state" where
  "encode_policy_response_message value = do {
     encode_policy (prm_policy value) }"

definition decode_policy_response_message :: "(Reader, PolicyResponseMessage result) state" where
  "decode_policy_response_message = do {
     propagate decode_policy (\<lambda>policy. do {
       or_fail (success
           \<lparr> prm_policy = policy \<rparr>) }) }"

definition sendable_policy_response_message :: "PolicyResponseMessage \<Rightarrow> bool" where
  "sendable_policy_response_message value \<longleftrightarrow>
     sendable_policy (prm_policy value)"

lemma transmits_policy_response_message:
  "sendable_policy_response_message v \<Longrightarrow> transmits (encode_policy_response_message v) decode_policy_response_message (Inr v)"
  unfolding encode_policy_response_message_def decode_policy_response_message_def
  by (intro transmission) (simp_all add: sendable_policy_response_message_def)

lemma sane_policy_response_message [sane_rules]: "sane decode_policy_response_message"
  unfolding decode_policy_response_message_def Let_def by (intro sane_rules)

lemma guarded_policy_response_message [guarded_rules]: "guarded decode_policy_response_message"
  unfolding decode_policy_response_message_def Let_def by (intro guarded_rules)

interpretation policy_response_message: codec encode_policy_response_message decode_policy_response_message sendable_policy_response_message
  by unfold_locales (simp_all add: transmits_policy_response_message sane_policy_response_message guarded_policy_response_message)

record TopologyPublishMessage =
  tpm_evidence :: TopologyEvidence

definition encode_topology_publish_message :: "TopologyPublishMessage \<Rightarrow> (Writer, unit) state" where
  "encode_topology_publish_message value = do {
     encode_topology_evidence (tpm_evidence value) }"

definition decode_topology_publish_message :: "(Reader, TopologyPublishMessage result) state" where
  "decode_topology_publish_message = do {
     propagate (decode_topology_evidence True) (\<lambda>evidence. do {
       or_fail (success
           \<lparr> tpm_evidence = evidence \<rparr>) }) }"

definition sendable_topology_publish_message :: "TopologyPublishMessage \<Rightarrow> bool" where
  "sendable_topology_publish_message value \<longleftrightarrow>
     sendable_topology_evidence True (tpm_evidence value)"

lemma transmits_topology_publish_message:
  "sendable_topology_publish_message v \<Longrightarrow> transmits (encode_topology_publish_message v) decode_topology_publish_message (Inr v)"
  unfolding encode_topology_publish_message_def decode_topology_publish_message_def
  by (intro transmission) (simp_all add: sendable_topology_publish_message_def)

lemma sane_topology_publish_message [sane_rules]: "sane decode_topology_publish_message"
  unfolding decode_topology_publish_message_def Let_def by (intro sane_rules)

lemma guarded_topology_publish_message [guarded_rules]: "guarded decode_topology_publish_message"
  unfolding decode_topology_publish_message_def Let_def by (intro guarded_rules)

lemma size_topology_publish_message [size_rules]: "at_most (encode_topology_publish_message v) 68"
  unfolding encode_topology_publish_message_def by (rule at_most_mono, (rule size_rules)+, simp)

interpretation topology_publish_message: codec encode_topology_publish_message decode_topology_publish_message sendable_topology_publish_message
  by unfold_locales (simp_all add: transmits_topology_publish_message sane_topology_publish_message guarded_topology_publish_message)

record TopologyResponseMessage =
  trm_generation :: generation
  trm_state :: EvidenceState
  trm_provenance :: EvidenceProvenance

definition encode_topology_response_message :: "TopologyResponseMessage \<Rightarrow> (Writer, unit) state" where
  "encode_topology_response_message value = do {
     write_generation (trm_generation value);
     Writer_enumeration EvidenceState_values (trm_state value);
     Writer_enumeration EvidenceProvenance_values (trm_provenance value) }"

definition decode_topology_response_message :: "(Reader, TopologyResponseMessage result) state" where
  "decode_topology_response_message = do {
     generation \<leftarrow> wire_read_optional_generation;
     state \<leftarrow> Reader_enumeration EvidenceState_values EV_Count;
     provenance \<leftarrow> Reader_enumeration EvidenceProvenance_values EP_Count;
     or_fail (success
         \<lparr> trm_generation = generation, trm_state = state, trm_provenance = provenance \<rparr>) }"

definition sendable_topology_response_message :: "TopologyResponseMessage \<Rightarrow> bool" where
  "sendable_topology_response_message value \<longleftrightarrow>
     trm_state value \<noteq> EV_Count \<and>
     trm_provenance value \<noteq> EP_Count"

lemma transmits_topology_response_message:
  "sendable_topology_response_message v \<Longrightarrow> transmits (encode_topology_response_message v) decode_topology_response_message (Inr v)"
  unfolding encode_topology_response_message_def decode_topology_response_message_def
  by (intro transmission) (simp_all add: sendable_topology_response_message_def)

lemma sane_topology_response_message [sane_rules]: "sane decode_topology_response_message"
  unfolding decode_topology_response_message_def Let_def by (intro sane_rules)

lemma guarded_topology_response_message [guarded_rules]: "guarded decode_topology_response_message"
  unfolding decode_topology_response_message_def Let_def by (intro guarded_rules)

lemma size_topology_response_message [size_rules]: "at_most (encode_topology_response_message v) 12"
  unfolding encode_topology_response_message_def by (rule at_most_mono, (rule size_rules)+, simp)

interpretation topology_response_message: codec encode_topology_response_message decode_topology_response_message sendable_topology_response_message
  by unfold_locales (simp_all add: transmits_topology_response_message sane_topology_response_message guarded_topology_response_message)

record PublishSloContractMessage =
  psm_request :: id128
  psm_tail_latency_budget_nanos :: u64
  psm_registration_deadline_nanos :: u64
  psm_min_stream_share_per_mille :: u32

definition encode_publish_slo_contract_message :: "PublishSloContractMessage \<Rightarrow> (Writer, unit) state" where
  "encode_publish_slo_contract_message value = do {
     write_id (psm_request value);
     Writer_u64 (psm_tail_latency_budget_nanos value);
     Writer_u64 (psm_registration_deadline_nanos value);
     Writer_u32 (psm_min_stream_share_per_mille value) }"

definition decode_publish_slo_contract_message :: "(Reader, PublishSloContractMessage result) state" where
  "decode_publish_slo_contract_message = do {
     request \<leftarrow> Reader_id;
     tail_latency_budget_nanos \<leftarrow> Reader_u64;
     registration_deadline_nanos \<leftarrow> Reader_u64;
     min_stream_share_per_mille \<leftarrow> Reader_u32;
     or_fail (success
         \<lparr> psm_request = request, psm_tail_latency_budget_nanos = tail_latency_budget_nanos,
           psm_registration_deadline_nanos = registration_deadline_nanos,
           psm_min_stream_share_per_mille = min_stream_share_per_mille \<rparr>) }"

definition sendable_publish_slo_contract_message :: "PublishSloContractMessage \<Rightarrow> bool" where
  "sendable_publish_slo_contract_message value \<longleftrightarrow>
     psm_request value \<noteq> nil_id"

lemma transmits_publish_slo_contract_message:
  "sendable_publish_slo_contract_message v \<Longrightarrow> transmits (encode_publish_slo_contract_message v) decode_publish_slo_contract_message (Inr v)"
  unfolding encode_publish_slo_contract_message_def decode_publish_slo_contract_message_def
  by (intro transmission) (simp_all add: sendable_publish_slo_contract_message_def)

lemma sane_publish_slo_contract_message [sane_rules]: "sane decode_publish_slo_contract_message"
  unfolding decode_publish_slo_contract_message_def Let_def by (intro sane_rules)

lemma guarded_publish_slo_contract_message [guarded_rules]: "guarded decode_publish_slo_contract_message"
  unfolding decode_publish_slo_contract_message_def Let_def by (intro guarded_rules)

lemma size_publish_slo_contract_message [size_rules]: "at_most (encode_publish_slo_contract_message v) 36"
  unfolding encode_publish_slo_contract_message_def by (rule at_most_mono, (rule size_rules)+, simp)

interpretation publish_slo_contract_message: codec encode_publish_slo_contract_message decode_publish_slo_contract_message sendable_publish_slo_contract_message
  by unfold_locales (simp_all add: transmits_publish_slo_contract_message sane_publish_slo_contract_message guarded_publish_slo_contract_message)

record SloContractResponse =
  scr_contract :: SloContract

definition encode_slo_contract_response :: "SloContractResponse \<Rightarrow> (Writer, unit) state" where
  "encode_slo_contract_response value = do {
     encode_slo_contract (scr_contract value) }"

definition decode_slo_contract_response :: "(Reader, SloContractResponse result) state" where
  "decode_slo_contract_response = do {
     propagate decode_slo_contract (\<lambda>contract. do {
       or_fail (success
           \<lparr> scr_contract = contract \<rparr>) }) }"

definition sendable_slo_contract_response :: "SloContractResponse \<Rightarrow> bool" where
  "sendable_slo_contract_response value \<longleftrightarrow>
     sendable_slo_contract (scr_contract value)"

lemma transmits_slo_contract_response:
  "sendable_slo_contract_response v \<Longrightarrow> transmits (encode_slo_contract_response v) decode_slo_contract_response (Inr v)"
  unfolding encode_slo_contract_response_def decode_slo_contract_response_def
  by (intro transmission) (simp_all add: sendable_slo_contract_response_def)

lemma sane_slo_contract_response [sane_rules]: "sane decode_slo_contract_response"
  unfolding decode_slo_contract_response_def Let_def by (intro sane_rules)

lemma guarded_slo_contract_response [guarded_rules]: "guarded decode_slo_contract_response"
  unfolding decode_slo_contract_response_def Let_def by (intro guarded_rules)

lemma size_slo_contract_response [size_rules]: "at_most (encode_slo_contract_response v) 44"
  unfolding encode_slo_contract_response_def by (rule at_most_mono, (rule size_rules)+, simp)

interpretation slo_contract_response: codec encode_slo_contract_response decode_slo_contract_response sendable_slo_contract_response
  by unfold_locales (simp_all add: transmits_slo_contract_response sane_slo_contract_response guarded_slo_contract_response)

record IssueRouteDecisionMessage =
  irm_request :: id128
  irm_attempt :: id128
  irm_target_node :: u32
  irm_lateral :: bool
  irm_disaggregated_handoff :: bool

definition encode_issue_route_decision_message :: "IssueRouteDecisionMessage \<Rightarrow> (Writer, unit) state" where
  "encode_issue_route_decision_message value = do {
     write_id (irm_request value);
     write_id (irm_attempt value);
     Writer_u32 (irm_target_node value);
     Writer_boolean (irm_lateral value);
     Writer_boolean (irm_disaggregated_handoff value) }"

definition decode_issue_route_decision_message :: "(Reader, IssueRouteDecisionMessage result) state" where
  "decode_issue_route_decision_message = do {
     request \<leftarrow> Reader_id;
     attempt \<leftarrow> Reader_id;
     target_node \<leftarrow> Reader_u32;
     lateral \<leftarrow> Reader_boolean;
     disaggregated_handoff \<leftarrow> Reader_boolean;
     or_fail (success
         \<lparr> irm_request = request, irm_attempt = attempt, irm_target_node = target_node,
           irm_lateral = lateral, irm_disaggregated_handoff = disaggregated_handoff \<rparr>) }"

definition sendable_issue_route_decision_message :: "IssueRouteDecisionMessage \<Rightarrow> bool" where
  "sendable_issue_route_decision_message value \<longleftrightarrow>
     irm_request value \<noteq> nil_id \<and>
     irm_attempt value \<noteq> nil_id"

lemma transmits_issue_route_decision_message:
  "sendable_issue_route_decision_message v \<Longrightarrow> transmits (encode_issue_route_decision_message v) decode_issue_route_decision_message (Inr v)"
  unfolding encode_issue_route_decision_message_def decode_issue_route_decision_message_def
  by (intro transmission) (simp_all add: sendable_issue_route_decision_message_def)

lemma sane_issue_route_decision_message [sane_rules]: "sane decode_issue_route_decision_message"
  unfolding decode_issue_route_decision_message_def Let_def by (intro sane_rules)

lemma guarded_issue_route_decision_message [guarded_rules]: "guarded decode_issue_route_decision_message"
  unfolding decode_issue_route_decision_message_def Let_def by (intro guarded_rules)

lemma size_issue_route_decision_message [size_rules]: "at_most (encode_issue_route_decision_message v) 38"
  unfolding encode_issue_route_decision_message_def by (rule at_most_mono, (rule size_rules)+, simp)

interpretation issue_route_decision_message: codec encode_issue_route_decision_message decode_issue_route_decision_message sendable_issue_route_decision_message
  by unfold_locales (simp_all add: transmits_issue_route_decision_message sane_issue_route_decision_message guarded_issue_route_decision_message)

record RouteDecisionResponse =
  rdr_decision :: RouteDecision

definition encode_route_decision_response :: "RouteDecisionResponse \<Rightarrow> (Writer, unit) state" where
  "encode_route_decision_response value = do {
     encode_route_decision (rdr_decision value) }"

definition decode_route_decision_response :: "(Reader, RouteDecisionResponse result) state" where
  "decode_route_decision_response = do {
     propagate decode_route_decision (\<lambda>decision. do {
       or_fail (success
           \<lparr> rdr_decision = decision \<rparr>) }) }"

definition sendable_route_decision_response :: "RouteDecisionResponse \<Rightarrow> bool" where
  "sendable_route_decision_response value \<longleftrightarrow>
     sendable_route_decision (rdr_decision value)"

lemma transmits_route_decision_response:
  "sendable_route_decision_response v \<Longrightarrow> transmits (encode_route_decision_response v) decode_route_decision_response (Inr v)"
  unfolding encode_route_decision_response_def decode_route_decision_response_def
  by (intro transmission) (simp_all add: sendable_route_decision_response_def)

lemma sane_route_decision_response [sane_rules]: "sane decode_route_decision_response"
  unfolding decode_route_decision_response_def Let_def by (intro sane_rules)

lemma guarded_route_decision_response [guarded_rules]: "guarded decode_route_decision_response"
  unfolding decode_route_decision_response_def Let_def by (intro guarded_rules)

lemma size_route_decision_response [size_rules]: "at_most (encode_route_decision_response v) 46"
  unfolding encode_route_decision_response_def by (rule at_most_mono, (rule size_rules)+, simp)

interpretation route_decision_response: codec encode_route_decision_response decode_route_decision_response sendable_route_decision_response
  by unfold_locales (simp_all add: transmits_route_decision_response sane_route_decision_response guarded_route_decision_response)

record AdvanceGenerationMessage =
  agm_target_hash :: u64
  agm_expected_generation :: u64
  agm_has_expected :: bool
  agm_revalidate_only :: bool
  agm_state_target :: bool

definition encode_advance_generation_message :: "AdvanceGenerationMessage \<Rightarrow> (Writer, unit) state" where
  "encode_advance_generation_message value = do {
     Writer_u64 (agm_target_hash value);
     Writer_u64 (agm_expected_generation value);
     Writer_boolean (agm_has_expected value);
     Writer_boolean (agm_revalidate_only value);
     Writer_boolean (agm_state_target value) }"

definition decode_advance_generation_message :: "(Reader, AdvanceGenerationMessage result) state" where
  "decode_advance_generation_message = do {
     target_hash \<leftarrow> Reader_u64;
     expected_generation \<leftarrow> Reader_u64;
     has_expected \<leftarrow> Reader_boolean;
     revalidate_only \<leftarrow> Reader_boolean;
     state_target \<leftarrow> Reader_boolean;
     or_fail (let value =
         \<lparr> agm_target_hash = target_hash, agm_expected_generation = expected_generation,
           agm_has_expected = has_expected, agm_revalidate_only = revalidate_only,
           agm_state_target = state_target \<rparr>
     in if agm_target_hash value = 0 then failure ST_MalformedInput else success value) }"

definition sendable_advance_generation_message :: "AdvanceGenerationMessage \<Rightarrow> bool" where
  "sendable_advance_generation_message value \<longleftrightarrow>
     agm_target_hash value \<noteq> 0"

lemma transmits_advance_generation_message:
  "sendable_advance_generation_message v \<Longrightarrow> transmits (encode_advance_generation_message v) decode_advance_generation_message (Inr v)"
  unfolding encode_advance_generation_message_def decode_advance_generation_message_def
  by (intro transmission) (simp_all add: sendable_advance_generation_message_def)

lemma sane_advance_generation_message [sane_rules]: "sane decode_advance_generation_message"
  unfolding decode_advance_generation_message_def Let_def by (intro sane_rules)

lemma guarded_advance_generation_message [guarded_rules]: "guarded decode_advance_generation_message"
  unfolding decode_advance_generation_message_def Let_def by (intro guarded_rules)

lemma size_advance_generation_message [size_rules]: "at_most (encode_advance_generation_message v) 19"
  unfolding encode_advance_generation_message_def by (rule at_most_mono, (rule size_rules)+, simp)

interpretation advance_generation_message: codec encode_advance_generation_message decode_advance_generation_message sendable_advance_generation_message
  by unfold_locales (simp_all add: transmits_advance_generation_message sane_advance_generation_message guarded_advance_generation_message)

record ModelGenerationResponse =
  mgr_model_hash :: u64
  mgr_generation :: generation
  mgr_state_generation :: generation
  mgr_requires_revalidation :: bool

definition encode_model_generation_response :: "ModelGenerationResponse \<Rightarrow> (Writer, unit) state" where
  "encode_model_generation_response value = do {
     Writer_u64 (mgr_model_hash value);
     write_generation (mgr_generation value);
     write_generation (mgr_state_generation value);
     Writer_boolean (mgr_requires_revalidation value) }"

definition decode_model_generation_response :: "(Reader, ModelGenerationResponse result) state" where
  "decode_model_generation_response = do {
     model_hash \<leftarrow> Reader_u64;
     generation \<leftarrow> wire_read_optional_generation;
     state_generation \<leftarrow> wire_read_optional_generation;
     requires_revalidation \<leftarrow> Reader_boolean;
     or_fail (success
         \<lparr> mgr_model_hash = model_hash, mgr_generation = generation,
           mgr_state_generation = state_generation,
           mgr_requires_revalidation = requires_revalidation \<rparr>) }"

definition sendable_model_generation_response :: "ModelGenerationResponse \<Rightarrow> bool" where
  "sendable_model_generation_response value \<longleftrightarrow>
     True"

lemma transmits_model_generation_response:
  "sendable_model_generation_response v \<Longrightarrow> transmits (encode_model_generation_response v) decode_model_generation_response (Inr v)"
  unfolding encode_model_generation_response_def decode_model_generation_response_def
  by (intro transmission) (simp_all add: sendable_model_generation_response_def)

lemma sane_model_generation_response [sane_rules]: "sane decode_model_generation_response"
  unfolding decode_model_generation_response_def Let_def by (intro sane_rules)

lemma guarded_model_generation_response [guarded_rules]: "guarded decode_model_generation_response"
  unfolding decode_model_generation_response_def Let_def by (intro guarded_rules)

lemma size_model_generation_response [size_rules]: "at_most (encode_model_generation_response v) 25"
  unfolding encode_model_generation_response_def by (rule at_most_mono, (rule size_rules)+, simp)

interpretation model_generation_response: codec encode_model_generation_response decode_model_generation_response sendable_model_generation_response
  by unfold_locales (simp_all add: transmits_model_generation_response sane_model_generation_response guarded_model_generation_response)

record HeartbeatMessage =
  hbm_client_time_nanos :: u64

definition encode_heartbeat_message :: "HeartbeatMessage \<Rightarrow> (Writer, unit) state" where
  "encode_heartbeat_message value = do {
     Writer_u64 (hbm_client_time_nanos value) }"

definition decode_heartbeat_message :: "(Reader, HeartbeatMessage result) state" where
  "decode_heartbeat_message = do {
     client_time_nanos \<leftarrow> Reader_u64;
     or_fail (success
         \<lparr> hbm_client_time_nanos = client_time_nanos \<rparr>) }"

definition sendable_heartbeat_message :: "HeartbeatMessage \<Rightarrow> bool" where
  "sendable_heartbeat_message value \<longleftrightarrow>
     True"

lemma transmits_heartbeat_message:
  "sendable_heartbeat_message v \<Longrightarrow> transmits (encode_heartbeat_message v) decode_heartbeat_message (Inr v)"
  unfolding encode_heartbeat_message_def decode_heartbeat_message_def
  by (intro transmission) (simp_all add: sendable_heartbeat_message_def)

lemma sane_heartbeat_message [sane_rules]: "sane decode_heartbeat_message"
  unfolding decode_heartbeat_message_def Let_def by (intro sane_rules)

lemma guarded_heartbeat_message [guarded_rules]: "guarded decode_heartbeat_message"
  unfolding decode_heartbeat_message_def Let_def by (intro guarded_rules)

lemma size_heartbeat_message [size_rules]: "at_most (encode_heartbeat_message v) 8"
  unfolding encode_heartbeat_message_def by (rule at_most_mono, (rule size_rules)+, simp)

interpretation heartbeat_message: codec encode_heartbeat_message decode_heartbeat_message sendable_heartbeat_message
  by unfold_locales (simp_all add: transmits_heartbeat_message sane_heartbeat_message guarded_heartbeat_message)

section \<open>Data plane\<close>

record DataChunkMessage =
  dcm_transfer :: id128
  dcm_chunk_index :: u32
  dcm_total_chunks :: u32
  dcm_total_bytes :: u64
  dcm_data :: "u8 list"

definition encode_data_chunk_message :: "DataChunkMessage \<Rightarrow> (Writer, unit) state" where
  "encode_data_chunk_message value = do {
     write_id (dcm_transfer value);
     Writer_u32 (dcm_chunk_index value);
     Writer_u32 (dcm_total_chunks value);
     Writer_u64 (dcm_total_bytes value);
     Writer_bytes_field (take kMaxChunkBytes (dcm_data value)) }"

definition decode_data_chunk_message :: "(Reader, DataChunkMessage result) state" where
  "decode_data_chunk_message = do {
     transfer \<leftarrow> Reader_id;
     chunk_index \<leftarrow> Reader_u32;
     total_chunks \<leftarrow> Reader_u32;
     total_bytes \<leftarrow> Reader_u64;
     data \<leftarrow> Reader_bytes_field;
     or_fail (let value =
         \<lparr> dcm_transfer = transfer, dcm_chunk_index = chunk_index,
           dcm_total_chunks = total_chunks, dcm_total_bytes = total_bytes,
           dcm_data = data \<rparr>
     in if length (dcm_data value) > kMaxChunkBytes then failure ST_BoundsExceeded
           else if dcm_total_chunks value = 0 \<or> dcm_chunk_index value \<ge> dcm_total_chunks value
           then failure ST_MalformedInput
           else if dcm_data value = [] then failure ST_MalformedInput
           else success value) }"

definition sendable_data_chunk_message :: "DataChunkMessage \<Rightarrow> bool" where
  "sendable_data_chunk_message value \<longleftrightarrow>
     dcm_transfer value \<noteq> nil_id \<and>
     length (dcm_data value) \<le> kMaxChunkBytes \<and>
     dcm_total_chunks value \<noteq> 0 \<and>
     dcm_chunk_index value < dcm_total_chunks value \<and>
     dcm_data value \<noteq> []"

lemma transmits_data_chunk_message:
  "sendable_data_chunk_message v \<Longrightarrow> transmits (encode_data_chunk_message v) decode_data_chunk_message (Inr v)"
  unfolding encode_data_chunk_message_def decode_data_chunk_message_def
  by (intro transmission) (auto simp: sendable_data_chunk_message_def kMaxChunkBytes_def kMaxFramePayloadBytes_def dest: leD)

lemma sane_data_chunk_message [sane_rules]: "sane decode_data_chunk_message"
  unfolding decode_data_chunk_message_def Let_def by (intro sane_rules)

lemma guarded_data_chunk_message [guarded_rules]: "guarded decode_data_chunk_message"
  unfolding decode_data_chunk_message_def Let_def by (intro guarded_rules)

interpretation data_chunk_message: codec encode_data_chunk_message decode_data_chunk_message sendable_data_chunk_message
  by unfold_locales (simp_all add: transmits_data_chunk_message sane_data_chunk_message guarded_data_chunk_message)

record DataAckMessage =
  dam_transfer :: id128
  dam_chunk_index :: u32
  dam_received_bytes :: u64
  dam_code :: StatusCode

definition encode_data_ack_message :: "DataAckMessage \<Rightarrow> (Writer, unit) state" where
  "encode_data_ack_message value = do {
     write_id (dam_transfer value);
     Writer_u32 (dam_chunk_index value);
     Writer_u64 (dam_received_bytes value);
     Writer_u16 (status_value (dam_code value)) }"

definition decode_data_ack_message :: "(Reader, DataAckMessage result) state" where
  "decode_data_ack_message = do {
     transfer \<leftarrow> Reader_id;
     chunk_index \<leftarrow> Reader_u32;
     received_bytes \<leftarrow> Reader_u64;
     code \<leftarrow> Reader_u16;
     or_fail (let value =
         \<lparr> dam_transfer = transfer, dam_chunk_index = chunk_index,
           dam_received_bytes = received_bytes, dam_code = status_of_value code \<rparr>
     in if code > status_value ST_Refused then failure ST_MalformedInput else success value) }"

definition sendable_data_ack_message :: "DataAckMessage \<Rightarrow> bool" where
  "sendable_data_ack_message value \<longleftrightarrow>
     dam_transfer value \<noteq> nil_id"

lemma transmits_data_ack_message:
  "sendable_data_ack_message v \<Longrightarrow> transmits (encode_data_ack_message v) decode_data_ack_message (Inr v)"
  unfolding encode_data_ack_message_def decode_data_ack_message_def
  by (intro transmission) (simp_all add: sendable_data_ack_message_def status_value_le [THEN leD])

lemma sane_data_ack_message [sane_rules]: "sane decode_data_ack_message"
  unfolding decode_data_ack_message_def Let_def by (intro sane_rules)

lemma guarded_data_ack_message [guarded_rules]: "guarded decode_data_ack_message"
  unfolding decode_data_ack_message_def Let_def by (intro guarded_rules)

lemma size_data_ack_message [size_rules]: "at_most (encode_data_ack_message v) 30"
  unfolding encode_data_ack_message_def by (rule at_most_mono, (rule size_rules)+, simp)

interpretation data_ack_message: codec encode_data_ack_message decode_data_ack_message sendable_data_ack_message
  by unfold_locales (simp_all add: transmits_data_ack_message sane_data_ack_message guarded_data_ack_message)

record DataCompleteMessage =
  dom_transfer :: id128
  dom_total_bytes :: u64
  dom_total_chunks :: u32
  dom_content_crc32c :: u32

definition encode_data_complete_message :: "DataCompleteMessage \<Rightarrow> (Writer, unit) state" where
  "encode_data_complete_message value = do {
     write_id (dom_transfer value);
     Writer_u64 (dom_total_bytes value);
     Writer_u32 (dom_total_chunks value);
     Writer_u32 (dom_content_crc32c value) }"

definition decode_data_complete_message :: "(Reader, DataCompleteMessage result) state" where
  "decode_data_complete_message = do {
     transfer \<leftarrow> Reader_id;
     total_bytes \<leftarrow> Reader_u64;
     total_chunks \<leftarrow> Reader_u32;
     content_crc32c \<leftarrow> Reader_u32;
     or_fail (let value =
         \<lparr> dom_transfer = transfer, dom_total_bytes = total_bytes,
           dom_total_chunks = total_chunks, dom_content_crc32c = content_crc32c \<rparr>
     in if dom_total_chunks value = 0 then failure ST_MalformedInput else success value) }"

definition sendable_data_complete_message :: "DataCompleteMessage \<Rightarrow> bool" where
  "sendable_data_complete_message value \<longleftrightarrow>
     dom_transfer value \<noteq> nil_id \<and>
     dom_total_chunks value \<noteq> 0"

lemma transmits_data_complete_message:
  "sendable_data_complete_message v \<Longrightarrow> transmits (encode_data_complete_message v) decode_data_complete_message (Inr v)"
  unfolding encode_data_complete_message_def decode_data_complete_message_def
  by (intro transmission) (simp_all add: sendable_data_complete_message_def)

lemma sane_data_complete_message [sane_rules]: "sane decode_data_complete_message"
  unfolding decode_data_complete_message_def Let_def by (intro sane_rules)

lemma guarded_data_complete_message [guarded_rules]: "guarded decode_data_complete_message"
  unfolding decode_data_complete_message_def Let_def by (intro guarded_rules)

lemma size_data_complete_message [size_rules]: "at_most (encode_data_complete_message v) 32"
  unfolding encode_data_complete_message_def by (rule at_most_mono, (rule size_rules)+, simp)

interpretation data_complete_message: codec encode_data_complete_message decode_data_complete_message sendable_data_complete_message
  by unfold_locales (simp_all add: transmits_data_complete_message sane_data_complete_message guarded_data_complete_message)

end
