(* ===== verification/Net.thy ===== *)
theory Net
  imports Codec
begin

text \<open>
  The connected stream of \<open>include/itf/net.hpp\<close> and \<open>src/net.cpp\<close>. What the operating system will
  do is a script: for each wait on the socket, whether it elapses, fails, or is followed by a
  \<open>recv\<close> that delivers bytes, and for each \<open>send\<close> its outcome. The scripts are finite and arbitrary;
  a script that has run out stands for a connection that is gone.
\<close>

datatype Arrival = AR_Quiet | AR_WaitFailed | AR_RecvFailed | AR_Bytes "u8 list"

datatype SendReply = SR_Sent nat | SR_Blocked bool | SR_Failed

record TcpStream =
  tcp_valid :: bool
  tcp_input :: "Arrival list"
  tcp_replies :: "SendReply list"
  tcp_output :: "u8 list"

text \<open>
  The loop of \<open>read_exact\<close>: the bytes it stored in the buffer are part of the result also when it
  gives up. A \<open>recv\<close> that returns nothing is the end of the stream.
\<close>

fun read_loop :: "nat \<Rightarrow> Arrival list \<Rightarrow> StatusCode \<times> u8 list \<times> Arrival list" where
  "read_loop 0 arrivals = (ST_Ok, [], arrivals)"
| "read_loop (Suc n) [] = (ST_Closed, [], [])"
| "read_loop (Suc n) (AR_Quiet # rest) = (ST_NotFound, [], rest)"
| "read_loop (Suc n) (AR_WaitFailed # rest) = (ST_Closed, [], rest)"
| "read_loop (Suc n) (AR_RecvFailed # rest) = (ST_IoError, [], rest)"
| "read_loop (Suc n) (AR_Bytes bytes # rest) =
     (if bytes = [] then (ST_Closed, [], rest)
      else if length bytes \<le> Suc n
      then (case read_loop (Suc n - length bytes) rest of
              (code, more_bytes, rest') \<Rightarrow> (code, bytes @ more_bytes, rest'))
      else (ST_Ok, take (Suc n) bytes, AR_Bytes (drop (Suc n) bytes) # rest))"

definition tcp_read_exact :: "nat \<Rightarrow> TcpStream \<Rightarrow> StatusCode \<times> u8 list \<times> TcpStream" where
  "tcp_read_exact n stream =
     (if n = 0 then (ST_Ok, [], stream)
      else if \<not> tcp_valid stream then (ST_Closed, [], stream)
      else (case read_loop n (tcp_input stream) of
              (code, bytes, rest) \<Rightarrow> (code, bytes, stream\<lparr> tcp_input := rest \<rparr>)))"

text \<open>The loop of \<open>write_all\<close>: the second component is what reached the socket.\<close>

fun write_loop :: "u8 list \<Rightarrow> SendReply list \<Rightarrow> StatusCode \<times> u8 list \<times> SendReply list" where
  "write_loop data [] = (if data = [] then (ST_Ok, [], []) else (ST_IoError, [], []))"
| "write_loop data (reply # rest) =
     (if data = [] then (ST_Ok, [], reply # rest)
      else case reply of
        SR_Failed \<Rightarrow> (ST_IoError, [], rest)
      | SR_Blocked ready \<Rightarrow> if ready then write_loop data rest else (ST_IoError, [], rest)
      | SR_Sent n \<Rightarrow>
          if n = 0 then (ST_IoError, [], rest)
          else (case write_loop (drop n data) rest of
                  (code, out, rest') \<Rightarrow> (code, take n data @ out, rest')))"

definition tcp_write_all :: "u8 list \<Rightarrow> TcpStream \<Rightarrow> StatusCode \<times> TcpStream" where
  "tcp_write_all data stream =
     (if data = [] then (ST_Ok, stream)
      else if \<not> tcp_valid stream then (ST_Closed, stream)
      else (case write_loop data (tcp_replies stream) of
              (code, out, rest) \<Rightarrow>
                (code, stream\<lparr> tcp_output := tcp_output stream @ out, tcp_replies := rest \<rparr>)))"

definition tcp_close :: "TcpStream \<Rightarrow> TcpStream" where
  "tcp_close stream = stream\<lparr> tcp_valid := False \<rparr>"

definition is_loopback_address :: "string \<Rightarrow> bool" where
  "is_loopback_address address \<longleftrightarrow>
     address = ''::1'' \<or> address = ''localhost'' \<or>
     (length address \<ge> 4 \<and> take 4 address = ''127.'')"

section \<open>Lemmas\<close>

text \<open>How much of the script is left, and the bytes it holds.\<close>

fun arrival_weight :: "Arrival \<Rightarrow> nat" where
  "arrival_weight (AR_Bytes bytes) = Suc (length bytes)"
| "arrival_weight _ = 1"

definition pending_input :: "TcpStream \<Rightarrow> nat" where
  "pending_input stream = sum_list (map arrival_weight (tcp_input stream))"

lemma read_loop_bytes:
  assumes "read_loop (Suc n) (AR_Bytes bytes # rest) = (code, out, rest')" and "bytes \<noteq> []" and "length bytes \<le> Suc n"
  obtains out' where "read_loop (Suc n - length bytes) rest = (code, out', rest')" and "out = bytes @ out'"
  using assms by (cases "read_loop (Suc n - length bytes) rest") auto

lemma read_loop_weight:
  "read_loop n arrivals = (code, bytes, rest) \<Longrightarrow>
   sum_list (map arrival_weight rest) + length bytes \<le> sum_list (map arrival_weight arrivals) \<and>
   (code = ST_NotFound \<longrightarrow> sum_list (map arrival_weight rest) < sum_list (map arrival_weight arrivals)) \<and>
   (code = ST_Ok \<longrightarrow> length bytes = n)"
proof (induction n arrivals arbitrary: code bytes rest rule: read_loop.induct)
  case (6 n bs arrivals)
  show ?case
  proof (cases "bs \<noteq> [] \<and> length bs \<le> Suc n")
    case True
    with 6(2) obtain out' where rec: "read_loop (Suc n - length bs) arrivals = (code, out', rest)"
      and bytes: "bytes = bs @ out'"
      by (blast elim: read_loop_bytes)
    from 6(1) [OF _ _ rec] True show ?thesis
      unfolding bytes by auto
  next
    case False
    with 6(2) show ?thesis by (cases "bs = []") auto
  qed
qed auto

lemma tcp_read_exact_Ok: "tcp_read_exact n stream = (ST_Ok, bytes, stream') \<Longrightarrow> length bytes = n"
  by (auto simp: tcp_read_exact_def dest: read_loop_weight split: if_splits prod.splits)

lemma tcp_read_exact_weight:
  "tcp_read_exact n stream = (code, bytes, stream') \<Longrightarrow> pending_input stream' + length bytes \<le> pending_input stream"
  by (auto simp: tcp_read_exact_def pending_input_def dest: read_loop_weight split: if_splits prod.splits)

lemma tcp_read_exact_quiet:
  "tcp_read_exact n stream = (ST_NotFound, bytes, stream') \<Longrightarrow> pending_input stream' < pending_input stream"
  by (auto simp: tcp_read_exact_def pending_input_def dest: read_loop_weight split: if_splits prod.splits)

lemma tcp_read_exact_output:
  "tcp_read_exact n stream = (code, bytes, stream') \<Longrightarrow>
   tcp_output stream' = tcp_output stream \<and> tcp_replies stream' = tcp_replies stream \<and>
   tcp_valid stream' = tcp_valid stream"
  by (auto simp: tcp_read_exact_def split: if_splits prod.splits)

lemma write_loop_prefix:
  "write_loop data replies = (code, out, rest) \<Longrightarrow> prefix out data \<and> (code = ST_Ok \<longrightarrow> out = data)"
proof (induction data replies arbitrary: code out rest rule: write_loop.induct)
  case (2 data reply replies)
  show ?case
  proof (cases "data = []")
    case False
    note d = False
    show ?thesis
    proof (cases reply)
      case (SR_Sent n)
      show ?thesis
      proof (cases "n = 0")
        case False
        obtain c o' r where w: "write_loop (drop n data) replies = (c, o', r)"
          by (cases "write_loop (drop n data) replies")
        then have "prefix o' (drop n data) \<and> (c = ST_Ok \<longrightarrow> o' = drop n data)"
          using 2(1) [OF d SR_Sent False] by blast
        moreover from this have "prefix (take n data @ o') (take n data @ drop n data)"
          by (simp only: same_prefix_prefix)
        ultimately show ?thesis
          using 2(3) w d SR_Sent False by auto
      qed (use 2(3) d SR_Sent in auto)
    qed (use 2 d in \<open>auto split: if_splits\<close>)
  qed (use 2(3) in auto)
qed (auto split: if_splits)

lemma tcp_write_all_frame:
  assumes "tcp_write_all data stream = (code, stream')"
  shows "tcp_input stream' = tcp_input stream" "tcp_valid stream' = tcp_valid stream"
    "\<exists>out. tcp_output stream' = tcp_output stream @ out \<and> prefix out data \<and> (code = ST_Ok \<longrightarrow> out = data)"
  using assms
  by (auto simp: tcp_write_all_def dest: write_loop_prefix split: if_splits prod.splits)

end
