(* ===== verification/Session.thy ===== *)
theory Session
  imports Messages Net
begin

text \<open>
  The framed session server (\<open>include/itf/session.hpp\<close>, \<open>src/session.cpp\<close>). A session is one run of
  \<open>Server::serve_session\<close>: a loop over the frames of one connection. The handler is a parameter: its
  state and its three virtual functions. \<open>Server::start\<close> refuses a null handler, so the handler of
  a running session is present.
\<close>

section \<open>Configuration, context and statistics\<close>

text \<open>The fields of the configuration that decide; the others only tune the sockets.\<close>

record ServerConfig =
  sc_max_sessions :: u32
  sc_max_frame_payload :: u64
  sc_auth_token :: "u8 list"
  sc_require_auth :: bool

definition Server_config :: "ServerConfig \<Rightarrow> ServerConfig" where
  "Server_config config =
     (let config1 = (if sc_max_sessions config = 0 then config\<lparr> sc_max_sessions := 1 \<rparr> else config)
      in if sc_max_frame_payload config1 = 0 \<or>
            sc_max_frame_payload config1 > ucast kAbsoluteMaxPayloadBytes
         then config1\<lparr> sc_max_frame_payload := ucast kAbsoluteMaxPayloadBytes \<rparr> else config1)"

record SessionStats =
  st_accepted :: u64
  st_rejected_capacity :: u64
  st_rejected_auth :: u64
  st_rejected_protocol :: u64
  st_frames_in :: u64
  st_frames_out :: u64
  st_frames_invalid :: u64
  st_replays_rejected :: u64
  st_duplicates_served :: u64
  st_bytes_in :: u64
  st_bytes_out :: u64

record Context =
  cx_session :: id128
  cx_peer :: id128
  cx_peer_name :: "u8 list"
  cx_peer_boot :: BootId
  cx_max_frame_payload :: u32

definition Context_init :: Context where
  "Context_init =
     \<lparr> cx_session = nil_id, cx_peer = nil_id, cx_peer_name = [], cx_peer_boot = nil_id,
       cx_max_frame_payload = 0 \<rparr>"

text \<open>A failure of the handler carries a code and the bytes of its message.\<close>

record 'h MessageHandler =
  mh_handle ::
    "Context \<Rightarrow> MessageType \<Rightarrow> u8 list \<Rightarrow> 'h \<Rightarrow> (StatusCode \<times> u8 list + u8 list) \<times> Context \<times> 'h"
  mh_describe_authority :: "HelloResponse \<Rightarrow> 'h \<Rightarrow> HelloResponse \<times> 'h"
  mh_on_session_closed :: "Context \<Rightarrow> 'h \<Rightarrow> 'h"

section \<open>The state of a session\<close>

text \<open>
  The local variables of \<open>serve_session\<close>, the counters of the server, the stream and the state of
  the handler. \<open>se_trace\<close> is a history: the well-formed handshakes received, the calls of the
  handler and the frames handed to the stream. No step reads it.
\<close>

datatype SessionEvent =
    SX_Hello "u8 list"
  | SX_Handled u64 MessageType "u8 list"
  | SX_Sent FrameHeader "u8 list"

record 'h Session =
  se_stream :: TcpStream
  se_context :: Context
  se_max_payload :: u32
  se_inbound_sequence :: u64
  se_outbound_sequence :: u64
  se_replays :: u64
  se_handshaken :: bool
  se_stats :: SessionStats
  se_rounds :: nat
  se_handler :: 'h
  se_trace :: "SessionEvent list"

text \<open>
  The environment of a session: the configuration of the server, the handler, the identifiers the
  random source will give, and whether \<open>stopping_\<close> is set when the loop is at its \<open>n\<close>-th turn.
\<close>

record 'h SessionEnv =
  sv_config :: ServerConfig
  sv_handler :: "'h MessageHandler"
  sv_random :: "u64 \<times> u64 \<times> u64 \<times> u64"
  sv_stopping :: "nat \<Rightarrow> bool"

definition next_random_id :: "u64 \<Rightarrow> u64 \<Rightarrow> id128" where
  "next_random_id hi lo = (if hi = 0 \<and> lo = 0 then Id128 hi 1 else Id128 hi lo)"

fun secret_difference :: "u8 list \<Rightarrow> u8 list \<Rightarrow> u8 \<Rightarrow> u8" where
  "secret_difference (x # xs) (y # ys) difference =
     secret_difference xs ys (difference OR (x XOR y))"
| "secret_difference _ _ difference = difference"

definition secret_matches :: "u8 list \<Rightarrow> u8 list \<Rightarrow> bool" where
  "secret_matches expected provided \<longleftrightarrow>
     (if length expected \<noteq> length provided then False
      else secret_difference expected provided 0 = 0)"

definition bytes_of :: "string \<Rightarrow> u8 list" where
  "bytes_of s = map of_char s"

definition kVersionString :: "u8 list" where
  "kVersionString = bytes_of ''1.0.0''"

definition HelloResponse_init :: HelloResponse where
  "HelloResponse_init =
     \<lparr> hs_protocol_version = kWireProtocolVersion, hs_server_api_version = kApiVersion,
       hs_session = nil_id, hs_peer = nil_id, hs_coordinator_boot = nil_id, hs_epoch = 0,
       hs_policy_generation = 0, hs_topology_generation = 0, hs_topology_state = EV_Unknown,
       hs_max_frame_payload = kAbsoluteMaxPayloadBytes, hs_authority_sequence = 0,
       hs_server_version = [] \<rparr>"

text \<open>The body a default writer holds after an encoder, whether or not the encoder failed.\<close>

definition body_of :: "('a \<Rightarrow> (Writer, unit) state) \<Rightarrow> 'a \<Rightarrow> u8 list" where
  "body_of enc x = wr_buffer (snd (run_state (enc x) (Writer_new kMaxFramePayloadBytes)))"

text \<open>The message that accompanies each refusal of \<open>decode_header\<close>.\<close>

definition decode_header_detail :: "u8 list \<Rightarrow> u32 \<Rightarrow> string" where
  "decode_header_detail header max_payload_bytes =
     (if length header < kHeaderBytes then ''frame header is truncated''
      else if take 4 header \<noteq> kMagic then ''frame magic does not match''
      else if load_u16 (drop 4 header) \<noteq> kWireProtocolVersion
      then ''frame protocol version is not supported''
      else if \<not> is_known_message_type (load_u16 (drop 6 header)) then ''unknown message type''
      else if load_u32 (drop 36 header) \<noteq> crc_compute (take (kHeaderBytes - 4) header)
      then ''frame header checksum mismatch''
      else if load_u32 (drop 12 header) > kAbsoluteMaxPayloadBytes
      then ''frame payload exceeds the protocol ceiling''
      else if load_u32 (drop 12 header) > max_payload_bytes
      then ''frame payload exceeds the negotiated limit''
      else ''frame flags are not defined in this protocol version'')"

section \<open>Sending\<close>

definition note_event :: "SessionEvent \<Rightarrow> 'h Session \<Rightarrow> 'h Session" where
  "note_event e s = s\<lparr> se_trace := se_trace s @ [e] \<rparr>"

definition bump :: "(SessionStats \<Rightarrow> SessionStats) \<Rightarrow> 'h Session \<Rightarrow> 'h Session" where
  "bump f s = s\<lparr> se_stats := f (se_stats s) \<rparr>"

definition frame_for :: "MessageType \<Rightarrow> u8 list \<Rightarrow> u64 \<Rightarrow> u64 \<Rightarrow> FrameHeader" where
  "frame_for type payload correlation sequence =
     FrameHeader_init\<lparr> fh_type := type, fh_payload_length := of_nat (length payload),
       fh_correlation := correlation, fh_sequence := sequence,
       fh_payload_crc32c := crc_compute payload \<rparr>"

definition session_send ::
  "MessageType \<Rightarrow> u8 list \<Rightarrow> u64 \<Rightarrow> 'h Session \<Rightarrow> StatusCode \<times> 'h Session" where
  "session_send type payload correlation s =
     (let sequence = se_outbound_sequence s + 1;
          frame = frame_for type payload correlation sequence;
          header = encode_header frame (replicate kHeaderBytes 0);
          s1 = note_event (SX_Sent frame payload) (s\<lparr> se_outbound_sequence := sequence \<rparr>)
      in case tcp_write_all header (se_stream s1) of (status1, stream1) \<Rightarrow>
         (case (if status1 = ST_Ok \<and> payload \<noteq> [] then tcp_write_all payload stream1
                else (status1, stream1)) of (status2, stream2) \<Rightarrow>
            let s2 = s1\<lparr> se_stream := stream2 \<rparr>
            in (status2,
                if status2 = ST_Ok
                then bump (\<lambda>st. st\<lparr> st_frames_out := st_frames_out st + 1,
                       st_bytes_out := st_bytes_out st + of_nat (length header + length payload) \<rparr>) s2
                else s2)))"

definition send_error ::
  "StatusCode \<Rightarrow> MessageType \<Rightarrow> u8 list \<Rightarrow> u64 \<Rightarrow> 'h Session \<Rightarrow> 'h Session" where
  "send_error code offending detail correlation s =
     snd (session_send MT_ErrorResponse
       (body_of encode_error_response \<lparr> ee_code = code, ee_offending_type = offending, ee_detail = detail \<rparr>)
       correlation s)"

section \<open>One turn of the loop\<close>

text \<open>Each part returns whether the loop goes on.\<close>

definition establish ::
  "'h SessionEnv \<Rightarrow> FrameHeader \<Rightarrow> HelloRequest \<Rightarrow> 'h Session \<Rightarrow> bool \<times> 'h Session" where
  "establish env frame hello s =
     (let limit = ucast (sc_max_frame_payload (sv_config env));
          negotiated = min limit (hq_max_frame_payload hello);
          max_payload = (if negotiated = 0 then limit else negotiated);
          context = (case sv_random env of (a, b, c, d) \<Rightarrow>
            (se_context s)\<lparr> cx_session := next_random_id a b, cx_peer := next_random_id c d,
              cx_peer_name := hq_peer_name hello, cx_peer_boot := hq_client_boot hello,
              cx_max_frame_payload := max_payload \<rparr>);
          response = HelloResponse_init\<lparr> hs_session := cx_session context, hs_peer := cx_peer context,
            hs_max_frame_payload := max_payload, hs_server_version := kVersionString \<rparr>
      in case mh_describe_authority (sv_handler env) response (se_handler s) of (response1, h1) \<Rightarrow>
         (case session_send MT_HelloResponse (body_of encode_hello_response response1)
                 (fh_sequence frame)
                 (s\<lparr> se_max_payload := max_payload, se_context := context, se_handler := h1 \<rparr>) of
            (sent, s1) \<Rightarrow>
              if sent \<noteq> ST_Ok then (False, s1) else (True, s1\<lparr> se_handshaken := True \<rparr>)))"

definition session_handshake ::
  "'h SessionEnv \<Rightarrow> FrameHeader \<Rightarrow> u8 list \<Rightarrow> 'h Session \<Rightarrow> bool \<times> 'h Session" where
  "session_handshake env frame body s =
     (if fh_type frame \<noteq> MT_HelloRequest
      then (False, send_error ST_NotAuthorized (fh_type frame) (bytes_of ''session handshake is required'')
             (fh_sequence frame) (bump (\<lambda>st. st\<lparr> st_rejected_protocol := st_rejected_protocol st + 1 \<rparr>) s))
      else (case run_state decode_hello_request (Reader_new body kMaxFramePayloadBytes) of (hello, r) \<Rightarrow>
       (case (case hello of Inl code \<Rightarrow> Inl code
              | Inr x \<Rightarrow> if Reader_finish r \<noteq> ST_Ok then Inl ST_TrailingGarbage else Inr x) of
          Inl code \<Rightarrow>
            (False, send_error code (fh_type frame) (bytes_of ''handshake body is not acceptable'')
               (fh_sequence frame) (bump (\<lambda>st. st\<lparr> st_rejected_protocol := st_rejected_protocol st + 1 \<rparr>) s))
        | Inr x \<Rightarrow>
            let s1 = note_event (SX_Hello (hq_auth_token x)) s
            in if sc_require_auth (sv_config env) \<and>
                  \<not> secret_matches (sc_auth_token (sv_config env)) (hq_auth_token x)
               then (False, send_error ST_NotAuthorized (fh_type frame)
                      (bytes_of ''session secret was not accepted'') (fh_sequence frame)
                      (bump (\<lambda>st. st\<lparr> st_rejected_auth := st_rejected_auth st + 1 \<rparr>) s1))
               else establish env frame x s1)))"

definition session_dispatch ::
  "'h SessionEnv \<Rightarrow> FrameHeader \<Rightarrow> u8 list \<Rightarrow> 'h Session \<Rightarrow> bool \<times> 'h Session" where
  "session_dispatch env frame body s =
     (if fh_type frame = MT_HelloRequest
      then (True, send_error ST_AlreadyExists (fh_type frame) (bytes_of ''session is already established'')
             (fh_sequence frame) s)
      else (case mh_handle (sv_handler env) (se_context s) (fh_type frame) body (se_handler s) of
        (response, context, h1) \<Rightarrow>
          let s1 = (note_event (SX_Handled (fh_sequence frame) (fh_type frame) body) s)
                     \<lparr> se_context := context, se_handler := h1 \<rparr>
          in case response of
            Inl (code, message) \<Rightarrow>
              (True, send_error code (fh_type frame) message (fh_sequence frame) s1)
          | Inr reply \<Rightarrow>
              if response_type_for (fh_type frame) = MT_Invalid
              then (True, send_error ST_Unsupported (fh_type frame)
                     (bytes_of ''message type has no response mapping'') (fh_sequence frame) s1)
              else (case session_send (response_type_for (fh_type frame)) reply (fh_sequence frame) s1 of
                      (sent, s2) \<Rightarrow> (sent = ST_Ok, s2))))"

definition session_frame ::
  "'h SessionEnv \<Rightarrow> FrameHeader \<Rightarrow> u8 list \<Rightarrow> 'h Session \<Rightarrow> bool \<times> 'h Session" where
  "session_frame env frame payload s =
     (let s1 = bump (\<lambda>st. st\<lparr> st_frames_in := st_frames_in st + 1,
                 st_bytes_in := st_bytes_in st + of_nat (kHeaderBytes + length payload) \<rparr>) s
      in if crc_compute payload \<noteq> fh_payload_crc32c frame
         then (False, send_error ST_IntegrityMismatch (fh_type frame)
                (bytes_of ''frame payload checksum mismatch'') (fh_sequence frame)
                (bump (\<lambda>st. st\<lparr> st_frames_invalid := st_frames_invalid st + 1 \<rparr>) s1))
         else if fh_sequence frame \<le> se_inbound_sequence s1
         then (let s2 = send_error ST_ReplayRejected (fh_type frame)
                     (bytes_of ''frame sequence is not greater than the last accepted sequence'')
                     (fh_sequence frame)
                     (bump (\<lambda>st. st\<lparr> st_replays_rejected := st_replays_rejected st + 1 \<rparr>)
                       (s1\<lparr> se_replays := se_replays s1 + 1 \<rparr>))
               in (\<not> se_replays s2 > 8, s2))
         else (let s2 = s1\<lparr> se_inbound_sequence := fh_sequence frame \<rparr>
               in if \<not> se_handshaken s2 then session_handshake env frame payload s2
                  else session_dispatch env frame payload s2))"

definition session_round :: "'h SessionEnv \<Rightarrow> 'h Session \<Rightarrow> bool \<times> 'h Session" where
  "session_round env s =
     (case tcp_read_exact kHeaderBytes (se_stream s) of (read_header, header, stream1) \<Rightarrow>
        let s1 = s\<lparr> se_stream := stream1, se_rounds := Suc (se_rounds s) \<rparr>
        in if read_header \<noteq> ST_Ok then (read_header = ST_NotFound, s1)
           else (case decode_header header (se_max_payload s1) of
             Inl code \<Rightarrow>
               (False, send_error code MT_Invalid
                  (bytes_of (decode_header_detail header (se_max_payload s1))) 0
                  (bump (\<lambda>st. st\<lparr> st_frames_invalid := st_frames_invalid st + 1,
                     st_bytes_in := st_bytes_in st + of_nat kHeaderBytes \<rparr>) s1))
           | Inr frame \<Rightarrow>
               (case tcp_read_exact (unat (fh_payload_length frame)) stream1 of
                  (read_payload, payload, stream2) \<Rightarrow>
                    let s2 = s1\<lparr> se_stream := stream2 \<rparr>
                    in if read_payload \<noteq> ST_Ok
                       then (False, bump (\<lambda>st. st\<lparr> st_frames_invalid := st_frames_invalid st + 1 \<rparr>) s2)
                       else session_frame env frame payload s2)))"

text \<open>The loop may wait for ever on a live connection; a run that does not return is \<open>None\<close>.\<close>

partial_function (option) session_loop :: "'h SessionEnv \<Rightarrow> 'h Session \<Rightarrow> 'h Session option" where
  "session_loop env s =
     (if sv_stopping env (se_rounds s) then Some s
      else (case session_round env s of (continue, s1) \<Rightarrow>
              if continue then session_loop env s1 else Some s1))"

definition Session_new :: "'h SessionEnv \<Rightarrow> TcpStream \<Rightarrow> SessionStats \<Rightarrow> 'h \<Rightarrow> 'h Session" where
  "Session_new env stream stats h =
     \<lparr> se_stream = stream, se_context = Context_init,
       se_max_payload = ucast (sc_max_frame_payload (sv_config env)), se_inbound_sequence = 0,
       se_outbound_sequence = 0, se_replays = 0, se_handshaken = False, se_stats = stats,
       se_rounds = 0, se_handler = h, se_trace = [] \<rparr>"

definition serve_session ::
  "'h SessionEnv \<Rightarrow> TcpStream \<Rightarrow> SessionStats \<Rightarrow> 'h \<Rightarrow> 'h Session option" where
  "serve_session env stream stats h =
     (case session_loop env (Session_new env stream stats h) of
        None \<Rightarrow> None
      | Some s \<Rightarrow>
          let s1 = (if se_handshaken s
                    then s\<lparr> se_handler := mh_on_session_closed (sv_handler env) (se_context s) (se_handler s) \<rparr>
                    else s)
          in Some (s1\<lparr> se_stream := tcp_close (se_stream s1) \<rparr>))"

declare session_loop.simps [code]

section \<open>Frames of the operations\<close>

lemma secret_difference_zero:
  "length xs = length ys \<Longrightarrow> secret_difference xs ys d = 0 \<longleftrightarrow> d = 0 \<and> xs = ys"
proof (induction xs ys d rule: secret_difference.induct)
  case (1 x xs y ys d)
  have "d OR (x XOR y) = 0 \<longleftrightarrow> d = 0 \<and> x = y"
    by (auto simp: bit_eq_iff bit_simps)
  with 1 show ?case by auto
qed simp_all

lemma secret_matches_iff: "secret_matches expected provided \<longleftrightarrow> provided = expected"
  by (auto simp: secret_matches_def secret_difference_zero)

lemma bump_simps [simp]:
  "se_stream (bump f s) = se_stream s" "se_context (bump f s) = se_context s"
  "se_max_payload (bump f s) = se_max_payload s" "se_inbound_sequence (bump f s) = se_inbound_sequence s"
  "se_outbound_sequence (bump f s) = se_outbound_sequence s" "se_replays (bump f s) = se_replays s"
  "se_handshaken (bump f s) = se_handshaken s" "se_rounds (bump f s) = se_rounds s"
  "se_handler (bump f s) = se_handler s" "se_trace (bump f s) = se_trace s"
  by (simp_all add: bump_def)

lemma note_event_simps [simp]:
  "se_stream (note_event e s) = se_stream s" "se_context (note_event e s) = se_context s"
  "se_max_payload (note_event e s) = se_max_payload s"
  "se_inbound_sequence (note_event e s) = se_inbound_sequence s"
  "se_outbound_sequence (note_event e s) = se_outbound_sequence s"
  "se_replays (note_event e s) = se_replays s" "se_handshaken (note_event e s) = se_handshaken s"
  "se_rounds (note_event e s) = se_rounds s" "se_handler (note_event e s) = se_handler s"
  "se_trace (note_event e s) = se_trace s @ [e]"
  by (simp_all add: note_event_def)

lemma session_send_fields [simp]:
  fixes s :: "'h Session" and type :: MessageType and payload :: "u8 list" and correlation :: u64
  defines "s' \<equiv> snd (session_send type payload correlation s)"
  shows "se_context s' = se_context s" "se_max_payload s' = se_max_payload s"
    "se_inbound_sequence s' = se_inbound_sequence s" "se_replays s' = se_replays s"
    "se_outbound_sequence s' = se_outbound_sequence s + 1"
    "se_handshaken s' = se_handshaken s" "se_rounds s' = se_rounds s" "se_handler s' = se_handler s"
    "se_trace s' = se_trace s @ [SX_Sent (frame_for type payload correlation (se_outbound_sequence s + 1)) payload]"
  by (simp_all add: s'_def session_send_def Let_def split_beta)

lemma tcp_write_all_input [simp]: "tcp_input (snd (tcp_write_all data stream)) = tcp_input stream"
  using tcp_write_all_frame(1) [of data stream] by (cases "tcp_write_all data stream") simp

lemma session_send_input [simp]:
  "tcp_input (se_stream (snd (session_send type payload correlation s))) = tcp_input (se_stream s)"
  by (simp add: session_send_def Let_def split_beta)

lemma send_error_fields [simp]:
  fixes s :: "'h Session" and code :: StatusCode and offending :: MessageType and detail :: "u8 list"
    and correlation :: u64
  defines "s' \<equiv> send_error code offending detail correlation s"
  shows "se_context s' = se_context s" "se_max_payload s' = se_max_payload s"
    "se_inbound_sequence s' = se_inbound_sequence s" "se_replays s' = se_replays s"
    "se_outbound_sequence s' = se_outbound_sequence s + 1"
    "se_handshaken s' = se_handshaken s" "se_rounds s' = se_rounds s" "se_handler s' = se_handler s"
    "tcp_input (se_stream s') = tcp_input (se_stream s)"
    "\<exists>frame payload. se_trace s' = se_trace s @ [SX_Sent frame payload] \<and>
       fh_sequence frame = se_outbound_sequence s + 1"
  by (simp_all add: s'_def send_error_def frame_for_def)

section \<open>The invariant of a session\<close>

definition sent_frames :: "SessionEvent list \<Rightarrow> FrameHeader list" where
  "sent_frames trace = concat (map (\<lambda>e. case e of SX_Sent frame _ \<Rightarrow> [frame] | _ \<Rightarrow> []) trace)"

definition handled_sequences :: "SessionEvent list \<Rightarrow> u64 list" where
  "handled_sequences trace = concat (map (\<lambda>e. case e of SX_Handled q _ _ \<Rightarrow> [q] | _ \<Rightarrow> []) trace)"

definition secret_shown :: "'h SessionEnv \<Rightarrow> SessionEvent list \<Rightarrow> bool" where
  "secret_shown env trace \<longleftrightarrow>
     (\<exists>token. SX_Hello token \<in> set trace \<and>
        (sc_require_auth (sv_config env) \<longrightarrow> token = sc_auth_token (sv_config env)))"

definition handled_after_secret :: "'h SessionEnv \<Rightarrow> SessionEvent list \<Rightarrow> bool" where
  "handled_after_secret env trace \<longleftrightarrow>
     (\<forall>pre q t body post. trace = pre @ SX_Handled q t body # post \<longrightarrow> secret_shown env pre)"

definition numbered :: "u64 \<Rightarrow> SessionEvent list \<Rightarrow> bool" where
  "numbered outbound trace \<longleftrightarrow>
     outbound = of_nat (length (sent_frames trace)) \<and>
     map fh_sequence (sent_frames trace) = map of_nat [1..<Suc (length (sent_frames trace))]"

definition fresh_handled :: "u64 \<Rightarrow> SessionEvent list \<Rightarrow> bool" where
  "fresh_handled inbound trace \<longleftrightarrow>
     sorted_wrt (<) (handled_sequences trace) \<and> (\<forall>q \<in> set (handled_sequences trace). q \<le> inbound)"

definition session_inv :: "'h SessionEnv \<Rightarrow> 'h \<Rightarrow> 'h Session \<Rightarrow> bool" where
  "session_inv env h s \<longleftrightarrow>
     numbered (se_outbound_sequence s) (se_trace s) \<and>
     fresh_handled (se_inbound_sequence s) (se_trace s) \<and>
     handled_after_secret env (se_trace s) \<and>
     (se_handshaken s \<longrightarrow> secret_shown env (se_trace s)) \<and>
     (\<not> secret_shown env (se_trace s) \<longrightarrow> se_handler s = h) \<and>
     se_replays s \<le> 9"

lemma trace_projections [simp]:
  "sent_frames (tr @ tr') = sent_frames tr @ sent_frames tr'" "sent_frames [] = []"
  "sent_frames (SX_Sent frame payload # tr) = frame # sent_frames tr"
  "sent_frames (SX_Hello token # tr) = sent_frames tr"
  "sent_frames (SX_Handled q t body # tr) = sent_frames tr"
  "handled_sequences (tr @ tr') = handled_sequences tr @ handled_sequences tr'" "handled_sequences [] = []"
  "handled_sequences (SX_Sent frame payload # tr) = handled_sequences tr"
  "handled_sequences (SX_Hello token # tr) = handled_sequences tr"
  "handled_sequences (SX_Handled q t body # tr) = q # handled_sequences tr"
  by (simp_all add: sent_frames_def handled_sequences_def)

lemma numbered_sent [simp]:
  "numbered n tr \<Longrightarrow> fh_sequence frame = n + 1 \<Longrightarrow> numbered (n + 1) (tr @ [SX_Sent frame payload])"
  by (simp add: numbered_def)

lemma numbered_other [simp]:
  "numbered n (tr @ [SX_Hello token]) = numbered n tr" "numbered n (tr @ [SX_Handled q t body]) = numbered n tr"
  by (simp_all add: numbered_def)

lemma fresh_handled_simps [simp]:
  "fresh_handled n (tr @ [SX_Sent frame payload]) = fresh_handled n tr"
  "fresh_handled n (tr @ [SX_Hello token]) = fresh_handled n tr"
  by (simp_all add: fresh_handled_def)

lemma fresh_handled_mono: "fresh_handled n tr \<Longrightarrow> n < q \<Longrightarrow> fresh_handled q tr"
  by (auto simp: fresh_handled_def)

lemma fresh_handled_handled: "fresh_handled n tr \<Longrightarrow> n < q \<Longrightarrow> fresh_handled q (tr @ [SX_Handled q t body])"
  by (auto simp: fresh_handled_def sorted_wrt_append)

lemma secret_shown_simps [simp]:
  "secret_shown env (tr @ [SX_Sent frame payload]) = secret_shown env tr"
  "secret_shown env (tr @ [SX_Handled q t body]) = secret_shown env tr"
  "secret_shown env (tr @ [SX_Hello token]) \<longleftrightarrow> secret_shown env tr \<or>
     (sc_require_auth (sv_config env) \<longrightarrow> token = sc_auth_token (sv_config env))"
  by (auto simp: secret_shown_def)

lemma handled_after_secret_snoc [simp]:
  "handled_after_secret env (tr @ [e]) \<longleftrightarrow>
     handled_after_secret env tr \<and> ((\<exists>q t body. e = SX_Handled q t body) \<longrightarrow> secret_shown env tr)"
  (is "?l \<longleftrightarrow> ?r")
proof
  assume l: ?l
  have "secret_shown env pre" if "tr = pre @ SX_Handled q t body # post" for pre q t body post
    using l that unfolding handled_after_secret_def by (auto simp: append_assoc)
  then show ?r
    using l unfolding handled_after_secret_def by auto
next
  assume r: ?r
  show ?l
    unfolding handled_after_secret_def
  proof (intro allI impI)
    fix pre q t body post assume "tr @ [e] = pre @ SX_Handled q t body # post"
    then show "secret_shown env pre"
      using r unfolding handled_after_secret_def by (cases post rule: rev_cases) auto
  qed
qed

lemma session_inv_bump [simp]: "session_inv env h (bump f s) = session_inv env h s"
  by (simp add: session_inv_def)

lemma session_inv_stream [simp]:
  "session_inv env h (s\<lparr> se_stream := stream \<rparr>) = session_inv env h s"
  "session_inv env h (s\<lparr> se_rounds := n \<rparr>) = session_inv env h s"
  "session_inv env h (s\<lparr> se_stats := st \<rparr>) = session_inv env h s"
  by (simp_all add: session_inv_def)

lemma session_inv_send:
  "session_inv env h s \<Longrightarrow> session_inv env h (snd (session_send type payload correlation s))"
  by (simp add: session_inv_def frame_for_def)

lemma session_inv_error: "session_inv env h s \<Longrightarrow> session_inv env h (send_error code offending detail correlation s)"
  unfolding send_error_def by (rule session_inv_send)

lemma session_inv_hello: "session_inv env h s \<Longrightarrow> session_inv env h (note_event (SX_Hello token) s)"
  by (auto simp: session_inv_def)

lemma session_inv_establish:
  assumes "session_inv env h s" and "secret_shown env (se_trace s)"
  shows "session_inv env h (snd (establish env frame hello s))"
  using assms by (auto simp: establish_def Let_def split_beta session_inv_def frame_for_def)

lemma session_inv_handshake:
  assumes "session_inv env h s"
  shows "session_inv env h (snd (session_handshake env frame body s))"
proof (cases "fh_type frame = MT_HelloRequest")
  case False
  with assms show ?thesis by (simp add: session_handshake_def session_inv_error)
next
  case True
  obtain v r where run: "run_state decode_hello_request (Reader_new body kMaxFramePayloadBytes) = (v, r)"
    by (cases "run_state decode_hello_request (Reader_new body kMaxFramePayloadBytes)")
  show ?thesis
  proof (cases v)
    case (Inl e)
    with True run assms show ?thesis by (simp add: session_handshake_def session_inv_error)
  next
    case (Inr x)
    have "session_inv env h (note_event (SX_Hello (hq_auth_token x)) s)"
      using assms by (rule session_inv_hello)
    with True run assms Inr show ?thesis
      by (simp add: session_handshake_def Let_def session_inv_error session_inv_establish secret_matches_iff)
  qed
qed

lemma session_inv_dispatch:
  assumes "session_inv env h s" and "se_handshaken s" and "se_inbound_sequence s < fh_sequence frame"
  shows "session_inv env h (snd (session_dispatch env frame body (s\<lparr> se_inbound_sequence := fh_sequence frame \<rparr>)))"
proof -
  let ?s = "s\<lparr> se_inbound_sequence := fh_sequence frame \<rparr>"
  have accepted: "session_inv env h ?s"
    using assms(1,3) by (auto simp: session_inv_def intro: fresh_handled_mono)
  obtain response cx h1 where
    run: "mh_handle (sv_handler env) (se_context s) (fh_type frame) body (se_handler s) = (response, cx, h1)"
    by (metis prod_cases3)
  have handled: "session_inv env h ((note_event (SX_Handled (fh_sequence frame) (fh_type frame) body) ?s)
      \<lparr> se_context := cx, se_handler := h1 \<rparr>)"
    using assms by (auto simp: session_inv_def intro: fresh_handled_handled)
  show ?thesis
    using accepted handled run
    by (cases response)
      (auto simp: session_dispatch_def Let_def session_inv_error split_beta intro: session_inv_send)
qed

lemma session_replays:
  "se_replays (snd (session_handshake env frame body s)) = se_replays s"
  "se_replays (snd (session_dispatch env frame body s)) = se_replays s"
  by (auto simp: session_handshake_def session_dispatch_def establish_def Let_def split_beta
      split: sum.split)

lemma word_replays: "(n :: u64) \<le> 8 \<Longrightarrow> n + 1 \<le> 9"
  by (simp add: word_le_nat_alt unat_word_ariths)

lemma session_inv_frame:
  assumes "session_inv env h s" and "se_replays s \<le> 8"
  shows "session_inv env h (snd (session_frame env frame payload s))"
    and "fst (session_frame env frame payload s) \<Longrightarrow> se_replays (snd (session_frame env frame payload s)) \<le> 8"
proof -
  have replay: "session_inv env h (s\<lparr> se_replays := se_replays s + 1 \<rparr>)"
    using assms word_replays by (simp add: session_inv_def)
  have handshake: "session_inv env h (s\<lparr> se_stats := st, se_inbound_sequence := fh_sequence frame \<rparr>)"
    if "\<not> fh_sequence frame \<le> se_inbound_sequence s" for st
    using assms that by (auto simp: session_inv_def intro: fresh_handled_mono)
  have dispatch: "session_inv env h (snd (session_dispatch env frame payload
      (s\<lparr> se_stats := st, se_inbound_sequence := fh_sequence frame \<rparr>)))"
    if "\<not> fh_sequence frame \<le> se_inbound_sequence s" "se_handshaken s" for st
    using assms that by (intro session_inv_dispatch) simp_all
  show "session_inv env h (snd (session_frame env frame payload s))"
    using assms(1) replay handshake dispatch
    by (auto simp: session_frame_def Let_def bump_def session_inv_error session_inv_handshake)
  show "fst (session_frame env frame payload s) \<Longrightarrow> se_replays (snd (session_frame env frame payload s)) \<le> 8"
    using assms(2) by (auto simp: session_frame_def Let_def session_replays split: if_splits)
qed

lemma session_inv_round:
  assumes "session_inv env h s" and "se_replays s \<le> 8"
  shows "session_inv env h (snd (session_round env s))"
    and "fst (session_round env s) \<Longrightarrow> se_replays (snd (session_round env s)) \<le> 8"
  using assms
  by (auto simp: session_round_def Let_def split_beta session_inv_error session_inv_frame
      split: sum.splits if_splits)

section \<open>Termination\<close>

lemma session_frame_input:
  "tcp_input (se_stream (snd (session_frame env frame payload s))) = tcp_input (se_stream s)"
  by (auto simp: session_frame_def session_handshake_def session_dispatch_def establish_def Let_def
      split_beta split: sum.split)

text \<open>A turn after which the loop goes on has used up some of the connection.\<close>

lemma session_round_decreases:
  assumes "session_round env s = (True, s')"
  shows "pending_input (se_stream s') < pending_input (se_stream s)"
proof -
  obtain code header stream1 where read: "tcp_read_exact kHeaderBytes (se_stream s) = (code, header, stream1)"
    by (metis prod_cases3)
  show ?thesis
  proof (cases "code = ST_Ok")
    case False
    with assms read have "code = ST_NotFound" and "se_stream s' = stream1"
      by (auto simp: session_round_def)
    with read show ?thesis by (auto dest: tcp_read_exact_quiet)
  next
    case True
    have less: "pending_input stream1 < pending_input (se_stream s)"
      using tcp_read_exact_weight [OF read] tcp_read_exact_Ok [of kHeaderBytes "se_stream s"] read True
      by (auto simp: kHeaderBytes_def)
    obtain frame where frame: "decode_header header (se_max_payload s) = Inr frame"
      using assms read True by (auto simp: session_round_def Let_def split: sum.splits)
    obtain code2 payload stream2 where
      body: "tcp_read_exact (unat (fh_payload_length frame)) stream1 = (code2, payload, stream2)"
      by (metis prod_cases3)
    have "tcp_input (se_stream s') = tcp_input stream2"
      using assms read True frame body session_frame_input [of env frame payload
          "s\<lparr> se_rounds := Suc (se_rounds s), se_stream := stream2 \<rparr>"]
      by (fastforce simp: session_round_def Let_def split: if_splits)
    then have "pending_input (se_stream s') \<le> pending_input stream1"
      using tcp_read_exact_weight [OF body] by (simp add: pending_input_def)
    with less show ?thesis by simp
  qed
qed

lemma session_loop_returns: "\<exists>t. session_loop env s = Some t"
proof (induction "pending_input (se_stream s)" arbitrary: s rule: less_induct)
  case less
  obtain continue s1 where turn: "session_round env s = (continue, s1)"
    by (cases "session_round env s")
  with less session_round_decreases [of env s s1] show ?case
    by (cases continue) (simp_all add: session_loop.simps [of env s])
qed

lemma session_loop_rule:
  assumes "session_loop env s = Some t" and "P s"
    and "\<And>s s'. P s \<Longrightarrow> session_round env s = (True, s') \<Longrightarrow> P s'"
    and "\<And>s s'. P s \<Longrightarrow> session_round env s = (False, s') \<Longrightarrow> Q s'"
    and "\<And>s. P s \<Longrightarrow> Q s"
  shows "Q t"
  using assms(1,2)
proof (induction "pending_input (se_stream s)" arbitrary: s rule: less_induct)
  case less
  obtain continue s1 where turn: "session_round env s = (continue, s1)"
    by (cases "session_round env s")
  show ?case
  proof (cases "sv_stopping env (se_rounds s)")
    case True
    with less.prems assms(5) show ?thesis by (simp add: session_loop.simps [of env s])
  next
    case False
    show ?thesis
    proof (cases continue)
      case True
      with turn have step: "session_round env s = (True, s1)" by simp
      with False less.prems have "session_loop env s1 = Some t"
        by (simp add: session_loop.simps [of env s])
      then show ?thesis
        using less.hyps [OF session_round_decreases [OF step]] assms(3) [OF less.prems(2) step] by blast
    next
      case exit: False
      with turn False less.prems have "session_round env s = (False, t)"
        by (simp add: session_loop.simps [of env s])
      then show ?thesis using assms(4) [OF less.prems(2)] by blast
    qed
  qed
qed

lemma session_loop_inv:
  assumes "session_loop env (Session_new env stream stats h) = Some t"
  shows "session_inv env h t"
proof (rule session_loop_rule [OF assms, where P = "\<lambda>s. session_inv env h s \<and> se_replays s \<le> 8"])
  show "session_inv env h (Session_new env stream stats h) \<and> se_replays (Session_new env stream stats h) \<le> 8"
    by (simp add: Session_new_def session_inv_def numbered_def fresh_handled_def handled_after_secret_def)
  fix s s' assume "session_inv env h s \<and> se_replays s \<le> 8"
  then show "session_round env s = (True, s') \<Longrightarrow> session_inv env h s' \<and> se_replays s' \<le> 8"
    and "session_round env s = (False, s') \<Longrightarrow> session_inv env h s'"
    using session_inv_round [of env h s] by auto
qed simp

lemma serve_session_inv:
  assumes "serve_session env stream stats h = Some t"
  shows "numbered (se_outbound_sequence t) (se_trace t)" "fresh_handled (se_inbound_sequence t) (se_trace t)"
    "handled_after_secret env (se_trace t)" "\<not> secret_shown env (se_trace t) \<Longrightarrow> se_handler t = h"
    "se_replays t \<le> 9"
proof -
  obtain s where s: "session_loop env (Session_new env stream stats h) = Some s"
    using assms by (auto simp: serve_session_def split: option.splits)
  note inv = session_loop_inv [OF s, unfolded session_inv_def]
  show "numbered (se_outbound_sequence t) (se_trace t)" "fresh_handled (se_inbound_sequence t) (se_trace t)"
    "handled_after_secret env (se_trace t)" "se_replays t \<le> 9"
    using inv s assms by (auto simp: serve_session_def Let_def split: if_splits)
  show "\<not> secret_shown env (se_trace t) \<Longrightarrow> se_handler t = h"
    using inv s assms by (auto simp: serve_session_def Let_def split: if_splits)
qed

section \<open>Turns on well-formed input\<close>

definition frame_bytes :: "FrameHeader \<Rightarrow> u8 list \<Rightarrow> u8 list" where
  "frame_bytes frame payload = encode_header frame (replicate kHeaderBytes 0) @ payload"

lemma length_encode_header: "length out = kHeaderBytes \<Longrightarrow> length (encode_header h out) = kHeaderBytes"
  by (simp add: encode_header_def kHeaderBytes_def)

lemma read_loop_within:
  "0 < length bs \<Longrightarrow> read_loop (length bs) (AR_Bytes (bs @ more_bytes) # rest) =
     (ST_Ok, bs, if more_bytes = [] then rest else AR_Bytes more_bytes # rest)"
  by (cases "length bs") auto

lemma tcp_read_within:
  assumes "tcp_valid stream" and "tcp_input stream = AR_Bytes (bs @ more_bytes) # rest" and "bs \<noteq> []"
  shows "tcp_read_exact (length bs) stream =
    (ST_Ok, bs, stream\<lparr> tcp_input := if more_bytes = [] then rest else AR_Bytes more_bytes # rest \<rparr>)"
  using assms by (simp add: tcp_read_exact_def read_loop_within)

lemma sendable_payload:
  "sendable_header frame m \<Longrightarrow> fh_payload_length frame = of_nat n \<Longrightarrow> n < 2 ^ 32 \<Longrightarrow> unat (fh_payload_length frame) = n"
  by (simp add: unat_of_nat)

lemma tcp_read_frame:
  fixes frame :: FrameHeader and payload :: "u8 list" and stream :: TcpStream
  defines "between \<equiv> \<lambda>rest. stream\<lparr> tcp_input := if payload = [] then rest else AR_Bytes payload # rest \<rparr>"
  assumes "tcp_valid stream" and "tcp_input stream = AR_Bytes (frame_bytes frame payload) # rest"
    and "sendable_header frame max_payload"
    and "fh_payload_length frame = of_nat (length payload)" and "length payload < 2 ^ 32"
  shows "tcp_read_exact kHeaderBytes stream =
      (ST_Ok, encode_header frame (replicate kHeaderBytes 0), between rest)"
    and "decode_header (encode_header frame (replicate kHeaderBytes 0)) max_payload = Inr frame"
    and "tcp_read_exact (unat (fh_payload_length frame)) (between rest) =
      (ST_Ok, payload, stream\<lparr> tcp_input := rest \<rparr>)"
proof -
  let ?header = "encode_header frame (replicate kHeaderBytes 0)"
  have len: "length ?header = kHeaderBytes"
    by (simp add: length_encode_header)
  show "tcp_read_exact kHeaderBytes stream = (ST_Ok, ?header, between rest)"
    using tcp_read_within [OF assms(2) assms(3) [unfolded frame_bytes_def]] len
    by (cases "?header = []") (auto simp: kHeaderBytes_def between_def)
  show "decode_header ?header max_payload = Inr frame"
    using decode_encode_header [OF assms(4), of "replicate kHeaderBytes 0"] by simp
  show "tcp_read_exact (unat (fh_payload_length frame)) (between rest) = (ST_Ok, payload, stream\<lparr> tcp_input := rest \<rparr>)"
    using sendable_payload [OF assms(4-6)] assms(2)
      tcp_read_within [of "stream\<lparr> tcp_input := AR_Bytes payload # rest \<rparr>" payload "[]" rest]
    by (auto simp: tcp_read_exact_def between_def)
qed

text \<open>A frame the peer sends in one piece reaches the code that judges it.\<close>

lemma session_round_frame:
  fixes frame :: FrameHeader and payload :: "u8 list" and rest :: "Arrival list" and s :: "'h Session"
  assumes "tcp_valid (se_stream s)"
    and "tcp_input (se_stream s) = AR_Bytes (frame_bytes frame payload) # rest"
    and "sendable_header frame (se_max_payload s)"
    and "fh_payload_length frame = of_nat (length payload)" and "length payload < 2 ^ 32"
  shows "session_round env s = session_frame env frame payload
    (s\<lparr> se_rounds := Suc (se_rounds s), se_stream := (se_stream s)\<lparr> tcp_input := rest \<rparr> \<rparr>)"
  using tcp_read_frame [OF assms] by (simp add: session_round_def Let_def)

text \<open>What a successful send adds to the output.\<close>

lemma tcp_write_all_Ok:
  "tcp_write_all data stream = (ST_Ok, stream') \<Longrightarrow> tcp_output stream' = tcp_output stream @ data"
  using tcp_write_all_frame(3) by fastforce

lemma session_send_output:
  assumes "session_send type payload correlation s = (ST_Ok, t)"
  shows "tcp_output (se_stream t) = tcp_output (se_stream s) @
    frame_bytes (frame_for type payload correlation (se_outbound_sequence s + 1)) payload"
proof -
  let ?header = "encode_header (frame_for type payload correlation (se_outbound_sequence s + 1)) (replicate kHeaderBytes 0)"
  obtain code1 stream1 where one: "tcp_write_all ?header (se_stream s) = (code1, stream1)"
    by (cases "tcp_write_all ?header (se_stream s)")
  obtain code2 stream2 where two: "tcp_write_all payload stream1 = (code2, stream2)"
    by (cases "tcp_write_all payload stream1")
  have "code1 = ST_Ok"
    using assms one by (auto simp: session_send_def Let_def split_beta split: if_splits)
  with one have "tcp_output stream1 = tcp_output (se_stream s) @ ?header"
    by (simp add: tcp_write_all_Ok)
  with assms one two \<open>code1 = ST_Ok\<close> show ?thesis
    by (auto simp: session_send_def Let_def frame_bytes_def bump_def note_event_def tcp_write_all_Ok
        split: if_splits)
qed

lemma session_loop_stops:
  "session_round env s = (False, t) \<Longrightarrow> \<not> sv_stopping env (se_rounds s) \<Longrightarrow> session_loop env s = Some t"
  by (simp add: session_loop.simps [of env s])

lemma session_loop_continues:
  "session_round env s = (True, t) \<Longrightarrow> \<not> sv_stopping env (se_rounds s) \<Longrightarrow> session_loop env s = session_loop env t"
  by (simp add: session_loop.simps [of env s])

lemma session_frame_fresh:
  assumes "crc_compute payload = fh_payload_crc32c frame" and "se_inbound_sequence s < fh_sequence frame"
    and "\<not> se_handshaken s"
  shows "session_frame env frame payload s = session_handshake env frame payload
    ((bump (\<lambda>st. st\<lparr> st_frames_in := st_frames_in st + 1,
        st_bytes_in := st_bytes_in st + of_nat (kHeaderBytes + length payload) \<rparr>) s)
       \<lparr> se_inbound_sequence := fh_sequence frame \<rparr>)"
  using assms by (auto simp: session_frame_def Let_def dest: leD)

lemma session_handshake_hello:
  assumes "fh_type frame = MT_HelloRequest"
    and "sendable_hello_request hello" and "encode_complete encode_hello_request hello limit = Inr body"
    and "length body \<le> kMaxFramePayloadBytes"
  shows "session_handshake env frame body s =
    (let s1 = note_event (SX_Hello (hq_auth_token hello)) s
     in if sc_require_auth (sv_config env) \<and> hq_auth_token hello \<noteq> sc_auth_token (sv_config env)
        then (False, send_error ST_NotAuthorized (fh_type frame)
               (bytes_of ''session secret was not accepted'') (fh_sequence frame)
               (bump (\<lambda>st. st\<lparr> st_rejected_auth := st_rejected_auth st + 1 \<rparr>) s1))
        else establish env frame hello s1)"
  using assms(1) hello_request.decode_run [OF assms(2,3), of "[]" kMaxFramePayloadBytes] assms(4)
  by (simp add: session_handshake_def secret_matches_iff Let_def Reader_finish_def Reader_new_def)

lemma frame_for_fields [simp]:
  "fh_type (frame_for type payload correlation sequence) = type"
  "fh_sequence (frame_for type payload correlation sequence) = sequence"
  "fh_correlation (frame_for type payload correlation sequence) = correlation"
  "fh_payload_length (frame_for type payload correlation sequence) = of_nat (length payload)"
  "fh_payload_crc32c (frame_for type payload correlation sequence) = crc_compute payload"
  by (simp_all add: frame_for_def)

lemma payload_length_le:
  "length payload \<le> kMaxFramePayloadBytes \<Longrightarrow> length payload \<le> unat (m :: u32) \<Longrightarrow> (of_nat (length payload) :: u32) \<le> m"
  by (simp add: word_le_nat_alt unat_of_nat kMaxFramePayloadBytes_def)

lemma sendable_frame_for:
  assumes "is_known_message_type type" and "length payload \<le> kMaxFramePayloadBytes"
    and "length payload \<le> unat max_payload"
  shows "sendable_header (frame_for type payload correlation sequence) max_payload"
  using assms payload_length_le [OF assms(2,3)] payload_length_le [OF assms(2), of kAbsoluteMaxPayloadBytes]
  by (simp add: sendable_header_def frame_for_def FrameHeader_init_def kAbsoluteMaxPayloadBytes_def
      kMaxFramePayloadBytes_def)

lemma session_opening:
  assumes "tcp_valid (se_stream s)" and "\<not> se_handshaken s" and "se_inbound_sequence s < q"
    and "tcp_input (se_stream s) = AR_Bytes (frame_bytes (frame_for MT_HelloRequest body c q) body) # rest"
    and "sendable_hello_request hello" and "encode_complete encode_hello_request hello kMaxFramePayloadBytes = Inr body"
    and "length body \<le> unat (se_max_payload s)"
  shows "session_round env s =
    (let s1 = note_event (SX_Hello (hq_auth_token hello))
           (s\<lparr> se_rounds := Suc (se_rounds s), se_stream := (se_stream s)\<lparr> tcp_input := rest \<rparr>,
               se_stats := (se_stats s)\<lparr> st_frames_in := st_frames_in (se_stats s) + 1,
                 st_bytes_in := st_bytes_in (se_stats s) + of_nat (kHeaderBytes + length body) \<rparr>,
               se_inbound_sequence := q \<rparr>)
     in if sc_require_auth (sv_config env) \<and> hq_auth_token hello \<noteq> sc_auth_token (sv_config env)
        then (False, send_error ST_NotAuthorized MT_HelloRequest
               (bytes_of ''session secret was not accepted'') q
               (bump (\<lambda>st. st\<lparr> st_rejected_auth := st_rejected_auth st + 1 \<rparr>) s1))
        else establish env (frame_for MT_HelloRequest body c q) hello s1)"
proof -
  let ?frame = "frame_for MT_HelloRequest body c q"
  have small: "length body \<le> kMaxFramePayloadBytes"
    using hello_request.transmits [OF assms(5)] encode_writes(2) [OF _ assms(6)]
    by (metis assms(6) encode_writes(1) transmits_def)
  have known: "is_known_message_type MT_HelloRequest"
    by (simp add: is_known_message_type_def)
  have round: "session_round env s = session_frame env ?frame body
      (s\<lparr> se_rounds := Suc (se_rounds s), se_stream := (se_stream s)\<lparr> tcp_input := rest \<rparr> \<rparr>)"
    using assms(1,4) sendable_frame_for [OF known small assms(7)] small
    by (intro session_round_frame) (simp_all add: kMaxFramePayloadBytes_def)
  show ?thesis
    unfolding round using assms(2,3)
    by (simp add: session_frame_fresh session_handshake_hello [OF _ assms(5,6) small, of ?frame] bump_def Let_def)
qed

lemma session_request:
  assumes "tcp_valid (se_stream s)" and "se_handshaken s" and "se_inbound_sequence s < q"
    and "tcp_input (se_stream s) = AR_Bytes (frame_bytes (frame_for type body c q) body) # rest"
    and "is_known_message_type type" and "length body \<le> kMaxFramePayloadBytes"
    and "length body \<le> unat (se_max_payload s)"
  shows "session_round env s = session_dispatch env (frame_for type body c q) body
    (s\<lparr> se_rounds := Suc (se_rounds s), se_stream := (se_stream s)\<lparr> tcp_input := rest \<rparr>,
        se_stats := (se_stats s)\<lparr> st_frames_in := st_frames_in (se_stats s) + 1,
          st_bytes_in := st_bytes_in (se_stats s) + of_nat (kHeaderBytes + length body) \<rparr>,
        se_inbound_sequence := q \<rparr>)"
proof -
  let ?frame = "frame_for type body c q"
  have round: "session_round env s = session_frame env ?frame body
      (s\<lparr> se_rounds := Suc (se_rounds s), se_stream := (se_stream s)\<lparr> tcp_input := rest \<rparr> \<rparr>)"
    using assms(1,4,6) sendable_frame_for [OF assms(5-7)]
    by (intro session_round_frame) (simp_all add: kMaxFramePayloadBytes_def)
  show ?thesis
    unfolding round using assms(2,3) by (auto simp: session_frame_def bump_def Let_def dest: leD)
qed

lemma session_replayed:
  assumes "tcp_valid (se_stream s)" and "q \<le> se_inbound_sequence s"
    and "tcp_input (se_stream s) = AR_Bytes (frame_bytes (frame_for type body c q) body) # rest"
    and "is_known_message_type type" and "length body \<le> kMaxFramePayloadBytes"
    and "length body \<le> unat (se_max_payload s)"
  shows "fst (session_round env s) \<longleftrightarrow> \<not> se_replays s + 1 > 8"
    and "se_replays (snd (session_round env s)) = se_replays s + 1"
    and "se_handler (snd (session_round env s)) = se_handler s"
    and "tcp_input (se_stream (snd (session_round env s))) = rest"
    and "handled_sequences (se_trace (snd (session_round env s))) = handled_sequences (se_trace s)"
    and "sent_frames (se_trace (snd (session_round env s))) = sent_frames (se_trace s) @
      [frame_for MT_ErrorResponse (body_of encode_error_response
         \<lparr> ee_code = ST_ReplayRejected, ee_offending_type = type,
           ee_detail = bytes_of ''frame sequence is not greater than the last accepted sequence'' \<rparr>)
         q (se_outbound_sequence s + 1)]"
proof -
  let ?frame = "frame_for type body c q"
  have round: "session_round env s = session_frame env ?frame body
      (s\<lparr> se_rounds := Suc (se_rounds s), se_stream := (se_stream s)\<lparr> tcp_input := rest \<rparr> \<rparr>)"
    using assms(1,3,5) sendable_frame_for [OF assms(4-6)]
    by (intro session_round_frame) (simp_all add: kMaxFramePayloadBytes_def)
  note step = round session_frame_def Let_def
  show "fst (session_round env s) \<longleftrightarrow> \<not> se_replays s + 1 > 8"
    "se_replays (snd (session_round env s)) = se_replays s + 1"
    "se_handler (snd (session_round env s)) = se_handler s"
    "tcp_input (se_stream (snd (session_round env s))) = rest"
    "handled_sequences (se_trace (snd (session_round env s))) = handled_sequences (se_trace s)"
    using assms(2) by (simp_all add: step send_error_def)
  show "sent_frames (se_trace (snd (session_round env s))) = sent_frames (se_trace s) @
      [frame_for MT_ErrorResponse (body_of encode_error_response
         \<lparr> ee_code = ST_ReplayRejected, ee_offending_type = type,
           ee_detail = bytes_of ''frame sequence is not greater than the last accepted sequence'' \<rparr>)
         q (se_outbound_sequence s + 1)]"
    using assms(2) by (simp add: step send_error_def)
qed

section \<open>Writing to a connection that takes the bytes\<close>

definition takes_bytes :: "nat \<Rightarrow> TcpStream \<Rightarrow> bool" where
  "takes_bytes n stream \<longleftrightarrow>
     tcp_valid stream \<and> (\<exists>k \<ge> n. tcp_replies stream = replicate k (SR_Sent 10000))"

lemma takes_bytes_write:
  assumes "takes_bytes (Suc n) stream" and "length data \<le> 10000"
  shows "fst (tcp_write_all data stream) = ST_Ok \<and> takes_bytes n (snd (tcp_write_all data stream))"
proof -
  obtain k where "n \<le> k" and "tcp_replies stream = SR_Sent 10000 # replicate k (SR_Sent 10000)" "tcp_valid stream"
    using assms(1) unfolding takes_bytes_def by (metis Suc_le_D Suc_le_mono replicate_Suc)
  moreover have "write_loop [] (replicate k (SR_Sent 10000)) = (ST_Ok, [], replicate k (SR_Sent 10000))"
    by (cases k) simp_all
  ultimately show ?thesis
    using assms(2)
    by (auto simp: tcp_write_all_def takes_bytes_def intro: exI [of _ k] exI [of _ "Suc k"])
qed

lemma takes_bytes_mono: "takes_bytes n stream \<Longrightarrow> m \<le> n \<Longrightarrow> takes_bytes m stream"
  by (auto simp: takes_bytes_def)

lemma takes_bytes_send:
  assumes "takes_bytes (Suc (Suc n)) (se_stream s)" and "length payload \<le> 10000"
  shows "fst (session_send type payload correlation s) = ST_Ok"
    and "takes_bytes n (se_stream (snd (session_send type payload correlation s)))"
proof -
  let ?header = "encode_header (frame_for type payload correlation (se_outbound_sequence s + 1)) (replicate kHeaderBytes 0)"
  obtain stream1 where one: "tcp_write_all ?header (se_stream s) = (ST_Ok, stream1)" "takes_bytes (Suc n) stream1"
    using takes_bytes_write [OF assms(1), of ?header] length_encode_header [of "replicate kHeaderBytes 0"]
    by (cases "tcp_write_all ?header (se_stream s)") (simp add: kHeaderBytes_def)
  obtain stream2 where two: "tcp_write_all payload stream1 = (ST_Ok, stream2)" "takes_bytes n stream2"
    using takes_bytes_write [OF one(2) assms(2)] by (cases "tcp_write_all payload stream1") simp
  show "fst (session_send type payload correlation s) = ST_Ok"
    "takes_bytes n (se_stream (snd (session_send type payload correlation s)))"
    using one two takes_bytes_mono [OF one(2)] by (auto simp: session_send_def Let_def split_beta)
qed

lemma at_most_string_field:
  assumes "length bs \<le> kMaxFieldStringBytes" and "is_valid_utf8 bs"
  shows "at_most (Writer_string_field bs) (4 + length bs)"
proof -
  have "at_most (Writer_raw bs) (length bs)"
    unfolding Writer_raw_def by (rule at_most_field) simp
  then show ?thesis
    using assms at_most_bind [OF at_most_integers(3)]
    by (simp add: Writer_string_field_def Writer_bytes_field_def kMaxFieldStringBytes_def kMaxFramePayloadBytes_def)
qed

lemma size_hello_request:
  assumes "sendable_hello_request v"
  shows "at_most (encode_hello_request v)
    (38 + length (hq_peer_name v) + length (hq_auth_token v) + length (hq_client_version v))"
proof -
  have fields: "at_most (Writer_string_field (hq_peer_name v)) (4 + length (hq_peer_name v))"
    "at_most (Writer_string_field (hq_auth_token v)) (4 + length (hq_auth_token v))"
    "at_most (Writer_string_field (hq_client_version v)) (4 + length (hq_client_version v))"
    using assms by (simp_all add: sendable_hello_request_def at_most_string_field)
  show ?thesis
    unfolding encode_hello_request_def by (rule at_most_mono, (rule size_rules fields)+, simp)
qed

section \<open>A concrete connection\<close>

definition demo_hello :: "u8 list \<Rightarrow> HelloRequest" where
  "demo_hello token =
     \<lparr> hq_protocol_version = kWireProtocolVersion, hq_client_api_version = kApiVersion,
       hq_peer_name = bytes_of ''p'', hq_auth_token = token, hq_client_version = [],
       hq_client_boot = Id128 0 7, hq_max_frame_payload = 64 \<rparr>"

definition demo_recorder :: "u64 list MessageHandler" where
  "demo_recorder =
     \<lparr> mh_handle = (\<lambda>ctx type body h. (Inr body, ctx, h @ [of_nat (length body)])),
       mh_describe_authority = (\<lambda>response h. (response, h)),
       mh_on_session_closed = (\<lambda>ctx h. h) \<rparr>"

definition demo_session_env :: "u64 list SessionEnv" where
  "demo_session_env =
     \<lparr> sv_config = \<lparr> sc_max_sessions = 4, sc_max_frame_payload = 4096, sc_auth_token = bytes_of ''s'',
         sc_require_auth = True \<rparr>,
       sv_handler = demo_recorder, sv_random = (1, 2, 3, 4), sv_stopping = (\<lambda>_. False) \<rparr>"

definition demo_body :: "u8 list \<Rightarrow> u8 list" where
  "demo_body token = body_of encode_hello_request (demo_hello token)"

definition demo_peer :: "u8 list \<Rightarrow> TcpStream" where
  "demo_peer token =
     \<lparr> tcp_valid = True,
       tcp_input = [AR_Bytes (frame_bytes (frame_for MT_HelloRequest (demo_body token) 0 1) (demo_body token)),
         AR_Bytes (frame_bytes (frame_for MT_Heartbeat [5, 6] 0 2) [5, 6]),
         AR_Bytes (frame_bytes (frame_for MT_Heartbeat [5, 6] 0 2) [5, 6])],
       tcp_replies = replicate 8 (SR_Sent 10000), tcp_output = [] \<rparr>"

definition demo_session_stats :: SessionStats where
  "demo_session_stats =
     \<lparr> st_accepted = 1, st_rejected_capacity = 0, st_rejected_auth = 0, st_rejected_protocol = 0,
       st_frames_in = 0, st_frames_out = 0, st_frames_invalid = 0, st_replays_rejected = 0,
       st_duplicates_served = 0, st_bytes_in = 0, st_bytes_out = 0 \<rparr>"

lemma demo_hello_facts:
  assumes "token = bytes_of ''s'' \<or> token = bytes_of ''t''"
  shows "sendable_hello_request (demo_hello token)"
    and "encode_complete encode_hello_request (demo_hello token) kMaxFramePayloadBytes = Inr (demo_body token)"
    and "length (demo_body token) \<le> 40"
proof -
  have "sendable_hello_request (demo_hello (bytes_of ''s''))" "sendable_hello_request (demo_hello (bytes_of ''t''))"
    by code_simp+
  with assms show ok: "sendable_hello_request (demo_hello token)" by auto
  have "at_most (encode_hello_request (demo_hello token)) 40"
    using size_hello_request [OF ok] assms by (auto simp: demo_hello_def bytes_of_def elim: at_most_mono)
  then obtain data where "encode_complete encode_hello_request (demo_hello token) kMaxFramePayloadBytes = Inr data"
    and "length data \<le> 40"
    using encode_fits [of encode_hello_request "demo_hello token" 40 kMaxFramePayloadBytes]
    by (auto simp: kMaxFramePayloadBytes_def)
  moreover from this have "data = demo_body token"
    by (simp add: encode_complete_def demo_body_def body_of_def Let_def split: if_splits)
  ultimately show "encode_complete encode_hello_request (demo_hello token) kMaxFramePayloadBytes = Inr (demo_body token)"
    and "length (demo_body token) \<le> 40" by simp_all
qed

lemma demo_response_size:
  assumes "hs_server_version v = kVersionString"
  shows "length (body_of encode_hello_response v) \<le> 10000"
proof -
  have "length kVersionString = 5" and "is_valid_utf8 kVersionString"
    by code_simp+
  then have version: "at_most (Writer_string_field (hs_server_version v)) 9"
    using at_most_string_field [of kVersionString] assms by (simp add: kMaxFieldStringBytes_def)
  have "at_most (encode_hello_response v) 200"
    unfolding encode_hello_response_def by (rule at_most_mono, (rule size_rules version)+, simp)
  then obtain data where "encode_complete encode_hello_response v kMaxFramePayloadBytes = Inr data" "length data \<le> 200"
    using encode_fits [of encode_hello_response v 200 kMaxFramePayloadBytes]
    by (auto simp: kMaxFramePayloadBytes_def)
  then show ?thesis
    by (auto simp: encode_complete_def body_of_def Let_def split: if_splits)
qed

lemma demo_opened:
  obtains s where "session_round demo_session_env
      (Session_new demo_session_env (demo_peer (bytes_of ''s'')) demo_session_stats []) = (True, s)"
    and "se_handshaken s" "takes_bytes 6 (se_stream s)" "se_inbound_sequence s = 1" "se_max_payload s = 64"
    "tcp_input (se_stream s) = replicate 2 (AR_Bytes (frame_bytes (frame_for MT_Heartbeat [5, 6] 0 2) [5, 6]))"
    "se_handler s = []" "se_replays s = 0" "se_outbound_sequence s = 1"
    "handled_sequences (se_trace s) = []" "SX_Hello (bytes_of ''s'') \<in> set (se_trace s)"
    "map fh_sequence (sent_frames (se_trace s)) = [1]"
proof -
  let ?env = demo_session_env and ?token = "bytes_of ''s''"
  let ?s0 = "Session_new ?env (demo_peer ?token) demo_session_stats []"
  let ?frame = "frame_for MT_HelloRequest (demo_body ?token) 0 1"
  note facts = demo_hello_facts [of ?token, simplified]
  define s1 where "s1 = note_event (SX_Hello (hq_auth_token (demo_hello ?token)))
      (?s0\<lparr> se_rounds := Suc (se_rounds ?s0),
        se_stream := (se_stream ?s0)\<lparr> tcp_input := tl (tcp_input (demo_peer ?token)) \<rparr>,
        se_stats := (se_stats ?s0)\<lparr> st_frames_in := st_frames_in (se_stats ?s0) + 1,
          st_bytes_in := st_bytes_in (se_stats ?s0) + of_nat (kHeaderBytes + length (demo_body ?token)) \<rparr>,
        se_inbound_sequence := 1 \<rparr>)"
  have fits: "length (demo_body ?token) \<le> unat (4096 :: u32)"
    using facts(3) by simp
  have round: "session_round ?env ?s0 = establish ?env ?frame (demo_hello ?token) s1"
    using session_opening [of ?s0 1 "demo_body ?token" 0 "tl (tcp_input (demo_peer ?token))" "demo_hello ?token" ?env]
      facts(1,2) fits
    by (simp add: Session_new_def demo_session_env_def demo_peer_def demo_hello_def s1_def)
  have start: "tcp_input (se_stream s1) = replicate 2 (AR_Bytes (frame_bytes (frame_for MT_Heartbeat [5, 6] 0 2) [5, 6]))"
    "takes_bytes 8 (se_stream s1)" "se_handler s1 = []" "se_replays s1 = 0" "se_outbound_sequence s1 = 0"
    "se_inbound_sequence s1 = 1" "se_trace s1 = [SX_Hello ?token]"
    by (simp_all add: s1_def Session_new_def demo_peer_def takes_bytes_def numeral_2_eq_2 demo_hello_def)
  let ?t = "establish ?env ?frame (demo_hello ?token) s1"
  have "fst ?t" "se_handshaken (snd ?t)" "takes_bytes 6 (se_stream (snd ?t))" "se_inbound_sequence (snd ?t) = 1"
    "se_max_payload (snd ?t) = 64" "tcp_input (se_stream (snd ?t)) = tcp_input (se_stream s1)"
    "se_handler (snd ?t) = []" "se_replays (snd ?t) = 0" "se_outbound_sequence (snd ?t) = 1"
    "handled_sequences (se_trace (snd ?t)) = []" "SX_Hello ?token \<in> set (se_trace (snd ?t))"
    "map fh_sequence (sent_frames (se_trace (snd ?t))) = [1]"
    using start
    by (simp_all add: establish_def Let_def demo_session_env_def demo_recorder_def demo_hello_def split_beta
        takes_bytes_send [where n = 6, simplified] demo_response_size min_def)
  then show ?thesis
    using round start(1) by (intro that [of "snd ?t"]) (simp_all add: prod_eq_iff)
qed

lemma session_round_ended:
  assumes "tcp_input (se_stream s) = []"
  shows "session_round env s =
     (False, s\<lparr> se_stream := snd (snd (tcp_read_exact kHeaderBytes (se_stream s))), se_rounds := Suc (se_rounds s) \<rparr>)"
proof -
  have "kHeaderBytes = Suc 39" by (simp add: kHeaderBytes_def)
  then have "kHeaderBytes \<noteq> 0" and "read_loop kHeaderBytes [] = (ST_Closed, [], [])" by (simp, metis read_loop.simps(2))
  then show ?thesis
    using assms by (simp add: session_round_def tcp_read_exact_def)
qed

lemma demo_served:
  obtains t where "serve_session demo_session_env (demo_peer (bytes_of ''s'')) demo_session_stats [] = Some t"
    and "se_handler t = [2]" "handled_sequences (se_trace t) = [2]"
    "map fh_sequence (sent_frames (se_trace t)) = [1, 2, 3]" "se_replays t = 1"
proof -
  let ?env = demo_session_env and ?frame = "frame_for MT_Heartbeat [5, 6] 0 2"
  have running: "\<not> sv_stopping ?env n" for n
    by (simp add: demo_session_env_def)
  have known: "is_known_message_type MT_Heartbeat" "response_type_for MT_Heartbeat = MT_HeartbeatAck"
    by (simp_all add: is_known_message_type_def response_type_for_def response_table_def)
  obtain s where opened: "session_round ?env
      (Session_new ?env (demo_peer (bytes_of ''s'')) demo_session_stats []) = (True, s)"
    and s: "se_handshaken s" "takes_bytes 6 (se_stream s)" "se_inbound_sequence s = 1" "se_max_payload s = 64"
    "tcp_input (se_stream s) = replicate 2 (AR_Bytes (frame_bytes ?frame [5, 6]))"
    "se_handler s = []" "se_replays s = 0" "se_outbound_sequence s = 1"
    "handled_sequences (se_trace s) = []" "SX_Hello (bytes_of ''s'') \<in> set (se_trace s)"
    "map fh_sequence (sent_frames (se_trace s)) = [1]"
    by (rule demo_opened)
  have twice: "replicate 2 x = [x, x]" for x :: Arrival
    by (simp add: numeral_2_eq_2)
  define u where "u = snd (session_round ?env s)"
  have request: "session_round ?env s = session_dispatch ?env ?frame [5, 6]
    (s\<lparr> se_rounds := Suc (se_rounds s),
        se_stream := (se_stream s)\<lparr> tcp_input := [AR_Bytes (frame_bytes ?frame [5, 6])] \<rparr>,
        se_stats := (se_stats s)\<lparr> st_frames_in := st_frames_in (se_stats s) + 1,
          st_bytes_in := st_bytes_in (se_stats s) + of_nat (kHeaderBytes + length [5 :: u8, 6]) \<rparr>,
        se_inbound_sequence := 2 \<rparr>)"
    using s(2) by (intro session_request)
      (simp_all add: s known takes_bytes_def kMaxFramePayloadBytes_def twice)
  have ready: "takes_bytes 6 ((se_stream s)\<lparr> tcp_input := xs \<rparr>)" for xs
    using s(2) by (simp add: takes_bytes_def)
  have u: "session_round ?env s = (True, u)" "tcp_valid (se_stream u)" "se_inbound_sequence u = 2" "se_max_payload u = 64"
    "tcp_input (se_stream u) = [AR_Bytes (frame_bytes ?frame [5, 6])]" "se_handler u = [2]" "se_replays u = 0"
    "handled_sequences (se_trace u) = [2]" "map fh_sequence (sent_frames (se_trace u)) = [1, 2]"
    "se_outbound_sequence u = 2"
  proof -
    let ?sent = "\<lambda>s'. session_send MT_HeartbeatAck [5, 6] 2 s'"
    have sent: "fst (?sent s') = ST_Ok" "tcp_valid (se_stream (snd (?sent s')))"
      if "se_stream s' = (se_stream s)\<lparr> tcp_input := xs \<rparr>" for s' :: "u64 list Session" and xs
      using takes_bytes_send [of 4 s' "[5, 6]"] ready [of xs] that by (simp_all add: takes_bytes_def)
    show "session_round ?env s = (True, u)" "tcp_valid (se_stream u)" "se_inbound_sequence u = 2"
      "se_max_payload u = 64" "tcp_input (se_stream u) = [AR_Bytes (frame_bytes ?frame [5, 6])]"
      "se_handler u = [2]" "se_replays u = 0" "handled_sequences (se_trace u) = [2]"
      "map fh_sequence (sent_frames (se_trace u)) = [1, 2]" "se_outbound_sequence u = 2"
      unfolding prod_eq_iff u_def request session_dispatch_def using s known(2)
      by (simp_all add: demo_session_env_def demo_recorder_def Let_def split_beta sent)
  qed
  note replayed = session_replayed [of u 2 MT_Heartbeat "[5, 6]" 0 "[]" ?env]
  define v where "v = snd (session_round ?env u)"
  have v: "session_round ?env u = (True, v)" "tcp_input (se_stream v) = []" "se_handler v = [2]" "se_replays v = 1"
    "handled_sequences (se_trace v) = [2]" "map fh_sequence (sent_frames (se_trace v)) = [1, 2, 3]"
    using replayed u known(1) by (simp_all add: v_def prod_eq_iff kMaxFramePayloadBytes_def)
  define w where "w = v\<lparr> se_stream := snd (snd (tcp_read_exact kHeaderBytes (se_stream v))), se_rounds := Suc (se_rounds v) \<rparr>"
  have "session_loop ?env (Session_new ?env (demo_peer (bytes_of ''s'')) demo_session_stats []) = Some w"
    using session_loop_continues [OF opened running] session_loop_continues [OF u(1) running]
      session_loop_continues [OF v(1) running] session_loop_stops [OF session_round_ended [OF v(2)] running]
    by (simp add: w_def)
  moreover have "mh_on_session_closed (sv_handler ?env) ctx h = h" for ctx h
    by (simp add: demo_session_env_def demo_recorder_def)
  ultimately have "serve_session ?env (demo_peer (bytes_of ''s'')) demo_session_stats [] =
      Some (w\<lparr> se_stream := tcp_close (se_stream w) \<rparr>)"
    by (simp add: serve_session_def Let_def)
  then show ?thesis
    using v by - (rule that, assumption, simp_all add: w_def)
qed

section \<open>Session properties\<close>

text \<open>
  C33. Serving a connection ends. Whatever the peer sends, in whatever pieces, and whatever the
  socket does with the replies, the loop of a session returns once the connection has nothing more
  to deliver.
\<close>

theorem session_terminates: "\<exists>t. serve_session env stream stats h = Some t"
  using session_loop_returns [of env "Session_new env stream stats h"]
  by (auto simp: serve_session_def Let_def)

text \<open>
  C5. A server that requires authentication is closed to peers without the secret. In every run of
  a session the handler is called only after a well-formed handshake that carried the configured
  secret, and a session without such a handshake leaves the state of the handler as it was.
\<close>

theorem session_authenticated:
  assumes "sc_require_auth (sv_config env)" and "serve_session env stream stats h = Some t"
  shows "(\<forall>pre q type body post. se_trace t = pre @ SX_Handled q type body # post \<longrightarrow>
      SX_Hello (sc_auth_token (sv_config env)) \<in> set pre) \<and>
    (SX_Hello (sc_auth_token (sv_config env)) \<notin> set (se_trace t) \<longrightarrow> se_handler t = h)"
  using serve_session_inv(3,4) [OF assms(2)] assms(1)
  by (auto simp: handled_after_secret_def secret_shown_def)

text \<open>
  C6. No frame is acted on twice. The sequence numbers of the frames given to the handler are
  strictly increasing over a session, the frames the server sends are numbered 1, 2, 3 and so on,
  and at most nine replayed frames are answered before the connection is dropped.
\<close>

theorem session_replay_protected:
  assumes "serve_session env stream stats h = Some t"
  shows "sorted_wrt (<) (handled_sequences (se_trace t)) \<and>
    map fh_sequence (sent_frames (se_trace t)) = map of_nat [1..<Suc (length (sent_frames (se_trace t)))] \<and>
    se_replays t \<le> 9"
  using serve_session_inv(1,2,5) [OF assms] by (simp add: numbered_def fresh_handled_def)

text \<open>
  A handshake with the wrong secret gets exactly one answer. The server sends one error frame
  with the code NotAuthorized, correlated with the handshake, counts the refusal, never looks at the
  rest of the input, and closes the connection.
\<close>

theorem wrong_secret_refused:
  assumes "sc_require_auth (sv_config env)" and "\<not> sv_stopping env 0" and "tcp_valid stream" and "0 < q"
    and "tcp_input stream = AR_Bytes (frame_bytes (frame_for MT_HelloRequest body c q) body) # rest"
    and "sendable_hello_request hello" and "encode_complete encode_hello_request hello kMaxFramePayloadBytes = Inr body"
    and "length body \<le> unat (ucast (sc_max_frame_payload (sv_config env)) :: u32)"
    and "hq_auth_token hello \<noteq> sc_auth_token (sv_config env)"
  shows "\<exists>t. serve_session env stream stats h = Some t \<and> se_handler t = h \<and>
    tcp_input (se_stream t) = rest \<and> \<not> tcp_valid (se_stream t) \<and>
    st_rejected_auth (se_stats t) = st_rejected_auth stats + 1 \<and>
    se_trace t = [SX_Hello (hq_auth_token hello),
      let detail = body_of encode_error_response
            \<lparr> ee_code = ST_NotAuthorized, ee_offending_type = MT_HelloRequest,
              ee_detail = bytes_of ''session secret was not accepted'' \<rparr>
      in SX_Sent (frame_for MT_ErrorResponse detail q 1) detail]"
proof -
  let ?s = "Session_new env stream stats h"
  obtain t where "session_round env ?s = (False, t)" and "se_handler t = h"
    and "tcp_input (se_stream t) = rest" and "\<not> se_handshaken t"
    and "st_rejected_auth (se_stats t) = st_rejected_auth stats + 1"
    and "se_trace t = [SX_Hello (hq_auth_token hello),
      let detail = body_of encode_error_response
            \<lparr> ee_code = ST_NotAuthorized, ee_offending_type = MT_HelloRequest,
              ee_detail = bytes_of ''session secret was not accepted'' \<rparr>
      in SX_Sent (frame_for MT_ErrorResponse detail q 1) detail]"
    using session_opening [of ?s q body c rest hello env] assms
    by (simp add: Session_new_def Let_def send_error_def bump_def note_event_def session_send_def split_beta)
  then show ?thesis
    using session_loop_stops [of env ?s t] assms(2)
    by (auto simp: serve_session_def Let_def tcp_close_def Session_new_def)
qed

lemma demo_token: "(bytes_of ''t'' :: u8 list) \<noteq> bytes_of ''s''"
  by (simp add: bytes_of_def)

theorem wrong_secret_refused_witness:
  "\<exists>t. serve_session demo_session_env (demo_peer (bytes_of ''t'')) demo_session_stats [3] = Some t \<and>
     se_handler t = [3] \<and> st_rejected_auth (se_stats t) = 1 \<and> length (tcp_input (se_stream t)) = 2"
proof -
  note facts = demo_hello_facts [of "bytes_of ''t''", simplified]
  have "length (demo_body (bytes_of ''t'')) \<le> unat (4096 :: u32)"
    using facts(3) by simp
  then show ?thesis
    using wrong_secret_refused [of demo_session_env "demo_peer (bytes_of ''t'')" 1 "demo_body (bytes_of ''t'')" 0
        "tl (tcp_input (demo_peer (bytes_of ''t'')))" "demo_hello (bytes_of ''t'')" demo_session_stats "[3]"]
      facts(1,2) demo_token
    by (auto simp: demo_session_env_def demo_peer_def demo_hello_def demo_session_stats_def)
qed

theorem session_authenticated_witness:
  "\<exists>t. serve_session demo_session_env (demo_peer (bytes_of ''s'')) demo_session_stats [] = Some t \<and>
     se_handler t = [2] \<and> SX_Hello (bytes_of ''s'') \<in> set (se_trace t)"
proof (rule demo_served)
  fix t assume run: "serve_session demo_session_env (demo_peer (bytes_of ''s'')) demo_session_stats [] = Some t"
    and "se_handler t = [2]"
  moreover have "sc_require_auth (sv_config demo_session_env)"
    by (simp add: demo_session_env_def)
  ultimately show ?thesis
    using session_authenticated [OF _ run] by (auto simp: demo_session_env_def)
qed

theorem session_replay_protected_witness:
  "\<exists>t. serve_session demo_session_env (demo_peer (bytes_of ''s'')) demo_session_stats [] = Some t \<and>
     handled_sequences (se_trace t) = [2] \<and> map fh_sequence (sent_frames (se_trace t)) = [1, 2, 3] \<and>
     se_replays t = 1 \<and> sorted_wrt (<) (handled_sequences (se_trace t))"
proof (rule demo_served)
  fix t assume run: "serve_session demo_session_env (demo_peer (bytes_of ''s'')) demo_session_stats [] = Some t"
    and "handled_sequences (se_trace t) = [2]" "map fh_sequence (sent_frames (se_trace t)) = [1, 2, 3]" "se_replays t = 1"
  then show ?thesis
    using session_replay_protected [OF run] by auto
qed

text \<open>
  A fresh request of an established session is handed to the handler once, with the context of
  the session and the bytes of the frame, and the peer gets exactly one frame back. It carries the
  handler's reply under the response type of the request, or an error frame with the handler's
  code, and in both cases the sequence number of the request as its correlation.
\<close>

theorem request_answered:
  assumes "tcp_valid (se_stream s)" and "se_handshaken s" and "se_inbound_sequence s < q"
    and "tcp_input (se_stream s) = AR_Bytes (frame_bytes (frame_for type body c q) body) # rest"
    and "response_type_for type \<noteq> MT_Invalid" and "type \<noteq> MT_HelloRequest" and "is_known_message_type type"
    and "length body \<le> kMaxFramePayloadBytes" and "length body \<le> unat (se_max_payload s)"
    and "mh_handle (sv_handler env) (se_context s) type body (se_handler s) = (response, context', h')"
  shows "se_handler (snd (session_round env s)) = h' \<and>
    tcp_input (se_stream (snd (session_round env s))) = rest \<and>
    se_trace (snd (session_round env s)) = se_trace s @
      [SX_Handled q type body,
       case response of
         Inr reply \<Rightarrow> SX_Sent (frame_for (response_type_for type) reply q (se_outbound_sequence s + 1)) reply
       | Inl (code, message) \<Rightarrow>
           let detail = body_of encode_error_response
             \<lparr> ee_code = code, ee_offending_type = type, ee_detail = message \<rparr>
           in SX_Sent (frame_for MT_ErrorResponse detail q (se_outbound_sequence s + 1)) detail]"
  using session_request [OF assms(1-4,7-9), of env] assms(5,6,10)
  by (auto simp: session_dispatch_def Let_def split_beta send_error_def split: sum.split)

theorem request_answered_witness:
  "let s = snd (session_round demo_session_env
       (Session_new demo_session_env (demo_peer (bytes_of ''s'')) demo_session_stats []));
       t = snd (session_round demo_session_env s)
   in se_handler t = [2] \<and>
      se_trace t = se_trace s @ [SX_Handled 2 MT_Heartbeat [5, 6], SX_Sent (frame_for MT_HeartbeatAck [5, 6] 2 2) [5, 6]]"
proof (rule demo_opened)
  fix s
  assume round: "session_round demo_session_env
      (Session_new demo_session_env (demo_peer (bytes_of ''s'')) demo_session_stats []) = (True, s)"
    and s: "se_handshaken s" "takes_bytes 6 (se_stream s)" "se_inbound_sequence s = 1" "se_max_payload s = 64"
    "tcp_input (se_stream s) = replicate 2 (AR_Bytes (frame_bytes (frame_for MT_Heartbeat [5, 6] 0 2) [5, 6]))"
    "se_handler s = []" "se_outbound_sequence s = 1"
  have known: "is_known_message_type MT_Heartbeat" "response_type_for MT_Heartbeat = MT_HeartbeatAck"
    by (simp_all add: is_known_message_type_def response_type_for_def response_table_def)
  have input: "tcp_input (se_stream s) = AR_Bytes (frame_bytes (frame_for MT_Heartbeat [5, 6] 0 2) [5, 6]) #
      [AR_Bytes (frame_bytes (frame_for MT_Heartbeat [5, 6] 0 2) [5, 6])]"
    using s(5) by (simp add: numeral_2_eq_2)
  have handled: "mh_handle (sv_handler demo_session_env) (se_context s) MT_Heartbeat [5, 6] (se_handler s) =
      (Inr [5, 6], se_context s, [2])"
    using s(6) by (simp add: demo_session_env_def demo_recorder_def)
  have "tcp_valid (se_stream s)"
    using s(2) by (simp add: takes_bytes_def)
  then show ?thesis
    using request_answered [OF _ s(1) _ input _ _ known(1) _ _ handled] s known(2)
    by (simp add: round kMaxFramePayloadBytes_def)
qed

end
