(* ===== verification/ServerLoop.thy ===== *)
theory ServerLoop
  imports Session
begin

text \<open>
  The threads of the session server (\<open>src/session.cpp\<close>: \<open>Server::start\<close>, \<open>stop\<close>, \<open>accept_loop\<close>,
  \<open>reap_finished_sessions\<close> and the two last lines of \<open>serve_session\<close>). The acceptor thread and the
  session threads share \<open>active_sessions_\<close>, \<open>sessions_\<close> and the flags. Each operation below is what
  one thread does between two points where another may run, and \<open>server_step\<close> interleaves them in
  every way. \<open>start\<close> and \<open>stop\<close> are called by one owner, in order.
\<close>

section \<open>The shared state\<close>

text \<open>
  A slot is new until its thread runs; the thread takes itself off the count, and then marks the
  slot finished.
\<close>

datatype SlotPhase = SL_New | SL_Serving | SL_Left | SL_Finished

text \<open>Where the acceptor is; the last case holds the value \<open>fetch_add\<close> gave, plus one.\<close>

datatype Acceptor = AC_Stopped | AC_Top | AC_Accepted | AC_Below | AC_Pushed | AC_Counted u32

record Server =
  sr_config :: ServerConfig
  sr_running :: bool
  sr_stopping :: bool
  sr_acceptor :: Acceptor
  sr_sessions :: "SlotPhase list"
  sr_active :: u32
  sr_peak :: u32
  sr_accepted :: u64
  sr_rejected_capacity :: u64
  sr_refusals :: "(u8 list \<times> u8 list) list"

definition Server_new :: "ServerConfig \<Rightarrow> Server" where
  "Server_new config =
     \<lparr> sr_config = Server_config config, sr_running = False, sr_stopping = False,
       sr_acceptor = AC_Stopped, sr_sessions = [], sr_active = 0, sr_peak = 0, sr_accepted = 0,
       sr_rejected_capacity = 0, sr_refusals = [] \<rparr>"

section \<open>Operations\<close>

text \<open>What the sockets answer to \<open>initialize_sockets\<close> and \<open>bind\<close> is an argument.\<close>

definition Server_start :: "StatusCode \<Rightarrow> Server \<Rightarrow> StatusCode \<times> Server" where
  "Server_start bound s =
     (if sr_running s then (ST_Conflict, s)
      else if sc_require_auth (sr_config s) \<and> sc_auth_token (sr_config s) = [] then (ST_InvalidArgument, s)
      else if bound \<noteq> ST_Ok then (bound, s)
      else (ST_Ok, s\<lparr> sr_stopping := False, sr_running := True, sr_acceptor := AC_Top \<rparr>))"

definition Server_stop_request :: "Server \<Rightarrow> Server" where
  "Server_stop_request s =
     (if \<not> sr_running s then s else s\<lparr> sr_running := False, sr_stopping := True \<rparr>)"

text \<open>The part of \<open>stop\<close> after every \<open>join\<close> has returned.\<close>

definition Server_stop_finish :: "Server \<Rightarrow> Server" where
  "Server_stop_finish s = s\<lparr> sr_sessions := [] \<rparr>"

definition reap_finished_sessions :: "Server \<Rightarrow> Server" where
  "reap_finished_sessions s = s\<lparr> sr_sessions := filter (\<lambda>slot. slot \<noteq> SL_Finished) (sr_sessions s) \<rparr>"

definition capacity_refusal :: "u8 list \<times> u8 list" where
  "capacity_refusal =
     (let body = body_of encode_error_response
            \<lparr> ee_code = ST_CapacityExhausted, ee_offending_type = MT_Invalid,
              ee_detail = bytes_of ''session capacity is exhausted'' \<rparr>
      in (encode_header (frame_for MT_ErrorResponse body 0 1) (replicate kHeaderBytes 0), body))"

definition accept_top :: "Server \<Rightarrow> Server" where
  "accept_top s = (if sr_stopping s then s\<lparr> sr_acceptor := AC_Stopped \<rparr> else s)"

text \<open>\<open>accept\<close> timed out or failed. A failure is logged unless the server is stopping.\<close>

definition accept_failed :: "StatusCode \<Rightarrow> Server \<Rightarrow> Server" where
  "accept_failed code s =
     (let s1 = reap_finished_sessions s
      in if code = ST_NotFound then s1
         else if sr_stopping s1 then s1\<lparr> sr_acceptor := AC_Stopped \<rparr> else s1)"

definition accept_connected :: "Server \<Rightarrow> Server" where
  "accept_connected s = (reap_finished_sessions s)\<lparr> sr_acceptor := AC_Accepted \<rparr>"

definition accept_check :: "Server \<Rightarrow> Server" where
  "accept_check s =
     (if sr_active s \<ge> sc_max_sessions (sr_config s)
      then s\<lparr> sr_rejected_capacity := sr_rejected_capacity s + 1,
              sr_refusals := sr_refusals s @ [capacity_refusal], sr_acceptor := AC_Top \<rparr>
      else s\<lparr> sr_acceptor := AC_Below \<rparr>)"

definition accept_push :: "Server \<Rightarrow> Server" where
  "accept_push s = s\<lparr> sr_sessions := sr_sessions s @ [SL_New], sr_acceptor := AC_Pushed \<rparr>"

definition accept_count :: "Server \<Rightarrow> Server" where
  "accept_count s =
     s\<lparr> sr_active := sr_active s + 1, sr_acceptor := AC_Counted (sr_active s + 1) \<rparr>"

text \<open>The acceptor alone writes the peak, so its exchange loop ends with the larger value.\<close>

definition accept_spawn :: "u32 \<Rightarrow> Server \<Rightarrow> Server" where
  "accept_spawn now_active s =
     s\<lparr> sr_peak := (if now_active > sr_peak s then now_active else sr_peak s),
        sr_accepted := sr_accepted s + 1,
        sr_sessions := map (\<lambda>slot. if slot = SL_New then SL_Serving else slot) (sr_sessions s),
        sr_acceptor := AC_Top \<rparr>"

definition worker_leave :: "nat \<Rightarrow> Server \<Rightarrow> Server" where
  "worker_leave i s =
     s\<lparr> sr_active := sr_active s - 1, sr_sessions := (sr_sessions s)[i := SL_Left] \<rparr>"

definition worker_finish :: "nat \<Rightarrow> Server \<Rightarrow> Server" where
  "worker_finish i s = s\<lparr> sr_sessions := (sr_sessions s)[i := SL_Finished] \<rparr>"

section \<open>Interleavings\<close>

inductive server_step :: "Server \<Rightarrow> Server \<Rightarrow> bool" where
  started: "sr_acceptor s = AC_Stopped \<Longrightarrow> sr_sessions s = [] \<Longrightarrow> server_step s (snd (Server_start bound s))"
| stop_requested: "server_step s (Server_stop_request s)"
| stopped: "sr_stopping s \<Longrightarrow> sr_acceptor s = AC_Stopped \<Longrightarrow>
    (\<forall>slot \<in> set (sr_sessions s). slot = SL_Finished) \<Longrightarrow> server_step s (Server_stop_finish s)"
| top: "sr_acceptor s = AC_Top \<Longrightarrow> server_step s (accept_top s)"
| failed: "sr_acceptor s = AC_Top \<Longrightarrow> code \<noteq> ST_Ok \<Longrightarrow> server_step s (accept_failed code s)"
| connected: "sr_acceptor s = AC_Top \<Longrightarrow> server_step s (accept_connected s)"
| check: "sr_acceptor s = AC_Accepted \<Longrightarrow> server_step s (accept_check s)"
| push: "sr_acceptor s = AC_Below \<Longrightarrow> server_step s (accept_push s)"
| count: "sr_acceptor s = AC_Pushed \<Longrightarrow> server_step s (accept_count s)"
| spawn: "sr_acceptor s = AC_Counted n \<Longrightarrow> server_step s (accept_spawn n s)"
| leave: "i < length (sr_sessions s) \<Longrightarrow> sr_sessions s ! i = SL_Serving \<Longrightarrow> server_step s (worker_leave i s)"
| finish: "i < length (sr_sessions s) \<Longrightarrow> sr_sessions s ! i = SL_Left \<Longrightarrow> server_step s (worker_finish i s)"

inductive server_reachable :: "ServerConfig \<Rightarrow> Server \<Rightarrow> bool" for config where
  initial: "server_reachable config (Server_new config)"
| step: "server_reachable config s \<Longrightarrow> server_step s s' \<Longrightarrow> server_reachable config s'"

section \<open>The invariant\<close>

definition serving :: "Server \<Rightarrow> nat" where
  "serving s = count_list (sr_sessions s) SL_Serving"

definition being_counted :: "Server \<Rightarrow> nat" where
  "being_counted s = (case sr_acceptor s of AC_Counted _ \<Rightarrow> 1 | _ \<Rightarrow> 0)"

text \<open>
  The counter is the number of session threads before their \<open>fetch_sub\<close>, plus the session the
  acceptor has counted and not yet started; between its check and its \<open>fetch_add\<close> the counter can
  only have gone down.
\<close>

definition server_inv :: "Server \<Rightarrow> bool" where
  "server_inv s \<longleftrightarrow>
     unat (sr_active s) = serving s + being_counted s \<and>
     sr_active s \<le> sc_max_sessions (sr_config s) \<and>
     (sr_acceptor s \<in> {AC_Below, AC_Pushed} \<longrightarrow> sr_active s < sc_max_sessions (sr_config s)) \<and>
     (\<forall>n. sr_acceptor s = AC_Counted n \<longrightarrow> n \<le> sc_max_sessions (sr_config s)) \<and>
     sr_peak s \<le> sc_max_sessions (sr_config s) \<and>
     count_list (sr_sessions s) SL_New =
       (case sr_acceptor s of AC_Pushed \<Rightarrow> 1 | AC_Counted _ \<Rightarrow> 1 | _ \<Rightarrow> 0) \<and>
     (sr_running s \<longrightarrow> \<not> sr_stopping s) \<and>
     0 < sc_max_sessions (sr_config s)"

lemma count_list_filter: "P x \<Longrightarrow> count_list (filter P xs) x = count_list xs x"
  by (induction xs) auto

lemma count_list_update:
  "i < length xs \<Longrightarrow> count_list (xs[i := y]) x + (if xs ! i = x then 1 else 0) = count_list xs x + (if y = x then 1 else 0)"
proof (induction xs arbitrary: i)
  case (Cons z zs)
  show ?case
  proof (cases i)
    case (Suc j)
    with Cons.prems Cons.IH [of j] show ?thesis by (auto split: if_splits)
  qed auto
qed simp

lemma count_list_spawned:
  "count_list (map (\<lambda>slot. if slot = SL_New then SL_Serving else slot) xs) SL_Serving =
     count_list xs SL_Serving + count_list xs SL_New"
  "count_list (map (\<lambda>slot. if slot = SL_New then SL_Serving else slot) xs) SL_New = 0"
  by (induction xs) auto

lemma server_inv_new: "server_inv (Server_new config)"
  by (auto simp: server_inv_def Server_new_def serving_def being_counted_def Server_config_def Let_def
      word_gt_0)

lemma server_inv_reap: "server_inv s \<Longrightarrow> server_inv (reap_finished_sessions s)"
  by (simp add: server_inv_def reap_finished_sessions_def serving_def being_counted_def count_list_filter)

lemma count_list_zero: "count_list xs x = 0 \<longleftrightarrow> x \<notin> set xs"
  by (induction xs) auto

lemma server_inv_control:
  assumes "server_inv s"
  shows "sr_acceptor s = AC_Stopped \<Longrightarrow> server_inv (snd (Server_start bound s))"
    and "server_inv (Server_stop_request s)"
    and "sr_stopping s \<Longrightarrow> sr_acceptor s = AC_Stopped \<Longrightarrow> \<forall>slot \<in> set (sr_sessions s). slot = SL_Finished \<Longrightarrow>
      server_inv (Server_stop_finish s)"
  using assms
  by (auto simp: server_inv_def Server_start_def Server_stop_request_def Server_stop_finish_def serving_def
      being_counted_def count_list_zero)

lemma server_inv_idle:
  assumes "server_inv s" and "sr_acceptor s = AC_Top"
  shows "server_inv (accept_top s)" "server_inv (accept_failed code s)" "server_inv (accept_connected s)"
  using assms server_inv_reap [OF assms(1)]
  by (auto simp: server_inv_def accept_top_def accept_failed_def accept_connected_def reap_finished_sessions_def
      serving_def being_counted_def Let_def)

lemma server_inv_check:
  "server_inv s \<Longrightarrow> sr_acceptor s = AC_Accepted \<Longrightarrow> server_inv (accept_check s)"
  by (auto simp: server_inv_def accept_check_def serving_def being_counted_def)

lemma server_inv_push: "server_inv s \<Longrightarrow> sr_acceptor s = AC_Below \<Longrightarrow> server_inv (accept_push s)"
  by (auto simp: server_inv_def accept_push_def serving_def being_counted_def)

lemma word_room:
  assumes less: "(a :: u32) < b"
  shows "unat (a + 1) = Suc (unat a) \<and> a + 1 \<le> b"
proof -
  have "unat b < 2 ^ 32"
    using unsigned_less [of b] by simp
  then have "Suc (unat a) < 2 ^ 32"
    using less by (simp add: word_less_nat_alt)
  then have "unat (a + 1) = Suc (unat a)"
    by (simp add: unat_word_ariths)
  with less show ?thesis by (simp add: word_less_nat_alt word_le_nat_alt)
qed

lemma server_inv_count: "server_inv s \<Longrightarrow> sr_acceptor s = AC_Pushed \<Longrightarrow> server_inv (accept_count s)"
  using word_room [of "sr_active s" "sc_max_sessions (sr_config s)"]
  by (auto simp: server_inv_def accept_count_def serving_def being_counted_def)

lemma server_inv_spawn: "server_inv s \<Longrightarrow> sr_acceptor s = AC_Counted n \<Longrightarrow> server_inv (accept_spawn n s)"
  by (auto simp: server_inv_def accept_spawn_def serving_def being_counted_def count_list_spawned)

lemma word_back: "0 < unat (a :: u32) \<Longrightarrow> unat (a - 1) = unat a - 1 \<and> a - 1 < a"
  by (metis One_nat_def gr0_implies_Suc unat_minus_one word_less_nat_alt diff_less lessI unat_0 less_irrefl)

lemma server_inv_worker:
  assumes "server_inv s" and "i < length (sr_sessions s)"
  shows "sr_sessions s ! i = SL_Serving \<Longrightarrow> server_inv (worker_leave i s)"
    and "sr_sessions s ! i = SL_Left \<Longrightarrow> server_inv (worker_finish i s)"
proof -
  assume live: "sr_sessions s ! i = SL_Serving"
  have count: "Suc (count_list ((sr_sessions s)[i := SL_Left]) SL_Serving) = serving s"
    "count_list ((sr_sessions s)[i := SL_Left]) SL_New = count_list (sr_sessions s) SL_New"
    using count_list_update [OF assms(2), of SL_Left SL_Serving] count_list_update [OF assms(2), of SL_Left SL_New]
      live by (simp_all add: serving_def)
  then have "unat (sr_active s - 1) = unat (sr_active s) - 1" "sr_active s - 1 < sr_active s"
    using word_back [of "sr_active s"] assms(1) by (simp_all add: server_inv_def)
  with count assms(1) show "server_inv (worker_leave i s)"
    by (auto simp: server_inv_def worker_leave_def serving_def being_counted_def)
next
  assume "sr_sessions s ! i = SL_Left"
  then show "server_inv (worker_finish i s)"
    using assms(1) count_list_update [OF assms(2), of SL_Finished SL_Serving]
      count_list_update [OF assms(2), of SL_Finished SL_New]
    by (simp add: server_inv_def worker_finish_def serving_def being_counted_def)
qed

lemma server_inv_step: "server_step s s' \<Longrightarrow> server_inv s \<Longrightarrow> server_inv s'"
  by (induction rule: server_step.induct)
    (simp_all add: server_inv_control server_inv_idle server_inv_check server_inv_push server_inv_count
      server_inv_spawn server_inv_worker)

lemma server_config_step: "server_step s s' \<Longrightarrow> sr_config s' = sr_config s"
  by (induction rule: server_step.induct)
    (auto simp: Server_start_def Server_stop_request_def Server_stop_finish_def accept_top_def accept_failed_def
      reap_finished_sessions_def accept_connected_def accept_check_def accept_push_def accept_count_def
      accept_spawn_def worker_leave_def worker_finish_def Let_def)

lemma server_reachable_inv:
  "server_reachable config s \<Longrightarrow> server_inv s \<and> sr_config s = Server_config config"
proof (induction rule: server_reachable.induct)
  case initial
  show ?case by (simp add: server_inv_new) (simp add: Server_new_def)
next
  case (step s s')
  then show ?case using server_inv_step server_config_step by simp
qed

section \<open>Server properties\<close>

text \<open>
  C34. The session limit holds under every interleaving of the acceptor with the session threads.
  In every reachable state at most the configured number of session threads is serving, the shared
  counter is exactly that number plus the session being started (it never wraps below zero), and
  the recorded peak never exceeds the limit.
\<close>

theorem server_capacity_bounded:
  assumes "server_reachable config s"
  shows "serving s \<le> unat (sc_max_sessions (Server_config config)) \<and>
    unat (sr_active s) = serving s + being_counted s \<and>
    sr_active s \<le> sc_max_sessions (Server_config config) \<and>
    sr_peak s \<le> sc_max_sessions (Server_config config)"
  using server_reachable_inv [OF assms] by (auto simp: server_inv_def word_le_nat_alt)

definition demo_server_config :: ServerConfig where
  "demo_server_config =
     \<lparr> sc_max_sessions = 1, sc_max_frame_payload = 4096, sc_auth_token = [7], sc_require_auth = True \<rparr>"

definition demo_accepting :: "Server \<Rightarrow> Server" where
  "demo_accepting s = accept_spawn 1 (accept_count (accept_push (accept_check (accept_connected s))))"

definition demo_server :: Server where
  "demo_server = accept_check (accept_connected (demo_accepting (snd (Server_start ST_Ok (Server_new demo_server_config)))))"

lemma demo_server_fields:
  "sr_sessions demo_server = [SL_Serving]" "sr_active demo_server = 1" "sr_rejected_capacity demo_server = 1"
  "sr_acceptor demo_server = AC_Top" "\<not> sr_stopping demo_server" "sr_running demo_server"
  by (simp_all add: demo_server_def demo_accepting_def demo_server_config_def Server_start_def Server_new_def
      Server_config_def Let_def accept_check_def accept_connected_def reap_finished_sessions_def accept_push_def
      accept_count_def accept_spawn_def kAbsoluteMaxPayloadBytes_def)

lemma demo_server_reachable: "server_reachable demo_server_config demo_server"
proof -
  let ?s0 = "snd (Server_start ST_Ok (Server_new demo_server_config))"
  note steps = demo_accepting_def demo_server_config_def Server_start_def Server_new_def
      Server_config_def Let_def accept_check_def accept_connected_def reap_finished_sessions_def accept_push_def
      accept_count_def accept_spawn_def kAbsoluteMaxPayloadBytes_def
  have "server_reachable demo_server_config ?s0"
    by (rule server_reachable.step [OF server_reachable.initial], rule server_step.started)
      (simp_all add: Server_new_def)
  then have "server_reachable demo_server_config (accept_connected ?s0)"
    by (rule server_reachable.step, intro server_step.connected) (simp add: steps)
  then have "server_reachable demo_server_config (accept_check (accept_connected ?s0))"
    by (rule server_reachable.step, intro server_step.check) (simp add: steps)
  then have "server_reachable demo_server_config (accept_push (accept_check (accept_connected ?s0)))"
    by (rule server_reachable.step, intro server_step.push) (simp add: steps)
  then have "server_reachable demo_server_config (accept_count (accept_push (accept_check (accept_connected ?s0))))"
    by (rule server_reachable.step, intro server_step.count) (simp add: steps)
  then have "server_reachable demo_server_config (demo_accepting ?s0)"
    unfolding demo_accepting_def
    by (rule server_reachable.step, intro server_step.spawn) (simp add: steps)
  then have "server_reachable demo_server_config (accept_connected (demo_accepting ?s0))"
    by (rule server_reachable.step, intro server_step.connected) (simp add: steps)
  then show ?thesis
    unfolding demo_server_def by (rule server_reachable.step, intro server_step.check) (simp add: steps)
qed

theorem server_capacity_bounded_witness:
  "server_reachable demo_server_config demo_server \<and> serving demo_server = 1 \<and> sr_active demo_server \<le> 1 \<and>
   sr_rejected_capacity demo_server = 1"
  using server_capacity_bounded [OF demo_server_reachable] demo_server_reachable demo_server_fields
  by (simp add: serving_def)

text \<open>
  Stopping drains the server. When \<open>stop\<close> has joined the acceptor and every session thread,
  no session is counted as active any more, in any reachable state.
\<close>

theorem server_stop_drains:
  assumes "server_reachable config s" and "sr_acceptor s = AC_Stopped"
    and "\<forall>slot \<in> set (sr_sessions s). slot = SL_Finished"
  shows "sr_active (Server_stop_finish s) = 0 \<and> sr_sessions (Server_stop_finish s) = []"
proof -
  have "count_list (sr_sessions s) SL_Serving = 0"
    using assms(3) by (auto simp: count_list_zero)
  then show ?thesis
    using server_reachable_inv [OF assms(1)] assms(2)
    by (simp add: server_inv_def serving_def being_counted_def Server_stop_finish_def unat_eq_0)
qed

end
