(* ===== verification/Service.thy ===== *)
theory Service
  imports Session
begin

text \<open>
  The coordinator service (\<open>tools/service.hpp\<close>, \<open>tools/service.cpp\<close>): the message handler that turns
  the requests of a session into operations of the coordinator, saves snapshots after the messages
  that change it, and boots the coordinator from the snapshot file. One call of the handler is one
  step; the coordinator takes its lock once per operation.
\<close>

section \<open>State and environment\<close>

text \<open>
  What the service depends on: its configuration, the readings of the clock in order, the replies
  of the operating system, the process identifier, the random numbers of the boot identity, and
  the wording of the failures of the coordinator, which the model of the coordinator does not carry.
\<close>

record Service =
  vs_coordinator :: Coordinator
  vs_disk :: Disk
  vs_readings :: nat
  vs_last_snapshot_nanos :: i64
  vs_last_snapshot_error :: StatusCode
  vs_shutdown_requested :: bool
  vs_undefined :: bool

record ServiceEnv =
  ve_snapshot_path :: string
  ve_snapshot_interval_nanos :: i64
  ve_persist :: bool
  ve_clock :: "nat \<Rightarrow> i64"
  ve_os :: Replies
  ve_pid :: u64
  ve_seeded :: "u64 \<Rightarrow> u64 \<times> u64"
  ve_drawn :: "u64 \<times> u64"
  ve_wording :: "MessageType \<Rightarrow> u8 list \<Rightarrow> Service \<Rightarrow> u8 list"

definition now_nanos :: "ServiceEnv \<Rightarrow> Service \<Rightarrow> i64 \<times> Service" where
  "now_nanos env v = (ve_clock env (vs_readings v), v\<lparr> vs_readings := Suc (vs_readings v) \<rparr>)"

text \<open>An operation of the coordinator, with or without a reading of the clock.\<close>

definition timed :: "ServiceEnv \<Rightarrow> (i64 \<Rightarrow> Coordinator \<Rightarrow> 'r \<times> Coordinator) \<Rightarrow> Service \<Rightarrow> 'r \<times> Service" where
  "timed env operation v =
     (case now_nanos env v of (now, v1) \<Rightarrow>
        (case operation now (vs_coordinator v1) of (r, c) \<Rightarrow> (r, v1\<lparr> vs_coordinator := c \<rparr>)))"

definition untimed :: "(Coordinator \<Rightarrow> 'r \<times> Coordinator) \<Rightarrow> Service \<Rightarrow> 'r \<times> Service" where
  "untimed operation v =
     (case operation (vs_coordinator v) of (r, c) \<Rightarrow> (r, v\<lparr> vs_coordinator := c \<rparr>))"

section \<open>Snapshots\<close>

definition service_store :: "ServiceEnv \<Rightarrow> SnapshotStore" where
  "service_store env =
     \<lparr> ss_path = ve_snapshot_path env, ss_max_payload_bytes = of_nat kMaxSnapshotPayloadBytes \<rparr>"

definition persists :: "ServiceEnv \<Rightarrow> bool" where
  "persists env \<longleftrightarrow> ve_persist env \<and> ve_snapshot_path env \<noteq> []"

definition service_save_snapshot :: "ServiceEnv \<Rightarrow> Service \<Rightarrow> StatusCode \<times> Service" where
  "service_save_snapshot env v =
     (if \<not> persists env then (ST_Unsupported, v)
      else (case save_snapshot (ve_os env) (ve_pid env) (service_store env)
                   (export_state (vs_coordinator v)) (vs_disk v) of
        (saved, d) \<Rightarrow>
          let v1 = v\<lparr> vs_disk := d \<rparr>
          in if saved \<noteq> ST_Ok then (saved, v1\<lparr> vs_last_snapshot_error := saved \<rparr>)
             else (case now_nanos env v1 of (now, v2) \<Rightarrow>
               (ST_Ok, v2\<lparr> vs_last_snapshot_nanos := now, vs_last_snapshot_error := ST_Ok \<rparr>))))"

definition maybe_snapshot :: "ServiceEnv \<Rightarrow> bool \<Rightarrow> Service \<Rightarrow> Service" where
  "maybe_snapshot env mutated v =
     (if \<not> mutated \<or> \<not> persists env then v
      else (case now_nanos env v of (now, v1) \<Rightarrow>
        if vs_last_snapshot_nanos v1 \<noteq> 0 \<and>
           now - vs_last_snapshot_nanos v1 < ve_snapshot_interval_nanos env
        then v1 else snd (service_save_snapshot env v1)))"

section \<open>The life of the service\<close>

definition Service_new ::
  "CoordinatorConfig \<Rightarrow> ((u64, DeferRecord) umap \<Rightarrow> u64) \<Rightarrow> Disk \<Rightarrow> Service" where
  "Service_new config first d =
     \<lparr> vs_coordinator = Coordinator_new config first, vs_disk = d, vs_readings = 0,
       vs_last_snapshot_nanos = 0, vs_last_snapshot_error = ST_Ok, vs_shutdown_requested = False,
       vs_undefined = False \<rparr>"

text \<open>\<open>start\<close> up to the start of the server, whose outcome is the second argument.\<close>

definition service_boot_fresh :: "ServiceEnv \<Rightarrow> Service \<Rightarrow> StatusCode \<times> Service" where
  "service_boot_fresh env v =
     (case untimed (boot_fresh (ve_seeded env) (ve_drawn env)) v of
        (Inl code, v1) \<Rightarrow> (code, v1)
      | (Inr _, v1) \<Rightarrow> (ST_Ok, v1))"

definition service_boot :: "ServiceEnv \<Rightarrow> Service \<Rightarrow> StatusCode \<times> Service" where
  "service_boot env v =
     (if persists env
      then (case load_snapshot (ve_os env) (service_store env) (vs_disk v) of
        (loaded, d) \<Rightarrow>
          let v1 = v\<lparr> vs_disk := d \<rparr>
          in case loaded of
               Inr state \<Rightarrow>
                 (case untimed (boot_from (ve_seeded env) (ve_drawn env) state) v1 of
                    (Inl code, v2) \<Rightarrow> (code, v2)
                  | (Inr _, v2) \<Rightarrow> (ST_Ok, v2))
             | Inl code \<Rightarrow>
                 if code = ST_NotFound then service_boot_fresh env v1 else (code, v1))
      else service_boot_fresh env v)"

definition service_start :: "ServiceEnv \<Rightarrow> StatusCode \<Rightarrow> Service \<Rightarrow> StatusCode \<times> Service" where
  "service_start env server_started v =
     (case service_boot env v of (booted, v1) \<Rightarrow>
        if booted \<noteq> ST_Ok then (booted, v1) else (server_started, v1))"

definition service_stop :: "ServiceEnv \<Rightarrow> Service \<Rightarrow> Service" where
  "service_stop env v = (if persists env then snd (service_save_snapshot env v) else v)"

definition request_shutdown :: "Service \<Rightarrow> Service" where
  "request_shutdown v = v\<lparr> vs_shutdown_requested := True \<rparr>"

definition describe_authority :: "ServiceEnv \<Rightarrow> HelloResponse \<Rightarrow> Service \<Rightarrow> HelloResponse \<times> Service" where
  "describe_authority env response v =
     (let stamp = authority (vs_coordinator v)
      in case timed env (\<lambda>now c. (status now c, c)) v of (st, v1) \<Rightarrow>
           (response\<lparr> hs_coordinator_boot := au_incarnation stamp, hs_epoch := au_epoch stamp,
              hs_policy_generation := au_policy stamp,
              hs_topology_generation := cs_topology_generation st,
              hs_topology_state := cs_topology_state st,
              hs_authority_sequence := au_sequence stamp \<rparr>, v1))"

section \<open>Bodies\<close>

text \<open>
  How a case of the switch leaves it: by a return with a failure, which skips the snapshot, or by
  a break with the result so far and whether the message changed the coordinator.
\<close>

datatype HandleStep = HS_Return StatusCode | HS_Break bool "u8 list result"

definition decode_body ::
  "(Reader, 'a result) state \<Rightarrow> u8 list \<Rightarrow> ('a \<Rightarrow> Service \<Rightarrow> HandleStep \<times> Service) \<Rightarrow> Service \<Rightarrow>
   HandleStep \<times> Service" where
  "decode_body dec payload k v =
     (case decode_complete dec payload kMaxFramePayloadBytes of
        Inl code \<Rightarrow> (HS_Return code, v)
      | Inr body \<Rightarrow> k body v)"

definition build_body ::
  "bool \<Rightarrow> ('a \<Rightarrow> (Writer, unit) state) \<Rightarrow> 'a \<Rightarrow> Service \<Rightarrow> HandleStep \<times> Service" where
  "build_body mutated enc x v = (HS_Break mutated (encode_complete enc x kMaxFramePayloadBytes), v)"

definition or_return ::
  "'r result \<times> Service \<Rightarrow> ('r \<Rightarrow> Service \<Rightarrow> HandleStep \<times> Service) \<Rightarrow> HandleStep \<times> Service" where
  "or_return outcome k =
     (case outcome of (Inl code, v) \<Rightarrow> (HS_Return code, v) | (Inr r, v) \<Rightarrow> k r v)"

definition ok_or_return ::
  "StatusCode \<times> Service \<Rightarrow> (Service \<Rightarrow> HandleStep \<times> Service) \<Rightarrow> HandleStep \<times> Service" where
  "ok_or_return outcome k =
     (case outcome of (code, v) \<Rightarrow> if code \<noteq> ST_Ok then (HS_Return code, v) else k v)"

definition SimpleAck_init :: SimpleAck where
  "SimpleAck_init = \<lparr> ak_code = ST_Ok, ak_detail = [] \<rparr>"

section \<open>The cases of the switch\<close>

definition on_heartbeat :: "u8 list \<Rightarrow> Service \<Rightarrow> HandleStep \<times> Service" where
  "on_heartbeat payload =
     decode_body decode_heartbeat_message payload (\<lambda>body.
       build_body False encode_simple_ack SimpleAck_init)"

definition on_register_request :: "ServiceEnv \<Rightarrow> u8 list \<Rightarrow> Service \<Rightarrow> HandleStep \<times> Service" where
  "on_register_request env payload =
     decode_body decode_register_request_message payload (\<lambda>body v.
       or_return (timed env (register_request (rrm_request body)) v) (\<lambda>g v1.
         build_body True encode_register_request_response
           \<lparr> rrr_request = rrm_request body, rrr_generation = g,
             rrr_authority = authority (vs_coordinator v1) \<rparr> v1))"

definition on_register_attempt :: "ServiceEnv \<Rightarrow> u8 list \<Rightarrow> Service \<Rightarrow> HandleStep \<times> Service" where
  "on_register_attempt env payload =
     decode_body decode_register_attempt_message payload (\<lambda>body v.
       or_return (timed env (register_attempt (ram_request body) (ram_attempt body) (ram_model_hash body)) v)
         (\<lambda>g v1.
           build_body True encode_register_attempt_response
             \<lparr> rar_request = ram_request body, rar_attempt = ram_attempt body, rar_generation = g,
               rar_model_generation =
                 (if ram_model_hash body \<noteq> 0
                  then (case require_model_generation (ram_model_hash body) (vs_coordinator v1) of
                          Inr m \<Rightarrow> m | Inl _ \<Rightarrow> 0)
                  else 0),
               rar_route_generation = 0, rar_slo_generation = 0,
               rar_authority = authority (vs_coordinator v1) \<rparr> v1))"

definition on_stage_update :: "ServiceEnv \<Rightarrow> u8 list \<Rightarrow> Service \<Rightarrow> HandleStep \<times> Service" where
  "on_stage_update env payload =
     decode_body decode_stage_update_message payload (\<lambda>body v.
       ok_or_return (timed env (advance_stage (sum_request body) (sum_attempt body) (sum_stage body)) v)
         (build_body True encode_simple_ack SimpleAck_init))"

definition on_cancel_request :: "ServiceEnv \<Rightarrow> u8 list \<Rightarrow> Service \<Rightarrow> HandleStep \<times> Service" where
  "on_cancel_request env payload =
     decode_body decode_cancel_request_message payload (\<lambda>body v.
       ok_or_return (timed env (cancel_request (crm_request body) (crm_reason body)) v)
         (build_body True encode_simple_ack SimpleAck_init))"

text \<open>
  \<open>vs_undefined\<close> marks that \<open>fail_attempt\<close> read a record that was gone. What the program does from
  there on is not determined, and nothing is claimed of it.
\<close>

definition on_fail_attempt :: "ServiceEnv \<Rightarrow> u8 list \<Rightarrow> Service \<Rightarrow> HandleStep \<times> Service" where
  "on_fail_attempt env payload =
     decode_body decode_fail_attempt_message payload (\<lambda>body v.
       (case timed env (fail_attempt (fam_request body) (fam_attempt body) (fam_reason body)) v of
          (None, v1) \<Rightarrow> (HS_Return ST_Internal, v1\<lparr> vs_undefined := True \<rparr>)
        | (Some outcome, v1) \<Rightarrow>
            or_return (outcome, v1) (\<lambda>_. build_body True encode_simple_ack SimpleAck_init)))"

definition on_replace_attempt :: "ServiceEnv \<Rightarrow> u8 list \<Rightarrow> Service \<Rightarrow> HandleStep \<times> Service" where
  "on_replace_attempt env payload =
     decode_body decode_replace_attempt_message payload (\<lambda>body v.
       or_return (timed env (replace_attempt (rpm_request body) (rpm_superseded body)
                   (rpm_replacement body) (rpm_model_hash body)) v)
         (\<lambda>g v1.
           build_body True encode_register_attempt_response
             \<lparr> rar_request = rpm_request body, rar_attempt = rpm_replacement body, rar_generation = g,
               rar_model_generation = 0, rar_route_generation = 0, rar_slo_generation = 0,
               rar_authority = authority (vs_coordinator v1) \<rparr> v1))"

definition on_evaluate_traffic :: "ServiceEnv \<Rightarrow> u8 list \<Rightarrow> Service \<Rightarrow> HandleStep \<times> Service" where
  "on_evaluate_traffic env payload =
     decode_body decode_evaluate_traffic_message payload (\<lambda>body v.
       (case timed env (\<lambda>now. evaluate now (etm_request body)) v of (d, v1) \<Rightarrow>
          build_body False encode_decision_response_message \<lparr> drm_decision = d \<rparr> v1))"

definition on_open_flow :: "ServiceEnv \<Rightarrow> u8 list \<Rightarrow> Service \<Rightarrow> HandleStep \<times> Service" where
  "on_open_flow env payload =
     decode_body decode_open_flow_message payload (\<lambda>body v.
       or_return (timed env (open_flow (ofm_decision body) (ofm_declared_bytes body)) v) (\<lambda>flow v1.
         build_body True encode_open_flow_response
           \<lparr> ofr_flow = flow, ofr_authority = authority (vs_coordinator v1) \<rparr> v1))"

definition on_register_transfer :: "ServiceEnv \<Rightarrow> u8 list \<Rightarrow> Service \<Rightarrow> HandleStep \<times> Service" where
  "on_register_transfer env payload =
     decode_body decode_register_transfer_message payload (\<lambda>body v.
       or_return (timed env (register_transfer (rtm_registration body)) v) (\<lambda>registered v1.
         build_body True encode_register_transfer_response
           \<lparr> rtr_transfer = registered,
             rtr_model_generation =
               (case require_model_generation (tg_model_hash (rtm_registration body)) (vs_coordinator v1) of
                  Inr m \<Rightarrow> m | Inl _ \<Rightarrow> 0),
             rtr_state_generation =
               (case require_state_generation (tg_state_hash (rtm_registration body)) (vs_coordinator v1) of
                  Inr g \<Rightarrow> g | Inl _ \<Rightarrow> 0),
             rtr_state = TS_Registered, rtr_authority = authority (vs_coordinator v1) \<rparr> v1))"

definition on_authorize_transfer :: "ServiceEnv \<Rightarrow> u8 list \<Rightarrow> Service \<Rightarrow> HandleStep \<times> Service" where
  "on_authorize_transfer env payload =
     decode_body decode_authorize_transfer_message payload (\<lambda>body v.
       or_return (timed env (authorize_transfer (atm_request body)) v) (\<lambda>authorization.
         build_body True encode_transfer_decision_response
           \<lparr> tdr_authorization = authorization,
             tdr_subject = (case q_subject (atm_request body) of Some s \<Rightarrow> s | None \<Rightarrow> TrafficSubject_init),
             tdr_binding = q_binding (atm_request body), tdr_authority = ta_authority authorization \<rparr>))"

definition on_transfer_complete :: "u8 list \<Rightarrow> Service \<Rightarrow> HandleStep \<times> Service" where
  "on_transfer_complete payload =
     decode_body decode_transfer_complete_message payload (\<lambda>body v.
       ok_or_return (untimed (complete_transfer (tcm_transfer body) (tcm_verified_bytes body)) v)
         (build_body True encode_simple_ack SimpleAck_init))"

definition on_completion_publish :: "ServiceEnv \<Rightarrow> u8 list \<Rightarrow> Service \<Rightarrow> HandleStep \<times> Service" where
  "on_completion_publish env payload =
     decode_body decode_completion_publish_message payload (\<lambda>body v.
       or_return (timed env (publish_completion (cpm_publication body)) v) (\<lambda>outcome.
         build_body True encode_completion_response \<lparr> cor_outcome = outcome \<rparr>))"

definition on_accounting_query :: "u8 list \<Rightarrow> Service \<Rightarrow> HandleStep \<times> Service" where
  "on_accounting_query payload =
     decode_body decode_accounting_query_message payload (\<lambda>body v.
       build_body False encode_accounting_response_message \<lparr> acm_snapshot = accounting (vs_coordinator v) \<rparr> v)"

definition on_status_query :: "ServiceEnv \<Rightarrow> u8 list \<Rightarrow> Service \<Rightarrow> HandleStep \<times> Service" where
  "on_status_query env payload =
     decode_body decode_status_query_message payload (\<lambda>body v.
       (case timed env (\<lambda>now c. (status now c, c)) v of (st, v1) \<Rightarrow>
          build_body False encode_status_response_message \<lparr> srm_status = st \<rparr> v1))"

definition on_policy_query :: "u8 list \<Rightarrow> Service \<Rightarrow> HandleStep \<times> Service" where
  "on_policy_query payload =
     decode_body decode_policy_query_message payload (\<lambda>body v.
       build_body False encode_policy_response_message \<lparr> prm_policy = c_policy (vs_coordinator v) \<rparr> v)"

definition on_topology_publish :: "ServiceEnv \<Rightarrow> u8 list \<Rightarrow> Service \<Rightarrow> HandleStep \<times> Service" where
  "on_topology_publish env payload =
     decode_body decode_topology_publish_message payload (\<lambda>body v.
       or_return (timed env (publish_topology (tpm_evidence body)) v) (\<lambda>g.
         build_body True encode_topology_response_message
           \<lparr> trm_generation = g, trm_state = EV_Current, trm_provenance = te_provenance (tpm_evidence body) \<rparr>))"

definition on_publish_slo_contract :: "u8 list \<Rightarrow> Service \<Rightarrow> HandleStep \<times> Service" where
  "on_publish_slo_contract payload =
     decode_body decode_publish_slo_contract_message payload (\<lambda>body v.
       or_return (untimed (register_slo_contract (psm_request body) (psm_tail_latency_budget_nanos body)
                   (psm_registration_deadline_nanos body) (psm_min_stream_share_per_mille body)) v)
         (\<lambda>contract. build_body True encode_slo_contract_response \<lparr> scr_contract = contract \<rparr>))"

definition on_issue_route_decision :: "u8 list \<Rightarrow> Service \<Rightarrow> HandleStep \<times> Service" where
  "on_issue_route_decision payload =
     decode_body decode_issue_route_decision_message payload (\<lambda>body v.
       or_return (untimed (issue_route_decision (irm_request body) (irm_attempt body) (irm_target_node body)
                   (irm_lateral body) (irm_disaggregated_handoff body)) v)
         (\<lambda>decision. build_body True encode_route_decision_response \<lparr> rdr_decision = decision \<rparr>))"

text \<open>The three ways of the generation message.\<close>

definition ModelGenerationResponse_init :: "u64 \<Rightarrow> ModelGenerationResponse" where
  "ModelGenerationResponse_init hash =
     \<lparr> mgr_model_hash = hash, mgr_generation = 0, mgr_state_generation = 0,
       mgr_requires_revalidation = False \<rparr>"

definition advance_state_target :: "AdvanceGenerationMessage \<Rightarrow> Service \<Rightarrow> HandleStep \<times> Service" where
  "advance_state_target body v =
     or_return
       (if agm_revalidate_only body then untimed (revalidate_state_generation (agm_target_hash body)) v
        else untimed (advance_state_generation (agm_target_hash body)
               (if agm_has_expected body then Some (agm_expected_generation body) else None)) v)
       (\<lambda>g. build_body True encode_model_generation_response
          ((ModelGenerationResponse_init (agm_target_hash body))\<lparr> mgr_state_generation := g \<rparr>))"

definition revalidate_both :: "AdvanceGenerationMessage \<Rightarrow> Service \<Rightarrow> HandleStep \<times> Service" where
  "revalidate_both body v =
     (case untimed (revalidate_model_generation (agm_target_hash body)) v of (model, v1) \<Rightarrow>
        (case untimed (revalidate_state_generation (agm_target_hash body)) v1 of (state, v2) \<Rightarrow>
           (case (model, state) of
              (Inl code, Inl _) \<Rightarrow> (HS_Return code, v2)
            | _ \<Rightarrow>
                build_body True encode_model_generation_response
                  ((ModelGenerationResponse_init (agm_target_hash body))
                     \<lparr> mgr_generation := (case model of Inr g \<Rightarrow> g | Inl _ \<Rightarrow> 0),
                       mgr_state_generation := (case state of Inr g \<Rightarrow> g | Inl _ \<Rightarrow> 0) \<rparr>) v2)))"

definition on_advance_generation :: "u8 list \<Rightarrow> Service \<Rightarrow> HandleStep \<times> Service" where
  "on_advance_generation payload =
     decode_body decode_advance_generation_message payload (\<lambda>body v.
       if agm_state_target body then advance_state_target body v
       else if agm_revalidate_only body then revalidate_both body v
       else or_return
         (untimed (set_model_generation (agm_target_hash body)
            (if agm_has_expected body then Some (agm_expected_generation body) else None)) v)
         (\<lambda>g. build_body True encode_model_generation_response
            ((ModelGenerationResponse_init (agm_target_hash body))\<lparr> mgr_generation := g \<rparr>)))"

definition on_shutdown :: "Service \<Rightarrow> HandleStep \<times> Service" where
  "on_shutdown v =
     build_body False encode_simple_ack
       (SimpleAck_init\<lparr> ak_detail := bytes_of ''shutdown accepted'' \<rparr>) (request_shutdown v)"

section \<open>The handler\<close>

definition service_switch ::
  "ServiceEnv \<Rightarrow> MessageType \<Rightarrow> u8 list \<Rightarrow> Service \<Rightarrow> HandleStep \<times> Service" where
  "service_switch env type payload =
     (if type = MT_Heartbeat then on_heartbeat payload
      else if type = MT_RegisterRequest then on_register_request env payload
      else if type = MT_RegisterAttempt then on_register_attempt env payload
      else if type = MT_StageUpdate then on_stage_update env payload
      else if type = MT_CancelRequest then on_cancel_request env payload
      else if type = MT_FailAttempt then on_fail_attempt env payload
      else if type = MT_ReplaceAttempt then on_replace_attempt env payload
      else if type = MT_EvaluateTraffic then on_evaluate_traffic env payload
      else if type = MT_OpenFlow then on_open_flow env payload
      else if type = MT_RegisterTransfer then on_register_transfer env payload
      else if type = MT_AuthorizeTransfer then on_authorize_transfer env payload
      else if type = MT_TransferComplete then on_transfer_complete payload
      else if type = MT_CompletionPublish then on_completion_publish env payload
      else if type = MT_AccountingQuery then on_accounting_query payload
      else if type = MT_StatusQuery then on_status_query env payload
      else if type = MT_PolicyQuery then on_policy_query payload
      else if type = MT_TopologyPublish then on_topology_publish env payload
      else if type = MT_PublishSloContract then on_publish_slo_contract payload
      else if type = MT_IssueRouteDecision then on_issue_route_decision payload
      else if type = MT_AdvanceModelGeneration then on_advance_generation payload
      else if type = MT_Shutdown then on_shutdown
      else (\<lambda>v. (HS_Return ST_Unsupported, v)))"

definition service_handle ::
  "ServiceEnv \<Rightarrow> Context \<Rightarrow> MessageType \<Rightarrow> u8 list \<Rightarrow> Service \<Rightarrow>
   (StatusCode \<times> u8 list + u8 list) \<times> Context \<times> Service" where
  "service_handle env ctx type payload v =
     (case service_switch env type payload v of
        (HS_Return code, v1) \<Rightarrow> (Inl (code, ve_wording env type payload v), ctx, v1)
      | (HS_Break mutated r, v1) \<Rightarrow>
          ((case r of
              Inl code \<Rightarrow> Inl (code, bytes_of ''response exceeds the frame ceiling'')
            | Inr body \<Rightarrow> Inr body), ctx, maybe_snapshot env mutated v1))"

definition service_handler :: "ServiceEnv \<Rightarrow> Service MessageHandler" where
  "service_handler env =
     \<lparr> mh_handle = service_handle env, mh_describe_authority = describe_authority env,
       mh_on_session_closed = (\<lambda>_ v. v) \<rparr>"

end
