(* ===== verification/ServiceInv.thy ===== *)
theory ServiceInv
  imports Service
begin

text \<open>
  What remote peers can do to the coordinator: every message of the service, well formed or not,
  keeps the ledger invariant, and a session of the server keeps every property of the service that
  its handler keeps.
\<close>

named_theorems advance_rules \<open>parts of the handler that keep the ledger in order\<close>

section \<open>Ledger operations and the flow counter\<close>

lemma next_flow_retire [simp]:
  "l_next_flow_sequence (retire_request rid record order count l) = l_next_flow_sequence l"
  by (simp add: retire_request_def release_request_flows_def Let_def)

lemma next_flow_publish [simp]:
  "l_next_flow_sequence (snd (ledger_publish_completion p now l)) = l_next_flow_sequence l"
  by (simp add: ledger_publish_completion_def publish_refused_def publish_suppressed_def publish_failure_def
      publish_success_def Let_def split: option.split)

lemma next_flow_same [simp]:
  "l_next_flow_sequence (snd (ledger_register_request rid now l)) = l_next_flow_sequence l"
  "l_next_flow_sequence (snd (ledger_register_attempt rid attempt hash model route now l)) = l_next_flow_sequence l"
  "l_next_flow_sequence (snd (ledger_advance_stage rid attempt target now l)) = l_next_flow_sequence l"
  "l_next_flow_sequence (snd (ledger_fail_attempt rid attempt reason now l)) = l_next_flow_sequence l"
  "l_next_flow_sequence (snd (ledger_supersede_attempt rid attempt replacement now l)) = l_next_flow_sequence l"
  "l_next_flow_sequence (snd (set_attempt_model rid attempt hash model l)) = l_next_flow_sequence l"
  "l_next_flow_sequence (snd (ledger_cancel_request rid reason' sequence now l)) = l_next_flow_sequence l"
  "l_next_flow_sequence (snd (ledger_release_flow flow l)) = l_next_flow_sequence l"
  "l_next_flow_sequence (snd (ledger_record_decision rid attempt traffic outcome reason bytes l)) = l_next_flow_sequence l"
  by (simp_all add: ledger_register_request_def ledger_register_attempt_def ledger_advance_stage_def
      ledger_fail_attempt_def ledger_supersede_attempt_def set_attempt_model_def ledger_cancel_request_def
      ledger_release_flow_def ledger_record_decision_def Let_def split: option.split)

lemma next_flow_open:
  "l_next_flow_sequence (snd (ledger_open_flow rid attempt traffic bytes now l)) = l_next_flow_sequence l \<or>
   l_next_flow_sequence (snd (ledger_open_flow rid attempt traffic bytes now l)) = l_next_flow_sequence l + 1"
  by (simp add: ledger_open_flow_def Let_def split: option.split)

section \<open>Coordinator operations and the ledger\<close>

text \<open>A step that opens no flow, and one that may open one.\<close>

definition quiet :: "Coordinator \<Rightarrow> Coordinator \<Rightarrow> bool" where
  "quiet c c' \<longleftrightarrow>
     (ledger_inv (c_ledger c) \<longrightarrow> ledger_inv (c_ledger c')) \<and>
     l_next_flow_sequence (c_ledger c') = l_next_flow_sequence (c_ledger c)"

definition flow_opening :: "Coordinator \<Rightarrow> Coordinator \<Rightarrow> bool" where
  "flow_opening c c' \<longleftrightarrow>
     (l_next_flow_sequence (c_ledger c) \<noteq> - 1 \<longrightarrow>
        (ledger_inv (c_ledger c) \<longrightarrow> ledger_inv (c_ledger c')) \<and>
        unat (l_next_flow_sequence (c_ledger c')) \<le> Suc (unat (l_next_flow_sequence (c_ledger c))))"

lemma quiet_refl [simp]: "quiet c c"
  by (simp add: quiet_def)

lemma flow_opening_refl [simp]: "flow_opening c c"
  by (simp add: flow_opening_def)

lemma quiet_same: "c_ledger c' = c_ledger c \<Longrightarrow> quiet c c'"
  by (simp add: quiet_def)

lemma quiet_trans: "quiet c c1 \<Longrightarrow> quiet c1 c2 \<Longrightarrow> quiet c c2"
  by (simp add: quiet_def)

lemma quiet_flow_opening: "quiet c c' \<Longrightarrow> flow_opening c c'"
  by (simp add: quiet_def flow_opening_def)

lemma flow_opening_trans:
  "flow_opening c c1 \<Longrightarrow> quiet c1 c2 \<Longrightarrow> flow_opening c c2" "quiet c c1 \<Longrightarrow> flow_opening c1 c2 \<Longrightarrow> flow_opening c c2"
  by (auto simp: quiet_def flow_opening_def)

lemma quiet_with_ledger:
  "(ledger_inv (c_ledger c) \<Longrightarrow> ledger_inv (snd outcome)) \<Longrightarrow>
   l_next_flow_sequence (snd outcome) = l_next_flow_sequence (c_ledger c) \<Longrightarrow> quiet c (snd (with_ledger c outcome))"
  by (simp add: quiet_def with_ledger_def)

lemma quiet_release_record: "quiet c (release_flow_record f c)"
  by (simp add: quiet_def release_flow_record_def Let_def release_flow_inv split: option.split)

lemma quiet_release_victims: "quiet c (release_victims victims c)"
proof (induction victims c rule: release_victims.induct)
  case (2 fid rest c)
  then show ?case
    by (auto split: option.split intro: quiet_trans [OF quiet_release_record])
qed simp

lemma quiet_release_flows:
  "quiet c (coord_release_request_flows rid c)" "quiet c (release_transfer_flows tid c)"
  "quiet c (finish_transfer tid t state reason c)" "quiet c (count_refused c)"
proof -
  have moved: "quiet c (c\<lparr> c_transfers := x \<rparr>)" for x c
    by (simp add: quiet_def)
  show release: "quiet c (release_transfer_flows tid c)" for c
    by (simp add: release_transfer_flows_def quiet_release_victims)
  show "quiet c (coord_release_request_flows rid c)"
    by (auto simp: coord_release_request_flows_def split: prod.split intro: quiet_trans [OF moved quiet_release_victims])
  show "quiet c (finish_transfer tid t state reason c)"
    unfolding finish_transfer_def by (rule quiet_trans [OF moved release])
  show "quiet c (count_refused c)"
    by (simp add: quiet_def count_refused_def)
qed

lemma quiet_evaluate: "quiet c (snd (evaluate now q c))"
  using evaluate_wf [of q c now] by (auto simp: decision_wf_def quiet_def record_decision_inv)

lemma quiet_ledger_operations:
  "quiet c (snd (register_request rid now c))"
  "quiet c (snd (register_attempt rid attempt hash now c))"
  "quiet c (snd (advance_stage rid attempt target now c))"
  by (auto simp: register_request_def register_attempt_def advance_stage_def register_request_inv
      register_attempt_inv advance_stage_inv split: sum.split intro!: quiet_with_ledger)

lemma quiet_cancel_request: "quiet c (snd (cancel_request rid reason now c))"
proof -
  let ?c1 = "c\<lparr> c_authority_sequence := gen_succ (c_authority_sequence c) \<rparr>"
  let ?r = "with_ledger ?c1 (ledger_cancel_request rid reason (gen_succ (c_authority_sequence c)) now (c_ledger ?c1))"
  have "quiet c (snd ?r)"
    by (simp add: quiet_def with_ledger_def cancel_request_inv)
  then show ?thesis
    by (auto simp: cancel_request_def Let_def split_beta intro: quiet_trans [OF _ quiet_release_flows(1)])
qed

lemma quiet_fail_attempt: "quiet c (snd (fail_attempt rid attempt reason now c))"
proof -
  let ?r = "with_ledger c (ledger_fail_attempt rid attempt reason now (c_ledger c))"
  have "quiet c (snd ?r)"
    by (simp add: quiet_def with_ledger_def fail_attempt_inv)
  then show ?thesis
    by (auto simp: fail_attempt_def split: prod.splits option.splits sum.splits
        intro: quiet_trans [OF _ quiet_release_flows(1)])
qed

lemma quiet_replace_attempt: "quiet c (snd (replace_attempt rid superseded replacement hash now c))"
proof -
  have attempt: "quiet c (snd (with_ledger c (ledger_supersede_attempt rid superseded replacement now (c_ledger c))))"
    by (simp add: quiet_def with_ledger_def supersede_attempt_inv)
  have model: "quiet c (snd (with_ledger c (set_attempt_model rid replacement h m (c_ledger c))))" for c h m
    by (simp add: quiet_def with_ledger_def set_attempt_model_inv)
  have routed: "quiet c (c\<lparr> c_route_decisions := x \<rparr>)" for c x
    by (simp add: quiet_def)
  show ?thesis
    using attempt
    by (auto simp: replace_attempt_def Let_def split: sum.splits prod.splits if_splits
        intro!: quiet_trans [OF _ routed] quiet_trans [OF _ model] quiet_trans [OF _ quiet_release_flows(1)])
qed

lemma quiet_publish_completion: "quiet c (snd (publish_completion p now c))"
proof -
  have published: "quiet c (snd (with_ledger c (ledger_publish_completion p now (c_ledger c))))"
    by (simp add: quiet_def with_ledger_def publish_completion_inv)
  have stored: "quiet c (c\<lparr> c_completion_order := x, c_completions := y \<rparr>)" for c x y
    by (simp add: quiet_def)
  show ?thesis
    using published
    by (auto simp: publish_completion_def Let_def split: sum.splits prod.splits
        intro: quiet_trans [OF quiet_trans [OF _ quiet_release_flows(1)] stored])
qed

lemma quiet_complete_transfer: "quiet c (snd (complete_transfer tid bytes c))"
proof -
  have counted: "quiet c (c\<lparr> c_transfers_completed := n \<rparr>)" for c n
    by (simp add: quiet_def)
  show ?thesis
    by (auto simp: complete_transfer_def Let_def split: option.split
        intro: quiet_trans [OF quiet_release_flows(3) quiet_release_flows(4)]
          quiet_trans [OF quiet_release_flows(3) counted])
qed

lemma quiet_registry:
  "quiet c (snd (register_transfer g now c))" "quiet c (snd (publish_topology evidence now c))"
  "quiet c (snd (register_slo_contract rid a b d c))" "quiet c (snd (issue_route_decision rid attempt n x y c))"
  "quiet c (snd (set_model_generation hash expected c))" "quiet c (snd (advance_state_generation hash expected c))"
  "quiet c (snd (revalidate_model_generation hash c))" "quiet c (snd (revalidate_state_generation hash c))"
  by (simp_all add: quiet_def register_transfer_def publish_topology_def register_slo_contract_def
      issue_route_decision_def set_model_generation_def advance_state_generation_def
      revalidate_model_generation_def revalidate_state_generation_def Let_def split: option.split sum.split)

lemma flow_opening_open_flow: "flow_opening c (snd (open_flow d bytes now c))"
proof -
  have ledger: "c_ledger (snd (open_flow d bytes now c)) = c_ledger c \<or>
      (\<exists>traffic. c_ledger (snd (open_flow d bytes now c)) =
        snd (ledger_open_flow (sub_request (d_subject d)) (sub_attempt (d_subject d)) traffic bytes now (c_ledger c)))"
    by (auto simp: open_flow_def index_flow_def Let_def split: option.split sum.split prod.split) (metis snd_conv)+
  moreover have "flow_opening c c'"
    if "c_ledger c' = snd (ledger_open_flow rid attempt traffic bytes now (c_ledger c))" for c' rid attempt traffic
    using that next_flow_open [of rid attempt traffic bytes now "c_ledger c"]
    by (auto simp: flow_opening_def open_flow_inv unat_word_ariths)
  ultimately show ?thesis
    using quiet_same quiet_flow_opening by blast
qed

lemma flow_opening_authorize: "flow_opening c (snd (authorize_transfer q now c))"
proof -
  have marked: "quiet c (c\<lparr> c_transfers := x \<rparr>)" "quiet c (c\<lparr> c_transfers := x, c_transfers_started := y \<rparr>)" for c x y
    by (simp_all add: quiet_def)
  have opened: "flow_opening c (snd (open_flow d bytes now (snd (evaluate now q c))))" for d bytes
    using flow_opening_trans(2) [OF quiet_evaluate flow_opening_open_flow] .
  have refused: "flow_opening c (count_refused c1)" if "flow_opening c c1" for c1
    using flow_opening_trans(1) [OF that quiet_release_flows(4)] .
  have quietly: "flow_opening c (snd (evaluate now q c))"
    by (rule quiet_flow_opening [OF quiet_evaluate])
  show ?thesis
    using quietly opened
    by (auto simp: authorize_transfer_def Let_def split_beta split: option.split sum.split
        intro!: refused intro: flow_opening_trans(1) [OF _ quiet_release_flows(3)] flow_opening_trans(1) [OF _ marked(1)]
          flow_opening_trans(1) [OF _ marked(2)])
qed

section \<open>The service\<close>

text \<open>
  Each message reads the clock before it opens a flow, and opens at most one, so the flow counter
  cannot have wrapped before \<open>2 ^ 64 - 1\<close> readings of the clock.
\<close>

definition service_ok :: "Service \<Rightarrow> bool" where
  "service_ok v \<longleftrightarrow>
     (vs_readings v < 2 ^ 64 - 1 \<longrightarrow>
        ledger_inv (c_ledger (vs_coordinator v)) \<and>
        unat (l_next_flow_sequence (c_ledger (vs_coordinator v))) \<le> vs_readings v)"

definition advances :: "Service \<Rightarrow> Service \<Rightarrow> bool" where
  "advances v v' \<longleftrightarrow> vs_readings v \<le> vs_readings v' \<and> (service_ok v \<longrightarrow> service_ok v')"

lemma advances_refl [advance_rules]: "advances v v"
  by (simp add: advances_def)

lemma advances_trans [trans]: "advances v v1 \<Longrightarrow> advances v1 v2 \<Longrightarrow> advances v v2"
  by (auto simp: advances_def)

lemma advances_fields:
  assumes "vs_coordinator v' = vs_coordinator v" and "vs_readings v \<le> vs_readings v'"
  shows "advances v v'"
  using assms by (auto simp: advances_def service_ok_def)

lemma advances_timed_opening:
  assumes "\<And>now c. flow_opening c (snd (operation now c))"
  shows "advances v (snd (timed env operation v))"
proof -
  let ?now = "ve_clock env (vs_readings v)" and ?l = "c_ledger (vs_coordinator v)"
  have "service_ok (snd (timed env operation v))" if "service_ok v"
    unfolding service_ok_def
  proof
    assume "vs_readings (snd (timed env operation v)) < 2 ^ 64 - 1"
    then have early: "Suc (vs_readings v) < 2 ^ 64 - 1"
      by (simp add: timed_def now_nanos_def split_beta)
    with that have inv: "ledger_inv ?l" "unat (l_next_flow_sequence ?l) \<le> vs_readings v"
      by (simp_all add: service_ok_def)
    have "l_next_flow_sequence ?l \<noteq> - 1"
    proof
      assume "l_next_flow_sequence ?l = - 1"
      moreover have "unat (- 1 :: u64) = 2 ^ 64 - 1"
        by (simp add: unsigned_minus_1_eq_mask mask_eq_exp_minus_1)
      ultimately show False
        using inv(2) early by simp
    qed
    then show "ledger_inv (c_ledger (vs_coordinator (snd (timed env operation v)))) \<and>
        unat (l_next_flow_sequence (c_ledger (vs_coordinator (snd (timed env operation v)))))
          \<le> vs_readings (snd (timed env operation v))"
      using assms [of "vs_coordinator v" ?now] inv
      by (auto simp: timed_def now_nanos_def split_beta flow_opening_def)
  qed
  then show ?thesis
    by (simp add: advances_def) (simp add: timed_def now_nanos_def split_beta)
qed

lemma advances_timed:
  "(\<And>now c. quiet c (snd (operation now c))) \<Longrightarrow> advances v (snd (timed env operation v))"
  by (rule advances_timed_opening) (rule quiet_flow_opening)

lemma advances_untimed [advance_rules]:
  assumes "\<And>c. quiet c (snd (operation c))"
  shows "advances v (snd (untimed operation v))"
  using assms [of "vs_coordinator v"]
  by (auto simp: advances_def service_ok_def untimed_def split_beta quiet_def)

lemma advances_decode [advance_rules]:
  "(\<And>body. advances v (snd (k body v))) \<Longrightarrow> advances v (snd (decode_body dec payload k v))"
  by (simp add: decode_body_def advances_refl split: sum.split)

lemma advances_build [advance_rules]: "advances v (snd (build_body mutated enc x v))"
  by (simp add: build_body_def advances_refl)

lemma advances_or_return [advance_rules]:
  "advances v (snd outcome) \<Longrightarrow> (\<And>r v1. advances v1 (snd (k r v1))) \<Longrightarrow> advances v (snd (or_return outcome k))"
  by (cases outcome) (auto simp: or_return_def split: sum.split intro: advances_trans)

lemma advances_ok_or_return [advance_rules]:
  "advances v (snd outcome) \<Longrightarrow> (\<And>v1. advances v1 (snd (k v1))) \<Longrightarrow> advances v (snd (ok_or_return outcome k))"
  by (cases outcome) (auto simp: ok_or_return_def intro: advances_trans)

lemma advances_status: "advances v (snd (timed env (\<lambda>now c. (status now c, c)) v))"
  by (rule advances_timed) simp

lemmas quiet_operations =
  quiet_ledger_operations quiet_cancel_request quiet_replace_attempt quiet_evaluate
  quiet_publish_completion quiet_registry quiet_complete_transfer

text \<open>The cases of the switch, by the kind of their operation.\<close>

lemma advances_inspection:
  "advances v (snd (on_heartbeat payload v))" "advances v (snd (on_accounting_query payload v))"
  "advances v (snd (on_policy_query payload v))"
  unfolding on_heartbeat_def on_accounting_query_def on_policy_query_def
  by (intro advance_rules)+

lemma advances_shutdown: "advances v (snd (on_shutdown v))"
  by (rule advances_fields) (simp_all add: on_shutdown_def build_body_def request_shutdown_def)

lemma advances_status_query: "advances v (snd (on_status_query env payload v))"
  unfolding on_status_query_def
  by (rule advances_decode) (use advances_status in \<open>simp add: split_beta build_body_def\<close>)

lemma advances_evaluate: "advances v (snd (on_evaluate_traffic env payload v))"
  unfolding on_evaluate_traffic_def
  by (rule advances_decode)
    (use advances_timed [of "\<lambda>now. evaluate now q" for q] quiet_evaluate in \<open>simp add: split_beta build_body_def\<close>)

lemma advances_fail_attempt: "advances v (snd (on_fail_attempt env payload v))"
  unfolding on_fail_attempt_def
proof (rule advances_decode)
  fix body
  let ?r = "timed env (fail_attempt (fam_request body) (fam_attempt body) (fam_reason body)) v"
  have failed: "advances v (snd ?r)"
    by (rule advances_timed) (rule quiet_fail_attempt)
  moreover have "advances v1 (v1\<lparr> vs_undefined := True \<rparr>)" for v1
    by (rule advances_fields) simp_all
  ultimately have "advances v ((snd ?r)\<lparr> vs_undefined := True \<rparr>)"
    by (blast intro: advances_trans)
  moreover have "advances v (snd (or_return (outcome, snd ?r)
      (\<lambda>_. build_body True encode_simple_ack SimpleAck_init)))" for outcome :: "generation result"
    using failed by (intro advances_or_return advances_build) simp
  ultimately show "advances v (snd (case ?r of
      (None, v1) \<Rightarrow> (HS_Return ST_Internal, v1\<lparr> vs_undefined := True \<rparr>)
    | (Some outcome, v1) \<Rightarrow> or_return (outcome, v1) (\<lambda>_. build_body True encode_simple_ack SimpleAck_init)))"
    by (simp add: split_beta split: option.split)
qed

lemma advances_timed_cases:
  "advances v (snd (on_register_request env payload v))" "advances v (snd (on_register_attempt env payload v))"
  "advances v (snd (on_stage_update env payload v))" "advances v (snd (on_cancel_request env payload v))"
  "advances v (snd (on_replace_attempt env payload v))" "advances v (snd (on_register_transfer env payload v))"
  "advances v (snd (on_completion_publish env payload v))" "advances v (snd (on_topology_publish env payload v))"
  unfolding on_register_request_def on_register_attempt_def on_stage_update_def on_cancel_request_def
    on_replace_attempt_def on_register_transfer_def on_completion_publish_def on_topology_publish_def
  by (intro advance_rules advances_timed quiet_operations)+

lemma advances_opening_cases:
  "advances v (snd (on_open_flow env payload v))" "advances v (snd (on_authorize_transfer env payload v))"
  unfolding on_open_flow_def on_authorize_transfer_def
  by (intro advance_rules advances_timed_opening flow_opening_open_flow flow_opening_authorize)+

lemma advances_untimed_cases:
  "advances v (snd (on_transfer_complete payload v))" "advances v (snd (on_publish_slo_contract payload v))"
  "advances v (snd (on_issue_route_decision payload v))"
  unfolding on_transfer_complete_def on_publish_slo_contract_def on_issue_route_decision_def
  by (intro advance_rules quiet_operations)+

lemma advances_generation: "advances v (snd (on_advance_generation payload v))"
proof -
  have both: "advances v (snd (revalidate_both body v))" for body
  proof -
    let ?v1 = "snd (untimed (revalidate_model_generation (agm_target_hash body)) v)"
    have "advances v ?v1"
      by (intro advances_untimed quiet_registry)
    also have "advances ?v1 (snd (untimed (revalidate_state_generation (agm_target_hash body)) ?v1))"
      by (intro advances_untimed quiet_registry)
    finally show ?thesis
      by (simp add: revalidate_both_def build_body_def split_beta split: sum.split)
  qed
  have state: "advances v (snd (advance_state_target body v))" for body
    unfolding advance_state_target_def
    by (rule advances_or_return)
      (simp_all add: build_body_def advances_refl advances_untimed quiet_registry)
  have model: "advances v (snd (or_return (untimed (set_model_generation hash expected) v)
      (\<lambda>g. build_body True encode_model_generation_response (f g))))" for hash expected f
    by (intro advance_rules quiet_registry)
  show ?thesis
    unfolding on_advance_generation_def
    by (rule advances_decode) (simp add: both state model)
qed

lemma advances_switch: "advances v (snd (service_switch env type payload v))"
  by (simp add: service_switch_def advances_inspection advances_shutdown advances_status_query advances_evaluate
      advances_fail_attempt advances_timed_cases advances_opening_cases advances_untimed_cases advances_generation
      advances_refl)

lemma advances_snapshot:
  "advances v (snd (service_save_snapshot env v))" "advances v (maybe_snapshot env mutated v)"
  by (rule advances_fields; simp add: service_save_snapshot_def maybe_snapshot_def now_nanos_def Let_def split_beta)+

lemma advances_handle: "advances v (snd (snd (service_handle env ctx type payload v)))"
  using advances_switch [of v env type payload]
  by (auto simp: service_handle_def split: prod.split HandleStep.split intro: advances_trans [OF _ advances_snapshot(2)])

lemma advances_describe: "advances v (snd (describe_authority env response v))"
  using advances_status [of v env] by (simp add: describe_authority_def Let_def split_beta)

section \<open>What a session does to its handler\<close>

text \<open>A property of its state that the handler keeps survives every session, whatever the peer does.\<close>

locale kept_by_handler =
  fixes handler :: "'h MessageHandler" and P :: "'h \<Rightarrow> bool"
  assumes handle_keeps: "P h \<Longrightarrow> P (snd (snd (mh_handle handler ctx type body h)))"
    and describe_keeps: "P h \<Longrightarrow> P (snd (mh_describe_authority handler response h))"
    and closed_keeps: "P h \<Longrightarrow> P (mh_on_session_closed handler ctx h)"
begin

lemma handshake_keeps:
  "sv_handler env = handler \<Longrightarrow> P (se_handler s) \<Longrightarrow> P (se_handler (snd (session_handshake env frame body s)))"
  by (auto simp: session_handshake_def establish_def Let_def split_beta describe_keeps split: sum.split)

lemma dispatch_keeps:
  "sv_handler env = handler \<Longrightarrow> P (se_handler s) \<Longrightarrow> P (se_handler (snd (session_dispatch env frame body s)))"
  by (auto simp: session_dispatch_def Let_def split_beta handle_keeps split: sum.split)

lemma round_keeps:
  "sv_handler env = handler \<Longrightarrow> P (se_handler s) \<Longrightarrow> P (se_handler (snd (session_round env s)))"
  by (auto simp: session_round_def session_frame_def Let_def split_beta handshake_keeps dispatch_keeps split: sum.split)

lemma session_keeps:
  assumes "sv_handler env = handler" and "P h" and "serve_session env stream stats h = Some t"
  shows "P (se_handler t)"
proof -
  obtain s where s: "session_loop env (Session_new env stream stats h) = Some s"
    using assms(3) by (auto simp: serve_session_def split: option.splits)
  have "P (se_handler s)"
  proof (rule session_loop_rule [OF s, where P = "\<lambda>s. P (se_handler s)"])
    show "P (se_handler (Session_new env stream stats h))"
      using assms(2) by (simp add: Session_new_def)
    fix u u' :: "'h Session"
    assume "P (se_handler u)"
    then show "session_round env u = (True, u') \<Longrightarrow> P (se_handler u')"
      "session_round env u = (False, u') \<Longrightarrow> P (se_handler u')"
      using round_keeps [OF assms(1), of u] by auto
  qed
  moreover have "P g \<Longrightarrow> P (mh_on_session_closed (sv_handler env) ctx g)" for ctx g
    using closed_keeps assms(1) by simp
  ultimately show ?thesis
    using s assms(3) by (auto simp: serve_session_def Let_def split: if_splits)
qed

end

interpretation service_ledger: kept_by_handler "service_handler env" service_ok for env
  using advances_handle advances_describe
  by unfold_locales (simp_all add: service_handler_def advances_def)

section \<open>Service properties\<close>


lemma saved_file:
  assumes "save_snapshot os pid st s d = (ST_Ok, d')"
  obtains bytes where "encode_complete encode_snapshot s (unat (ss_max_payload_bytes st)) = Inr bytes"
    and "dk_files d' (ss_path st) = Some (snapshot_file 0 bytes)"
  using assms
proof (cases rule: save_snapshot_cases)
  case (refused e)
  with encode_error [OF refused(1)] show ?thesis by simp
next
  case (raw bytes)
  with save_raw_final [OF raw(2)] that show ?thesis by blast
qed

lemma service_saved:
  assumes "persists env" and "fst (service_save_snapshot env v) = ST_Ok"
  obtains bytes where
    "encode_complete encode_snapshot (export_state (vs_coordinator v)) (unat (ss_max_payload_bytes (service_store env))) = Inr bytes"
    and "dk_files (vs_disk (service_stop env v)) (ve_snapshot_path env) = Some (snapshot_file 0 bytes)"
proof -
  let ?saved = "save_snapshot (ve_os env) (ve_pid env) (service_store env) (export_state (vs_coordinator v)) (vs_disk v)"
  obtain code d where saved: "?saved = (code, d)" by (cases ?saved)
  have "code = ST_Ok" and "vs_disk (service_stop env v) = d"
    using assms saved
    by (cases "code = ST_Ok"; simp add: service_save_snapshot_def service_stop_def now_nanos_def Let_def)+
  with saved have "?saved = (ST_Ok, vs_disk (service_stop env v))" by simp
  then show ?thesis
    by (rule saved_file) (rule that, simp_all add: service_store_def)
qed


text \<open>
  C39. A refused snapshot is destroyed on the way out. When the durable document cannot be trusted,
  \<open>start\<close> reports its defect and leaves the coordinator unbooted; the destructor then runs \<open>stop\<close>,
  and if that save goes through, the document has been replaced by the state of the coordinator that
  never booted.
\<close>

theorem refused_snapshot_overwritten:
  assumes "persists env" and "fst (load_snapshot (ve_os env) (service_store env) d) = Inl code"
    and "code \<noteq> ST_NotFound" and "code \<noteq> ST_Ok"
    and "service_start env server_started (Service_new config first d) = (started, v)"
    and "fst (service_save_snapshot env v) = ST_Ok"
  shows "started = code \<and> (\<exists>bytes.
    encode_complete encode_snapshot (export_state (Coordinator_new config first))
      (unat (ss_max_payload_bytes (service_store env))) = Inr bytes \<and>
    dk_files (vs_disk (service_stop env v)) (ve_snapshot_path env) = Some (snapshot_file 0 bytes))"
proof -
  have "started = code" and "vs_coordinator v = Coordinator_new config first"
    using assms(1-5) by (auto simp: service_start_def service_boot_def Service_new_def Let_def split_beta)
  moreover obtain bytes where
    "encode_complete encode_snapshot (export_state (vs_coordinator v)) (unat (ss_max_payload_bytes (service_store env))) = Inr bytes"
    "dk_files (vs_disk (service_stop env v)) (ve_snapshot_path env) = Some (snapshot_file 0 bytes)"
    by (rule service_saved [OF assms(1,6)])
  ultimately show ?thesis by simp
qed

section \<open>Examples\<close>

lemma save_raw_scheduled:
  assumes "0 \<le> os (dk_calls d)" "65536 \<le> os (dk_calls d + 1)" "65536 \<le> os (dk_calls d + 2)"
    "os (dk_calls d + 3) = 0" "os (dk_calls d + 4) = 0"
    and "payload \<noteq> []" "length payload \<le> 65536" "65536 \<le> unat (ss_max_payload_bytes st)"
  shows "\<exists>d'. save_raw os pid st payload d = (ST_Ok, d')"
proof -
  have header: "snapshot_header 0 payload \<noteq> []" "length (snapshot_header 0 payload) \<le> 65536"
    using length_snapshot_header(2) [of 0 payload] by fastforce+
  have numbers: "dk_calls d + 3 = Suc (Suc (Suc (dk_calls d)))" "dk_calls d + 4 = Suc (Suc (Suc (Suc (dk_calls d))))"
    by simp_all
  show ?thesis
    using assms header unfolding numbers
    by (simp add: save_raw_def Let_def create_truncate_def file_sync_def atomic_replace_file_def os_call_def
        write_all_once)
qed

lemma save_scheduled:
  assumes "0 \<le> os (dk_calls d)" "65536 \<le> os (dk_calls d + 1)" "65536 \<le> os (dk_calls d + 2)"
    "os (dk_calls d + 3) = 0" "os (dk_calls d + 4) = 0"
    and "length (p_rules (ps_policy s)) = kTrafficClassCount"
    and "length (ps_models s) \<le> 1" "length (ps_states s) \<le> 1"
    and "length (ps_terminal_requests s) \<le> 1" "length (ps_interrupted_requests s) \<le> 1"
    and "65536 \<le> unat (ss_max_payload_bytes st)"
  shows "\<exists>d'. save_snapshot os pid st s d = (ST_Ok, d')"
proof -
  obtain bytes where bytes: "encode_complete encode_snapshot s (unat (ss_max_payload_bytes st)) = Inr bytes"
    "length bytes \<le> 65536"
    using assms(7-11) encode_fits [where enc = encode_snapshot, OF at_most_mono [OF size_snapshot [OF assms(6)]],
        of 65536 "unat (ss_max_payload_bytes st)"] by fastforce
  with encoded_snapshot_nonempty [OF assms(6)] save_raw_scheduled [where os = os and d = d and st = st and pid = pid]
  show ?thesis
    using assms(1-5,11) by (simp add: save_snapshot_def)
qed

definition demo_service_env :: "nat \<Rightarrow> ServiceEnv" where
  "demo_service_env calls =
     \<lparr> ve_snapshot_path = ''itf.snapshot'', ve_snapshot_interval_nanos = 0, ve_persist = True,
       ve_clock = (\<lambda>k. int k), ve_os = (\<lambda>k. if k = calls + 1 \<or> k = calls + 2 then 65536 else 0), ve_pid = 7,
       ve_seeded = (\<lambda>s. (s, s)), ve_drawn = (8, 9), ve_wording = (\<lambda>_ _ _. []) \<rparr>"

definition demo_service :: Service where
  "demo_service = (Service_new CoordinatorConfig_init demo_begin demo_disk)\<lparr> vs_coordinator := demo_serving \<rparr>"

definition demo_service_server :: "Service SessionEnv" where
  "demo_service_server =
     \<lparr> sv_config = sv_config demo_session_env, sv_handler = service_handler (demo_service_env 0),
       sv_random = (1, 2, 3, 4), sv_stopping = (\<lambda>_. False) \<rparr>"

lemma demo_service_store: "65536 \<le> unat (ss_max_payload_bytes (service_store (demo_service_env n)))"
  by (simp add: service_store_def kMaxSnapshotPayloadBytes_def)

lemma demo_service_saved: "fst (service_save_snapshot (demo_service_env 0) demo_service) = ST_Ok"
proof -
  have "length (p_rules (ps_policy demo_snapshot)) = kTrafficClassCount" "length (ps_models demo_snapshot) \<le> 1"
    "length (ps_states demo_snapshot) \<le> 1" "length (ps_terminal_requests demo_snapshot) \<le> 1"
    "length (ps_interrupted_requests demo_snapshot) \<le> 1"
    by code_simp+
  then obtain d where "save_snapshot (ve_os (demo_service_env 0)) (ve_pid (demo_service_env 0))
      (service_store (demo_service_env 0)) demo_snapshot demo_disk = (ST_Ok, d)"
    using save_scheduled [of "ve_os (demo_service_env 0)" demo_disk demo_snapshot "service_store (demo_service_env 0)"]
      demo_service_store [of 0]
    by (auto simp: demo_service_env_def demo_disk_def)
  then show ?thesis
    by (simp add: service_save_snapshot_def persists_def demo_service_def Service_new_def demo_snapshot_def
        now_nanos_def Let_def) (simp add: demo_service_env_def)
qed



definition demo_damaged_disk :: Disk where
  "demo_damaged_disk = demo_disk\<lparr> dk_files := [''itf.snapshot'' \<mapsto> []] \<rparr>"

lemma demo_damaged_load:
  "load_snapshot (ve_os (demo_service_env 2)) (service_store (demo_service_env 2)) demo_damaged_disk =
     (Inl ST_MalformedInput, demo_damaged_disk\<lparr> dk_calls := 2,
        dk_history := [dk_files demo_damaged_disk, dk_files demo_damaged_disk] \<rparr>)"
  by (simp add: load_snapshot_def load_raw_def open_existing_def os_call_def read_exact.simps read_count_def
      demo_damaged_disk_def demo_disk_def demo_service_env_def service_store_def Let_def SnapshotStore_kHeaderBytes_def)

theorem refused_snapshot_overwritten_witness:
  "\<exists>v bytes. service_start (demo_service_env 2) ST_Ok
       (Service_new CoordinatorConfig_init demo_begin demo_damaged_disk) = (ST_MalformedInput, v) \<and>
     dk_files demo_damaged_disk ''itf.snapshot'' = Some [] \<and>
     dk_files (vs_disk (service_stop (demo_service_env 2) v)) ''itf.snapshot'' = Some (snapshot_file 0 bytes)"
proof -
  let ?env = "demo_service_env 2" and ?v0 = "Service_new CoordinatorConfig_init demo_begin demo_damaged_disk"
  let ?s = "export_state (Coordinator_new CoordinatorConfig_init demo_begin)"
  obtain started v where start: "service_start ?env ST_Ok ?v0 = (started, v)"
    by (cases "service_start ?env ST_Ok ?v0")
  have persisting: "persists ?env"
    by (simp add: persists_def demo_service_env_def)
  have v: "vs_coordinator v = Coordinator_new CoordinatorConfig_init demo_begin" "dk_calls (vs_disk v) = 2"
    using start persisting demo_damaged_load
    by (auto simp: service_start_def service_boot_def Service_new_def Let_def)
  have "length (p_rules (ps_policy ?s)) = kTrafficClassCount" "length (ps_models ?s) \<le> 1"
    "length (ps_states ?s) \<le> 1" "length (ps_terminal_requests ?s) \<le> 1" "length (ps_interrupted_requests ?s) \<le> 1"
    by code_simp+
  then have "\<exists>d. save_snapshot (ve_os ?env) (ve_pid ?env) (service_store ?env) ?s (vs_disk v) = (ST_Ok, d)"
    using v(2) demo_service_store [of 2] by (intro save_scheduled) (simp_all add: demo_service_env_def)
  then have "fst (service_save_snapshot ?env v) = ST_Ok"
    using persisting v(1) by (auto simp: service_save_snapshot_def now_nanos_def Let_def)
  then show ?thesis
    using refused_snapshot_overwritten [OF persisting _ _ _ start] demo_damaged_load start
    by (auto simp: demo_damaged_disk_def demo_service_env_def)
qed

end
