(* ===== verification/Client.thy ===== *)
theory Client
  imports Session
begin

text \<open>
  The blocking client (\<open>include/itf/client.hpp\<close>, \<open>src/client.cpp\<close>): framing on its side of a
  connection, the handshake, and the calls. Messages of failures are not modelled.
\<close>

section \<open>State\<close>

record ClientConfig =
  kc_peer_name :: "u8 list"
  kc_auth_token :: "u8 list"
  kc_client_version :: "u8 list"
  kc_max_frame_payload :: u32

record Client =
  cn_stream :: TcpStream
  cn_hello :: HelloResponse
  cn_max_frame_payload :: u32
  cn_send_sequence :: u64
  cn_last_received_sequence :: u64
  cn_frames_sent :: u64
  cn_frames_received :: u64

definition Client_new :: "TcpStream \<Rightarrow> Client" where
  "Client_new stream =
     \<lparr> cn_stream = stream, cn_hello = HelloResponse_init, cn_max_frame_payload = 0,
       cn_send_sequence = 0, cn_last_received_sequence = 0, cn_frames_sent = 0,
       cn_frames_received = 0 \<rparr>"

definition client_close :: "Client \<Rightarrow> Client" where
  "client_close c = c\<lparr> cn_stream := tcp_close (cn_stream c) \<rparr>"

section \<open>Frames\<close>

definition send_frame_raw ::
  "MessageType \<Rightarrow> u8 list \<Rightarrow> u64 \<Rightarrow> u64 \<Rightarrow> Client \<Rightarrow> StatusCode \<times> Client" where
  "send_frame_raw type payload sequence correlation c =
     (if \<not> tcp_valid (cn_stream c) then (ST_Closed, c)
      else if length payload > unat (cn_max_frame_payload c) then (ST_BoundsExceeded, c)
      else (case tcp_write_all
                   (encode_header (frame_for type payload correlation sequence) (replicate kHeaderBytes 0))
                   (cn_stream c) of (status1, stream1) \<Rightarrow>
        (case (if status1 = ST_Ok \<and> payload \<noteq> [] then tcp_write_all payload stream1
               else (status1, stream1)) of (status2, stream2) \<Rightarrow>
           let c1 = c\<lparr> cn_stream := stream2 \<rparr>
           in (status2, if status2 = ST_Ok then c1\<lparr> cn_frames_sent := cn_frames_sent c1 + 1 \<rparr> else c1))))"

definition send_frame :: "MessageType \<Rightarrow> u8 list \<Rightarrow> Client \<Rightarrow> StatusCode \<times> Client" where
  "send_frame type payload c =
     (let c1 = c\<lparr> cn_send_sequence := cn_send_sequence c + 1 \<rparr>
      in send_frame_raw type payload (cn_send_sequence c1) 0 c1)"

definition client_accept ::
  "MessageType \<Rightarrow> FrameHeader \<Rightarrow> u8 list \<Rightarrow> Client \<Rightarrow> u8 list result \<times> Client" where
  "client_accept expected_type frame payload c =
     (if crc_compute payload \<noteq> fh_payload_crc32c frame then (Inl ST_IntegrityMismatch, c)
      else if fh_sequence frame \<le> cn_last_received_sequence c then (Inl ST_ReplayRejected, c)
      else (let c1 = c\<lparr> cn_last_received_sequence := fh_sequence frame,
                        cn_frames_received := cn_frames_received c + 1 \<rparr>
            in if fh_type frame = MT_ErrorResponse
               then (Inl (case fst (run_state decode_error_response (Reader_new payload kMaxFramePayloadBytes)) of
                            Inl code \<Rightarrow> code | Inr e \<Rightarrow> ee_code e), c1)
               else if fh_type frame \<noteq> expected_type then (Inl ST_MalformedInput, c1)
               else (Inr payload, c1)))"

definition receive_frame :: "MessageType \<Rightarrow> Client \<Rightarrow> u8 list result \<times> Client" where
  "receive_frame expected_type c =
     (if \<not> tcp_valid (cn_stream c) then (Inl ST_Closed, c)
      else (case tcp_read_exact kHeaderBytes (cn_stream c) of (read_header, header, stream1) \<Rightarrow>
        let c1 = c\<lparr> cn_stream := stream1 \<rparr>
        in if read_header \<noteq> ST_Ok then (Inl read_header, c1)
           else (case decode_header header (cn_max_frame_payload c1) of
                   Inl code \<Rightarrow> (Inl code, c1)
                 | Inr frame \<Rightarrow>
                     (case tcp_read_exact (unat (fh_payload_length frame)) stream1 of
                        (read_payload, payload, stream2) \<Rightarrow>
                          let c2 = c1\<lparr> cn_stream := stream2 \<rparr>
                          in if read_payload \<noteq> ST_Ok then (Inl read_payload, c2)
                             else client_accept expected_type frame payload c2))))"

definition exchange :: "MessageType \<Rightarrow> u8 list \<Rightarrow> Client \<Rightarrow> u8 list result \<times> Client" where
  "exchange type payload c =
     (if response_type_for type = MT_Invalid then (Inl ST_InvalidArgument, c)
      else (case send_frame type payload c of
        (sent, c1) \<Rightarrow> if sent \<noteq> ST_Ok then (Inl sent, c1) else receive_frame (response_type_for type) c1))"

section \<open>Connecting\<close>

text \<open>The boot identity of the client is drawn from the random device.\<close>

definition client_hello :: "ClientConfig \<Rightarrow> id128 \<Rightarrow> HelloRequest" where
  "client_hello config boot =
     \<lparr> hq_protocol_version = kWireProtocolVersion, hq_client_api_version = kApiVersion,
       hq_peer_name = kc_peer_name config, hq_auth_token = kc_auth_token config,
       hq_client_version = kc_client_version config, hq_client_boot = boot,
       hq_max_frame_payload = kc_max_frame_payload config \<rparr>"

definition client_handshake :: "ClientConfig \<Rightarrow> id128 \<Rightarrow> Client \<Rightarrow> StatusCode \<times> Client" where
  "client_handshake config boot c =
     (let c1 = c\<lparr> cn_max_frame_payload := kc_max_frame_payload config \<rparr>
      in case encode_complete encode_hello_request (client_hello config boot) kMaxFramePayloadBytes of
           Inl code \<Rightarrow> (code, c1)
         | Inr body \<Rightarrow>
             (case send_frame MT_HelloRequest body c1 of (sent, c2) \<Rightarrow>
                if sent \<noteq> ST_Ok then (sent, c2)
                else (case receive_frame MT_HelloResponse c2 of
                        (Inl code, c3) \<Rightarrow> (code, c3)
                      | (Inr payload, c3) \<Rightarrow>
                          (case decode_complete decode_hello_response payload kMaxFramePayloadBytes of
                             Inl code \<Rightarrow> (code, c3)
                           | Inr hello \<Rightarrow>
                               (ST_Ok, c3\<lparr> cn_hello := hello,
                                  cn_max_frame_payload :=
                                    (if kc_max_frame_payload config < hs_max_frame_payload hello
                                     then kc_max_frame_payload config
                                     else hs_max_frame_payload hello) \<rparr>)))))"

text \<open>What \<open>TcpStream::connect\<close> gave is an argument.\<close>

definition client_connect :: "ClientConfig \<Rightarrow> id128 \<Rightarrow> TcpStream result \<Rightarrow> Client result" where
  "client_connect config boot opened =
     (if \<not> is_safe_label (kc_peer_name config) then Inl ST_InvalidArgument
      else (case opened of
        Inl code \<Rightarrow> Inl code
      | Inr stream \<Rightarrow>
          (case client_handshake config boot (Client_new stream) of
             (handshaken, c) \<Rightarrow> if handshaken \<noteq> ST_Ok then Inl handshaken else Inr c)))"

section \<open>Calls\<close>

text \<open>
  Every call encodes its message, exchanges it and decodes the whole reply. Only some of the calls
  check that the encoder succeeded; the others send what it wrote.
\<close>

definition client_decode :: "(Reader, 'r result) state \<Rightarrow> u8 list result \<times> Client \<Rightarrow> 'r result \<times> Client" where
  "client_decode dec outcome =
     (case outcome of
        (Inl code, c) \<Rightarrow> (Inl code, c)
      | (Inr payload, c) \<Rightarrow> (decode_complete dec payload kMaxFramePayloadBytes, c))"

definition unchecked_call ::
  "MessageType \<Rightarrow> ('a \<Rightarrow> (Writer, unit) state) \<Rightarrow> (Reader, 'r result) state \<Rightarrow> 'a \<Rightarrow> Client \<Rightarrow> 'r result \<times> Client" where
  "unchecked_call type enc dec body c = client_decode dec (exchange type (body_of enc body) c)"

definition checked_call ::
  "MessageType \<Rightarrow> ('a \<Rightarrow> (Writer, unit) state) \<Rightarrow> (Reader, 'r result) state \<Rightarrow> 'a \<Rightarrow> Client \<Rightarrow> 'r result \<times> Client" where
  "checked_call type enc dec body c =
     (case encode_complete enc body kMaxFramePayloadBytes of
        Inl code \<Rightarrow> (Inl code, c)
      | Inr bytes \<Rightarrow> client_decode dec (exchange type bytes c))"

definition client_heartbeat :: "Client \<Rightarrow> SimpleAck result \<times> Client" where
  "client_heartbeat =
     unchecked_call MT_Heartbeat encode_heartbeat_message decode_simple_ack \<lparr> hbm_client_time_nanos = 0 \<rparr>"

definition client_register_request :: "RequestId \<Rightarrow> u64 \<Rightarrow> Client \<Rightarrow> RegisterRequestResponse result \<times> Client" where
  "client_register_request rid deadline_after_nanos =
     unchecked_call MT_RegisterRequest encode_register_request_message decode_register_request_response
       \<lparr> rrm_request = rid, rrm_deadline_after_nanos = deadline_after_nanos \<rparr>"

definition client_register_attempt ::
  "RequestId \<Rightarrow> AttemptId \<Rightarrow> u64 \<Rightarrow> Client \<Rightarrow> RegisterAttemptResponse result \<times> Client" where
  "client_register_attempt rid attempt model_hash =
     unchecked_call MT_RegisterAttempt encode_register_attempt_message decode_register_attempt_response
       \<lparr> ram_request = rid, ram_attempt = attempt, ram_model_hash = model_hash \<rparr>"

definition client_advance_stage ::
  "RequestId \<Rightarrow> AttemptId \<Rightarrow> ServingStage \<Rightarrow> Client \<Rightarrow> SimpleAck result \<times> Client" where
  "client_advance_stage rid attempt stage =
     unchecked_call MT_StageUpdate encode_stage_update_message decode_simple_ack
       \<lparr> sum_request = rid, sum_attempt = attempt, sum_stage = stage \<rparr>"

definition client_cancel_request :: "RequestId \<Rightarrow> ReasonCode \<Rightarrow> Client \<Rightarrow> SimpleAck result \<times> Client" where
  "client_cancel_request rid reason =
     unchecked_call MT_CancelRequest encode_cancel_request_message decode_simple_ack
       \<lparr> crm_request = rid, crm_reason = reason \<rparr>"

definition client_fail_attempt ::
  "RequestId \<Rightarrow> AttemptId \<Rightarrow> ReasonCode \<Rightarrow> Client \<Rightarrow> SimpleAck result \<times> Client" where
  "client_fail_attempt rid attempt reason =
     unchecked_call MT_FailAttempt encode_fail_attempt_message decode_simple_ack
       \<lparr> fam_request = rid, fam_attempt = attempt, fam_reason = reason \<rparr>"

definition client_replace_attempt ::
  "RequestId \<Rightarrow> AttemptId \<Rightarrow> AttemptId \<Rightarrow> u64 \<Rightarrow> Client \<Rightarrow> RegisterAttemptResponse result \<times> Client" where
  "client_replace_attempt rid superseded replacement model_hash =
     unchecked_call MT_ReplaceAttempt encode_replace_attempt_message decode_register_attempt_response
       \<lparr> rpm_request = rid, rpm_superseded = superseded, rpm_replacement = replacement,
         rpm_model_hash = model_hash \<rparr>"

definition client_evaluate :: "TrafficRequest \<Rightarrow> Client \<Rightarrow> Decision result \<times> Client" where
  "client_evaluate q =
     checked_call MT_EvaluateTraffic encode_evaluate_traffic_message decode_decision \<lparr> etm_request = q \<rparr>"

definition client_open_flow :: "Decision \<Rightarrow> u64 \<Rightarrow> Client \<Rightarrow> OpenFlowResponse result \<times> Client" where
  "client_open_flow d declared_bytes =
     checked_call MT_OpenFlow encode_open_flow_message decode_open_flow_response
       \<lparr> ofm_decision = d, ofm_declared_bytes = declared_bytes \<rparr>"

definition client_register_transfer ::
  "TransferRegistration \<Rightarrow> Client \<Rightarrow> RegisterTransferResponse result \<times> Client" where
  "client_register_transfer g =
     checked_call MT_RegisterTransfer encode_register_transfer_message decode_register_transfer_response
       \<lparr> rtm_registration = g \<rparr>"

definition client_authorize_transfer ::
  "TrafficRequest \<Rightarrow> Client \<Rightarrow> TransferDecisionResponse result \<times> Client" where
  "client_authorize_transfer q =
     unchecked_call MT_AuthorizeTransfer encode_authorize_transfer_message decode_transfer_decision_response
       \<lparr> atm_request = q \<rparr>"

definition client_publish_completion :: "CompletionPublication \<Rightarrow> Client \<Rightarrow> PublishOutcome result \<times> Client" where
  "client_publish_completion p =
     unchecked_call MT_CompletionPublish encode_completion_publish_message decode_publish_outcome
       \<lparr> cpm_publication = p \<rparr>"

definition client_accounting :: "Client \<Rightarrow> AccountingSnapshot result \<times> Client" where
  "client_accounting =
     unchecked_call MT_AccountingQuery encode_accounting_query_message decode_accounting_snapshot
       \<lparr> aqm_reserved = 0 \<rparr>"

definition client_status :: "Client \<Rightarrow> CoordinatorStatus result \<times> Client" where
  "client_status =
     unchecked_call MT_StatusQuery encode_status_query_message decode_coordinator_status
       \<lparr> sqm_reserved = 0 \<rparr>"

definition client_policy :: "Client \<Rightarrow> PolicyConfig result \<times> Client" where
  "client_policy =
     unchecked_call MT_PolicyQuery encode_policy_query_message decode_policy \<lparr> pqm_reserved = 0 \<rparr>"

definition client_publish_topology ::
  "TopologyEvidence \<Rightarrow> Client \<Rightarrow> TopologyResponseMessage result \<times> Client" where
  "client_publish_topology evidence =
     unchecked_call MT_TopologyPublish encode_topology_publish_message decode_topology_response_message
       \<lparr> tpm_evidence = evidence \<rparr>"

definition client_publish_slo_contract ::
  "RequestId \<Rightarrow> u64 \<Rightarrow> u64 \<Rightarrow> u32 \<Rightarrow> Client \<Rightarrow> SloContractResponse result \<times> Client" where
  "client_publish_slo_contract rid tail_latency_budget_nanos registration_deadline_nanos min_stream_share =
     unchecked_call MT_PublishSloContract encode_publish_slo_contract_message decode_slo_contract_response
       \<lparr> psm_request = rid, psm_tail_latency_budget_nanos = tail_latency_budget_nanos,
         psm_registration_deadline_nanos = registration_deadline_nanos,
         psm_min_stream_share_per_mille = min_stream_share \<rparr>"

definition client_issue_route_decision ::
  "RequestId \<Rightarrow> AttemptId \<Rightarrow> u32 \<Rightarrow> bool \<Rightarrow> bool \<Rightarrow> Client \<Rightarrow> RouteDecisionResponse result \<times> Client" where
  "client_issue_route_decision rid attempt target_node lateral disaggregated_handoff =
     unchecked_call MT_IssueRouteDecision encode_issue_route_decision_message decode_route_decision_response
       \<lparr> irm_request = rid, irm_attempt = attempt, irm_target_node = target_node,
         irm_lateral = lateral, irm_disaggregated_handoff = disaggregated_handoff \<rparr>"

definition client_advance_model_generation ::
  "u64 \<Rightarrow> generation option \<Rightarrow> bool \<Rightarrow> Client \<Rightarrow> ModelGenerationResponse result \<times> Client" where
  "client_advance_model_generation model_hash expected revalidate_only =
     unchecked_call MT_AdvanceModelGeneration encode_advance_generation_message decode_model_generation_response
       \<lparr> agm_target_hash = model_hash, agm_expected_generation = (case expected of Some g \<Rightarrow> g | None \<Rightarrow> 0),
         agm_has_expected = (expected \<noteq> None), agm_revalidate_only = revalidate_only, agm_state_target = False \<rparr>"

definition client_advance_state_generation ::
  "u64 \<Rightarrow> generation option \<Rightarrow> bool \<Rightarrow> Client \<Rightarrow> ModelGenerationResponse result \<times> Client" where
  "client_advance_state_generation state_hash expected revalidate_only =
     unchecked_call MT_AdvanceModelGeneration encode_advance_generation_message decode_model_generation_response
       \<lparr> agm_target_hash = state_hash, agm_expected_generation = (case expected of Some g \<Rightarrow> g | None \<Rightarrow> 0),
         agm_has_expected = (expected \<noteq> None), agm_revalidate_only = revalidate_only, agm_state_target = True \<rparr>"

section \<open>Receiving\<close>

lemma receive_frame_frame:
  assumes "tcp_valid (cn_stream c)"
    and "tcp_input (cn_stream c) = AR_Bytes (frame_bytes frame payload) # rest"
    and "sendable_header frame (cn_max_frame_payload c)"
    and "fh_payload_length frame = of_nat (length payload)" and "length payload < 2 ^ 32"
  shows "receive_frame expected c =
    client_accept expected frame payload (c\<lparr> cn_stream := (cn_stream c)\<lparr> tcp_input := rest \<rparr> \<rparr>)"
  using tcp_read_frame [OF assms] assms(1) by (simp add: receive_frame_def Let_def)

lemma receive_frame_quiet:
  assumes "tcp_valid (cn_stream c)" and "tcp_input (cn_stream c) = AR_Quiet # rest"
  shows "receive_frame expected c = (Inl ST_NotFound, c\<lparr> cn_stream := (cn_stream c)\<lparr> tcp_input := rest \<rparr> \<rparr>)"
proof -
  have "kHeaderBytes = Suc 39"
    by (simp add: kHeaderBytes_def)
  then have "kHeaderBytes \<noteq> 0" and "read_loop kHeaderBytes (AR_Quiet # rest) = (ST_NotFound, [], rest)"
    by (simp, metis read_loop.simps(3))
  then show ?thesis
    using assms by (simp add: receive_frame_def tcp_read_exact_def Let_def)
qed

lemma accepted_frame:
  assumes "receive_frame expected c = (Inr payload, c')"
  obtains frame :: FrameHeader where "fh_type frame = expected" "crc_compute payload = fh_payload_crc32c frame"
    "cn_last_received_sequence c < fh_sequence frame" "cn_last_received_sequence c' = fh_sequence frame"
    "length payload = unat (fh_payload_length frame)" "fh_payload_length frame \<le> cn_max_frame_payload c"
proof -
  obtain code1 header stream1 where one: "tcp_read_exact kHeaderBytes (cn_stream c) = (code1, header, stream1)"
    by (metis prod_cases3)
  obtain frame :: FrameHeader where frame: "decode_header header (cn_max_frame_payload c) = Inr frame" and ok1: "code1 = ST_Ok"
    using assms one by (auto simp: receive_frame_def Let_def split: if_splits sum.splits)
  obtain code2 bytes stream2 where two:
    "tcp_read_exact (unat (fh_payload_length frame)) stream1 = (code2, bytes, stream2)"
    by (metis prod_cases3)
  have accepted: "client_accept expected frame bytes (c\<lparr> cn_stream := stream2 \<rparr>) = (Inr payload, c')" and ok2: "code2 = ST_Ok"
    using assms one two frame ok1 by (auto simp: receive_frame_def Let_def split: if_splits)
  then have "fh_type frame = expected" "crc_compute payload = fh_payload_crc32c frame" "bytes = payload"
    "cn_last_received_sequence c < fh_sequence frame" "cn_last_received_sequence c' = fh_sequence frame"
    by (auto simp: client_accept_def Let_def not_le split: if_splits)
  moreover have "length bytes = unat (fh_payload_length frame)"
    using two ok2 tcp_read_exact_Ok by blast
  moreover have "fh_payload_length frame \<le> cn_max_frame_payload c"
    using frame by (auto simp: decode_header_def Let_def split: if_splits)
  ultimately show ?thesis
    by (intro that [of frame]) simp_all
qed

section \<open>Sending\<close>

lemma send_frame_fields:
  assumes "send_frame type payload c = (code, c')"
  shows "cn_send_sequence c' = cn_send_sequence c + 1"
    and "cn_last_received_sequence c' = cn_last_received_sequence c"
    and "cn_max_frame_payload c' = cn_max_frame_payload c"
    and "tcp_input (cn_stream c') = tcp_input (cn_stream c)" and "tcp_valid (cn_stream c') = tcp_valid (cn_stream c)"
proof -
  let ?header = "encode_header (frame_for type payload 0 (cn_send_sequence c + 1)) (replicate kHeaderBytes 0)"
  obtain code1 stream1 where one: "tcp_write_all ?header (cn_stream c) = (code1, stream1)"
    by (cases "tcp_write_all ?header (cn_stream c)")
  obtain code2 stream2 where two: "tcp_write_all payload stream1 = (code2, stream2)"
    by (cases "tcp_write_all payload stream1")
  note sent = assms one two tcp_write_all_frame(1,2) [OF one] tcp_write_all_frame(1,2) [OF two]
  show "cn_send_sequence c' = cn_send_sequence c + 1" "cn_last_received_sequence c' = cn_last_received_sequence c"
    "cn_max_frame_payload c' = cn_max_frame_payload c" "tcp_input (cn_stream c') = tcp_input (cn_stream c)"
    "tcp_valid (cn_stream c') = tcp_valid (cn_stream c)"
    using sent by (auto simp: send_frame_def send_frame_raw_def Let_def split: if_splits)
qed

lemma send_frame_output:
  assumes "send_frame type payload c = (ST_Ok, c')"
  shows "tcp_output (cn_stream c') = tcp_output (cn_stream c) @
      frame_bytes (frame_for type payload 0 (cn_send_sequence c + 1)) payload"
    and "length payload \<le> unat (cn_max_frame_payload c)"
proof -
  let ?header = "encode_header (frame_for type payload 0 (cn_send_sequence c + 1)) (replicate kHeaderBytes 0)"
  obtain code1 stream1 where one: "tcp_write_all ?header (cn_stream c) = (code1, stream1)"
    by (cases "tcp_write_all ?header (cn_stream c)")
  obtain code2 stream2 where two: "tcp_write_all payload stream1 = (code2, stream2)"
    by (cases "tcp_write_all payload stream1")
  have "code1 = ST_Ok"
    using assms one by (auto simp: send_frame_def send_frame_raw_def Let_def split_beta split: if_splits)
  with one have "tcp_output stream1 = tcp_output (cn_stream c) @ ?header"
    by (simp add: tcp_write_all_Ok)
  with assms one two \<open>code1 = ST_Ok\<close> show "tcp_output (cn_stream c') = tcp_output (cn_stream c) @
      frame_bytes (frame_for type payload 0 (cn_send_sequence c + 1)) payload"
    by (auto simp: send_frame_def send_frame_raw_def Let_def frame_bytes_def tcp_write_all_Ok split: if_splits)
  show "length payload \<le> unat (cn_max_frame_payload c)"
    using assms by (auto simp: send_frame_def send_frame_raw_def Let_def split: if_splits)
qed

lemma answered_types:
  assumes "response_type_for type \<noteq> MT_Invalid"
  shows "response_type_for type \<noteq> MT_ErrorResponse" and "is_known_message_type type" and "type < MT_Count"
  using assms
  by (auto simp: response_type_for_def response_table_def is_known_message_type_def split: option.splits if_splits)

section \<open>A call and its answer\<close>

text \<open>What a session sends for the outcome of its handler.\<close>

definition answer_type :: "MessageType \<Rightarrow> (StatusCode \<times> u8 list) + u8 list \<Rightarrow> MessageType" where
  "answer_type type outcome = (case outcome of Inl _ \<Rightarrow> MT_ErrorResponse | Inr _ \<Rightarrow> response_type_for type)"

definition answer_body :: "MessageType \<Rightarrow> (StatusCode \<times> u8 list) + u8 list \<Rightarrow> u8 list" where
  "answer_body type outcome =
     (case outcome of
        Inl (code, message) \<Rightarrow>
          body_of encode_error_response \<lparr> ee_code = code, ee_offending_type = type, ee_detail = message \<rparr>
      | Inr reply \<Rightarrow> reply)"

text \<open>The two ends agree on the frames that passed and on the size of a frame.\<close>

definition in_step :: "Client \<Rightarrow> 'h Session \<Rightarrow> bool" where
  "in_step c s \<longleftrightarrow>
     tcp_valid (cn_stream c) \<and> tcp_valid (se_stream s) \<and> se_handshaken s \<and>
     cn_send_sequence c = se_inbound_sequence s \<and> cn_last_received_sequence c = se_outbound_sequence s \<and>
     cn_max_frame_payload c = se_max_payload s"

lemma error_body:
  assumes "sendable_error_response e"
  shows "fst (run_state decode_error_response (Reader_new (body_of encode_error_response e) kMaxFramePayloadBytes)) = Inr e"
    and "length (body_of encode_error_response e) \<le> 8 + length (ee_detail e)"
proof -
  have detail: "at_most (Writer_string_field (ee_detail e)) (4 + length (ee_detail e))"
    using assms at_most_string_field by (simp add: sendable_error_response_def)
  have "at_most (encode_error_response e) (8 + length (ee_detail e))"
    unfolding encode_error_response_def by (rule at_most_mono, (rule size_rules detail)+, simp)
  moreover have "8 + length (ee_detail e) \<le> kMaxFramePayloadBytes"
    using assms by (simp add: sendable_error_response_def kMaxFramePayloadBytes_def kMaxFieldStringBytes_def)
  ultimately obtain data where data: "encode_complete encode_error_response e kMaxFramePayloadBytes = Inr data"
    "length data \<le> 8 + length (ee_detail e)" "length data \<le> kMaxFramePayloadBytes"
    using encode_fits le_trans by meson
  then have "body_of encode_error_response e = data"
    by (auto simp: encode_complete_def body_of_def Let_def split: if_splits)
  then show "fst (run_state decode_error_response (Reader_new (body_of encode_error_response e) kMaxFramePayloadBytes)) = Inr e"
    "length (body_of encode_error_response e) \<le> 8 + length (ee_detail e)"
    using error_response.decode_run [OF assms data(1), of "[]" kMaxFramePayloadBytes] data by simp_all
qed

lemma session_send_counted:
  assumes "st_frames_out (se_stats (snd (session_send type payload correlation s))) \<noteq> st_frames_out (se_stats s)"
  shows "fst (session_send type payload correlation s) = ST_Ok"
  using assms by (auto simp: session_send_def Let_def note_event_def split_beta split: if_splits)

lemma session_send_ok:
  assumes "fst (session_send type payload correlation s) = ST_Ok"
  shows "st_frames_out (se_stats (snd (session_send type payload correlation s))) = st_frames_out (se_stats s) + 1"
  using assms by (auto simp: session_send_def Let_def note_event_def bump_def split_beta split: if_splits)

lemma tcp_write_all_valid [simp]: "tcp_valid (snd (tcp_write_all data stream)) = tcp_valid stream"
  using tcp_write_all_frame(2) [of data stream] by (cases "tcp_write_all data stream") simp

lemma session_send_valid [simp]:
  "tcp_valid (se_stream (snd (session_send type payload correlation s))) = tcp_valid (se_stream s)"
  by (simp add: session_send_def Let_def split_beta)

lemma less_word_succ: "(x :: u64) \<noteq> - 1 \<Longrightarrow> x < x + 1"
  using unat_u64_inc [of x] by (simp add: word_less_nat_alt)

lemma session_answers:
  fixes s :: "'h Session"
  assumes "tcp_valid (se_stream s)" and "se_handshaken s" and "se_inbound_sequence s < q"
    and "tcp_input (se_stream s) = AR_Bytes (frame_bytes (frame_for type body k q) body) # rest"
    and "is_known_message_type type" and "length body \<le> kMaxFramePayloadBytes"
    and "length body \<le> unat (se_max_payload s)"
    and "response_type_for type \<noteq> MT_Invalid" and "type \<noteq> MT_HelloRequest"
    and "mh_handle (sv_handler env) (se_context s) type body (se_handler s) = (outcome, context', h')"
  obtains s' where
    "snd (session_round env s) = snd (session_send (answer_type type outcome) (answer_body type outcome) q s')"
    and "se_stream s' = (se_stream s)\<lparr> tcp_input := rest \<rparr>" "se_inbound_sequence s' = q"
    "se_outbound_sequence s' = se_outbound_sequence s" "se_handshaken s'" "se_max_payload s' = se_max_payload s"
    "se_handler s' = h'" "st_frames_out (se_stats s') = st_frames_out (se_stats s)"
proof -
  let ?r = "s\<lparr> se_rounds := Suc (se_rounds s), se_stream := (se_stream s)\<lparr> tcp_input := rest \<rparr>,
        se_stats := (se_stats s)\<lparr> st_frames_in := st_frames_in (se_stats s) + 1,
          st_bytes_in := st_bytes_in (se_stats s) + of_nat (kHeaderBytes + length body) \<rparr>,
        se_inbound_sequence := q \<rparr>"
  let ?s = "(note_event (SX_Handled q type body) ?r)\<lparr> se_context := context', se_handler := h' \<rparr>"
  have "snd (session_round env s) = snd (session_send (answer_type type outcome) (answer_body type outcome) q ?s)"
    using session_request [OF assms(1-7), of env] assms(8-10)
    by (auto simp: session_dispatch_def Let_def split_beta send_error_def answer_type_def answer_body_def
        split: sum.split)
  then show ?thesis
    using assms(2) by (intro that [of ?s]) (simp_all add: note_event_def)
qed

lemma answer_accepted:
  assumes "response_type_for type \<noteq> MT_Invalid"
    and "\<And>code message. outcome = Inl (code, message) \<Longrightarrow> length message \<le> kMaxFieldStringBytes \<and> is_valid_utf8 message"
    and "cn_last_received_sequence c < n"
  shows "client_accept (response_type_for type)
      (frame_for (answer_type type outcome) (answer_body type outcome) k n) (answer_body type outcome) c =
    (case outcome of Inl (code, message) \<Rightarrow> Inl code | Inr reply \<Rightarrow> Inr reply,
     c\<lparr> cn_last_received_sequence := n, cn_frames_received := cn_frames_received c + 1 \<rparr>)"
proof (cases outcome)
  case (Inl failure)
  obtain code message where failure: "failure = (code, message)"
    by (cases failure)
  have "sendable_error_response \<lparr> ee_code = code, ee_offending_type = type, ee_detail = message \<rparr>"
    using assms(2) answered_types(3) [OF assms(1)] Inl failure by (simp add: sendable_error_response_def)
  from error_body(1) [OF this] show ?thesis
    using assms(3) Inl failure assms(3) [unfolded not_le [symmetric]] by (simp add: client_accept_def answer_type_def answer_body_def)
next
  case (Inr reply)
  then show ?thesis
    using assms(3) [unfolded not_le [symmetric]] answered_types(1) [OF assms(1)]
    by (simp add: client_accept_def answer_type_def answer_body_def)
qed

text \<open>
  C7. A call between a client and a session that are in step: when the request bytes the client
  writes reach the session in one piece, the session counts its answer as sent, and the bytes it
  wrote reach the client in one piece, then the call returns what the handler computed from the
  request payload, a reply as the reply and a refusal as its status code. The handler ran once,
  the session holds the state the handler left, and both ends are in step again, ready for the
  next call.
\<close>

theorem rpc_end_to_end:
  assumes "in_step c s" and "se_inbound_sequence s \<noteq> - 1" and "se_outbound_sequence s \<noteq> - 1"
    and "response_type_for type \<noteq> MT_Invalid" and "type \<noteq> MT_HelloRequest"
    and "length payload \<le> kMaxFramePayloadBytes"
    and "send_frame type payload c = (ST_Ok, c1)"
    and "tcp_output (cn_stream c1) = tcp_output (cn_stream c) @ request_bytes"
    and "tcp_input (se_stream s) = AR_Bytes request_bytes # rest"
    and "mh_handle (sv_handler env) (se_context s) type payload (se_handler s) = (outcome, context', h')"
    and "st_frames_out (se_stats (snd (session_round env s))) = st_frames_out (se_stats s) + 1"
    and "tcp_output (se_stream (snd (session_round env s))) = tcp_output (se_stream s) @ answer_bytes"
    and "tcp_input (cn_stream c) = AR_Bytes answer_bytes # rest'"
    and "length (answer_body type outcome) \<le> kMaxFramePayloadBytes"
    and "length (answer_body type outcome) \<le> unat (cn_max_frame_payload c)"
    and "\<And>code message. outcome = Inl (code, message) \<Longrightarrow> length message \<le> kMaxFieldStringBytes \<and> is_valid_utf8 message"
  shows "fst (exchange type payload c) = (case outcome of Inl (code, message) \<Rightarrow> Inl code | Inr reply \<Rightarrow> Inr reply) \<and>
    se_handler (snd (session_round env s)) = h' \<and>
    in_step (snd (exchange type payload c)) (snd (session_round env s))"
proof -
  let ?t = "snd (session_round env s)" and ?q = "cn_send_sequence c + 1"
  note step = assms(1) [unfolded in_step_def]
  have request: "request_bytes = frame_bytes (frame_for type payload 0 ?q) payload"
    and fits: "length payload \<le> unat (cn_max_frame_payload c)"
    using send_frame_output [OF assms(7)] assms(8) by simp_all
  have fresh: "se_inbound_sequence s < ?q" "cn_last_received_sequence c < se_outbound_sequence s + 1"
    using step assms(2,3) by (simp_all add: less_word_succ)
  obtain s' where sent: "?t = snd (session_send (answer_type type outcome) (answer_body type outcome) ?q s')"
    and s': "se_stream s' = (se_stream s)\<lparr> tcp_input := rest \<rparr>" "se_inbound_sequence s' = ?q"
    "se_outbound_sequence s' = se_outbound_sequence s" "se_handshaken s'" "se_max_payload s' = se_max_payload s"
    "se_handler s' = h'" "st_frames_out (se_stats s') = st_frames_out (se_stats s)"
    using session_answers [of s ?q type payload 0 rest env outcome context' h'] step fresh assms(4-6,9,10) request fits
      answered_types(2) [OF assms(4)] by auto
  have ok: "fst (session_send (answer_type type outcome) (answer_body type outcome) ?q s') = ST_Ok"
    by (rule session_send_counted) (use assms(11) sent s'(7) in simp)
  let ?frame = "frame_for (answer_type type outcome) (answer_body type outcome) ?q (se_outbound_sequence s + 1)"
  have answer: "answer_bytes = frame_bytes ?frame (answer_body type outcome)"
    using session_send_output [of "answer_type type outcome" "answer_body type outcome" ?q s' ?t] ok sent s'(1,3) assms(12)
    by (simp add: prod_eq_iff)
  have known: "is_known_message_type (answer_type type outcome)"
    using known_response [OF assms(4)]
    by (auto simp: answer_type_def is_known_message_type_def split: sum.split)
  note sending = send_frame_fields [OF assms(7)]
  let ?c = "c1\<lparr> cn_stream := (cn_stream c1)\<lparr> tcp_input := rest' \<rparr> \<rparr>"
  have "exchange type payload c = client_accept (response_type_for type) ?frame (answer_body type outcome) ?c"
    using assms(4,7,13,14) step sending sendable_frame_for [OF known assms(14,15)]
    by (simp add: exchange_def receive_frame_frame [where frame = ?frame] answer kMaxFramePayloadBytes_def)
  moreover have "cn_last_received_sequence ?c < se_outbound_sequence s + 1"
    using fresh(2) sending(2) by simp
  ultimately have "exchange type payload c =
     (case outcome of Inl (code, message) \<Rightarrow> Inl code | Inr reply \<Rightarrow> Inr reply,
      ?c\<lparr> cn_last_received_sequence := se_outbound_sequence s + 1, cn_frames_received := cn_frames_received ?c + 1 \<rparr>)"
    using answer_accepted [OF assms(4,16)] by metis
  then show ?thesis
    using sent s' sending step
    by (simp add: in_step_def)
qed

definition demo_client :: Client where
  "demo_client = \<lparr> cn_stream = \<lparr> tcp_valid = True,
       tcp_input = [AR_Bytes (frame_bytes (frame_for MT_HeartbeatAck [5, 6] 2 2) [5, 6])],
       tcp_replies = replicate 2 (SR_Sent 10000), tcp_output = [] \<rparr>,
     cn_hello = HelloResponse_init, cn_max_frame_payload = 64, cn_send_sequence = 1,
     cn_last_received_sequence = 1, cn_frames_sent = 1, cn_frames_received = 1 \<rparr>"

lemma takes_bytes_client:
  assumes "takes_bytes (Suc (Suc n)) (cn_stream c)" and "length payload \<le> 10000"
    and "length payload \<le> unat (cn_max_frame_payload c)"
  shows "fst (send_frame type payload c) = ST_Ok" and "takes_bytes n (cn_stream (snd (send_frame type payload c)))"
proof -
  let ?header = "encode_header (frame_for type payload 0 (cn_send_sequence c + 1)) (replicate kHeaderBytes 0)"
  obtain stream1 where one: "tcp_write_all ?header (cn_stream c) = (ST_Ok, stream1)" "takes_bytes (Suc n) stream1"
    using takes_bytes_write [OF assms(1), of ?header] length_encode_header [of "replicate kHeaderBytes 0"]
    by (cases "tcp_write_all ?header (cn_stream c)") (simp add: kHeaderBytes_def)
  obtain stream2 where two: "tcp_write_all payload stream1 = (ST_Ok, stream2)" "takes_bytes n stream2"
    using takes_bytes_write [OF one(2) assms(2)] by (cases "tcp_write_all payload stream1") simp
  have "tcp_valid (cn_stream c)"
    using assms(1) by (simp add: takes_bytes_def)
  then show "fst (send_frame type payload c) = ST_Ok" "takes_bytes n (cn_stream (snd (send_frame type payload c)))"
    using one two takes_bytes_mono [OF one(2)] assms(3)
    by (auto simp: send_frame_def send_frame_raw_def Let_def split_beta)
qed

lemma demo_sent:
  "send_frame MT_Heartbeat [5, 6] demo_client = (ST_Ok, snd (send_frame MT_Heartbeat [5, 6] demo_client)) \<and>
   tcp_output (cn_stream (snd (send_frame MT_Heartbeat [5, 6] demo_client))) =
     tcp_output (cn_stream demo_client) @ frame_bytes (frame_for MT_Heartbeat [5, 6] 0 2) [5, 6]"
proof -
  have "takes_bytes (Suc (Suc 0)) (cn_stream demo_client)"
    by (auto simp: takes_bytes_def demo_client_def numeral_2_eq_2)
  then have ok: "fst (send_frame MT_Heartbeat [5, 6] demo_client) = ST_Ok"
    by (rule takes_bytes_client) (simp_all add: demo_client_def)
  moreover have "cn_send_sequence demo_client + 1 = 2"
    by (simp add: demo_client_def)
  ultimately show ?thesis
    using send_frame_output(1) [of MT_Heartbeat "[5, 6]" demo_client] by (simp add: prod_eq_iff)
qed

theorem rpc_end_to_end_witness:
  "let s = snd (session_round demo_session_env
       (Session_new demo_session_env (demo_peer (bytes_of ''s'')) demo_session_stats []));
       t = snd (session_round demo_session_env s)
   in fst (exchange MT_Heartbeat [5, 6] demo_client) = Inr [5, 6] \<and> se_handler t = [2] \<and>
      in_step demo_client s \<and> in_step (snd (exchange MT_Heartbeat [5, 6] demo_client)) t"
proof (rule demo_opened)
  fix s
  let ?env = demo_session_env
  assume round: "session_round ?env (Session_new ?env (demo_peer (bytes_of ''s'')) demo_session_stats []) = (True, s)"
    and s: "se_handshaken s" "takes_bytes 6 (se_stream s)" "se_inbound_sequence s = 1" "se_max_payload s = 64"
    "tcp_input (se_stream s) = replicate 2 (AR_Bytes (frame_bytes (frame_for MT_Heartbeat [5, 6] 0 2) [5, 6]))"
    "se_handler s = []" "se_outbound_sequence s = 1"
  have known: "is_known_message_type MT_Heartbeat" "response_type_for MT_Heartbeat = MT_HeartbeatAck"
    by (simp_all add: is_known_message_type_def response_type_for_def response_table_def)
  have input: "tcp_input (se_stream s) = AR_Bytes (frame_bytes (frame_for MT_Heartbeat [5, 6] 0 2) [5, 6]) #
      [AR_Bytes (frame_bytes (frame_for MT_Heartbeat [5, 6] 0 2) [5, 6])]"
    using s(5) by (simp add: numeral_2_eq_2)
  have handled: "mh_handle (sv_handler ?env) (se_context s) MT_Heartbeat [5, 6] (se_handler s) =
      (Inr [5, 6], se_context s, [2])"
    using s(6) by (simp add: demo_session_env_def demo_recorder_def)
  have valid: "tcp_valid (se_stream s)"
    using s(2) by (simp add: takes_bytes_def)
  have answer: "answer_type MT_Heartbeat (Inr [5, 6]) = MT_HeartbeatAck" "answer_body MT_Heartbeat (Inr [5, 6]) = [5, 6]"
    by (simp_all add: answer_type_def answer_body_def known)
  obtain s' where sent: "snd (session_round ?env s) = snd (session_send MT_HeartbeatAck [5, 6] 2 s')"
    and s': "se_stream s' = (se_stream s)\<lparr> tcp_input := [AR_Bytes (frame_bytes (frame_for MT_Heartbeat [5, 6] 0 2) [5, 6])] \<rparr>"
    "se_outbound_sequence s' = 1" "st_frames_out (se_stats s') = st_frames_out (se_stats s)"
    using session_answers [OF valid s(1) _ input known(1) _ _ _ _ handled] s(3,4,7) answer known(2)
    by (auto simp: kMaxFramePayloadBytes_def)
  have ok: "fst (session_send MT_HeartbeatAck [5, 6] 2 s') = ST_Ok"
    by (rule takes_bytes_send [where n = 4]) (use s(2) s'(1) in \<open>simp_all add: takes_bytes_def\<close>)
  have counted: "st_frames_out (se_stats (snd (session_round ?env s))) = st_frames_out (se_stats s) + 1"
    using session_send_ok [OF ok] sent s'(3) by simp
  have written: "tcp_output (se_stream (snd (session_round ?env s))) =
      tcp_output (se_stream s) @ frame_bytes (frame_for MT_HeartbeatAck [5, 6] 2 2) [5, 6]"
    using session_send_output [of MT_HeartbeatAck "[5, 6]" 2 s' "snd (session_round ?env s)"] ok sent s'(1,2)
    by (simp add: prod_eq_iff)
  have step: "in_step demo_client s"
    using s valid by (simp add: in_step_def demo_client_def)
  show ?thesis
    using rpc_end_to_end [OF step _ _ _ _ _ conjunct1 [OF demo_sent] conjunct2 [OF demo_sent] input handled counted written]
      s(3,7) known(2) step answer(2)
    by (simp add: round kMaxFramePayloadBytes_def demo_client_def)
qed

text \<open>
  C40. A client whose call got no answer within its timeout keeps the connection, and takes the
  answer that arrives late as the answer of its next call of the same type, whatever request that
  answer is correlated to: the correlation of a frame is never compared.
\<close>

theorem late_response_accepted:
  assumes "tcp_valid (cn_stream c)" and "response_type_for type \<noteq> MT_Invalid"
    and "tcp_input (cn_stream c) =
      AR_Quiet # AR_Bytes (frame_bytes (frame_for (response_type_for type) reply correlation n) reply) # rest"
    and "fst (send_frame type first_body c) = ST_Ok"
    and "fst (send_frame type second_body (snd (exchange type first_body c))) = ST_Ok"
    and "cn_last_received_sequence c < n"
    and "length reply \<le> kMaxFramePayloadBytes" and "length reply \<le> unat (cn_max_frame_payload c)"
  shows "fst (exchange type first_body c) = Inl ST_NotFound \<and>
    fst (exchange type second_body (snd (exchange type first_body c))) = Inr reply"
proof -
  let ?late = "AR_Bytes (frame_bytes (frame_for (response_type_for type) reply correlation n) reply)"
  obtain c1 where c1: "send_frame type first_body c = (ST_Ok, c1)"
    using assms(4) by (cases "send_frame type first_body c") simp
  let ?c2 = "c1\<lparr> cn_stream := (cn_stream c1)\<lparr> tcp_input := ?late # rest \<rparr> \<rparr>"
  have first_call: "exchange type first_body c = (Inl ST_NotFound, ?c2)"
    using c1 send_frame_fields [OF c1] assms(1,2,3) receive_frame_quiet [of c1] by (simp add: exchange_def)
  obtain c3 where c3: "send_frame type second_body ?c2 = (ST_Ok, c3)"
    using assms(5) first_call by (cases "send_frame type second_body ?c2") simp
  let ?frame = "frame_for (response_type_for type) reply correlation n"
  have "sendable_header ?frame (cn_max_frame_payload c)"
    using assms(2,7,8) by (intro sendable_frame_for known_response)
  then have "exchange type second_body ?c2 = client_accept (response_type_for type) ?frame reply
      (c3\<lparr> cn_stream := (cn_stream c3)\<lparr> tcp_input := rest \<rparr> \<rparr>)"
    using c3 send_frame_fields [OF c1] send_frame_fields [OF c3] assms(1,2,7)
    by (simp add: exchange_def receive_frame_frame [where frame = ?frame] kMaxFramePayloadBytes_def)
  then show ?thesis
    using first_call send_frame_fields [OF c1] send_frame_fields [OF c3] assms(6) [unfolded not_le [symmetric]]
      answered_types(1) [OF assms(2)]
    by (simp add: client_accept_def)
qed

definition demo_late_client :: Client where
  "demo_late_client = demo_client\<lparr> cn_stream := \<lparr> tcp_valid = True,
     tcp_input = [AR_Quiet, AR_Bytes (frame_bytes (frame_for MT_HeartbeatAck [5, 6] 2 2) [5, 6])],
     tcp_replies = replicate 4 (SR_Sent 10000), tcp_output = [] \<rparr> \<rparr>"

theorem late_response_accepted_witness:
  "fst (exchange MT_Heartbeat [7] demo_late_client) = Inl ST_NotFound \<and>
   fst (exchange MT_Heartbeat [8] (snd (exchange MT_Heartbeat [7] demo_late_client))) = Inr [5, 6]"
proof -
  let ?c = demo_late_client
  have ack: "response_type_for MT_Heartbeat = MT_HeartbeatAck"
    by (simp add: response_type_for_def response_table_def)
  have c: "takes_bytes (Suc (Suc (Suc (Suc 0)))) (cn_stream ?c)" "cn_max_frame_payload ?c = 64"
    by (auto simp: takes_bytes_def demo_late_client_def demo_client_def intro: exI [of _ 4])
  obtain c1 where c1: "send_frame MT_Heartbeat [7] ?c = (ST_Ok, c1)" "takes_bytes (Suc (Suc 0)) (cn_stream c1)"
    using takes_bytes_client [OF c(1), of "[7]" MT_Heartbeat] c(2) by (cases "send_frame MT_Heartbeat [7] ?c") simp
  have "receive_frame MT_HeartbeatAck c1 = (Inl ST_NotFound, c1\<lparr> cn_stream := (cn_stream c1)
      \<lparr> tcp_input := [AR_Bytes (frame_bytes (frame_for MT_HeartbeatAck [5, 6] 2 2) [5, 6])] \<rparr> \<rparr>)"
    using send_frame_fields [OF c1(1)] by (intro receive_frame_quiet) (simp_all add: demo_late_client_def)
  then have "fst (send_frame MT_Heartbeat [8] (snd (exchange MT_Heartbeat [7] ?c))) = ST_Ok"
    using c1 send_frame_fields(3) [OF c1(1)] c(2) ack
    by (intro takes_bytes_client [where n = 0]) (simp_all add: exchange_def takes_bytes_def)
  then show ?thesis
    using late_response_accepted [of ?c MT_Heartbeat "[5, 6]" 2 2 "[]" "[7]" "[8]"] c1 ack
    by (simp add: demo_late_client_def demo_client_def kMaxFramePayloadBytes_def)
qed

end
