(* ===== verification/Spec2Isabelle.thy ===== *)
theory Spec2Isabelle
  imports Registry Utf8 ServerLoop ServiceInv Client
begin

text \<open>
  A verification library for the Inference Traffic Fabric, the C++ library and tools that decide
  which traffic of an inference cluster may use the fabric, and keep the accounts of it.

  \<^bold>\<open>The program.\<close> The request ledger (\<open>src/ledger.cpp\<close>) records requests, attempts and open flows
  and counts them per traffic class. The coordinator (\<open>src/coordinator.cpp\<close>) owns one ledger and
  adds authority (epoch, incarnation, sequence), policy, topology evidence, the registries of
  SLO contracts, route decisions, model and state generations, deferral records, state transfers
  and its own flow index. \<open>evaluate\<close> turns a traffic request into a decision, \<open>validate_decision\<close>
  and \<open>open_flow\<close> redeem it. On restart a snapshot is validated and restored under a new epoch.
  Records travel through a bounded binary codec (\<open>src/codec.cpp\<close>, \<open>src/serialize.cpp\<close>) with
  checksums (\<open>src/crc32c.cpp\<close>), into snapshot files (\<open>src/persistence.cpp\<close>) and, as the messages of
  \<open>src/messages.cpp\<close> inside the frames of \<open>src/wire.cpp\<close>, over TCP streams (\<open>src/net.cpp\<close>). A server
  (\<open>src/session.cpp\<close>) accepts connections and runs a session per connection; its handler is the
  coordinator service (\<open>tools/service.cpp\<close>), which owns the coordinator and its snapshot file. The
  client (\<open>src/client.cpp\<close>) is the other end of a session.

  \<^bold>\<open>Vocabulary.\<close> \<open>Prelude\<close>: words, containers, the interfaces \<open>counted_store\<close> and
  \<open>invariant_machine\<close>. \<open>Ids\<close>, \<open>Status\<close>, \<open>Traffic\<close>, \<open>Policy\<close>, \<open>Decision\<close>: the headers of the same
  names, with round trips of the parsers, exactness of the checked arithmetic, the stage machine
  and exactness of policy validation.

  \<^bold>\<open>Ledger.\<close> \<open>Ledger\<close> has one definition per method of \<open>RequestLedger\<close>, on a record of its
  containers. \<open>LedgerInv\<close> states the accounting invariant and shows that every operation keeps
  it; \<open>LedgerProps\<close> concludes that the self-check \<open>verify_closure\<close> succeeds in every reachable
  state, that cancellation is final and that a completion is committed once. \<open>LedgerSpec\<close> refines
  the ledger to the abstract set of open flows and shows that failed operations change nothing.
  \<open>LedgerDiscipline\<close> covers what needs a disciplined client, and the cases where it matters.

  \<^bold>\<open>Coordinator.\<close> \<open>Coordinator\<close>, \<open>Evaluate\<close> and \<open>Flows\<close> model the methods of the class in the order
  of the source; a method holds the mutex throughout and is one function of the state. Clock
  readings and random draws are arguments, the bucket order of a hash table is the field
  \<open>c_begin\<close>. \<open>EvaluateProps\<close> and \<open>Admission\<close>: an admitted request has passed every fence, its
  decision redeems, its treatment is within the policy, a protected class is not starved.
  \<open>Recovery\<close>: restoring is all or nothing, revokes every old decision and leaves nothing usable
  before revalidation. \<open>Registry\<close>: generations advance by compare-and-set and fence transfers.

  \<^bold>\<open>Encoding.\<close> \<open>Crc32c\<close>: the table-driven checksum equals the shift register and detects bursts.
  \<open>Codec\<close>: writer and reader in the state monad and the contract \<open>codec\<close> of an encoder and its
  decoder, from which round trips, rejection of trailing bytes and of truncation follow once.
  \<open>Utf8\<close>: the text check accepts exactly well-formed UTF-8. \<open>Serialize\<close> and \<open>Messages\<close>: every
  encoder and decoder of records and messages, each an instance of \<open>codec\<close>. \<open>Wire\<close>: an accepted
  frame header is the encoding of exactly one header, and burst errors are refused.

  \<^bold>\<open>Snapshots.\<close> \<open>Persistence\<close> models the document, the framed file, save and load. Each call of the
  operating system takes its outcome from a script, so every failure and every crash point is a
  script: saving is atomic, loading returns what was saved, and a file is accepted exactly when it
  is the frame of its payload.

  \<^bold>\<open>Connections.\<close> \<open>Net\<close> models \<open>read_exact\<close>, \<open>write_all\<close> and \<open>close\<close>; a stream holds the script of
  what arrives (bytes, a timeout, a failure) and of what the socket does with each send, and the
  bytes written. \<open>Session\<close> is \<open>serve_session\<close>, one definition per part of its loop; the handler is
  an argument with its own state, and a ghost trace lists the secrets shown, the messages handled
  and the frames sent. It ends on every input, calls the handler only after the secret was shown,
  and never twice for one sequence number. \<open>ServerLoop\<close> interleaves the accept loop, the session
  threads and \<open>stop\<close> as a step relation with one step per access to the shared state: the session
  limit and its counter hold in every reachable state. \<open>Client\<close> has the frames, the handshake and
  the calls of the client; a call on a connection in step returns what the handler computed and
  leaves the connection in step.

  \<^bold>\<open>Service.\<close> \<open>Service\<close> models start, stop, snapshots and one definition per message of the handler,
  on a record of the coordinator, the disk and the number of clock readings. \<open>ServiceInv\<close> interprets
  the interface \<open>kept_by_handler\<close> of a session and its handler with it: no peer can break the invariant of the
  ledger, a restart resumes from the final snapshot, and a refused snapshot is lost on the way out.

  \<^bold>\<open>Bounds.\<close> Loops are structural recursions over the containers, or terminate by a measure; no
  fuel is used. The loop of a session is a partial function whose result \<open>None\<close> means that it does
  not return, and is shown to return on every finite script. Counters keep their width and wrap as
  in the code; where a result needs that a 64-bit counter is not exhausted, this is a hypothesis.

  \<^bold>\<open>Not modelled.\<close> The system calls behind sockets and files (connecting, listening, waiting for a
  socket) are scripts and arguments. Logging, accelerator probes, the command line tools, the
  signal loop of the coordinator process and the rendering of diagnostics move bytes or text and
  take no decision.
\<close>

end
